(* ===== verification/Gateway_Prelude.thy ===== *)
theory Gateway_Prelude
  imports Complex_Main "HOL-Library.Word" "HOL-Library.Sublist" "HOL-Library.AList"
    "HOL-Library.Char_ord" "HOL-Library.List_Lexorder" "HOL-Library.Multiset"
begin

text \<open>
  Shared material of the development: the collections the component proofs draw on, the
  state-and-exception programs in which the services are written, their weakest
  preconditions, the operations on tables of rows, and generic facts on lists and
  association lists.
\<close>

named_theorems wp_simps \<open>weakest preconditions of the program constructors\<close>
named_theorems keeps_intros \<open>programs keep an invariant\<close>
named_theorems table_simps \<open>lookups and updates on tables of rows\<close>
named_theorems enum_simps \<open>values of the string enumerations\<close>

section \<open>Programs with state and exceptions\<close>

text \<open>
  A Python method that reads and writes state and may raise is a function from the state
  to the exception it raises or the value it returns, and the state it leaves. The state
  survives an exception, as it does in Python.
\<close>

type_synonym ('s, 'e, 'a) prog = "'s \<Rightarrow> ('e + 'a) \<times> 's"

definition return_p :: "'a \<Rightarrow> ('s, 'e, 'a) prog" where
  "return_p x s = (Inr x, s)"

definition raise_p :: "'e \<Rightarrow> ('s, 'e, 'a) prog" where
  "raise_p e s = (Inl e, s)"

definition seq :: "('s, 'e, 'a) prog \<Rightarrow> ('a \<Rightarrow> ('s, 'e, 'b) prog) \<Rightarrow> ('s, 'e, 'b) prog" where
  "seq m f s = (case m s of (Inl e, s') \<Rightarrow> (Inl e, s') | (Inr x, s') \<Rightarrow> f x s')"

definition catch_p :: "('s, 'e, 'a) prog \<Rightarrow> ('e \<Rightarrow> ('s, 'e, 'a) prog) \<Rightarrow> ('s, 'e, 'a) prog" where
  "catch_p m h s = (case m s of (Inl e, s') \<Rightarrow> h e s' | (Inr x, s') \<Rightarrow> (Inr x, s'))"

definition gets_p :: "('s \<Rightarrow> 'a) \<Rightarrow> ('s, 'e, 'a) prog" where
  "gets_p f s = (Inr (f s), s)"

definition modify_p :: "('s \<Rightarrow> 's) \<Rightarrow> ('s, 'e, unit) prog" where
  "modify_p f s = (Inr (), f s)"

definition lift_p :: "'e + 'a \<Rightarrow> ('s, 'e, 'a) prog" where
  "lift_p r s = (r, s)"

lemmas prog_defs = return_p_def raise_p_def seq_def catch_p_def gets_p_def modify_p_def lift_p_def

text \<open>
  \<open>wp m Q E s\<close>: started in \<open>s\<close>, the program \<open>m\<close> either returns a value and a state
  that satisfy \<open>Q\<close>, or raises an exception in a state that satisfies \<open>E\<close>. Programs are
  total, so this is total correctness.
\<close>

definition wp :: "('s, 'e, 'a) prog \<Rightarrow> ('a \<Rightarrow> 's \<Rightarrow> bool) \<Rightarrow> ('e \<Rightarrow> 's \<Rightarrow> bool) \<Rightarrow> 's \<Rightarrow> bool" where
  "wp m Q E s = (case m s of (Inl e, s') \<Rightarrow> E e s' | (Inr x, s') \<Rightarrow> Q x s')"

lemma wp_return [wp_simps]: "wp (return_p x) Q E = Q x"
  by (rule ext) (simp add: wp_def return_p_def)

lemma wp_raise [wp_simps]: "wp (raise_p e) Q E = E e"
  by (rule ext) (simp add: wp_def raise_p_def)

lemma wp_seq [wp_simps]: "wp (seq m f) Q E = wp m (\<lambda>x. wp (f x) Q E) E"
  by (rule ext) (auto simp: wp_def seq_def split: prod.splits sum.splits)

lemma wp_catch [wp_simps]: "wp (catch_p m h) Q E = wp m Q (\<lambda>e. wp (h e) Q E)"
  by (rule ext) (auto simp: wp_def catch_p_def split: prod.splits sum.splits)

lemma wp_gets [wp_simps]: "wp (gets_p f) Q E s = Q (f s) s"
  by (simp add: wp_def gets_p_def)

lemma wp_modify [wp_simps]: "wp (modify_p f) Q E s = Q () (f s)"
  by (simp add: wp_def modify_p_def)

lemma wp_lift [wp_simps]: "wp (lift_p r) Q E s = (case r of Inl e \<Rightarrow> E e s | Inr x \<Rightarrow> Q x s)"
  by (simp add: wp_def lift_p_def)

lemma wp_if [wp_simps]: "wp (if b then m else m') Q E = (if b then wp m Q E else wp m' Q E)"
  by simp

lemma wp_case_option [wp_simps]:
  "wp (case x of None \<Rightarrow> m | Some y \<Rightarrow> f y) Q E =
    (case x of None \<Rightarrow> wp m Q E | Some y \<Rightarrow> wp (f y) Q E)"
  by (cases x) simp_all

lemma wp_case_sum [wp_simps]:
  "wp (case x of Inl a \<Rightarrow> f a | Inr b \<Rightarrow> g b) Q E =
    (case x of Inl a \<Rightarrow> wp (f a) Q E | Inr b \<Rightarrow> wp (g b) Q E)"
  by (cases x) simp_all

lemma wp_let [wp_simps]: "wp (let x = a in f x) Q E = (let x = a in wp (f x) Q E)"
  by (simp add: Let_def)

lemma wp_mono:
  assumes "wp m Q E s" and "\<And>x s'. Q x s' \<Longrightarrow> Q' x s'" and "\<And>e s'. E e s' \<Longrightarrow> E' e s'"
  shows "wp m Q' E' s"
  using assms by (auto simp: wp_def split: prod.splits sum.splits)

lemma wp_result: "wp m Q E s \<longleftrightarrow>
    (\<forall>x s'. m s = (Inr x, s') \<longrightarrow> Q x s') \<and> (\<forall>e s'. m s = (Inl e, s') \<longrightarrow> E e s')"
  by (auto simp: wp_def split: prod.splits sum.splits)

lemma seq_return: "seq (return_p x) f = f x"
  by (rule ext) (simp add: prog_defs)

lemma seq_raise: "seq (raise_p e) f = raise_p e"
  by (rule ext) (simp add: prog_defs)

lemma seq_assoc: "seq (seq m f) g = seq m (\<lambda>x. seq (f x) g)"
  by (rule ext) (simp add: prog_defs split: prod.split sum.split)

text \<open>
  \<open>keeps P m R\<close>: from a state with the invariant \<open>P\<close>, the program leaves a state with \<open>P\<close>
  whether it returns or raises, and what it returns satisfies \<open>R\<close>.
\<close>

definition keeps :: "('s \<Rightarrow> bool) \<Rightarrow> ('s, 'e, 'a) prog \<Rightarrow> ('a \<Rightarrow> bool) \<Rightarrow> bool" where
  "keeps P m R \<longleftrightarrow> (\<forall>s. P s \<longrightarrow> wp m (\<lambda>x s'. P s' \<and> R x) (\<lambda>_. P) s)"

lemma keeps_return [keeps_intros]: "R x \<Longrightarrow> keeps P (return_p x) R"
  by (simp add: keeps_def wp_simps)

lemma keeps_raise [keeps_intros]: "keeps P (raise_p e) R"
  by (simp add: keeps_def wp_simps)

lemma keeps_lift [keeps_intros]: "(\<And>x. r = Inr x \<Longrightarrow> R x) \<Longrightarrow> keeps P (lift_p r) R"
  by (simp add: keeps_def wp_simps split: sum.split)

lemma keeps_gets: "(\<And>s. P s \<Longrightarrow> R (f s)) \<Longrightarrow> keeps P (gets_p f) R"
  by (simp add: keeps_def wp_simps)

lemma keeps_seq [keeps_intros]:
  "keeps P m S \<Longrightarrow> (\<And>x. S x \<Longrightarrow> keeps P (f x) R) \<Longrightarrow> keeps P (seq m f) R"
  unfolding keeps_def wp_simps by (auto elim!: wp_mono)

lemma keeps_catch [keeps_intros]:
  "keeps P m R \<Longrightarrow> (\<And>e. keeps P (h e) R) \<Longrightarrow> keeps P (catch_p m h) R"
  unfolding keeps_def wp_simps by (auto elim!: wp_mono)

lemma keeps_if [keeps_intros]:
  "(b \<Longrightarrow> keeps P m R) \<Longrightarrow> (\<not> b \<Longrightarrow> keeps P m' R) \<Longrightarrow> keeps P (if b then m else m') R"
  by simp

lemma keeps_option [keeps_intros]:
  "(v = None \<Longrightarrow> keeps P m R) \<Longrightarrow> (\<And>x. v = Some x \<Longrightarrow> keeps P (f x) R) \<Longrightarrow>
    keeps P (case v of None \<Rightarrow> m | Some x \<Rightarrow> f x) R"
  by (cases v) simp_all

lemma keeps_sum [keeps_intros]:
  "(\<And>x. v = Inl x \<Longrightarrow> keeps P (f x) R) \<Longrightarrow> (\<And>y. v = Inr y \<Longrightarrow> keeps P (g y) R) \<Longrightarrow>
    keeps P (case v of Inl x \<Rightarrow> f x | Inr y \<Rightarrow> g y) R"
  by (cases v) simp_all

lemma keeps_let [keeps_intros]: "keeps P (f v) R \<Longrightarrow> keeps P (let x = v in f x) R"
  by simp

lemma keeps_mono: "keeps P m S \<Longrightarrow> (\<And>x. S x \<Longrightarrow> R x) \<Longrightarrow> keeps P m R"
  unfolding keeps_def by (auto elim!: wp_mono)

lemma keepsD:
  assumes "keeps P m R" and "P s"
  shows "P (snd (m s))"
proof (cases "m s")
  case (Pair r s')
  with assms show ?thesis by (cases r) (auto simp: keeps_def wp_def)
qed

text \<open>A loop over a list that threads the state; the first exception stops it.\<close>

fun map_prog :: "('a \<Rightarrow> ('s, 'e, 'b) prog) \<Rightarrow> 'a list \<Rightarrow> ('s, 'e, 'b list) prog" where
  "map_prog f [] = return_p []"
| "map_prog f (x # xs) = seq (f x) (\<lambda>y. seq (map_prog f xs) (\<lambda>ys. return_p (y # ys)))"

lemma keeps_map_prog [keeps_intros]:
  "(\<And>x. x \<in> set xs \<Longrightarrow> keeps P (f x) R) \<Longrightarrow> keeps P (map_prog f xs) (list_all R)"
proof (induction xs)
  case (Cons x xs)
  have "keeps P (f x) R" using Cons.prems by simp
  moreover have "keeps P (map_prog f xs) (list_all R)" using Cons by simp
  ultimately show ?case by (auto intro!: keeps_intros)
qed (simp add: keeps_return)

text \<open>A fallible loop over a list: the first error stops it.\<close>

fun map_sum_list :: "('a \<Rightarrow> 'e + 'b) \<Rightarrow> 'a list \<Rightarrow> 'e + 'b list" where
  "map_sum_list f [] = Inr []"
| "map_sum_list f (x # xs) =
    (case f x of Inl e \<Rightarrow> Inl e
     | Inr y \<Rightarrow> (case map_sum_list f xs of Inl e \<Rightarrow> Inl e | Inr ys \<Rightarrow> Inr (y # ys)))"

lemma map_sum_list_Inr_iff:
  "map_sum_list f xs = Inr ys \<longleftrightarrow> list_all2 (\<lambda>x y. f x = Inr y) xs ys"
proof (induction xs arbitrary: ys)
  case (Cons x xs)
  then show ?case
    by (cases "f x"; cases "map_sum_list f xs") (auto simp: list_all2_Cons1)
qed auto

lemma map_sum_list_map: "(\<And>x. x \<in> set xs \<Longrightarrow> f (g x) = Inr x) \<Longrightarrow> map_sum_list f (map g xs) = Inr xs"
  by (induction xs) auto

definition sum_bind :: "'e + 'a \<Rightarrow> ('a \<Rightarrow> 'e + 'b) \<Rightarrow> 'e + 'b" where
  "sum_bind r f = (case r of Inl e \<Rightarrow> Inl e | Inr x \<Rightarrow> f x)"

lemma sum_bind_simps [simp]: "sum_bind (Inl e) f = Inl e" "sum_bind (Inr x) f = f x"
  by (simp_all add: sum_bind_def)

lemma sum_bind_Inr_iff: "sum_bind r f = Inr y \<longleftrightarrow> (\<exists>x. r = Inr x \<and> f x = Inr y)"
  by (cases r) auto

section \<open>Association lists and tables\<close>

lemma map_of_update [simp]: "map_of (AList.update k v al) = (map_of al)(k \<mapsto> v)"
  by (rule update_conv')

text \<open>A table is the list of its rows in insertion order.\<close>

definition find_row :: "('r \<Rightarrow> bool) \<Rightarrow> 'r list \<Rightarrow> 'r option" where
  "find_row p t = List.find p t"

definition update_rows :: "('r \<Rightarrow> bool) \<Rightarrow> ('r \<Rightarrow> 'r) \<Rightarrow> 'r list \<Rightarrow> 'r list" where
  "update_rows p f t = map (\<lambda>r. if p r then f r else r) t"

lemma find_row_Some_iff:
  "find_row p t = Some r \<longleftrightarrow> (\<exists>us vs. t = us @ r # vs \<and> p r \<and> (\<forall>u \<in> set us. \<not> p u))"
proof (induction t)
  case (Cons x t)
  show ?case
  proof (cases "p x")
    case True
    then show ?thesis
      by (auto simp: find_row_def Cons_eq_append_conv)
  next
    case False
    with Cons show ?thesis
      by (auto simp: find_row_def Cons_eq_append_conv) (metis append_Cons list.set_intros(1) set_ConsD)
  qed
qed (simp add: find_row_def)

lemma find_row_SomeD: "find_row p t = Some r \<Longrightarrow> r \<in> set t \<and> p r"
  by (auto simp: find_row_Some_iff)

lemma find_row_None_iff: "find_row p t = None \<longleftrightarrow> (\<forall>r \<in> set t. \<not> p r)"
  by (auto simp: find_row_def find_None_iff)

lemma find_row_append [table_simps]:
  "find_row p (t @ u) = (case find_row p t of None \<Rightarrow> find_row p u | Some r \<Rightarrow> Some r)"
  by (induction t) (auto simp: find_row_def)

lemma find_row_Nil [table_simps]: "find_row p [] = None"
  by (simp add: find_row_def)

lemma find_row_Cons [table_simps]: "find_row p (x # xs) = (if p x then Some x else find_row p xs)"
  by (simp add: find_row_def)

lemma find_row_update:
  assumes "\<And>r. q (f r) = q r" and "\<And>r. p (f r) = p r"
  shows "find_row p (update_rows q f t) =
    map_option (\<lambda>r. if q r then f r else r) (find_row p t)"
  using assms by (induction t) (auto simp: find_row_def update_rows_def)

lemma set_update_rows: "set (update_rows p f t) = (\<lambda>r. if p r then f r else r) ` set t"
  by (simp add: update_rows_def)

lemma map_update_rows [table_simps]:
  "(\<And>r. g (f r) = g r) \<Longrightarrow> map g (update_rows p f t) = map g t"
  by (simp add: update_rows_def)

lemma length_update_rows [simp]: "length (update_rows p f t) = length t"
  by (simp add: update_rows_def)

lemma update_rows_Nil_iff: "(\<And>r. r \<in> set t \<Longrightarrow> \<not> p r) \<Longrightarrow> update_rows p f t = t"
  by (simp add: update_rows_def map_idI)

lemma distinct_map_find_row:
  assumes "distinct (map key t)" and "r \<in> set t"
  shows "find_row (\<lambda>x. key x = key r) t = Some r"
  using assms by (induction t) (auto simp: find_row_def)

section \<open>Strings\<close>

text \<open>
  A Python \<open>str\<close> is the list of its code points. Characters are eight bits wide here, so
  the model covers the strings whose code points are below 256 (Latin-1).
\<close>

abbreviation char_code :: "char \<Rightarrow> nat" where
  "char_code c \<equiv> of_char c"

lemma char_code_less [simp]: "char_code c < 256"
  using of_char_mod_256 [of c, where ?'a = nat]
  by (metis mod_less_divisor zero_less_numeral)

lemma takeWhile_delim_eq:
  assumes "x @ r = y @ r'"
    and "\<forall>c \<in> set x. \<not> p c" and "\<forall>c \<in> set y. \<not> p c"
    and "r = [] \<or> p (hd r)" and "r' = [] \<or> p (hd r')"
  shows "x = y \<and> r = r'"
proof -
  have take: "takeWhile (\<lambda>c. \<not> p c) (z @ t) = z"
    if "\<forall>c \<in> set z. \<not> p c" and "t = [] \<or> p (hd t)" for z t
    using that by (cases t) (auto simp: takeWhile_append)
  from take [OF assms(2,4)] take [OF assms(3,5)] assms(1) have "x = y" by simp
  with assms(1) show ?thesis by simp
qed

end
