(* ===== verification/Py_Value.thy ===== *)
theory Py_Value
  imports Gateway_Prelude
begin

text \<open>
  The values the program computes with where its types say \<open>Any\<close>, \<open>JsonObject\<close> or
  \<open>dict[str, Any]\<close>: Python's JSON-like values, with the operations of the language and of
  its standard library that the source uses on them (\<open>==\<close>, \<open>dict.get\<close>, \<open>str.lower\<close>,
  \<open>str(int)\<close>, character classes, \<open>uuid.UUID(str)\<close> and \<open>str(UUID)\<close>). Nothing here
  models a file under \<open>src/\<close>; the components map onto the source.
\<close>

section \<open>Values\<close>

text \<open>
  \<open>PFloat\<close> carries the IEEE 754 binary64 bit pattern. \<open>PDict\<close> keeps the insertion order;
  its keys are strings, as JSON parsing gives them. \<open>PObj\<close> is any object that is not JSON
  (only its \<open>str()\<close> text is known).
\<close>

datatype pyval =
    PNone
  | PBool bool
  | PInt int
  | PFloat "64 word"
  | PStr string
  | PList "pyval list"
  | PDict "(string \<times> pyval) list"
  | PObj string

type_synonym json_object = "(string \<times> pyval) list"

text \<open>Keys of every dictionary are distinct, as in a Python \<open>dict\<close>.\<close>

fun wf_py :: "pyval \<Rightarrow> bool"
  and wf_py_list :: "pyval list \<Rightarrow> bool"
  and wf_py_items :: "(string \<times> pyval) list \<Rightarrow> bool" where
  "wf_py (PList xs) = wf_py_list xs"
| "wf_py (PDict kvs) = (distinct (map fst kvs) \<and> wf_py_items kvs)"
| "wf_py PNone = True"
| "wf_py (PBool b) = True"
| "wf_py (PInt i) = True"
| "wf_py (PFloat f) = True"
| "wf_py (PStr s) = True"
| "wf_py (PObj s) = True"
| "wf_py_list [] = True"
| "wf_py_list (x # xs) = (wf_py x \<and> wf_py_list xs)"
| "wf_py_items [] = True"
| "wf_py_items ((k, v) # kvs) = (wf_py v \<and> wf_py_items kvs)"

text \<open>\<open>json_like\<close>: no object outside JSON occurs in the value.\<close>

fun json_like :: "pyval \<Rightarrow> bool"
  and json_like_list :: "pyval list \<Rightarrow> bool"
  and json_like_items :: "(string \<times> pyval) list \<Rightarrow> bool" where
  "json_like (PList xs) = json_like_list xs"
| "json_like (PDict kvs) = json_like_items kvs"
| "json_like (PObj s) = False"
| "json_like PNone = True"
| "json_like (PBool b) = True"
| "json_like (PInt i) = True"
| "json_like (PFloat f) = True"
| "json_like (PStr s) = True"
| "json_like_list [] = True"
| "json_like_list (x # xs) = (json_like x \<and> json_like_list xs)"
| "json_like_items [] = True"
| "json_like_items ((k, v) # kvs) = (json_like v \<and> json_like_items kvs)"

lemma wf_py_list_iff: "wf_py_list xs \<longleftrightarrow> (\<forall>x \<in> set xs. wf_py x)"
  by (induction xs) auto

lemma wf_py_items_iff: "wf_py_items kvs \<longleftrightarrow> (\<forall>(k, v) \<in> set kvs. wf_py v)"
  by (induction kvs) auto

lemma json_like_list_iff: "json_like_list xs \<longleftrightarrow> (\<forall>x \<in> set xs. json_like x)"
  by (induction xs) auto

lemma json_like_items_iff: "json_like_items kvs \<longleftrightarrow> (\<forall>(k, v) \<in> set kvs. json_like v)"
  by (induction kvs) auto

text \<open>\<open>d.get(k)\<close>; \<open>None\<close> of the model is the absent key.\<close>

definition dict_get :: "json_object \<Rightarrow> string \<Rightarrow> pyval option" where
  "dict_get d k = map_of d k"

section \<open>Numbers and equality\<close>

text \<open>
  The value of a float: a rational, an infinity or NaN. Booleans are the integers 0 and 1,
  and Python compares integers and floats by exact value.
\<close>

datatype pynum = Fin rat | PInf | NInf | NaN

definition float_num :: "64 word \<Rightarrow> pynum" where
  "float_num w =
    (let n = unat w; neg = (n div 2 ^ 63 = 1); e = (n div 2 ^ 52) mod 2048; m = n mod 2 ^ 52;
         sg = (if neg then - 1 else 1)
     in if e = 2047 then (if m \<noteq> 0 then NaN else if neg then NInf else PInf)
        else if e = 0 then Fin (sg * of_nat m / 2 ^ 1074)
        else if 1075 \<le> e then Fin (sg * of_nat ((2 ^ 52 + m) * 2 ^ (e - 1075)))
        else Fin (sg * of_nat (2 ^ 52 + m) / 2 ^ (1075 - e)))"

fun py_num :: "pyval \<Rightarrow> pynum option" where
  "py_num (PBool b) = Some (Fin (of_bool b))"
| "py_num (PInt i) = Some (Fin (of_int i))"
| "py_num (PFloat w) = Some (float_num w)"
| "py_num _ = None"

definition num_eq :: "pynum \<Rightarrow> pynum option \<Rightarrow> bool" where
  "num_eq x y = (x \<noteq> NaN \<and> y = Some x)"

text \<open>Python's \<open>==\<close>. Dictionaries compare as maps, lists element by element.\<close>

fun py_eq :: "pyval \<Rightarrow> pyval \<Rightarrow> bool"
  and py_eq_list :: "pyval list \<Rightarrow> pyval list \<Rightarrow> bool"
  and py_eq_items :: "json_object \<Rightarrow> json_object \<Rightarrow> bool" where
  "py_eq PNone b = (b = PNone)"
| "py_eq (PBool x) b = num_eq (Fin (of_bool x)) (py_num b)"
| "py_eq (PInt i) b = num_eq (Fin (of_int i)) (py_num b)"
| "py_eq (PFloat w) b = num_eq (float_num w) (py_num b)"
| "py_eq (PStr s) b = (b = PStr s)"
| "py_eq (PList xs) b = (case b of PList ys \<Rightarrow> py_eq_list xs ys | _ \<Rightarrow> False)"
| "py_eq (PDict kvs) b =
    (case b of PDict kvs' \<Rightarrow> length kvs = length kvs' \<and> py_eq_items kvs kvs' | _ \<Rightarrow> False)"
| "py_eq (PObj s) b = (b = PObj s)"
| "py_eq_list [] ys = (ys = [])"
| "py_eq_list (x # xs) ys = (case ys of [] \<Rightarrow> False | y # ys' \<Rightarrow> py_eq x y \<and> py_eq_list xs ys')"
| "py_eq_items [] d = True"
| "py_eq_items ((k, v) # kvs) d =
    (case dict_get d k of None \<Rightarrow> False | Some v' \<Rightarrow> py_eq v v' \<and> py_eq_items kvs d)"

section \<open>Characters and decimal numerals\<close>

definition is_ascii_word :: "nat \<Rightarrow> bool" where
  "is_ascii_word n \<longleftrightarrow> n \<in> {48..57} \<or> n \<in> {65..90} \<or> n \<in> {97..122} \<or> n = 95"

text \<open>
  \<open>\\w\<close> of the \<open>re\<close> module below code point 256: ASCII letters, digits and underscore,
  the Latin-1 letters, and the superscript digits and fractions, which count as numeric.
\<close>

definition py_is_word :: "char \<Rightarrow> bool" where
  "py_is_word c = (let n = char_code c in
     is_ascii_word n \<or> n \<in> {170, 178, 179, 181, 185, 186, 188, 189, 190}
     \<or> (192 \<le> n \<and> n \<noteq> 215 \<and> n \<noteq> 247))"

text \<open>\<open>str.isspace\<close> and \<open>\\s\<close>.\<close>

definition py_is_space :: "char \<Rightarrow> bool" where
  "py_is_space c = (let n = char_code c in
     n \<in> {9..13} \<or> n \<in> {28..32} \<or> n = 133 \<or> n = 160)"

text \<open>\<open>str.lower\<close> on code points below 256.\<close>

definition py_lower_char :: "char \<Rightarrow> char" where
  "py_lower_char c = (let n = char_code c in
     if n \<in> {65..90} \<or> (192 \<le> n \<and> n \<le> 222 \<and> n \<noteq> 215) then char_of (n + 32) else c)"

definition py_lower :: "string \<Rightarrow> string" where
  "py_lower s = map py_lower_char s"

lemma py_space_not_word: "py_is_space c \<Longrightarrow> \<not> py_is_word c"
  by (auto simp: py_is_space_def py_is_word_def is_ascii_word_def Let_def)

definition digit_char :: "nat \<Rightarrow> char" where
  "digit_char d = char_of (48 + d)"

lemma char_code_digit [simp]: "d < 10 \<Longrightarrow> char_code (digit_char d) = 48 + d"
  by (simp add: digit_char_def of_char_of)

fun nat_str :: "nat \<Rightarrow> string" where
  "nat_str n = (if n < 10 then [digit_char n] else nat_str (n div 10) @ [digit_char (n mod 10)])"

declare nat_str.simps [simp del]

text \<open>\<open>str(i)\<close> of an integer.\<close>

definition py_int_str :: "int \<Rightarrow> string" where
  "py_int_str i = (if i < 0 then CHR ''-'' # nat_str (nat (- i)) else nat_str (nat i))"

definition is_digit_char :: "char \<Rightarrow> bool" where
  "is_digit_char c \<longleftrightarrow> char_code c \<in> {48..57}"

fun digits_value :: "string \<Rightarrow> nat" where
  "digits_value s = foldl (\<lambda>n c. 10 * n + (char_code c - 48)) 0 s"

lemma nat_str_digits: "c \<in> set (nat_str n) \<Longrightarrow> is_digit_char c"
proof (induction n rule: nat_str.induct)
  case (1 n)
  show ?case
  proof (cases "n < 10")
    case True
    with 1 show ?thesis by (simp add: nat_str.simps [of n] is_digit_char_def)
  next
    case False
    with 1 show ?thesis
      by (auto simp: nat_str.simps [of n] is_digit_char_def)
  qed
qed

lemma nat_str_not_Nil [simp]: "nat_str n \<noteq> []"
  by (subst nat_str.simps) simp

lemma digits_value_nat_str [simp]: "digits_value (nat_str n) = n"
proof (induction n rule: nat_str.induct)
  case (1 n)
  then show ?case
    by (cases "n < 10") (auto simp: nat_str.simps [of n])
qed

lemma nat_str_inj: "nat_str m = nat_str n \<longleftrightarrow> m = n"
  by (metis digits_value_nat_str)

lemma is_digit_minus [simp]: "\<not> is_digit_char (CHR ''-'')"
  by (simp add: is_digit_char_def)

lemma py_int_str_inj: "py_int_str i = py_int_str j \<longleftrightarrow> i = j"
proof -
  have "nat_str m \<noteq> CHR ''-'' # s" for m s
    using nat_str_digits [of "CHR ''-''" m] by (metis is_digit_minus list.set_intros(1))
  then show ?thesis
    by (auto simp: py_int_str_def nat_str_inj split: if_splits) (metis)+
qed

end
