(* ===== verification/Py_Regex.thy ===== *)
theory Py_Regex
  imports Py_Value
begin

text \<open>
  The fragment of Python's \<open>re\<close> that the secret scanner uses: character classes, classes
  repeated at least \<open>n\<close> times, and the word boundary \<open>\\b\<close>; \<open>rx_search\<close> is
  \<open>pattern.search(text) is not None\<close> by backtracking, and \<open>rx_lang\<close> the declarative reading
  of a pattern. The two agree (\<open>rx_search_iff\<close>), so the patterns can be reasoned about as
  languages.
\<close>

datatype rx = WordB | Cls "char \<Rightarrow> bool" | AtLeast nat "char \<Rightarrow> bool"

definition word_at :: "char option \<Rightarrow> bool" where
  "word_at c = (case c of None \<Rightarrow> False | Some x \<Rightarrow> py_is_word x)"

definition head_opt :: "'a list \<Rightarrow> 'a option" where
  "head_opt s = (case s of [] \<Rightarrow> None | c # _ \<Rightarrow> Some c)"

lemma head_opt_simps [simp]: "head_opt [] = None" "head_opt (c # s) = Some c"
  by (simp_all add: head_opt_def)

text \<open>\<open>rx_match r p s\<close>: the pattern matches a prefix of \<open>s\<close>, where \<open>p\<close> is the character before.\<close>

fun rx_match :: "rx list \<Rightarrow> char option \<Rightarrow> string \<Rightarrow> bool" where
  "rx_match [] p s = True"
| "rx_match (WordB # r) p s = (word_at p \<noteq> word_at (head_opt s) \<and> rx_match r p s)"
| "rx_match (Cls f # r) p [] = False"
| "rx_match (Cls f # r) p (c # s) = (f c \<and> rx_match r (Some c) s)"
| "rx_match (AtLeast (Suc n) f # r) p [] = False"
| "rx_match (AtLeast (Suc n) f # r) p (c # s) = (f c \<and> rx_match (AtLeast n f # r) (Some c) s)"
| "rx_match (AtLeast 0 f # r) p [] = rx_match r p []"
| "rx_match (AtLeast 0 f # r) p (c # s) =
    (rx_match r p (c # s) \<or> (f c \<and> rx_match (AtLeast 0 f # r) (Some c) s))"

fun rx_search_from :: "rx list \<Rightarrow> char option \<Rightarrow> string \<Rightarrow> bool" where
  "rx_search_from r p [] = rx_match r p []"
| "rx_search_from r p (c # s) = (rx_match r p (c # s) \<or> rx_search_from r (Some c) s)"

definition rx_search :: "rx list \<Rightarrow> string \<Rightarrow> bool" where
  "rx_search r s = rx_search_from r None s"

section \<open>Patterns as languages\<close>

definition last_or :: "char option \<Rightarrow> string \<Rightarrow> char option" where
  "last_or p w = (if w = [] then p else Some (last w))"

lemma last_or_simps [simp]: "last_or p [] = p" "last_or p (c # w) = last_or (Some c) w"
  by (simp_all add: last_or_def)

text \<open>\<open>rx_lang r p w t\<close>: the pattern matches exactly \<open>w\<close>, between \<open>p\<close> and the rest \<open>t\<close>.\<close>

fun rx_lang :: "rx list \<Rightarrow> char option \<Rightarrow> string \<Rightarrow> string \<Rightarrow> bool" where
  "rx_lang [] p w t = (w = [])"
| "rx_lang (WordB # r) p w t = (word_at p \<noteq> word_at (head_opt (w @ t)) \<and> rx_lang r p w t)"
| "rx_lang (Cls f # r) p w t = (\<exists>c v. w = c # v \<and> f c \<and> rx_lang r (Some c) v t)"
| "rx_lang (AtLeast n f # r) p w t =
    (\<exists>u v. w = u @ v \<and> n \<le> length u \<and> list_all f u \<and> rx_lang r (last_or p u) v t)"

lemma rx_lang_AtLeast_Suc:
  "rx_lang (AtLeast (Suc n) f # r) p w t =
    (\<exists>c v. w = c # v \<and> f c \<and> rx_lang (AtLeast n f # r) (Some c) v t)"
proof
  assume "rx_lang (AtLeast (Suc n) f # r) p w t"
  then obtain u v where u: "w = u @ v" "Suc n \<le> length u" "list_all f u"
    "rx_lang r (last_or p u) v t" by auto
  then obtain c u' where "u = c # u'" by (cases u) auto
  with u show "\<exists>c v. w = c # v \<and> f c \<and> rx_lang (AtLeast n f # r) (Some c) v t"
    by auto
next
  assume "\<exists>c v. w = c # v \<and> f c \<and> rx_lang (AtLeast n f # r) (Some c) v t"
  then obtain c u v where "w = c # u @ v" "f c" "n \<le> length u" "list_all f u"
    "rx_lang r (last_or (Some c) u) v t" by auto
  then show "rx_lang (AtLeast (Suc n) f # r) p w t"
    unfolding rx_lang.simps by (intro exI [of _ "c # u"] exI [of _ v]) simp
qed

lemma rx_lang_AtLeast_0:
  "rx_lang (AtLeast 0 f # r) p w t =
    (rx_lang r p w t \<or> (\<exists>c v. w = c # v \<and> f c \<and> rx_lang (AtLeast 0 f # r) (Some c) v t))"
proof -
  have "rx_lang (AtLeast 0 f # r) p w t \<longleftrightarrow>
    (\<exists>u v. w = u @ v \<and> list_all f u \<and> rx_lang r (last_or p u) v t)" by simp
  also have "\<dots> \<longleftrightarrow> (rx_lang r p w t \<or>
    (\<exists>c u v. w = c # u @ v \<and> f c \<and> list_all f u \<and> rx_lang r (last_or (Some c) u) v t))"
    (is "?l \<longleftrightarrow> ?r")
  proof
    assume ?l
    then obtain u v where "w = u @ v" "list_all f u" "rx_lang r (last_or p u) v t" by blast
    then show ?r by (cases u) auto
  next
    assume ?r
    then show ?l
    proof
      assume "rx_lang r p w t"
      then show ?l by (intro exI [of _ "[]"] exI [of _ w]) simp
    next
      assume "\<exists>c u v. w = c # u @ v \<and> f c \<and> list_all f u \<and> rx_lang r (last_or (Some c) u) v t"
      then obtain c u v where "w = c # u @ v" "f c" "list_all f u"
        "rx_lang r (last_or (Some c) u) v t" by blast
      then show ?l by (intro exI [of _ "c # u"] exI [of _ v]) simp
    qed
  qed
  finally show ?thesis by auto
qed

lemma rx_match_iff: "rx_match r p s \<longleftrightarrow> (\<exists>w t. s = w @ t \<and> rx_lang r p w t)"
proof (induction r p s rule: rx_match.induct)
  case (6 n f r p c s)
  then show ?case
    by (auto simp del: rx_lang.simps simp: rx_lang_AtLeast_Suc Cons_eq_append_conv)
next
  case (8 f r p c s)
  show ?case
  proof
    assume "rx_match (AtLeast 0 f # r) p (c # s)"
    then consider "rx_match r p (c # s)" | "f c" "rx_match (AtLeast 0 f # r) (Some c) s" by auto
    then show "\<exists>w t. c # s = w @ t \<and> rx_lang (AtLeast 0 f # r) p w t"
    proof cases
      case 1
      with 8(1) obtain w t where "c # s = w @ t" "rx_lang r p w t" by blast
      moreover from this(2) have "rx_lang (AtLeast 0 f # r) p w t"
        by (subst rx_lang_AtLeast_0) blast
      ultimately show ?thesis by blast
    next
      case 2
      with 8(2) obtain w t where w: "s = w @ t" "rx_lang (AtLeast 0 f # r) (Some c) w t" by blast
      then have "c # s = (c # w) @ t" by simp
      moreover have "rx_lang (AtLeast 0 f # r) p (c # w) t"
        by (subst rx_lang_AtLeast_0) (use 2 w in blast)
      ultimately show ?thesis by blast
    qed
  next
    assume "\<exists>w t. c # s = w @ t \<and> rx_lang (AtLeast 0 f # r) p w t"
    then obtain w t where w: "c # s = w @ t" "rx_lang (AtLeast 0 f # r) p w t" by blast
    from w(2) consider "rx_lang r p w t"
      | d v where "w = d # v" "f d" "rx_lang (AtLeast 0 f # r) (Some d) v t"
      by (auto simp only: rx_lang_AtLeast_0 [of f r p w t])
    then show "rx_match (AtLeast 0 f # r) p (c # s)"
    proof cases
      case 1
      with 8 w(1) have "rx_match r p (c # s)" by blast
      then show ?thesis by simp
    next
      case 2
      with w(1) have "d = c" "s = v @ t" by simp_all
      with 2 8(2) have "rx_match (AtLeast 0 f # r) (Some c) s" by blast
      with 2 \<open>d = c\<close> show ?thesis by simp
    qed
  qed
qed (auto simp: Cons_eq_append_conv)

lemma rx_search_from_iff:
  "rx_search_from r p s \<longleftrightarrow> (\<exists>u w t. s = u @ w @ t \<and> rx_lang r (last_or p u) w t)"
proof (induction s arbitrary: p)
  case Nil
  then show ?case by (auto simp: rx_match_iff)
next
  case (Cons c s)
  have "(\<exists>u w t. c # s = u @ w @ t \<and> rx_lang r (last_or p u) w t) \<longleftrightarrow>
    (\<exists>w t. c # s = w @ t \<and> rx_lang r p w t) \<or>
    (\<exists>u w t. s = u @ w @ t \<and> rx_lang r (last_or (Some c) u) w t)" (is "?l \<longleftrightarrow> ?r")
  proof
    assume ?l
    then obtain u w t where "c # s = u @ w @ t" "rx_lang r (last_or p u) w t" by blast
    then show ?r by (cases u) auto
  next
    assume ?r
    then show ?l
    proof
      assume "\<exists>w t. c # s = w @ t \<and> rx_lang r p w t"
      then show ?l by (metis append_Nil last_or_simps(1))
    next
      assume "\<exists>u w t. s = u @ w @ t \<and> rx_lang r (last_or (Some c) u) w t"
      then show ?l by (metis append_Cons last_or_simps(2))
    qed
  qed
  with Cons show ?case by (simp add: rx_match_iff)
qed

text \<open>A search succeeds iff some factor of the text is in the language of the pattern.\<close>

theorem rx_search_iff:
  "rx_search r s \<longleftrightarrow> (\<exists>u w t. s = u @ w @ t \<and> rx_lang r (last_or None u) w t)"
  by (simp add: rx_search_def rx_search_from_iff)

text \<open>A literal text as a pattern, exactly and ignoring the case of ASCII letters.\<close>

definition lit :: "string \<Rightarrow> rx list" where
  "lit s = map (\<lambda>c. Cls (\<lambda>x. x = c)) s"

definition lit_nocase :: "string \<Rightarrow> rx list" where
  "lit_nocase s = map (\<lambda>c. Cls (\<lambda>x. py_lower_char x = py_lower_char c)) s"

lemma rx_lang_lit: "rx_lang (lit s @ r) p w t \<longleftrightarrow> (\<exists>v. w = s @ v \<and> rx_lang r (last_or p s) v t)"
  by (induction s arbitrary: p w) (auto simp: lit_def)

lemma rx_lang_lit_nocase:
  "rx_lang (lit_nocase s @ r) p w t \<longleftrightarrow>
    (\<exists>x v. w = x @ v \<and> py_lower x = py_lower s \<and> rx_lang r (last_or p x) v t)"
proof (induction s arbitrary: p w)
  case Nil
  then show ?case by (auto simp: lit_nocase_def py_lower_def)
next
  case (Cons c s)
  have "rx_lang (lit_nocase (c # s) @ r) p w t \<longleftrightarrow>
    (\<exists>d v. w = d # v \<and> py_lower_char d = py_lower_char c \<and>
      rx_lang (lit_nocase s @ r) (Some d) v t)"
    by (simp add: lit_nocase_def)
  also have "\<dots> \<longleftrightarrow> (\<exists>x v. w = x @ v \<and> py_lower x = py_lower (c # s) \<and> rx_lang r (last_or p x) v t)"
    (is "?l \<longleftrightarrow> ?r")
  proof
    assume ?l
    then obtain d x v where "w = d # x @ v" "py_lower_char d = py_lower_char c"
      "py_lower x = py_lower s" "rx_lang r (last_or (Some d) x) v t"
      by (auto simp: Cons)
    then show ?r
      by (intro exI [of _ "d # x"] exI [of _ v]) (simp add: py_lower_def)
  next
    assume ?r
    then obtain x v where x: "w = x @ v" "py_lower x = py_lower (c # s)"
      "rx_lang r (last_or p x) v t" by blast
    then obtain d y where "x = d # y" by (cases x) (auto simp: py_lower_def)
    with x show ?l by (auto simp: Cons py_lower_def)
  qed
  finally show ?case .
qed

lemmas rx_lang_lit_end = rx_lang_lit [where r = "[]", simplified]

end
