(* ===== verification/Py_Uuid.thy ===== *)
theory Py_Uuid
  imports Py_Value
begin

text \<open>
  UUIDs as 128-bit words, with the standard library's \<open>str(UUID)\<close> and \<open>UUID(text)\<close>: the
  constructor drops \<open>urn:\<close>, \<open>uuid:\<close>, outer braces and hyphens, requires 32 characters and
  reads them with \<open>int(_, 16)\<close>, which also takes surrounding white space, a plus sign, a
  \<open>0x\<close> prefix and single underscores between digits. The round trip is proved.
\<close>

type_synonym uuid = "128 word"

section \<open>Printing\<close>

definition hex_char :: "nat \<Rightarrow> char" where
  "hex_char d = char_of (if d < 10 then 48 + d else 87 + d)"

fun hex_str :: "nat \<Rightarrow> nat \<Rightarrow> string" where
  "hex_str 0 n = []"
| "hex_str (Suc k) n = hex_str k (n div 16) @ [hex_char (n mod 16)]"

definition uuid_str :: "uuid \<Rightarrow> string" where
  "uuid_str u = (let h = hex_str 32 (unat u) in
     take 8 h @ ''-'' @ take 4 (drop 8 h) @ ''-'' @ take 4 (drop 12 h) @ ''-''
       @ take 4 (drop 16 h) @ ''-'' @ drop 20 h)"

section \<open>Parsing\<close>

text \<open>\<open>s.replace(p, '')\<close> for a non-empty \<open>p\<close>.\<close>

fun py_remove :: "string \<Rightarrow> string \<Rightarrow> string" where
  "py_remove p [] = []"
| "py_remove p (c # s) =
    (if p \<noteq> [] \<and> prefix p (c # s) then py_remove p (drop (length p - 1) s)
     else c # py_remove p s)"

definition py_strip :: "(char \<Rightarrow> bool) \<Rightarrow> string \<Rightarrow> string" where
  "py_strip p s = rev (dropWhile p (rev (dropWhile p s)))"

definition hex_value :: "char \<Rightarrow> nat option" where
  "hex_value c = (let n = char_code c in
     if n \<in> {48..57} then Some (n - 48)
     else if n \<in> {97..102} then Some (n - 87)
     else if n \<in> {65..70} then Some (n - 55) else None)"

text \<open>The digits of \<open>int(_, 16)\<close>: a single underscore may stand between two digits.\<close>

fun hex_digits :: "nat \<Rightarrow> bool \<Rightarrow> string \<Rightarrow> nat option" where
  "hex_digits acc after_digit [] = (if after_digit then Some acc else None)"
| "hex_digits acc after_digit (c # s) =
    (if c = CHR ''_'' then (if after_digit then hex_digits acc False s else None)
     else (case hex_value c of None \<Rightarrow> None | Some d \<Rightarrow> hex_digits (16 * acc + d) True s))"

definition int_space :: "string \<Rightarrow> char \<Rightarrow> bool" where
  "int_space s c =
    (if \<exists>x \<in> set s. 128 \<le> char_code x then py_is_space c
     else char_code c \<in> {9..13} \<or> char_code c = 32)"

definition strip_sign :: "string \<Rightarrow> string" where
  "strip_sign s = (case s of c # t \<Rightarrow> if c = CHR ''+'' then t else s | [] \<Rightarrow> [])"

definition strip_0x :: "string \<Rightarrow> string" where
  "strip_0x s = (case s of
     a # b # t \<Rightarrow>
       if a = CHR ''0'' \<and> (b = CHR ''x'' \<or> b = CHR ''X'')
       then (case t of c # t' \<Rightarrow> if c = CHR ''_'' then t' else t | [] \<Rightarrow> [])
       else s
   | _ \<Rightarrow> s)"

definition int_base16 :: "string \<Rightarrow> nat option" where
  "int_base16 s = hex_digits 0 False (strip_0x (strip_sign (py_strip (int_space s) s)))"

text \<open>\<open>UUID(text)\<close>; \<open>None\<close> is \<open>ValueError\<close>.\<close>

definition uuid_parse :: "string \<Rightarrow> uuid option" where
  "uuid_parse s =
    (let t = py_remove ''uuid:'' (py_remove ''urn:'' s);
         h = filter (\<lambda>c. c \<noteq> CHR ''-'') (py_strip (\<lambda>c. c = CHR ''{'' \<or> c = CHR ''}'') t)
     in if length h \<noteq> 32 then None else map_option of_nat (int_base16 h))"

section \<open>Round trip\<close>

definition is_hex_lower :: "char \<Rightarrow> bool" where
  "is_hex_lower c \<longleftrightarrow> char_code c \<in> {48..57} \<or> char_code c \<in> {97..102}"

lemma char_code_hex_char: "d < 16 \<Longrightarrow> char_code (hex_char d) = (if d < 10 then 48 + d else 87 + d)"
  by (simp add: hex_char_def of_char_of)

lemma hex_char_lower: "d < 16 \<Longrightarrow> is_hex_lower (hex_char d)"
  by (auto simp: is_hex_lower_def char_code_hex_char)

lemma hex_value_hex_char [simp]: "d < 16 \<Longrightarrow> hex_value (hex_char d) = Some d"
  by (auto simp: hex_value_def char_code_hex_char Let_def)

lemma set_hex_str: "c \<in> set (hex_str k n) \<Longrightarrow> is_hex_lower c"
  by (induction k arbitrary: n) (auto simp: hex_char_lower)

lemma length_hex_str [simp]: "length (hex_str k n) = k"
  by (induction k arbitrary: n) auto

lemma hex_lower_simps [simp]:
  "\<not> is_hex_lower (CHR ''_'')" "\<not> is_hex_lower (CHR ''-'')" "\<not> is_hex_lower (CHR ''u'')"
  "\<not> is_hex_lower (CHR ''{'')" "\<not> is_hex_lower (CHR ''}'')" "\<not> is_hex_lower (CHR ''+'')"
  "\<not> is_hex_lower (CHR ''x'')" "\<not> is_hex_lower (CHR ''X'')" "\<not> is_hex_lower (CHR '':'')"
  by (simp_all add: is_hex_lower_def)

lemma hex_digits_append:
  assumes "\<forall>c \<in> set s. is_hex_lower c" and "s \<noteq> []"
  shows "hex_digits acc b (s @ [c]) =
    (case hex_digits acc b s of None \<Rightarrow> None
     | Some n \<Rightarrow> if c = CHR ''_'' then None else map_option (\<lambda>d. 16 * n + d) (hex_value c))"
  using assms
proof (induction s arbitrary: acc b)
  case (Cons x s)
  show ?case
  proof (cases "s = []")
    case True
    with Cons.prems show ?thesis by (auto split: option.split)
  next
    case False
    with Cons show ?thesis by (auto split: option.split)
  qed
qed simp

lemma hex_char_not_underscore [simp]: "d < 16 \<Longrightarrow> hex_char d \<noteq> CHR ''_''"
  by (metis hex_char_lower hex_lower_simps(1))

lemma hex_digits_hex_str: "0 < k \<Longrightarrow> hex_digits 0 b (hex_str k n) = Some (n mod 16 ^ k)"
proof (induction k arbitrary: n)
  case (Suc k)
  show ?case
  proof (cases "k = 0")
    case True
    then show ?thesis by simp
  next
    case False
    then have ne: "hex_str k (n div 16) \<noteq> []"
      by (metis length_hex_str list.size(3))
    have "n mod 16 ^ Suc k = 16 * (n div 16 mod 16 ^ k) + n mod 16"
      by (simp add: mod_mult2_eq)
    with False Suc.IH [of "n div 16"] ne show ?thesis
      by (simp add: hex_digits_append set_hex_str)
  qed
qed simp

lemma py_remove_absent: "c \<in> set p \<Longrightarrow> c \<notin> set s \<Longrightarrow> py_remove p s = s"
proof (induction s)
  case (Cons x s)
  then have "\<not> prefix p (x # s)"
    by (auto dest!: set_mono_prefix)
  with Cons show ?case by auto
qed simp

lemma py_strip_id:
  assumes "\<forall>c \<in> set s. \<not> p c"
  shows "py_strip p s = s"
proof -
  have "dropWhile p t = t" if "\<forall>c \<in> set t. \<not> p c" for t
    using that by (cases t) auto
  from this [of s] this [of "rev s"] assms show ?thesis by (simp add: py_strip_def)
qed

lemma hex_lower_not_space: "is_hex_lower c \<Longrightarrow> \<not> int_space s c"
  by (auto simp: int_space_def is_hex_lower_def py_is_space_def Let_def)

lemma strip_0x_cases:
  obtains "s = []" | a where "s = [a]" | a b t where "s = a # b # t"
  by (metis list.exhaust)

lemma strip_sign_hex: "\<forall>c \<in> set s. is_hex_lower c \<Longrightarrow> strip_sign s = s"
  unfolding strip_sign_def by (cases s) fastforce+

lemma strip_0x_hex: "\<forall>c \<in> set s. is_hex_lower c \<Longrightarrow> strip_0x s = s"
  unfolding strip_0x_def by (cases s rule: strip_0x_cases) fastforce+

lemma int_base16_hex:
  assumes "\<forall>c \<in> set s. is_hex_lower c"
  shows "int_base16 s = hex_digits 0 False s"
proof -
  have "py_strip (int_space s) s = s"
    by (rule py_strip_id) (use assms hex_lower_not_space in blast)
  with assms show ?thesis by (simp add: int_base16_def strip_sign_hex strip_0x_hex)
qed

lemma int_base16_hex_str: "0 < k \<Longrightarrow> int_base16 (hex_str k n) = Some (n mod 16 ^ k)"
  by (subst int_base16_hex) (auto simp: hex_digits_hex_str dest: set_hex_str)

lemma set_uuid_str: "c \<in> set (uuid_str u) \<Longrightarrow> is_hex_lower c \<or> c = CHR ''-''"
  by (auto simp: uuid_str_def Let_def dest!: in_set_takeD in_set_dropD set_hex_str)

lemma filter_uuid_str: "filter (\<lambda>c. c \<noteq> CHR ''-'') (uuid_str u) = hex_str 32 (unat u)"
proof -
  let ?h = "hex_str 32 (unat u)"
  have keep: "filter (\<lambda>c. c \<noteq> CHR ''-'') t = t" if "set t \<subseteq> set ?h" for t
  proof (rule filter_True, rule ballI)
    fix c assume "c \<in> set t"
    with that have "is_hex_lower c" using set_hex_str by blast
    then show "c \<noteq> CHR ''-''" by auto
  qed
  have sub: "set (take a (drop b ?h)) \<subseteq> set ?h" "set (take a ?h) \<subseteq> set ?h"
    "set (drop b ?h) \<subseteq> set ?h" for a b
    by (auto dest: in_set_takeD in_set_dropD)
  have "?h = take 8 ?h @ take 4 (drop 8 ?h) @ take 4 (drop 12 ?h) @ take 4 (drop 16 ?h) @ drop 20 ?h"
    by (rule nth_equalityI) (auto simp: nth_append)
  then show ?thesis
    by (simp add: uuid_str_def Let_def keep sub)
qed

lemma uuid_parse_uuid_str [simp]: "uuid_parse (uuid_str u) = Some u"
proof -
  have u: "CHR ''u'' \<notin> set (uuid_str u)"
    using set_uuid_str by fastforce
  have braces: "py_strip (\<lambda>c. c = CHR ''{'' \<or> c = CHR ''}'') (uuid_str u) = uuid_str u"
    by (rule py_strip_id) (use set_uuid_str in fastforce)
  have "unat u < 2 ^ LENGTH(128)"
    by (rule unsigned_less)
  then have "unat u mod 16 ^ 32 = unat u" by simp
  moreover have "(of_nat (unat u) :: uuid) = u" by simp
  ultimately show ?thesis
    using u braces
    by (simp add: uuid_parse_def Let_def filter_uuid_str int_base16_hex_str
        py_remove_absent [where c = "CHR ''u''"])
qed

lemma uuid_str_inj: "uuid_str u = uuid_str v \<longleftrightarrow> u = v"
  by (metis option.inject uuid_parse_uuid_str)

end
