(* ===== verification/Domain_Enums.thy ===== *)
theory Domain_Enums
  imports Py_Uuid
begin

text \<open>
  The enumerations of \<open>domain/enums.py\<close>. Each is a \<open>StrEnum\<close>: a member is equal to its
  string value, and calling the class on a string gives the member or raises \<open>ValueError\<close>
  (\<open>None\<close> here). Columns of the database hold the strings.
\<close>

datatype entity_status = ACTIVE | DISABLED
datatype agent_role = AGENT | ADMIN
datatype transport_type = STDIO | STREAMABLE_HTTP
datatype risk_level = LOW | MEDIUM | HIGH | CRITICAL
datatype action_type = READ | WRITE | DESTRUCTIVE | EXTERNAL_SEND | PRIVILEGED
datatype policy_effect = DENY | REQUIRE_APPROVAL | ALLOW
datatype tool_call_status =
  TC_DENIED | TC_PENDING_APPROVAL | TC_EXECUTING | TC_SUCCEEDED | TC_FAILED
datatype approval_status =
  AP_PENDING | AP_APPROVED | AP_DENIED | AP_EXPIRED | AP_EXECUTED | AP_FAILED

fun entity_status_value :: "entity_status \<Rightarrow> string" where
  "entity_status_value ACTIVE = ''active''"
| "entity_status_value DISABLED = ''disabled''"

fun agent_role_value :: "agent_role \<Rightarrow> string" where
  "agent_role_value AGENT = ''agent''"
| "agent_role_value ADMIN = ''admin''"

fun transport_type_value :: "transport_type \<Rightarrow> string" where
  "transport_type_value STDIO = ''stdio''"
| "transport_type_value STREAMABLE_HTTP = ''streamable_http''"

fun risk_level_value :: "risk_level \<Rightarrow> string" where
  "risk_level_value LOW = ''low''"
| "risk_level_value MEDIUM = ''medium''"
| "risk_level_value HIGH = ''high''"
| "risk_level_value CRITICAL = ''critical''"

fun action_type_value :: "action_type \<Rightarrow> string" where
  "action_type_value READ = ''read''"
| "action_type_value WRITE = ''write''"
| "action_type_value DESTRUCTIVE = ''destructive''"
| "action_type_value EXTERNAL_SEND = ''external_send''"
| "action_type_value PRIVILEGED = ''privileged''"

fun policy_effect_value :: "policy_effect \<Rightarrow> string" where
  "policy_effect_value ALLOW = ''allow''"
| "policy_effect_value DENY = ''deny''"
| "policy_effect_value REQUIRE_APPROVAL = ''require_approval''"

fun tool_call_status_value :: "tool_call_status \<Rightarrow> string" where
  "tool_call_status_value TC_DENIED = ''denied''"
| "tool_call_status_value TC_PENDING_APPROVAL = ''pending_approval''"
| "tool_call_status_value TC_EXECUTING = ''executing''"
| "tool_call_status_value TC_SUCCEEDED = ''succeeded''"
| "tool_call_status_value TC_FAILED = ''failed''"

fun approval_status_value :: "approval_status \<Rightarrow> string" where
  "approval_status_value AP_PENDING = ''pending''"
| "approval_status_value AP_APPROVED = ''approved''"
| "approval_status_value AP_DENIED = ''denied''"
| "approval_status_value AP_EXPIRED = ''expired''"
| "approval_status_value AP_EXECUTED = ''executed''"
| "approval_status_value AP_FAILED = ''failed''"

text \<open>Calling the class on a string: the member whose value it is.\<close>

definition member_of :: "('e \<Rightarrow> string) \<Rightarrow> 'e list \<Rightarrow> string \<Rightarrow> 'e option" where
  "member_of val es s = List.find (\<lambda>e. val e = s) es"

lemma member_of_Some: "member_of val es s = Some e \<Longrightarrow> val e = s"
  by (auto simp: member_of_def find_Some_iff)

lemma member_of_code [simp]:
  "member_of val [] s = None"
  "member_of val (e # es) s = (if val e = s then Some e else member_of val es s)"
  by (simp_all add: member_of_def)

definition entity_status_of :: "string \<Rightarrow> entity_status option" where
  "entity_status_of = member_of entity_status_value [ACTIVE, DISABLED]"

definition agent_role_of :: "string \<Rightarrow> agent_role option" where
  "agent_role_of = member_of agent_role_value [AGENT, ADMIN]"

definition transport_type_of :: "string \<Rightarrow> transport_type option" where
  "transport_type_of = member_of transport_type_value [STDIO, STREAMABLE_HTTP]"

definition risk_level_of :: "string \<Rightarrow> risk_level option" where
  "risk_level_of = member_of risk_level_value [LOW, MEDIUM, HIGH, CRITICAL]"

definition action_type_of :: "string \<Rightarrow> action_type option" where
  "action_type_of =
    member_of action_type_value [READ, WRITE, DESTRUCTIVE, EXTERNAL_SEND, PRIVILEGED]"

definition policy_effect_of :: "string \<Rightarrow> policy_effect option" where
  "policy_effect_of = member_of policy_effect_value [ALLOW, DENY, REQUIRE_APPROVAL]"

definition tool_call_status_of :: "string \<Rightarrow> tool_call_status option" where
  "tool_call_status_of = member_of tool_call_status_value
    [TC_DENIED, TC_PENDING_APPROVAL, TC_EXECUTING, TC_SUCCEEDED, TC_FAILED]"

definition approval_status_of :: "string \<Rightarrow> approval_status option" where
  "approval_status_of = member_of approval_status_value
    [AP_PENDING, AP_APPROVED, AP_DENIED, AP_EXPIRED, AP_EXECUTED, AP_FAILED]"

lemmas enum_of_defs = entity_status_of_def agent_role_of_def transport_type_of_def
  risk_level_of_def action_type_of_def policy_effect_of_def tool_call_status_of_def
  approval_status_of_def

text \<open>Class call and value are inverse to each other.\<close>

lemma enum_of_value [simp, enum_simps]:
  "entity_status_of (entity_status_value a) = Some a"
  "agent_role_of (agent_role_value b) = Some b"
  "transport_type_of (transport_type_value c) = Some c"
  "risk_level_of (risk_level_value d) = Some d"
  "action_type_of (action_type_value e) = Some e"
  "policy_effect_of (policy_effect_value f) = Some f"
  "tool_call_status_of (tool_call_status_value g) = Some g"
  "approval_status_of (approval_status_value h) = Some h"
  by ((cases a; simp add: enum_of_defs), (cases b; simp add: enum_of_defs),
      (cases c; simp add: enum_of_defs), (cases d; simp add: enum_of_defs),
      (cases e; simp add: enum_of_defs), (cases f; simp add: enum_of_defs),
      (cases g; simp add: enum_of_defs), (cases h; simp add: enum_of_defs))

text \<open>The same on the literal values.\<close>

lemma enum_of_literal [simp]:
  "entity_status_of ''active'' = Some ACTIVE" "entity_status_of ''disabled'' = Some DISABLED"
  "risk_level_of ''critical'' = Some CRITICAL" "action_type_of ''privileged'' = Some PRIVILEGED"
  "tool_call_status_of ''denied'' = Some TC_DENIED"
  "tool_call_status_of ''pending_approval'' = Some TC_PENDING_APPROVAL"
  "tool_call_status_of ''executing'' = Some TC_EXECUTING"
  "tool_call_status_of ''succeeded'' = Some TC_SUCCEEDED"
  "tool_call_status_of ''failed'' = Some TC_FAILED"
  "approval_status_of ''pending'' = Some AP_PENDING" "approval_status_of ''approved'' = Some AP_APPROVED"
  "approval_status_of ''denied'' = Some AP_DENIED" "approval_status_of ''expired'' = Some AP_EXPIRED"
  "approval_status_of ''executed'' = Some AP_EXECUTED" "approval_status_of ''failed'' = Some AP_FAILED"
  by (simp_all add: enum_of_defs)

lemma enum_value_of:
  "entity_status_of s = Some a \<Longrightarrow> entity_status_value a = s"
  "agent_role_of s = Some b \<Longrightarrow> agent_role_value b = s"
  "transport_type_of s = Some c \<Longrightarrow> transport_type_value c = s"
  "risk_level_of s = Some d \<Longrightarrow> risk_level_value d = s"
  "action_type_of s = Some e \<Longrightarrow> action_type_value e = s"
  "policy_effect_of s = Some f \<Longrightarrow> policy_effect_value f = s"
  "tool_call_status_of s = Some g \<Longrightarrow> tool_call_status_value g = s"
  "approval_status_of s = Some h \<Longrightarrow> approval_status_value h = s"
  unfolding enum_of_defs by (rule member_of_Some; assumption)+

lemma enum_value_inj [simp, enum_simps]:
  "entity_status_value a = entity_status_value a' \<longleftrightarrow> a = a'"
  "agent_role_value b = agent_role_value b' \<longleftrightarrow> b = b'"
  "transport_type_value c = transport_type_value c' \<longleftrightarrow> c = c'"
  "risk_level_value d = risk_level_value d' \<longleftrightarrow> d = d'"
  "action_type_value e = action_type_value e' \<longleftrightarrow> e = e'"
  "policy_effect_value f = policy_effect_value f' \<longleftrightarrow> f = f'"
  "tool_call_status_value g = tool_call_status_value g' \<longleftrightarrow> g = g'"
  "approval_status_value h = approval_status_value h' \<longleftrightarrow> h = h'"
  by (metis enum_of_value(1) option.inject, metis enum_of_value(2) option.inject,
      metis enum_of_value(3) option.inject, metis enum_of_value(4) option.inject,
      metis enum_of_value(5) option.inject, metis enum_of_value(6) option.inject,
      metis enum_of_value(7) option.inject, metis enum_of_value(8) option.inject)

text \<open>Decisions are ordered by how much they permit.\<close>

instantiation policy_effect :: linorder
begin

fun effect_rank :: "policy_effect \<Rightarrow> nat" where
  "effect_rank DENY = 0"
| "effect_rank REQUIRE_APPROVAL = 1"
| "effect_rank ALLOW = 2"

definition less_eq_policy_effect :: "policy_effect \<Rightarrow> policy_effect \<Rightarrow> bool" where
  "less_eq_policy_effect a b = (effect_rank a \<le> effect_rank b)"

definition less_policy_effect :: "policy_effect \<Rightarrow> policy_effect \<Rightarrow> bool" where
  "less_policy_effect a b = (effect_rank a < effect_rank b)"

instance
proof
  fix a b :: policy_effect
  show "a \<le> b \<Longrightarrow> b \<le> a \<Longrightarrow> a = b"
    by (cases a; cases b) (simp_all add: less_eq_policy_effect_def)
qed (auto simp: less_eq_policy_effect_def less_policy_effect_def)

end

end
