(* ===== verification/Errors.thy ===== *)
theory Errors
  imports Domain_Enums
begin

text \<open>
  The exceptions of the program. \<open>app_error\<close> are the \<open>ApplicationError\<close> subclasses of
  \<open>application/services/errors.py\<close>, with the code, message and details each constructor
  passes on; \<open>exn\<close> adds the MCP client port's errors, the policy engine's, and the
  exceptions of the language and of the database layer that the program meets.
\<close>

datatype app_error =
    TenantNotFoundError
  | AgentNotFoundError
  | AgentNameConflictError
  | AgentDisabledError
  | UnauthenticatedError
  | ToolServerNotFoundError "string option"
  | ToolServerConflictError
  | ToolServerConfigurationError string
  | ToolNotFoundError "string option"
  | ToolDisabledError "string option"
  | ArgumentSchemaInvalidError "string option"
  | IdempotencyConflictError "string option"
  | McpClientNotConfiguredError
  | McpTransportNotSupportedError
  | McpToolListFailedError string
  | ApprovalNotFoundError
  | ApprovalNotPendingError
  | ApprovalAlreadyProcessedError
  | ApprovalExpiredError
  | ApprovalExecutionFailedError "json_object option"
  | ApprovalDeniedError

fun app_error_code :: "app_error \<Rightarrow> string" where
  "app_error_code TenantNotFoundError = ''tenant_not_found''"
| "app_error_code AgentNotFoundError = ''agent_not_found''"
| "app_error_code AgentNameConflictError = ''agent_name_conflict''"
| "app_error_code AgentDisabledError = ''agent_disabled''"
| "app_error_code UnauthenticatedError = ''unauthenticated''"
| "app_error_code (ToolServerNotFoundError t) = ''tool_server_not_found''"
| "app_error_code ToolServerConflictError = ''tool_server_conflict''"
| "app_error_code (ToolServerConfigurationError m) = ''tool_server_configuration_invalid''"
| "app_error_code (ToolNotFoundError t) = ''tool_not_found''"
| "app_error_code (ToolDisabledError t) = ''tool_disabled''"
| "app_error_code (ArgumentSchemaInvalidError t) = ''argument_schema_invalid''"
| "app_error_code (IdempotencyConflictError t) = ''idempotency_conflict''"
| "app_error_code McpClientNotConfiguredError = ''mcp_client_not_configured''"
| "app_error_code McpTransportNotSupportedError = ''transport_not_supported_yet''"
| "app_error_code (McpToolListFailedError c) = c"
| "app_error_code ApprovalNotFoundError = ''approval_not_found''"
| "app_error_code ApprovalNotPendingError = ''approval_not_pending''"
| "app_error_code ApprovalAlreadyProcessedError = ''approval_already_processed''"
| "app_error_code ApprovalExpiredError = ''approval_expired''"
| "app_error_code (ApprovalExecutionFailedError d) = ''approval_execution_failed''"
| "app_error_code ApprovalDeniedError = ''approval_denied''"

fun app_error_message :: "app_error \<Rightarrow> string" where
  "app_error_message TenantNotFoundError = ''Tenant was not found''"
| "app_error_message AgentNotFoundError = ''Agent was not found''"
| "app_error_message AgentNameConflictError = ''Agent name already exists for tenant''"
| "app_error_message AgentDisabledError = ''Agent is disabled''"
| "app_error_message UnauthenticatedError = ''Authentication is required''"
| "app_error_message (ToolServerNotFoundError t) = ''Tool server not found''"
| "app_error_message ToolServerConflictError = ''Tool server already exists for tenant''"
| "app_error_message (ToolServerConfigurationError m) = m"
| "app_error_message (ToolNotFoundError t) = ''Tool not found''"
| "app_error_message (ToolDisabledError t) = ''Tool is disabled''"
| "app_error_message (ArgumentSchemaInvalidError t) = ''Tool arguments do not match input schema''"
| "app_error_message (IdempotencyConflictError t) =
    ''Idempotency key conflicts with an in-flight or different request''"
| "app_error_message McpClientNotConfiguredError = ''MCP client is not configured''"
| "app_error_message McpTransportNotSupportedError = ''MCP transport is not supported yet''"
| "app_error_message (McpToolListFailedError c) =
    (if c = ''transport_not_supported_yet'' then ''MCP transport is not supported yet''
     else if c = ''mcp_timeout'' then ''MCP tool discovery timed out''
     else ''MCP tool discovery failed'')"
| "app_error_message ApprovalNotFoundError = ''Approval request was not found''"
| "app_error_message ApprovalNotPendingError = ''Approval request is not pending''"
| "app_error_message ApprovalAlreadyProcessedError = ''Approval request was already processed''"
| "app_error_message ApprovalExpiredError = ''Approval request has expired''"
| "app_error_message (ApprovalExecutionFailedError d) = ''Approval execution failed''"
| "app_error_message ApprovalDeniedError = ''Approval request was denied''"

definition trace_details :: "string option \<Rightarrow> json_object" where
  "trace_details t = (case t of None \<Rightarrow> [] | Some x \<Rightarrow> [(''trace_id'', PStr x)])"

fun app_error_details :: "app_error \<Rightarrow> json_object" where
  "app_error_details (ToolServerNotFoundError t) = trace_details t"
| "app_error_details (ToolNotFoundError t) = trace_details t"
| "app_error_details (ToolDisabledError t) = trace_details t"
| "app_error_details (ArgumentSchemaInvalidError t) = trace_details t"
| "app_error_details (IdempotencyConflictError t) = trace_details t"
| "app_error_details (ApprovalExecutionFailedError d) = (case d of None \<Rightarrow> [] | Some x \<Rightarrow> x)"
| "app_error_details _ = []"

text \<open>
  \<open>McpUpstreamTimeoutError\<close> and \<open>McpToolListError\<close> are subclasses of
  \<open>McpUpstreamError\<close>; every MCP error carries a code and a message. \<open>UncaughtError\<close> is an
  exception of a class that no handler of the services names.
\<close>

datatype exn =
    AppError app_error
  | ApiError string string nat
  | McpUpstreamError string string
  | McpUpstreamTimeoutError string string
  | McpToolListError string string
  | SecretScanningError
  | ArgumentRedactionError
  | ArgumentHashError
  | PolicyParseError string
  | PolicyRepositoryError
  | UnicodeEncodeError
  | ValueError
  | OverflowError
  | IntegrityError
  | DataError
  | UncaughtError string

text \<open>\<open>except McpUpstreamError\<close> catches the subclasses as well.\<close>

fun upstream_error :: "exn \<Rightarrow> (string \<times> string) option" where
  "upstream_error (McpUpstreamError c m) = Some (c, m)"
| "upstream_error (McpUpstreamTimeoutError c m) = Some (c, m)"
| "upstream_error (McpToolListError c m) = Some (c, m)"
| "upstream_error _ = None"

end
