(* ===== verification/Canonical_Json.thy ===== *)
theory Canonical_Json
  imports Secret_Scanner Errors
begin

text \<open>
  \<open>canonical_arguments_hash\<close> of \<open>application/services/policy_engine.py\<close>: the JSON text with
  sorted keys and no white space (\<open>json.dumps\<close>, \<open>ensure_ascii=False\<close>), its UTF-8 encoding,
  and the SHA-256 of the bytes. SHA-256, the decimal text of a float and the texts without a UTF-8
  encoding are parameters. The theory shows that the bytes determine the arguments up to the order of dictionary keys.
\<close>

section \<open>Canonical text\<close>

definition json_esc_char :: "char \<Rightarrow> string" where
  "json_esc_char c = (let n = char_code c in
     if n = 34 then [CHR 0x5C, CHR 0x22]
     else if n = 92 then [CHR 0x5C, CHR 0x5C]
     else if n = 8 then CHR 0x5C # ''b''
     else if n = 9 then CHR 0x5C # ''t''
     else if n = 10 then CHR 0x5C # ''n''
     else if n = 12 then CHR 0x5C # ''f''
     else if n = 13 then CHR 0x5C # ''r''
     else if n < 32 then CHR 0x5C # ''u00'' @ [hex_char (n div 16), hex_char (n mod 16)]
     else [c])"

definition json_str :: "string \<Rightarrow> string" where
  "json_str s = CHR 0x22 # concat (map json_esc_char s) @ [CHR 0x22]"

fun str_join :: "string \<Rightarrow> string list \<Rightarrow> string" where
  "str_join sep [] = []"
| "str_join sep [x] = x"
| "str_join sep (x # y # xs) = x @ sep @ str_join sep (y # xs)"

text \<open>
  \<open>json.dumps(v, sort_keys=True, separators=(",", ":"), ensure_ascii=False)\<close>; \<open>None\<close> is the
  \<open>TypeError\<close> for a value outside JSON. The members of an object are written out before they
  are put in key order, which gives the same text.
\<close>

fun json_dumps :: "(64 word \<Rightarrow> string) \<Rightarrow> pyval \<Rightarrow> string option"
  and json_dumps_list :: "(64 word \<Rightarrow> string) \<Rightarrow> pyval list \<Rightarrow> string list option"
  and json_dumps_items :: "(64 word \<Rightarrow> string) \<Rightarrow> json_object \<Rightarrow> (string \<times> string) list option" where
  "json_dumps fr PNone = Some ''null''"
| "json_dumps fr (PBool b) = Some (if b then ''true'' else ''false'')"
| "json_dumps fr (PInt i) = Some (py_int_str i)"
| "json_dumps fr (PFloat f) = Some (fr f)"
| "json_dumps fr (PStr s) = Some (json_str s)"
| "json_dumps fr (PObj s) = None"
| "json_dumps fr (PList xs) =
    (case json_dumps_list fr xs of None \<Rightarrow> None
     | Some ts \<Rightarrow> Some (''['' @ str_join '','' ts @ '']''))"
| "json_dumps fr (PDict kvs) =
    (case json_dumps_items fr kvs of None \<Rightarrow> None
     | Some ms \<Rightarrow> Some (''{'' @
         str_join '','' (map (\<lambda>(k, t). json_str k @ '':'' @ t) (sort_key fst ms)) @ ''}''))"
| "json_dumps_list fr [] = Some []"
| "json_dumps_list fr (x # xs) =
    (case json_dumps fr x of None \<Rightarrow> None
     | Some t \<Rightarrow> map_option (Cons t) (json_dumps_list fr xs))"
| "json_dumps_items fr [] = Some []"
| "json_dumps_items fr ((k, v) # kvs) =
    (case json_dumps fr v of None \<Rightarrow> None
     | Some t \<Rightarrow> map_option (Cons (k, t)) (json_dumps_items fr kvs))"

text \<open>UTF-8 of code points below 256.\<close>

definition utf8_char :: "char \<Rightarrow> string" where
  "utf8_char c = (let n = char_code c in
     if n < 128 then [c] else [char_of (192 + n div 64), char_of (128 + n mod 64)])"

definition utf8_encode :: "string \<Rightarrow> string" where
  "utf8_encode s = concat (map utf8_char s)"

text \<open>
  \<open>text.encode("utf-8")\<close> raises for a text with a lone surrogate. The characters here are the code
  points below 256, so which texts have an encoding (\<open>enc\<close>) is a parameter.
\<close>

definition encode_utf8 :: "(string \<Rightarrow> bool) \<Rightarrow> string \<Rightarrow> exn + string" where
  "encode_utf8 enc s = (if enc s then Inr (utf8_encode s) else Inl UnicodeEncodeError)"

definition canonical_arguments_hash ::
  "(string \<Rightarrow> bool) \<Rightarrow> (string \<Rightarrow> string) \<Rightarrow> (64 word \<Rightarrow> string) \<Rightarrow> json_object \<Rightarrow> exn + string" where
  "canonical_arguments_hash enc sha fr arguments =
    (case json_dumps fr (PDict arguments) of
       None \<Rightarrow> Inl ArgumentHashError
     | Some canonical \<Rightarrow> sum_bind (encode_utf8 enc canonical) (\<lambda>bytes. Inr (sha bytes)))"

text \<open>Arguments whose JSON text, if they have one, can be encoded.\<close>

definition encodable_arguments :: "(string \<Rightarrow> bool) \<Rightarrow> (64 word \<Rightarrow> string) \<Rightarrow> json_object \<Rightarrow> bool" where
  "encodable_arguments enc fr arguments =
    (case json_dumps fr (PDict arguments) of None \<Rightarrow> True | Some canonical \<Rightarrow> enc canonical)"

section \<open>The canonical form of a value\<close>

text \<open>
  Keys in order, and one representative for the NaN bit patterns (all of them are written
  \<open>NaN\<close>).
\<close>

definition float_rep :: "64 word \<Rightarrow> 64 word" where
  "float_rep w = (if float_num w = NaN then 0x7FF8000000000000 else w)"

fun canon :: "pyval \<Rightarrow> pyval"
  and canon_list :: "pyval list \<Rightarrow> pyval list"
  and canon_items :: "json_object \<Rightarrow> json_object" where
  "canon (PDict kvs) = PDict (sort_key fst (canon_items kvs))"
| "canon (PList xs) = PList (canon_list xs)"
| "canon (PFloat f) = PFloat (float_rep f)"
| "canon PNone = PNone"
| "canon (PBool b) = PBool b"
| "canon (PInt i) = PInt i"
| "canon (PStr s) = PStr s"
| "canon (PObj s) = PObj s"
| "canon_list [] = []"
| "canon_list (x # xs) = canon x # canon_list xs"
| "canon_items [] = []"
| "canon_items ((k, v) # kvs) = (k, canon v) # canon_items kvs"

text \<open>What the program relies on in the text of a float.\<close>

definition json_delim :: "char \<Rightarrow> bool" where
  "json_delim c \<longleftrightarrow> c \<in> {CHR '','', CHR '']'', CHR ''}''}"

definition json_opener :: "char \<Rightarrow> bool" where
  "json_opener c \<longleftrightarrow> c \<in> {CHR 0x22, CHR ''['', CHR ''{''}"

definition float_repr_ok :: "(64 word \<Rightarrow> string) \<Rightarrow> bool" where
  "float_repr_ok fr \<longleftrightarrow>
    (\<forall>x. fr x \<noteq> [] \<and> (\<forall>c \<in> set (fr x). \<not> json_delim c \<and> \<not> json_opener c)) \<and>
    (\<forall>x i. fr x \<noteq> py_int_str i) \<and>
    (\<forall>x. fr x \<notin> {''null'', ''true'', ''false''}) \<and>
    (\<forall>x y. fr x = fr y \<longleftrightarrow> float_rep x = float_rep y)"

text \<open>The text of a value in canonical form, with its members as they stand.\<close>

fun json_text :: "(64 word \<Rightarrow> string) \<Rightarrow> pyval \<Rightarrow> string"
  and json_elems :: "(64 word \<Rightarrow> string) \<Rightarrow> pyval list \<Rightarrow> string"
  and json_members :: "(64 word \<Rightarrow> string) \<Rightarrow> json_object \<Rightarrow> string" where
  "json_text fr PNone = ''null''"
| "json_text fr (PBool b) = (if b then ''true'' else ''false'')"
| "json_text fr (PInt i) = py_int_str i"
| "json_text fr (PFloat f) = fr f"
| "json_text fr (PStr s) = json_str s"
| "json_text fr (PObj s) = []"
| "json_text fr (PList xs) = CHR ''['' # tl (json_elems fr xs) @ '']''"
| "json_text fr (PDict kvs) = CHR ''{'' # tl (json_members fr kvs) @ ''}''"
| "json_elems fr [] = []"
| "json_elems fr (x # xs) = CHR '','' # json_text fr x @ json_elems fr xs"
| "json_members fr [] = []"
| "json_members fr ((k, v) # kvs) =
    CHR '','' # json_str k @ CHR '':'' # json_text fr v @ json_members fr kvs"

lemma str_join_tl: "str_join '','' ts = tl (concat (map (Cons (CHR '','')) ts))"
proof (induction ts rule: induct_list012)
  case (3 x y zs)
  then show ?case by simp
qed simp_all

lemma json_elems_concat: "json_elems fr xs = concat (map (\<lambda>x. CHR '','' # json_text fr x) xs)"
  by (induction xs) auto

lemma json_members_concat:
  "json_members fr kvs =
    concat (map (Cons (CHR '','')) (map (\<lambda>(k, t). json_str k @ '':'' @ t) (map (map_prod id (json_text fr)) kvs)))"
  by (induction kvs) auto

lemma sort_key_map_values: "sort_key fst (map (map_prod id f) kvs) = map (map_prod id f) (sort_key fst kvs)"
proof -
  have ins: "insort_key fst (map_prod id f x) (map (map_prod id f) ys) = map (map_prod id f) (insort_key fst x ys)"
    for x ys by (induction ys) auto
  show ?thesis
    by (induction kvs) (simp_all add: ins [unfolded id_def])
qed

lemma json_dumps_canon:
  assumes "\<And>f. fr (float_rep f) = fr f"
  shows "json_dumps fr v = (if json_like v then Some (json_text fr (canon v)) else None)"
    and "json_dumps_list fr xs =
      (if json_like_list xs then Some (map (json_text fr) (canon_list xs)) else None)"
    and "json_dumps_items fr kvs =
      (if json_like_items kvs then Some (map (map_prod id (json_text fr)) (canon_items kvs)) else None)"
proof (induction v and xs and kvs rule: canon_canon_list_canon_items.induct)
  case (1 kvs)
  then show ?case
    by (simp add: str_join_tl sort_key_map_values json_members_concat)
next
  case (2 xs)
  then show ?case by (simp add: str_join_tl json_elems_concat o_def)
qed (auto simp: assms split: option.splits)

section \<open>The text determines the canonical value\<close>

text \<open>Escaped characters form a prefix code without the closing quotation mark.\<close>

definition unescape :: "string \<Rightarrow> char \<times> string" where
  "unescape s = (case s of [] \<Rightarrow> (CHR ''0'', [])
   | a # t \<Rightarrow> if char_code a \<noteq> 92 then (a, t) else
     (case t of [] \<Rightarrow> (a, []) | b # u \<Rightarrow>
       let n = char_code b in
       if n = 34 \<or> n = 92 then (b, u)
       else if n = 98 then (CHR 0x08, u)
       else if n = 116 then (CHR 0x09, u)
       else if n = 110 then (CHR 0x0A, u)
       else if n = 102 then (CHR 0x0C, u)
       else if n = 114 then (CHR 0x0D, u)
       else (case drop 2 u of
           x # y # w \<Rightarrow> (char_of (16 * the (hex_value x) + the (hex_value y)), w)
         | _ \<Rightarrow> (b, u))))"

lemma char_codeD:
  "char_code c = 34 \<Longrightarrow> c = CHR 0x22" "char_code c = 92 \<Longrightarrow> c = CHR 0x5C"
  "char_code c = 8 \<Longrightarrow> c = CHR 0x08" "char_code c = 9 \<Longrightarrow> c = CHR 0x09"
  "char_code c = 10 \<Longrightarrow> c = CHR 0x0A" "char_code c = 12 \<Longrightarrow> c = CHR 0x0C"
  "char_code c = 13 \<Longrightarrow> c = CHR 0x0D"
  by (rule of_char_eqI [where ?'a = nat]; simp)+

lemma unescape_esc: "unescape (json_esc_char c @ u) = (c, u)"
proof -
  let ?n = "char_code c"
  have hex: "the (hex_value (hex_char (?n div 16))) = ?n div 16"
    "the (hex_value (hex_char (?n mod 16))) = ?n mod 16"
    using char_code_less [of c] by (simp_all add: less_mult_imp_div_less)
  have split: "16 * (?n div 16) + ?n mod 16 = ?n" by simp
  consider "?n = 34" | "?n = 92" | "?n = 8" | "?n = 9" | "?n = 10" | "?n = 12" | "?n = 13"
    | "?n < 32" "?n \<notin> {8, 9, 10, 12, 13}" | "32 \<le> ?n" "?n \<noteq> 34" "?n \<noteq> 92" by fastforce
  then show ?thesis
  proof cases
    case 8
    then show ?thesis
      by (simp add: json_esc_char_def unescape_def Let_def hex split)
  qed (auto simp: json_esc_char_def unescape_def Let_def dest!: char_codeD)
qed

lemma json_esc_prefix_code:
  "json_esc_char c @ u = json_esc_char d @ v \<Longrightarrow> c = d \<and> u = v"
  by (metis prod.inject unescape_esc)

lemma json_esc_char_shape: "\<exists>a t. json_esc_char c = a # t \<and> a \<noteq> CHR 0x22"
  by (auto simp: json_esc_char_def Let_def)

lemma json_str_body_inj:
  "concat (map json_esc_char s) @ CHR 0x22 # r =
   concat (map json_esc_char t) @ CHR 0x22 # r' \<Longrightarrow> s = t \<and> r = r'"
proof (induction s arbitrary: t)
  case Nil
  then show ?case
    using json_esc_char_shape [of "hd t"] by (cases t) auto
next
  case (Cons c s)
  show ?case
  proof (cases t)
    case Nil
    with Cons.prems show ?thesis
      using json_esc_char_shape [of c] by auto
  next
    case (Cons d t')
    with Cons.prems json_esc_prefix_code [of c _ d]
    have "c = d" "concat (map json_esc_char s) @ CHR 0x22 # r =
      concat (map json_esc_char t') @ CHR 0x22 # r'" by simp_all
    with Cons.IH Cons show ?thesis by simp
  qed
qed

lemma json_str_inj: "json_str s @ r = json_str t @ r' \<Longrightarrow> s = t \<and> r = r'"
  using json_str_body_inj [of s r t r'] by (simp add: json_str_def)

text \<open>Canonical values: JSON only, floats by their representative.\<close>

fun canonical :: "pyval \<Rightarrow> bool"
  and canonical_list :: "pyval list \<Rightarrow> bool"
  and canonical_items :: "json_object \<Rightarrow> bool" where
  "canonical (PFloat f) = (float_rep f = f)"
| "canonical (PObj s) = False"
| "canonical (PList xs) = canonical_list xs"
| "canonical (PDict kvs) = canonical_items kvs"
| "canonical PNone = True"
| "canonical (PBool b) = True"
| "canonical (PInt i) = True"
| "canonical (PStr s) = True"
| "canonical_list [] = True"
| "canonical_list (x # xs) = (canonical x \<and> canonical_list xs)"
| "canonical_items [] = True"
| "canonical_items ((k, v) # kvs) = (canonical v \<and> canonical_items kvs)"

lemma canonical_items_iff: "canonical_items kvs \<longleftrightarrow> (\<forall>kv \<in> set kvs. canonical (snd kv))"
proof (induction kvs)
  case (Cons kv kvs)
  then show ?case by (cases kv) simp
qed simp

lemma float_rep_idem [simp]: "float_rep (float_rep f) = float_rep f"
proof -
  have "float_num 0x7FF8000000000000 = NaN"
    by (simp add: float_num_def Let_def)
  then show ?thesis by (simp add: float_rep_def)
qed

lemma canonical_canon:
  "json_like v \<Longrightarrow> canonical (canon v)"
  "json_like_list xs \<Longrightarrow> canonical_list (canon_list xs)"
  "json_like_items kvs \<Longrightarrow> canonical_items (canon_items kvs)"
  by (induction v and xs and kvs rule: canon_canon_list_canon_items.induct)
    (auto simp: canonical_items_iff)

definition json_atom :: "pyval \<Rightarrow> bool" where
  "json_atom v = (case v of PStr _ \<Rightarrow> False | PList _ \<Rightarrow> False | PDict _ \<Rightarrow> False | PObj _ \<Rightarrow> False | _ \<Rightarrow> True)"

lemma py_int_str_chars:
  "py_int_str i \<noteq> []" "c \<in> set (py_int_str i) \<Longrightarrow> is_digit_char c \<or> c = CHR ''-''"
  by (auto simp: py_int_str_def split: if_splits dest: nat_str_digits)

lemma digit_not_special: "is_digit_char c \<or> c = CHR ''-'' \<Longrightarrow> \<not> json_delim c \<and> \<not> json_opener c"
  by (auto simp: is_digit_char_def json_delim_def json_opener_def)

lemma json_text_atom:
  assumes "float_repr_ok fr" and "json_atom v"
  shows "json_text fr v \<noteq> []"
    and "\<forall>c \<in> set (json_text fr v). \<not> json_delim c \<and> \<not> json_opener c"
proof -
  from assms show "\<forall>c \<in> set (json_text fr v). \<not> json_delim c \<and> \<not> json_opener c"
  proof (cases v)
    case (PInt i)
    then show ?thesis
      using py_int_str_chars(2) digit_not_special by fastforce
  next
    case (PFloat f)
    with assms show ?thesis by (simp add: float_repr_ok_def)
  qed (simp_all add: json_atom_def json_delim_def json_opener_def)
  from assms show "json_text fr v \<noteq> []"
    by (cases v) (auto simp: json_atom_def float_repr_ok_def py_int_str_chars)
qed

lemma json_text_atom_inj:
  assumes ok: "float_repr_ok fr" and "json_atom v" "json_atom w" "canonical v" "canonical w"
    and eq: "json_text fr v = json_text fr w"
  shows "v = w"
proof -
  have digit: "is_digit_char (hd s) \<or> hd s = CHR ''-''" if "s = py_int_str i" for s i
    using that py_int_str_chars [where i = i] by (metis hd_in_set)
  have lits: "py_int_str i \<noteq> ''null''" "py_int_str i \<noteq> ''true''" "py_int_str i \<noteq> ''false''" for i
    using digit [of "''null''" i] digit [of "''true''" i] digit [of "''false''" i]
    by (auto simp: is_digit_char_def)
  have fl: "fr x \<noteq> py_int_str i" "fr x \<noteq> ''null''" "fr x \<noteq> ''true''" "fr x \<noteq> ''false''"
    "fr x = fr y \<Longrightarrow> float_rep x = float_rep y" for x y i
    using ok by (auto simp: float_repr_ok_def)
  note ne = lits lits [symmetric] fl(1-4) fl(1-4) [symmetric]
  show ?thesis
  proof (cases v)
    case PNone
    with assms(3) eq ne show ?thesis by (cases w) (simp_all add: json_atom_def split: if_splits)
  next
    case (PBool b)
    with assms(3) eq ne show ?thesis
      by (cases w; cases b) (simp_all add: json_atom_def split: if_splits)
  next
    case (PInt i)
    with assms(3) eq ne show ?thesis
      by (cases w) (simp_all add: json_atom_def py_int_str_inj split: if_splits)
  next
    case (PFloat f)
    have "f = g" if "w = PFloat g" for g
      using that PFloat eq assms(4,5) fl(5) [of f g] by simp
    with PFloat assms(3) eq ne show ?thesis
      by (cases w) (simp_all add: json_atom_def split: if_splits)
  qed (use assms(2) in \<open>simp_all add: json_atom_def\<close>)
qed

lemma json_text_head:
  assumes "float_repr_ok fr" and "canonical v"
  shows "\<exists>a t. json_text fr v = a # t \<and> \<not> json_delim a \<and>
    (a = CHR 0x22 \<longleftrightarrow> (\<exists>s. v = PStr s)) \<and> (a = CHR ''['' \<longleftrightarrow> (\<exists>xs. v = PList xs)) \<and>
    (a = CHR ''{'' \<longleftrightarrow> (\<exists>kvs. v = PDict kvs))"
proof (cases "json_atom v")
  case True
  note atom = json_text_atom [OF assms(1) True]
  then obtain a t where at: "json_text fr v = a # t" by (cases "json_text fr v") auto
  with atom have a: "\<not> json_delim a" "\<not> json_opener a" by simp_all
  from True have "\<nexists>s. v = PStr s" "\<nexists>xs. v = PList xs" "\<nexists>kvs. v = PDict kvs"
    by (auto simp: json_atom_def)
  with at a show ?thesis by (auto simp: json_opener_def)
next
  case False
  with assms(2) show ?thesis
    by (cases v) (auto simp: json_atom_def json_str_def json_delim_def)
qed

text \<open>The text of a value followed by a delimiter, or by nothing, determines the value.\<close>

definition json_tail :: "string \<Rightarrow> bool" where
  "json_tail r \<longleftrightarrow> r = [] \<or> json_delim (hd r)"

lemma json_tail_simps [simp]:
  "json_tail []" "json_tail (CHR '','' # r)" "json_tail (CHR '']'' # r)" "json_tail (CHR ''}'' # r)"
  by (simp_all add: json_tail_def json_delim_def)

lemma json_tail_elems: "json_tail (json_elems fr xs @ CHR '']'' # r)"
  by (cases xs) simp_all

lemma json_tail_members: "json_tail (json_members fr kvs @ CHR ''}'' # r)"
  by (cases kvs) (auto)

lemma json_text_headD:
  assumes "float_repr_ok fr" and "canonical v"
  shows "CHR '']'' # r \<noteq> json_text fr v @ s" "CHR ''}'' # r \<noteq> json_text fr v @ s"
    and "CHR ''['' # r = json_text fr v @ s \<Longrightarrow> \<exists>xs. v = PList xs"
    and "CHR ''{'' # r = json_text fr v @ s \<Longrightarrow> \<exists>kvs. v = PDict kvs"
    and "CHR 0x22 # r = json_text fr v @ s \<Longrightarrow> \<exists>x. v = PStr x"
proof -
  from json_text_head [OF assms] obtain a t where at: "json_text fr v = a # t"
    and a: "\<not> json_delim a" "a = CHR 0x22 \<longleftrightarrow> (\<exists>x. v = PStr x)"
      "a = CHR ''['' \<longleftrightarrow> (\<exists>xs. v = PList xs)" "a = CHR ''{'' \<longleftrightarrow> (\<exists>kvs. v = PDict kvs)"
    by blast
  show "CHR '']'' # r \<noteq> json_text fr v @ s" "CHR ''}'' # r \<noteq> json_text fr v @ s"
    using at a(1) by (auto simp: json_delim_def)
  show "CHR ''['' # r = json_text fr v @ s \<Longrightarrow> \<exists>xs. v = PList xs" using at a(3) by simp
  show "CHR ''{'' # r = json_text fr v @ s \<Longrightarrow> \<exists>kvs. v = PDict kvs" using at a(4) by simp
  show "CHR 0x22 # r = json_text fr v @ s \<Longrightarrow> \<exists>x. v = PStr x" using at a(2) by simp
qed

lemma json_atom_same_text:
  assumes "float_repr_ok fr" "canonical v" "canonical w" "json_atom v"
    and "json_text fr v @ r = json_text fr w @ r'"
  shows "json_atom w"
proof (cases w)
  case (PList xs)
  with assms(5) json_text_headD(3) [OF assms(1,2), of _ r] assms(4) show ?thesis
    by (auto simp: json_atom_def)
next
  case (PDict kvs)
  with assms(5) json_text_headD(4) [OF assms(1,2), of _ r] assms(4) show ?thesis
    by (auto simp: json_atom_def)
next
  case (PStr x)
  with assms(5) json_text_headD(5) [OF assms(1,2), of _ r] assms(4) show ?thesis
    by (auto simp: json_atom_def json_str_def)
qed (use assms in \<open>simp_all add: json_atom_def\<close>)

lemma json_list_body_inj:
  assumes "float_repr_ok fr" "canonical_list xs" "canonical_list ys"
    and elems: "\<And>ys r r'. canonical_list ys \<Longrightarrow>
      json_elems fr xs @ CHR '']'' # r = json_elems fr ys @ CHR '']'' # r' \<Longrightarrow> xs = ys \<and> r = r'"
    and eq: "tl (json_elems fr xs) @ CHR '']'' # r = tl (json_elems fr ys) @ CHR '']'' # r'"
  shows "xs = ys \<and> r = r'"
proof (cases xs)
  case Nil
  with eq assms(1,3) json_text_headD(1) [of fr] show ?thesis by (cases ys) auto
next
  case (Cons x xs')
  show ?thesis
  proof (cases ys)
    case Nil
    with eq Cons assms(2) show ?thesis
      using json_text_headD(1) [OF assms(1), of x r' "json_elems fr xs' @ CHR '']'' # r"] by simp
  next
    case (Cons y ys')
    with eq \<open>xs = x # xs'\<close>
    have "json_elems fr xs @ CHR '']'' # r = json_elems fr ys @ CHR '']'' # r'" by simp
    with assms(3) show ?thesis by (rule elems)
  qed
qed

lemma json_dict_body_inj:
  assumes "canonical_items kvs'"
    and members: "\<And>kvs' r r'. canonical_items kvs' \<Longrightarrow>
      json_members fr kvs @ CHR ''}'' # r = json_members fr kvs' @ CHR ''}'' # r' \<Longrightarrow> kvs = kvs' \<and> r = r'"
    and eq: "tl (json_members fr kvs) @ CHR ''}'' # r = tl (json_members fr kvs') @ CHR ''}'' # r'"
  shows "kvs = kvs' \<and> r = r'"
proof (cases "kvs = [] \<or> kvs' = []")
  case True
  with eq show ?thesis
    by (cases kvs; cases kvs') (auto simp: json_str_def)
next
  case False
  then have "json_members fr kvs = CHR '','' # tl (json_members fr kvs)"
    "json_members fr kvs' = CHR '','' # tl (json_members fr kvs')"
    by (cases kvs; cases kvs'; auto)+
  with eq have "json_members fr kvs @ CHR ''}'' # r = json_members fr kvs' @ CHR ''}'' # r'"
    by (metis append_Cons)
  with assms(1) show ?thesis by (rule members)
qed

lemma json_text_atom_tail_inj:
  assumes ok: "float_repr_ok fr" and v: "json_atom v" "canonical v" and "canonical w"
    and "json_tail r" "json_tail r'" and eq: "json_text fr v @ r = json_text fr w @ r'"
  shows "v = w \<and> r = r'"
proof -
  have "json_atom w" using json_atom_same_text [OF ok v(2) assms(4) v(1) eq] .
  with json_text_atom(2) [OF ok v(1)] json_text_atom(2) [OF ok \<open>json_atom w\<close>] assms(5,6) eq
  have "json_text fr v = json_text fr w \<and> r = r'"
    by (intro takeWhile_delim_eq [where p = json_delim]) (auto simp: json_tail_def)
  with json_text_atom_inj [OF ok v(1) \<open>json_atom w\<close> v(2) assms(4)] show ?thesis by blast
qed

lemma json_text_inj:
  assumes ok: "float_repr_ok fr"
  shows "canonical v \<Longrightarrow> canonical w \<Longrightarrow> json_tail r \<Longrightarrow> json_tail r' \<Longrightarrow>
      json_text fr v @ r = json_text fr w @ r' \<Longrightarrow> v = w \<and> r = r'"
    and "canonical_list xs \<Longrightarrow> canonical_list ys \<Longrightarrow>
      json_elems fr xs @ CHR '']'' # s = json_elems fr ys @ CHR '']'' # s' \<Longrightarrow> xs = ys \<and> s = s'"
    and "canonical_items kvs \<Longrightarrow> canonical_items kvs' \<Longrightarrow>
      json_members fr kvs @ CHR ''}'' # q = json_members fr kvs' @ CHR ''}'' # q' \<Longrightarrow> kvs = kvs' \<and> q = q'"
proof (induction v and xs and kvs arbitrary: w r r' and ys s s' and kvs' q q'
    rule: canonical_canonical_list_canonical_items.induct)
  case (1 f)
  then show ?case using json_text_atom_tail_inj [OF ok, of "PFloat f" w r r'] by (simp add: json_atom_def)
next
  case (2 u)
  then show ?case by simp
next
  case (3 xs)
  have "CHR ''['' # tl (json_elems fr xs) @ CHR '']'' # r = json_text fr w @ r'"
    using "3.prems"(5) by simp
  from json_text_headD(3) [OF ok "3.prems"(2) this] obtain ys where w: "w = PList ys" ..
  from "3.prems" have cxs: "canonical_list xs" by simp
  have "xs = ys \<and> r = r'"
  proof (rule json_list_body_inj [OF ok cxs])
    show "canonical_list ys" using "3.prems"(2) w by simp
    show "tl (json_elems fr xs) @ CHR '']'' # r = tl (json_elems fr ys) @ CHR '']'' # r'"
      using "3.prems"(5) w by simp
  qed (rule "3.IH" [OF cxs])
  with w show ?case by simp
next
  case (4 kvs)
  have "CHR ''{'' # tl (json_members fr kvs) @ CHR ''}'' # r = json_text fr w @ r'"
    using "4.prems"(5) by simp
  from json_text_headD(4) [OF ok "4.prems"(2) this] obtain kvs' where w: "w = PDict kvs'" ..
  from "4.prems" have cxs: "canonical_items kvs" by simp
  have "kvs = kvs' \<and> r = r'"
  proof (rule json_dict_body_inj)
    show "canonical_items kvs'" using "4.prems"(2) w by simp
    show "tl (json_members fr kvs) @ CHR ''}'' # r = tl (json_members fr kvs') @ CHR ''}'' # r'"
      using "4.prems"(5) w by simp
  qed (rule "4.IH" [OF cxs])
  with w show ?case by simp
next
  case 5
  then show ?case using json_text_atom_tail_inj [OF ok, of PNone w r r'] by (simp add: json_atom_def)
next
  case (6 b)
  then show ?case using json_text_atom_tail_inj [OF ok, of "PBool b" w r r'] by (simp add: json_atom_def)
next
  case (7 i)
  then show ?case using json_text_atom_tail_inj [OF ok, of "PInt i" w r r'] by (simp add: json_atom_def)
next
  case (8 t)
  have "CHR 0x22 # concat (map json_esc_char t) @ CHR 0x22 # r = json_text fr w @ r'"
    using "8.prems"(5) by (simp add: json_str_def)
  from json_text_headD(5) [OF ok "8.prems"(2) this] obtain u where w: "w = PStr u" ..
  with "8.prems"(5) show ?case using json_str_inj [of t r u r'] by simp
next
  case 9
  then show ?case by (cases ys) auto
next
  case (10 x xs)
  from "10.prems"(3) obtain y ys' where ys: "ys = y # ys'" by (cases ys) auto
  from "10.prems"(1) have x: "canonical x" and xs: "canonical_list xs" by simp_all
  from "10.prems"(2) ys have y: "canonical y" and ys': "canonical_list ys'" by simp_all
  have "json_text fr x @ (json_elems fr xs @ CHR '']'' # s) =
      json_text fr y @ (json_elems fr ys' @ CHR '']'' # s')"
    using "10.prems"(3) ys by simp
  from "10.IH"(1) [OF x y json_tail_elems json_tail_elems this]
  have "x = y" and rest: "json_elems fr xs @ CHR '']'' # s = json_elems fr ys' @ CHR '']'' # s'"
    by simp_all
  with "10.IH"(2) [OF xs ys' rest] ys show ?case by simp
next
  case 11
  then show ?case by (cases kvs') auto
next
  case (12 k v kvs)
  from "12.prems"(3) obtain k' v' m where m: "kvs' = (k', v') # m" by (cases kvs') auto
  from "12.prems"(1) have v: "canonical v" and kvs: "canonical_items kvs" by simp_all
  from "12.prems"(2) m have v': "canonical v'" and cm: "canonical_items m" by simp_all
  have "json_str k @ (CHR '':'' # json_text fr v @ json_members fr kvs @ CHR ''}'' # q) =
      json_str k' @ (CHR '':'' # json_text fr v' @ json_members fr m @ CHR ''}'' # q')"
    using "12.prems"(3) m by simp
  from json_str_inj [OF this] have "k = k'"
    and "json_text fr v @ (json_members fr kvs @ CHR ''}'' # q) =
      json_text fr v' @ (json_members fr m @ CHR ''}'' # q')" by simp_all
  from "12.IH"(1) [OF v v' json_tail_members json_tail_members this(2)]
  have "v = v'" and rest: "json_members fr kvs @ CHR ''}'' # q = json_members fr m @ CHR ''}'' # q'"
    by simp_all
  with "12.IH"(2) [OF kvs cm rest] m \<open>k = k'\<close> show ?case by simp
qed

section \<open>The hashed bytes determine the arguments\<close>

lemma utf8_char_prefix_code:
  assumes "utf8_char c @ u = utf8_char d @ v"
  shows "c = d \<and> u = v"
proof -
  have low: "char_code (char_of (192 + n div 64)) = 192 + n div 64"
    "char_code (char_of (128 + n mod 64)) = 128 + n mod 64" if "n < 256" for n :: nat
    using that by (auto simp: of_char_of)
  have "char_code c = char_code d \<and> u = v"
    using assms low [of "char_code c"] low [of "char_code d"]
    by (auto simp: utf8_char_def Let_def split: if_splits) (metis div_mult_mod_eq of_char_eq_iff)
  then show ?thesis by simp
qed

lemma utf8_encode_inj: "utf8_encode s = utf8_encode t \<Longrightarrow> s = t"
proof (induction s arbitrary: t)
  case Nil
  then show ?case by (cases t) (auto simp: utf8_encode_def utf8_char_def Let_def split: if_splits)
next
  case (Cons c s)
  then obtain d t' where t: "t = d # t'"
    by (cases t) (auto simp: utf8_encode_def utf8_char_def Let_def split: if_splits)
  with Cons.prems have "utf8_char c @ utf8_encode s = utf8_char d @ utf8_encode t'"
    by (simp add: utf8_encode_def)
  with Cons.IH t show ?case by (auto dest: utf8_char_prefix_code)
qed

lemma json_dumps_canonical:
  assumes "float_repr_ok fr"
  shows "json_dumps fr v = (if json_like v then Some (json_text fr (canon v)) else None)"
  by (rule json_dumps_canon(1)) (use assms in \<open>simp add: float_repr_ok_def\<close>)

lemma json_dumps_eq_iff:
  assumes ok: "float_repr_ok fr" and "json_like v" "json_like w"
  shows "json_dumps fr v = json_dumps fr w \<longleftrightarrow> canon v = canon w"
proof -
  have "json_text fr (canon v) = json_text fr (canon w) \<longleftrightarrow> canon v = canon w"
    using json_text_inj(1) [OF ok canonical_canon(1) canonical_canon(1), of v w "[]" "[]"] assms
    by auto
  with assms show ?thesis
    by (simp add: json_dumps_canonical [OF ok])
qed

text \<open>
  Equal hashes mean equal canonical arguments, or the texts of these arguments collide. No
  injectivity of the hash is assumed.
\<close>

definition texts_collide ::
  "(string \<Rightarrow> string) \<Rightarrow> (64 word \<Rightarrow> string) \<Rightarrow> json_object \<Rightarrow> json_object \<Rightarrow> bool" where
  "texts_collide sha fr a b = (case (json_dumps fr (PDict a), json_dumps fr (PDict b)) of
     (Some s, Some t) \<Rightarrow> s \<noteq> t \<and> sha (utf8_encode s) = sha (utf8_encode t)
   | _ \<Rightarrow> False)"

lemma canonical_arguments_hash_cases:
  obtains (fails) "canonical_arguments_hash enc sha fr a = Inl ArgumentHashError" "json_dumps fr (PDict a) = None"
  | (raises) t where "canonical_arguments_hash enc sha fr a = Inl UnicodeEncodeError"
      "json_dumps fr (PDict a) = Some t" "\<not> enc t"
  | (hash) t where "canonical_arguments_hash enc sha fr a = Inr (sha (utf8_encode t))"
      "json_dumps fr (PDict a) = Some t" "enc t"
  by (cases "json_dumps fr (PDict a)"; cases "enc (the (json_dumps fr (PDict a)))")
    (simp_all add: canonical_arguments_hash_def encode_utf8_def del: json_dumps.simps)

lemma canonical_arguments_hash_eq_iff:
  assumes ok: "float_repr_ok fr" and like: "json_like (PDict a)" "json_like (PDict b)"
    and enc: "encodable_arguments enc fr a" "encodable_arguments enc fr b"
  shows "canonical_arguments_hash enc sha fr a = canonical_arguments_hash enc sha fr b
    \<longleftrightarrow> canon (PDict a) = canon (PDict b) \<or> texts_collide sha fr a b"
proof -
  obtain s t where s: "json_dumps fr (PDict a) = Some s" "json_dumps fr (PDict b) = Some t"
    using like by (simp add: json_dumps_canonical [OF ok] del: json_dumps.simps json_like.simps canon.simps)
  with enc have "canonical_arguments_hash enc sha fr a = Inr (sha (utf8_encode s))"
    "canonical_arguments_hash enc sha fr b = Inr (sha (utf8_encode t))"
    by (simp_all add: canonical_arguments_hash_def encodable_arguments_def encode_utf8_def del: json_dumps.simps)
  moreover have "s = t \<longleftrightarrow> canon (PDict a) = canon (PDict b)"
    using json_dumps_eq_iff [OF ok like] s by simp
  ultimately show ?thesis
    using s by (auto simp: texts_collide_def simp del: json_dumps.simps canon.simps)
qed

lemma canonical_arguments_hash_Inr:
  assumes "float_repr_ok fr" "encodable_arguments enc fr a"
  shows "(\<exists>h. canonical_arguments_hash enc sha fr a = Inr h) \<longleftrightarrow> json_like (PDict a)"
  using assms(2)
  by (auto simp: canonical_arguments_hash_def encodable_arguments_def encode_utf8_def
      json_dumps_canonical [OF assms(1)] simp del: json_dumps.simps json_like.simps)

text \<open>Reordering the keys of an object does not change its canonical form.\<close>

lemma canon_items_map: "canon_items kvs = map (map_prod id canon) kvs"
  by (induction kvs) auto

lemma sort_key_perm_eq:
  assumes "mset xs = mset ys" and "distinct (map f xs)"
  shows "sort_key f xs = sort_key f ys"
proof -
  have "inj_on f (set xs)" using assms(2) by (simp add: distinct_map)
  moreover have "set ys = set xs" using assms(1) by (metis set_mset_mset)
  ultimately show ?thesis
    using assms(1) by (intro sort_key_inj_key_eq) auto
qed

lemma canon_perm:
  assumes "mset kvs = mset kvs'" and "distinct (map fst kvs)"
  shows "canon (PDict kvs) = canon (PDict kvs')"
proof -
  have "map fst (canon_items kvs) = map fst kvs" by (simp add: canon_items_map o_def)
  moreover have "mset (canon_items kvs) = mset (canon_items kvs')"
    using assms(1) by (simp add: canon_items_map)
  ultimately show ?thesis
    using assms(2) by (simp add: sort_key_perm_eq)
qed

end
