(* ===== verification/Py_Fnmatch.thy ===== *)
theory Py_Fnmatch
  imports Py_Value
begin

text \<open>
  The standard library's \<open>fnmatch.fnmatchcase(name, pattern)\<close>, which the policy engine uses
  for resource patterns: a pattern is translated to a list of tokens (the pieces of the
  regular expression the library builds) and matched against the whole name. \<open>glob_lang\<close>
  gives the tokens their meaning as sets of names; \<open>glob_match\<close> decides it.
\<close>

section \<open>Tokens\<close>

text \<open>\<open>GSet neg rs\<close> is \<open>[...]\<close> with the ranges \<open>rs\<close>, negated if \<open>neg\<close>; \<open>GNever\<close> an empty set.\<close>

datatype glob_tok = GStar | GAny | GLit char | GSet bool "(char \<times> char) list" | GNever

definition in_ranges :: "(char \<times> char) list \<Rightarrow> char \<Rightarrow> bool" where
  "in_ranges rs c = (\<exists>(lo, hi) \<in> set rs. lo \<le> c \<and> c \<le> hi)"

fun tok_accepts :: "glob_tok \<Rightarrow> char \<Rightarrow> bool" where
  "tok_accepts GStar c = False"
| "tok_accepts GAny c = True"
| "tok_accepts (GLit d) c = (c = d)"
| "tok_accepts (GSet neg rs) c = (in_ranges rs c \<noteq> neg)"
| "tok_accepts GNever c = False"

fun glob_match :: "glob_tok list \<Rightarrow> string \<Rightarrow> bool" where
  "glob_match [] s = (s = [])"
| "glob_match (GStar # ts) [] = glob_match ts []"
| "glob_match (GStar # ts) (c # s) = (glob_match ts (c # s) \<or> glob_match (GStar # ts) s)"
| "glob_match (t # ts) [] = False"
| "glob_match (t # ts) (c # s) = (tok_accepts t c \<and> glob_match ts s)"

text \<open>The names a list of tokens stands for.\<close>

fun glob_lang :: "glob_tok list \<Rightarrow> string set" where
  "glob_lang [] = {[]}"
| "glob_lang (t # ts) =
    (if t = GStar then {u @ v | u v. v \<in> glob_lang ts}
     else {c # v | c v. tok_accepts t c \<and> v \<in> glob_lang ts})"

lemma glob_match_lang: "glob_match ts s \<longleftrightarrow> s \<in> glob_lang ts"
proof (induction ts s rule: glob_match.induct)
  case (3 ts c s)
  have "(c # s \<in> {u @ v | u v. v \<in> glob_lang ts}) \<longleftrightarrow>
      c # s \<in> glob_lang ts \<or> s \<in> {u @ v | u v. v \<in> glob_lang ts}"
    by (auto simp: Cons_eq_append_conv)
  with 3 show ?case by simp
qed auto

section \<open>Translating a pattern\<close>

text \<open>\<open>split_bracket s\<close>: the text between \<open>[\<close> and its closing bracket, and the rest.\<close>

fun break_close :: "string \<Rightarrow> (string \<times> string) option" where
  "break_close [] = None"
| "break_close (c # s) =
    (if c = CHR '']'' then Some ([], s)
     else map_option (\<lambda>(a, b). (c # a, b)) (break_close s))"

definition split_bracket :: "string \<Rightarrow> (string \<times> string) option" where
  "split_bracket s =
    (let (bang, s1) = (case s of c # t \<Rightarrow> if c = CHR ''!'' then ([c], t) else ([], s) | [] \<Rightarrow> ([], []));
         (brk, s2) = (case s1 of c # t \<Rightarrow> if c = CHR '']'' then ([c], t) else ([], s1) | [] \<Rightarrow> ([], []))
     in map_option (\<lambda>(a, b). (bang @ brk @ a, b)) (break_close s2))"

text \<open>\<open>find_hyphen k s\<close>: \<open>s.find('-', k)\<close>.\<close>

fun find_hyphen :: "nat \<Rightarrow> string \<Rightarrow> nat option" where
  "find_hyphen k [] = None"
| "find_hyphen 0 (c # s) = (if c = CHR ''-'' then Some 0 else map_option Suc (find_hyphen 0 s))"
| "find_hyphen (Suc k) (c # s) = map_option Suc (find_hyphen k s)"

lemma find_hyphen_bounds: "find_hyphen k s = Some p \<Longrightarrow> k \<le> p \<and> p < length s"
  by (induction k s arbitrary: p rule: find_hyphen.induct) (auto split: if_splits)

text \<open>
  The chunks between the hyphens that make ranges: a hyphen right after the start of a range,
  or right after the bracket, stands for itself.
\<close>

function hyphen_chunks :: "nat \<Rightarrow> string \<Rightarrow> string list" where
  "hyphen_chunks k s =
    (case find_hyphen k s of
       None \<Rightarrow> [s]
     | Some p \<Rightarrow> take p s # hyphen_chunks 2 (drop (p + 1) s))"
  by pat_completeness auto
termination
  by (relation "measure (\<lambda>(k, s). length s)") (auto dest: find_hyphen_bounds)

declare hyphen_chunks.simps [simp del]

definition close_chunks :: "string list \<Rightarrow> string list" where
  "close_chunks cs =
    (if last cs = [] \<and> 1 < length cs
     then butlast (butlast cs) @ [last (butlast cs) @ ''-''] else cs)"

text \<open>Ranges whose ends are out of order are dropped, from the right.\<close>

fun drop_empty_ranges :: "string list \<Rightarrow> string list" where
  "drop_empty_ranges [] = []"
| "drop_empty_ranges (c # cs) =
    (case drop_empty_ranges cs of
       [] \<Rightarrow> [c]
     | d # ds \<Rightarrow> if hd d < last c then (butlast c @ tl d) # ds else c # d # ds)"

text \<open>Every character of a chunk stands for itself; between chunks there is a range.\<close>

definition single :: "char \<Rightarrow> char \<times> char" where
  "single c = (c, c)"

fun chunk_ranges :: "string list \<Rightarrow> (char \<times> char) list" where
  "chunk_ranges [] = []"
| "chunk_ranges [c] = map single c"
| "chunk_ranges (c # d # ds) = map single c @ (last c, hd d) # chunk_ranges (d # ds)"

definition bracket_token :: "string \<Rightarrow> glob_tok" where
  "bracket_token stuff =
    (let chunks =
       (if CHR ''-'' \<notin> set stuff then [stuff]
        else drop_empty_ranges (close_chunks
          (hyphen_chunks (if hd stuff = CHR ''!'' then 2 else 1) stuff)))
     in case chunks of
          [] \<Rightarrow> GNever
        | c # cs \<Rightarrow>
            if c = [] then GNever
            else if hd c = CHR ''!''
              then (if c = ''!'' \<and> cs = [] then GAny else GSet True (chunk_ranges (tl c # cs)))
              else GSet False (chunk_ranges (c # cs)))"

lemma break_close_length: "break_close s = Some (a, b) \<Longrightarrow> length b < length s"
  by (induction s arbitrary: a) (auto split: if_splits)

lemma split_bracket_length: "split_bracket s = Some (a, b) \<Longrightarrow> length b < length s"
  by (auto simp: split_bracket_def Let_def dest!: break_close_length split: prod.splits list.splits if_splits)

function glob_translate :: "string \<Rightarrow> glob_tok list" where
  "glob_translate [] = []"
| "glob_translate (c # s) =
    (if c = CHR ''*'' then GStar # glob_translate s
     else if c = CHR ''?'' then GAny # glob_translate s
     else if c = CHR ''['' then
       (case split_bracket s of
          None \<Rightarrow> GLit (CHR ''['') # glob_translate s
        | Some (stuff, rest) \<Rightarrow> bracket_token stuff # glob_translate rest)
     else GLit c # glob_translate s)"
  by pat_completeness auto
termination
  by (relation "measure length") (auto dest: split_bracket_length)

definition fnmatchcase :: "string \<Rightarrow> string \<Rightarrow> bool" where
  "fnmatchcase name pat = glob_match (glob_translate pat) name"

section \<open>Patterns without special characters\<close>

lemma fnmatch_literal:
  "\<forall>c \<in> set p. c \<notin> {CHR ''*'', CHR ''?'', CHR ''[''} \<Longrightarrow> fnmatchcase s p \<longleftrightarrow> s = p"
proof (induction p arbitrary: s)
  case Nil
  then show ?case by (simp add: fnmatchcase_def)
next
  case (Cons c p)
  from Cons.prems have "glob_translate (c # p) = GLit c # glob_translate p" by simp
  with Cons show ?case by (cases s) (auto simp: fnmatchcase_def)
qed

lemma glob_translate_literal:
  "\<forall>c \<in> set p. c \<notin> {CHR ''*'', CHR ''?'', CHR ''[''} \<Longrightarrow>
    glob_translate (p @ s) = map GLit p @ glob_translate s"
  by (induction p) auto

lemma glob_match_literal:
  "glob_match (map GLit p @ ts) s \<longleftrightarrow> (\<exists>v. s = p @ v \<and> glob_match ts v)"
proof (induction p arbitrary: s)
  case (Cons c p)
  then show ?case by (cases s) auto
qed simp

text \<open>A literal prefix and a star: every name with that prefix.\<close>

lemma fnmatch_prefix_star:
  assumes "\<forall>c \<in> set p. c \<notin> {CHR ''*'', CHR ''?'', CHR ''[''}"
  shows "fnmatchcase s (p @ ''*'') \<longleftrightarrow> prefix p s"
proof -
  have "glob_match [GStar] v" for v by (induction v) auto
  moreover have "glob_translate (p @ ''*'') = map GLit p @ [GStar]"
    using glob_translate_literal [OF assms, of "''*''"] by simp
  ultimately show ?thesis
    by (simp add: fnmatchcase_def glob_match_literal prefix_def)
qed

end
