(* ===== verification/Db_Models.thy ===== *)
theory Db_Models
  imports Errors
begin

text \<open>
  The tables of \<open>infrastructure/db/models.py\<close>: one record per mapped class, in the order of
  its columns, and the constraints a flush enforces on a new row: column widths
  (\<open>DataError\<close>), primary keys, unique constraints and foreign keys (\<open>IntegrityError\<close>). Status,
  role, risk, action and effect columns are strings, as declared. A nullable column is an
  option; a nullable JSONB column is a value, \<open>PNone\<close> for null. Times are microseconds.
\<close>

type_synonym datetime = int

record tenant_row =
  tn_id :: uuid
  tn_name :: string
  tn_status :: string
  tn_created_at :: datetime
  tn_updated_at :: datetime

record agent_row =
  ag_id :: uuid
  ag_tenant_id :: uuid
  ag_name :: string
  ag_role :: string
  ag_status :: string
  ag_api_key_hash :: string
  ag_created_at :: datetime
  ag_updated_at :: datetime

record tool_server_row =
  ts_id :: uuid
  ts_tenant_id :: uuid
  ts_server_id :: string
  ts_name :: string
  ts_transport_type :: string
  ts_endpoint_url :: "string option"
  ts_command :: "string option"
  ts_args :: pyval
  ts_env :: pyval
  ts_status :: string
  ts_created_at :: datetime
  ts_updated_at :: datetime

record tool_definition_row =
  td_id :: uuid
  td_tenant_id :: uuid
  td_server_id :: uuid
  td_tool_name :: string
  td_description :: "string option"
  td_input_schema :: json_object
  td_risk_level :: string
  td_action_type :: string
  td_resource_patterns :: pyval
  td_status :: string
  td_schema_hash :: string
  td_created_at :: datetime
  td_updated_at :: datetime

record policy_row =
  po_id :: uuid
  po_tenant_id :: uuid
  po_name :: string
  po_priority :: int
  po_effect :: string
  po_conditions :: pyval
  po_reason :: string
  po_status :: string
  po_created_at :: datetime
  po_updated_at :: datetime

record tool_call_row =
  tc_id :: uuid
  tc_trace_id :: "string option"
  tc_tenant_id :: uuid
  tc_agent_id :: uuid
  tc_target_server :: string
  tc_target_tool :: string
  tc_arguments_redacted :: json_object
  tc_arguments_hash :: string
  tc_arguments_payload :: "json_object option"
  tc_tool_schema_hash :: "string option"
  tc_policy_decision :: "string option"
  tc_decision_reason :: "string option"
  tc_approval_id :: "uuid option"
  tc_status :: string
  tc_error_code :: "string option"
  tc_error_message :: "string option"
  tc_idempotency_key :: "string option"
  tc_created_at :: datetime
  tc_updated_at :: datetime

record approval_row =
  ap_id :: uuid
  ap_tenant_id :: uuid
  ap_agent_id :: uuid
  ap_tool_call_id :: uuid
  ap_target_server :: string
  ap_target_tool :: string
  ap_arguments_redacted :: json_object
  ap_arguments_hash :: string
  ap_status :: string
  ap_requested_reason :: "string option"
  ap_reviewer_id :: "string option"
  ap_review_reason :: "string option"
  ap_expires_at :: datetime
  ap_approved_at :: "datetime option"
  ap_denied_at :: "datetime option"
  ap_executed_at :: "datetime option"
  ap_created_at :: datetime
  ap_updated_at :: datetime
  ap_version :: int

record audit_row =
  ae_event_id :: uuid
  ae_trace_id :: "string option"
  ae_tenant_id :: uuid
  ae_agent_id :: "uuid option"
  ae_event_type :: string
  ae_target_server :: "string option"
  ae_target_tool :: "string option"
  ae_arguments_redacted :: "json_object option"
  ae_arguments_hash :: "string option"
  ae_policy_decision :: "string option"
  ae_decision_reason :: "string option"
  ae_approval_id :: "uuid option"
  ae_status :: string
  ae_error_code :: "string option"
  ae_error_message :: "string option"
  ae_metadata_json :: pyval
  ae_created_at :: datetime

record db =
  db_tenants :: "tenant_row list"
  db_agents :: "agent_row list"
  db_tool_servers :: "tool_server_row list"
  db_tool_definitions :: "tool_definition_row list"
  db_policies :: "policy_row list"
  db_tool_calls :: "tool_call_row list"
  db_approvals :: "approval_row list"
  db_audit_events :: "audit_row list"

definition empty_db :: db where
  "empty_db = \<lparr>db_tenants = [], db_agents = [], db_tool_servers = [], db_tool_definitions = [],
     db_policies = [], db_tool_calls = [], db_approvals = [], db_audit_events = []\<rparr>"

section \<open>Column widths\<close>

definition fits :: "nat \<Rightarrow> string \<Rightarrow> bool" where
  "fits n s \<longleftrightarrow> length s \<le> n"

definition fits_opt :: "nat \<Rightarrow> string option \<Rightarrow> bool" where
  "fits_opt n s = (case s of None \<Rightarrow> True | Some t \<Rightarrow> fits n t)"

definition tenant_widths :: "tenant_row \<Rightarrow> bool" where
  "tenant_widths r \<longleftrightarrow> fits 255 (tn_name r) \<and> fits 32 (tn_status r)"

definition agent_widths :: "agent_row \<Rightarrow> bool" where
  "agent_widths r \<longleftrightarrow> fits 255 (ag_name r) \<and> fits 255 (ag_role r) \<and> fits 32 (ag_status r)
     \<and> fits 255 (ag_api_key_hash r)"

definition tool_server_widths :: "tool_server_row \<Rightarrow> bool" where
  "tool_server_widths r \<longleftrightarrow> fits 255 (ts_server_id r) \<and> fits 255 (ts_name r)
     \<and> fits 32 (ts_transport_type r) \<and> fits 32 (ts_status r)"

definition tool_definition_widths :: "tool_definition_row \<Rightarrow> bool" where
  "tool_definition_widths r \<longleftrightarrow> fits 255 (td_tool_name r) \<and> fits 32 (td_risk_level r)
     \<and> fits 32 (td_action_type r) \<and> fits 32 (td_status r) \<and> fits 128 (td_schema_hash r)"

definition policy_widths :: "policy_row \<Rightarrow> bool" where
  "policy_widths r \<longleftrightarrow> fits 255 (po_name r) \<and> fits 32 (po_effect r) \<and> fits 32 (po_status r)
     \<and> - (2 ^ 31) \<le> po_priority r \<and> po_priority r < 2 ^ 31"

definition tool_call_widths :: "tool_call_row \<Rightarrow> bool" where
  "tool_call_widths r \<longleftrightarrow> fits_opt 255 (tc_trace_id r) \<and> fits 255 (tc_target_server r)
     \<and> fits 255 (tc_target_tool r) \<and> fits 128 (tc_arguments_hash r)
     \<and> fits_opt 128 (tc_tool_schema_hash r) \<and> fits_opt 64 (tc_policy_decision r)
     \<and> fits 32 (tc_status r) \<and> fits_opt 128 (tc_error_code r) \<and> fits_opt 255 (tc_idempotency_key r)"

definition approval_widths :: "approval_row \<Rightarrow> bool" where
  "approval_widths r \<longleftrightarrow> fits 255 (ap_target_server r) \<and> fits 255 (ap_target_tool r)
     \<and> fits 128 (ap_arguments_hash r) \<and> fits 32 (ap_status r) \<and> fits_opt 255 (ap_reviewer_id r)
     \<and> - (2 ^ 31) \<le> ap_version r \<and> ap_version r < 2 ^ 31"

definition audit_widths :: "audit_row \<Rightarrow> bool" where
  "audit_widths r \<longleftrightarrow> fits_opt 255 (ae_trace_id r) \<and> fits 255 (ae_event_type r)
     \<and> fits_opt 255 (ae_target_server r) \<and> fits_opt 255 (ae_target_tool r)
     \<and> fits_opt 128 (ae_arguments_hash r) \<and> fits_opt 64 (ae_policy_decision r)
     \<and> fits 64 (ae_status r) \<and> fits_opt 128 (ae_error_code r)"

section \<open>Inserting a row\<close>

text \<open>
  \<open>checked widths integrity d\<close>: the outcome of an INSERT that leaves the database \<open>d\<close>.
\<close>

definition checked :: "bool \<Rightarrow> bool \<Rightarrow> db \<Rightarrow> exn + db" where
  "checked widths integrity d =
    (if \<not> widths then Inl DataError else if \<not> integrity then Inl IntegrityError else Inr d)"

definition tenant_exists :: "db \<Rightarrow> uuid \<Rightarrow> bool" where
  "tenant_exists d i \<longleftrightarrow> i \<in> tn_id ` set (db_tenants d)"

definition agent_exists :: "db \<Rightarrow> uuid \<Rightarrow> bool" where
  "agent_exists d i \<longleftrightarrow> i \<in> ag_id ` set (db_agents d)"

definition insert_tenant :: "tenant_row \<Rightarrow> db \<Rightarrow> exn + db" where
  "insert_tenant r d = checked (tenant_widths r)
    (tn_id r \<notin> tn_id ` set (db_tenants d) \<and> tn_name r \<notin> tn_name ` set (db_tenants d))
    (d\<lparr>db_tenants := db_tenants d @ [r]\<rparr>)"

definition insert_agent :: "agent_row \<Rightarrow> db \<Rightarrow> exn + db" where
  "insert_agent r d = checked (agent_widths r)
    (ag_id r \<notin> ag_id ` set (db_agents d)
     \<and> (ag_tenant_id r, ag_name r) \<notin> (\<lambda>x. (ag_tenant_id x, ag_name x)) ` set (db_agents d)
     \<and> ag_api_key_hash r \<notin> ag_api_key_hash ` set (db_agents d)
     \<and> tenant_exists d (ag_tenant_id r))
    (d\<lparr>db_agents := db_agents d @ [r]\<rparr>)"

definition insert_tool_server :: "tool_server_row \<Rightarrow> db \<Rightarrow> exn + db" where
  "insert_tool_server r d = checked (tool_server_widths r)
    (ts_id r \<notin> ts_id ` set (db_tool_servers d)
     \<and> (ts_tenant_id r, ts_server_id r)
         \<notin> (\<lambda>x. (ts_tenant_id x, ts_server_id x)) ` set (db_tool_servers d)
     \<and> tenant_exists d (ts_tenant_id r))
    (d\<lparr>db_tool_servers := db_tool_servers d @ [r]\<rparr>)"

definition insert_tool_definition :: "tool_definition_row \<Rightarrow> db \<Rightarrow> exn + db" where
  "insert_tool_definition r d = checked (tool_definition_widths r)
    (td_id r \<notin> td_id ` set (db_tool_definitions d)
     \<and> (td_tenant_id r, td_server_id r, td_tool_name r)
         \<notin> (\<lambda>x. (td_tenant_id x, td_server_id x, td_tool_name x)) ` set (db_tool_definitions d)
     \<and> tenant_exists d (td_tenant_id r) \<and> td_server_id r \<in> ts_id ` set (db_tool_servers d))
    (d\<lparr>db_tool_definitions := db_tool_definitions d @ [r]\<rparr>)"

definition insert_policy :: "policy_row \<Rightarrow> db \<Rightarrow> exn + db" where
  "insert_policy r d = checked (policy_widths r)
    (po_id r \<notin> po_id ` set (db_policies d)
     \<and> (po_tenant_id r, po_name r) \<notin> (\<lambda>x. (po_tenant_id x, po_name x)) ` set (db_policies d)
     \<and> tenant_exists d (po_tenant_id r))
    (d\<lparr>db_policies := db_policies d @ [r]\<rparr>)"

text \<open>The idempotency key is unique per tenant and agent where it is not null.\<close>

definition insert_tool_call :: "tool_call_row \<Rightarrow> db \<Rightarrow> exn + db" where
  "insert_tool_call r d = checked (tool_call_widths r)
    (tc_id r \<notin> tc_id ` set (db_tool_calls d)
     \<and> (tc_idempotency_key r = None \<or>
        (tc_tenant_id r, tc_agent_id r, tc_idempotency_key r)
          \<notin> (\<lambda>x. (tc_tenant_id x, tc_agent_id x, tc_idempotency_key x)) ` set (db_tool_calls d))
     \<and> tenant_exists d (tc_tenant_id r) \<and> agent_exists d (tc_agent_id r))
    (d\<lparr>db_tool_calls := db_tool_calls d @ [r]\<rparr>)"

definition insert_approval :: "approval_row \<Rightarrow> db \<Rightarrow> exn + db" where
  "insert_approval r d = checked (approval_widths r)
    (ap_id r \<notin> ap_id ` set (db_approvals d)
     \<and> ap_tool_call_id r \<notin> ap_tool_call_id ` set (db_approvals d)
     \<and> tenant_exists d (ap_tenant_id r) \<and> agent_exists d (ap_agent_id r)
     \<and> ap_tool_call_id r \<in> tc_id ` set (db_tool_calls d))
    (d\<lparr>db_approvals := db_approvals d @ [r]\<rparr>)"

definition insert_audit_event :: "audit_row \<Rightarrow> db \<Rightarrow> exn + db" where
  "insert_audit_event r d = checked (audit_widths r)
    (ae_event_id r \<notin> ae_event_id ` set (db_audit_events d))
    (d\<lparr>db_audit_events := db_audit_events d @ [r]\<rparr>)"

lemmas insert_defs = insert_tenant_def insert_agent_def insert_tool_server_def
  insert_tool_definition_def insert_policy_def insert_tool_call_def insert_approval_def
  insert_audit_event_def

lemma checked_Inr_iff: "checked w i d = Inr d' \<longleftrightarrow> w \<and> i \<and> d' = d"
  by (auto simp: checked_def)

lemma checked_Inl_iff:
  "checked w i d = Inl e \<longleftrightarrow> (\<not> w \<and> e = DataError) \<or> (w \<and> \<not> i \<and> e = IntegrityError)"
  by (auto simp: checked_def)

end
