(* ===== verification/Policy_Engine.thy ===== *)
theory Policy_Engine
  imports Canonical_Json Py_Fnmatch Db_Models
begin

text \<open>
  The policy engine: the context and result of \<open>domain/policy.py\<close>, the parsing and matching
  of stored policy conditions and \<open>PolicyService.evaluate\<close> of
  \<open>application/services/policy_engine.py\<close>. The lemmas characterise the configured-policy
  loop as a first-match search and the whole evaluation by a decision table.
\<close>

section \<open>Data of the domain\<close>

record policy_context =
  pc_tenant_id :: uuid
  pc_agent_id :: uuid
  pc_role :: agent_role
  pc_target_server :: string
  pc_target_tool :: string
  pc_risk_level :: risk_level
  pc_action_type :: action_type
  pc_arguments :: json_object
  pc_resource :: "string option"
  pc_current_time :: datetime

record policy_evaluation_result =
  pr_decision :: policy_effect
  pr_reason :: string
  pr_matched_policy_id :: "uuid option"
  pr_arguments_redacted :: json_object
  pr_arguments_hash :: string
  pr_secret_findings :: "secret_finding list"

record parsed_policy_conditions =
  cd_roles :: "agent_role list option"
  cd_agent_ids :: "uuid list option"
  cd_tool_names :: "string list option"
  cd_target_servers :: "string list option"
  cd_risk_levels :: "risk_level list option"
  cd_action_types :: "action_type list option"
  cd_resource_patterns :: "string list option"
  cd_argument_equals :: "json_object option"
  cd_argument_contains_keys :: "string list option"

definition ALLOWED_CONDITION_FIELDS :: "string list" where
  "ALLOWED_CONDITION_FIELDS =
    [''roles'', ''agent_ids'', ''tool_names'', ''target_servers'', ''risk_levels'',
     ''action_types'', ''resource_patterns'', ''argument_equals'', ''argument_contains_keys'']"

section \<open>Parsing stored conditions\<close>

text \<open>The field is absent or null (\<open>conditions.get(field)\<close> is \<open>None\<close>): no constraint.\<close>

definition get_or_none :: "json_object \<Rightarrow> string \<Rightarrow> pyval" where
  "get_or_none conditions field = (case dict_get conditions field of None \<Rightarrow> PNone | Some v \<Rightarrow> v)"

definition str_item :: "pyval \<Rightarrow> exn + string" where
  "str_item v = (case v of PStr s \<Rightarrow> Inr s
     | _ \<Rightarrow> Inl (PolicyParseError ''policy condition list must contain strings''))"

definition parse_string_list :: "json_object \<Rightarrow> string \<Rightarrow> exn + string list option" where
  "parse_string_list conditions field =
    (case get_or_none conditions field of
       PNone \<Rightarrow> Inr None
     | PList xs \<Rightarrow> sum_bind (map_sum_list str_item xs) (\<lambda>ss. Inr (Some ss))
     | _ \<Rightarrow> Inl (PolicyParseError ''policy condition list must contain strings''))"

definition parse_members ::
  "string \<Rightarrow> (string \<Rightarrow> 'a option) \<Rightarrow> string list option \<Rightarrow> exn + 'a list option" where
  "parse_members msg call values = (case values of
     None \<Rightarrow> Inr None
   | Some ss \<Rightarrow> sum_bind
       (map_sum_list (\<lambda>s. case call s of None \<Rightarrow> Inl (PolicyParseError msg) | Some m \<Rightarrow> Inr m) ss)
       (\<lambda>ms. Inr (Some ms)))"

definition parse_uuid_list :: "json_object \<Rightarrow> string \<Rightarrow> exn + uuid list option" where
  "parse_uuid_list conditions field = sum_bind (parse_string_list conditions field)
     (parse_members ''policy condition contains invalid UUID'' uuid_parse)"

definition parse_enum_list ::
  "(string \<Rightarrow> 'a option) \<Rightarrow> json_object \<Rightarrow> string \<Rightarrow> exn + 'a list option" where
  "parse_enum_list enum_type conditions field = sum_bind (parse_string_list conditions field)
     (parse_members ''policy condition contains invalid enum'' enum_type)"

definition parse_argument_equals :: "json_object \<Rightarrow> exn + json_object option" where
  "parse_argument_equals conditions =
    (case get_or_none conditions ''argument_equals'' of
       PNone \<Rightarrow> Inr None
     | PDict kvs \<Rightarrow> Inr (Some kvs)
     | _ \<Rightarrow> Inl (PolicyParseError ''argument_equals must be an object''))"

definition unknown_fields :: "json_object \<Rightarrow> string list" where
  "unknown_fields conditions =
    filter (\<lambda>k. k \<notin> set ALLOWED_CONDITION_FIELDS) (map fst conditions)"

definition parse_policy_conditions :: "pyval \<Rightarrow> exn + parsed_policy_conditions" where
  "parse_policy_conditions conditions = (case conditions of
     PDict c \<Rightarrow>
       (if unknown_fields c \<noteq> []
        then Inl (PolicyParseError ''policy contains unknown condition field'')
        else
          sum_bind (parse_enum_list agent_role_of c ''roles'') (\<lambda>roles.
          sum_bind (parse_uuid_list c ''agent_ids'') (\<lambda>agent_ids.
          sum_bind (parse_string_list c ''tool_names'') (\<lambda>tool_names.
          sum_bind (parse_string_list c ''target_servers'') (\<lambda>target_servers.
          sum_bind (parse_enum_list risk_level_of c ''risk_levels'') (\<lambda>risk_levels.
          sum_bind (parse_enum_list action_type_of c ''action_types'') (\<lambda>action_types.
          sum_bind (parse_string_list c ''resource_patterns'') (\<lambda>resource_patterns.
          sum_bind (parse_argument_equals c) (\<lambda>argument_equals.
          sum_bind (parse_string_list c ''argument_contains_keys'') (\<lambda>argument_contains_keys.
            Inr \<lparr>cd_roles = roles, cd_agent_ids = agent_ids, cd_tool_names = tool_names,
              cd_target_servers = target_servers, cd_risk_levels = risk_levels,
              cd_action_types = action_types, cd_resource_patterns = resource_patterns,
              cd_argument_equals = argument_equals,
              cd_argument_contains_keys = argument_contains_keys\<rparr>))))))))))
   | _ \<Rightarrow> Inl (PolicyParseError ''policy conditions must be an object''))"

section \<open>Matching\<close>

definition outside :: "'a \<Rightarrow> 'a list option \<Rightarrow> bool" where
  "outside x allowed = (case allowed of None \<Rightarrow> False | Some xs \<Rightarrow> x \<notin> set xs)"

definition policy_matches :: "policy_context \<Rightarrow> parsed_policy_conditions \<Rightarrow> bool" where
  "policy_matches context conditions =
    (if outside (pc_role context) (cd_roles conditions) then False
     else if outside (pc_agent_id context) (cd_agent_ids conditions) then False
     else if outside (pc_target_tool context) (cd_tool_names conditions) then False
     else if outside (pc_target_server context) (cd_target_servers conditions) then False
     else if outside (pc_risk_level context) (cd_risk_levels conditions) then False
     else if outside (pc_action_type context) (cd_action_types conditions) then False
     else if (case cd_resource_patterns conditions of
         None \<Rightarrow> False
       | Some patterns \<Rightarrow>
           (case pc_resource context of
              None \<Rightarrow> True
            | Some resource \<Rightarrow> \<not> list_ex (fnmatchcase resource) patterns)) then False
     else if (case cd_argument_equals conditions of
         None \<Rightarrow> False
       | Some kvs \<Rightarrow>
           list_ex (\<lambda>(key, expected). \<not> py_eq (get_or_none (pc_arguments context) key) expected) kvs)
       then False
     else if (case cd_argument_contains_keys conditions of
         None \<Rightarrow> False
       | Some keys \<Rightarrow> list_ex (\<lambda>key. dict_get (pc_arguments context) key = None) keys) then False
     else True)"

section \<open>The service\<close>

text \<open>
  The collaborators of \<open>PolicyService\<close>: the policy repository's ordered read and the secret
  scanner, and the library functions the hash needs (which texts can be encoded, SHA-256 of a byte
  string as hexadecimal text, \<open>repr\<close> of a float).
\<close>

record policy_service =
  ps_list_active_by_tenant_ordered :: "uuid \<Rightarrow> exn + policy_row list"
  ps_scan :: "pyval \<Rightarrow> exn + secret_finding list"
  ps_encodable :: "string \<Rightarrow> bool"
  ps_sha256 :: "string \<Rightarrow> string"
  ps_float_repr :: "64 word \<Rightarrow> string"

definition deny ::
  "string \<Rightarrow> json_object \<Rightarrow> string \<Rightarrow> secret_finding list \<Rightarrow> policy_evaluation_result" where
  "deny reason redacted_arguments arguments_hash findings =
    \<lparr>pr_decision = DENY, pr_reason = reason, pr_matched_policy_id = None,
     pr_arguments_redacted = redacted_arguments, pr_arguments_hash = arguments_hash,
     pr_secret_findings = findings\<rparr>"

definition policy_result ::
  "policy_row \<Rightarrow> policy_effect \<Rightarrow> json_object \<Rightarrow> string \<Rightarrow> policy_evaluation_result" where
  "policy_result policy decision redacted_arguments arguments_hash =
    \<lparr>pr_decision = decision, pr_reason = po_reason policy, pr_matched_policy_id = Some (po_id policy),
     pr_arguments_redacted = redacted_arguments, pr_arguments_hash = arguments_hash,
     pr_secret_findings = []\<rparr>"

text \<open>A step that may end the evaluation early: \<open>Inl\<close> is the result then.\<close>

definition safe_redact :: "json_object \<Rightarrow> policy_evaluation_result + json_object" where
  "safe_redact arguments = (case redact_arguments (PDict arguments) of
     PDict redacted \<Rightarrow> Inr redacted
   | _ \<Rightarrow> Inl (deny ''argument redaction failed'' [] '''' []))"

text \<open>Only \<open>ArgumentHashError\<close> is caught; \<open>UnicodeEncodeError\<close> passes through.\<close>

definition safe_hash ::
  "policy_service \<Rightarrow> json_object \<Rightarrow> json_object \<Rightarrow> exn + (policy_evaluation_result + string)" where
  "safe_hash ps arguments redacted_arguments =
    (case canonical_arguments_hash (ps_encodable ps) (ps_sha256 ps) (ps_float_repr ps) arguments of
       Inl ArgumentHashError \<Rightarrow> Inr (Inl (deny ''argument hashing failed'' redacted_arguments '''' []))
     | Inl e \<Rightarrow> Inl e
     | Inr h \<Rightarrow> Inr (Inr h))"

definition safe_scan ::
  "policy_service \<Rightarrow> json_object \<Rightarrow> json_object \<Rightarrow> string \<Rightarrow> exn + policy_evaluation_result" where
  "safe_scan ps arguments redacted_arguments arguments_hash =
    (case ps_scan ps (PDict arguments) of
       Inl SecretScanningError \<Rightarrow>
         Inr (deny ''secret scanning failed'' redacted_arguments arguments_hash [])
     | Inl e \<Rightarrow> Inl e
     | Inr findings \<Rightarrow>
         (if findings \<noteq> []
          then Inr (deny ''arguments contain suspected secret''
                 redacted_arguments arguments_hash findings)
          else Inr \<lparr>pr_decision = ALLOW, pr_reason = ''secret scanning completed'',
                 pr_matched_policy_id = None, pr_arguments_redacted = redacted_arguments,
                 pr_arguments_hash = arguments_hash, pr_secret_findings = []\<rparr>))"

definition evaluate_non_overridable_built_in_rules ::
  "policy_context \<Rightarrow> json_object \<Rightarrow> string \<Rightarrow> policy_evaluation_result option" where
  "evaluate_non_overridable_built_in_rules context redacted_arguments arguments_hash =
    (if pc_risk_level context = CRITICAL
     then Some (deny ''critical tools are denied by default'' redacted_arguments arguments_hash [])
     else if pc_action_type context = DESTRUCTIVE \<and> pc_role context \<noteq> ADMIN
     then Some (deny ''destructive tools require admin role'' redacted_arguments arguments_hash [])
     else if pc_risk_level context = HIGH
     then Some \<lparr>pr_decision = REQUIRE_APPROVAL, pr_reason = ''high risk tools require approval'',
       pr_matched_policy_id = None, pr_arguments_redacted = redacted_arguments,
       pr_arguments_hash = arguments_hash, pr_secret_findings = []\<rparr>
     else None)"

definition evaluate_low_risk_read_allow ::
  "policy_context \<Rightarrow> json_object \<Rightarrow> string \<Rightarrow> policy_evaluation_result option" where
  "evaluate_low_risk_read_allow context redacted_arguments arguments_hash =
    (if pc_risk_level context = LOW \<and> pc_action_type context = READ
     then Some \<lparr>pr_decision = ALLOW, pr_reason = ''low risk read-only tool allowed'',
       pr_matched_policy_id = None, pr_arguments_redacted = redacted_arguments,
       pr_arguments_hash = arguments_hash, pr_secret_findings = []\<rparr>
     else None)"

text \<open>The loop over the policies; \<open>allow_result\<close> is its local variable.\<close>

fun configured_policies_loop ::
  "policy_context \<Rightarrow> json_object \<Rightarrow> string \<Rightarrow> policy_evaluation_result option
    \<Rightarrow> policy_row list \<Rightarrow> policy_evaluation_result option" where
  "configured_policies_loop context redacted h allow_result [] = allow_result"
| "configured_policies_loop context redacted h allow_result (policy # policies) =
    (case parse_policy_conditions (po_conditions policy) of
       Inl _ \<Rightarrow> Some (deny ''policy evaluation failed closed'' redacted h [])
     | Inr conditions \<Rightarrow>
         (if \<not> policy_matches context conditions
          then configured_policies_loop context redacted h allow_result policies
          else (case policy_effect_of (po_effect policy) of
             None \<Rightarrow> Some (deny ''policy evaluation failed closed'' redacted h [])
           | Some effect \<Rightarrow>
               (if effect = DENY then Some (policy_result policy effect redacted h)
                else if effect = REQUIRE_APPROVAL then Some (policy_result policy effect redacted h)
                else configured_policies_loop context redacted h
                  (if effect = ALLOW \<and> allow_result = None
                   then Some (policy_result policy effect redacted h) else allow_result)
                  policies))))"

definition evaluate_configured_policies ::
  "policy_context \<Rightarrow> policy_row list \<Rightarrow> json_object \<Rightarrow> string \<Rightarrow> policy_evaluation_result option" where
  "evaluate_configured_policies context policies redacted h =
    configured_policies_loop context redacted h None policies"

definition evaluate :: "policy_service \<Rightarrow> policy_context \<Rightarrow> exn + policy_evaluation_result" where
  "evaluate ps context =
    (case safe_redact (pc_arguments context) of
       Inl result \<Rightarrow> Inr result
     | Inr redacted \<Rightarrow>
    sum_bind (safe_hash ps (pc_arguments context) redacted) (\<lambda>hash_result. case hash_result of
       Inl result \<Rightarrow> Inr result
     | Inr h \<Rightarrow>
    sum_bind (safe_scan ps (pc_arguments context) redacted h) (\<lambda>findings_result.
    if pr_decision findings_result = DENY then Inr findings_result
    else (case evaluate_non_overridable_built_in_rules context redacted h of
       Some result \<Rightarrow> Inr result
     | None \<Rightarrow>
    (case ps_list_active_by_tenant_ordered ps (pc_tenant_id context) of
       Inl PolicyRepositoryError \<Rightarrow> Inr (deny ''policy evaluation failed closed'' redacted h [])
     | Inl e \<Rightarrow> Inl e
     | Inr policies \<Rightarrow>
    (case evaluate_configured_policies context policies redacted h of
       Some result \<Rightarrow> Inr result
     | None \<Rightarrow>
    (case evaluate_low_risk_read_allow context redacted h of
       Some result \<Rightarrow> Inr result
     | None \<Rightarrow> Inr (deny ''no matching allow policy'' redacted h []))))))))"

text \<open>
  \<open>PolicyService(policy_repository, secret_scanner)\<close>: without a scanner the service uses
  \<open>SecretScanner()\<close>.
\<close>

definition PolicyService ::
  "(string \<Rightarrow> bool) \<Rightarrow> (string \<Rightarrow> string) \<Rightarrow> (64 word \<Rightarrow> string) \<Rightarrow> (uuid \<Rightarrow> exn + policy_row list)
    \<Rightarrow> (pyval \<Rightarrow> exn + secret_finding list) option \<Rightarrow> policy_service" where
  "PolicyService enc sha fr list_active secret_scanner =
    \<lparr>ps_list_active_by_tenant_ordered = list_active,
     ps_scan = (case secret_scanner of None \<Rightarrow> (\<lambda>v. Inr (scan v)) | Some s \<Rightarrow> s),
     ps_encodable = enc, ps_sha256 = sha, ps_float_repr = fr\<rparr>"

section \<open>Parsing: what is accepted\<close>

lemma parse_string_list_absent: "dict_get c f = None \<Longrightarrow> parse_string_list c f = Inr None"
  by (simp add: parse_string_list_def get_or_none_def)

lemma parse_string_list_strings [simp]:
  "dict_get c f = Some (PList (map PStr ss)) \<Longrightarrow> parse_string_list c f = Inr (Some ss)"
  by (simp add: parse_string_list_def get_or_none_def map_sum_list_map str_item_def)

lemma parse_members_values:
  "(\<And>x. call (val x) = Some x) \<Longrightarrow> parse_members msg call (Some (map val xs)) = Inr (Some xs)"
  by (simp add: parse_members_def map_sum_list_map)

text \<open>The stored form of conditions: the fields that are constrained, in declaration order.\<close>

definition opt_field :: "string \<Rightarrow> pyval option \<Rightarrow> json_object" where
  "opt_field name v = (case v of None \<Rightarrow> [] | Some x \<Rightarrow> [(name, x)])"

definition str_list_value :: "('a \<Rightarrow> string) \<Rightarrow> 'a list \<Rightarrow> pyval" where
  "str_list_value val xs = PList (map PStr (map val xs))"

definition stored_fields :: "parsed_policy_conditions \<Rightarrow> json_object" where
  "stored_fields c =
     opt_field ''roles'' (map_option (str_list_value agent_role_value) (cd_roles c))
     @ opt_field ''agent_ids'' (map_option (str_list_value uuid_str) (cd_agent_ids c))
     @ opt_field ''tool_names'' (map_option (str_list_value id) (cd_tool_names c))
     @ opt_field ''target_servers'' (map_option (str_list_value id) (cd_target_servers c))
     @ opt_field ''risk_levels'' (map_option (str_list_value risk_level_value) (cd_risk_levels c))
     @ opt_field ''action_types'' (map_option (str_list_value action_type_value) (cd_action_types c))
     @ opt_field ''resource_patterns'' (map_option (str_list_value id) (cd_resource_patterns c))
     @ opt_field ''argument_equals'' (map_option PDict (cd_argument_equals c))
     @ opt_field ''argument_contains_keys''
         (map_option (str_list_value id) (cd_argument_contains_keys c))"

definition or_else :: "'a option \<Rightarrow> 'a option \<Rightarrow> 'a option" where
  "or_else x y = (case x of None \<Rightarrow> y | Some a \<Rightarrow> Some a)"

lemma or_else_simps [simp]: "or_else None y = y" "or_else x None = x"
  by (simp_all add: or_else_def split: option.split)

lemma map_of_opt_field_end: "map_of (opt_field name v) k = (if k = name then v else None)"
  by (simp add: opt_field_def split: option.split)

lemma map_of_opt_field:
  "map_of (opt_field name v @ rest) k = or_else (if k = name then v else None) (map_of rest k)"
  by (simp add: opt_field_def or_else_def split: option.split)

lemma fst_opt_field: "kv \<in> set (opt_field name v) \<Longrightarrow> fst kv = name"
  by (cases v) (simp_all add: opt_field_def)

lemma unknown_fields_Nil_iff:
  "unknown_fields c = [] \<longleftrightarrow> fst ` set c \<subseteq> set ALLOWED_CONDITION_FIELDS"
  by (auto simp: unknown_fields_def filter_empty_conv)

text \<open>An unknown field makes the whole policy invalid, whatever else it says.\<close>

lemma parse_unknown_field:
  "k \<in> fst ` set c \<Longrightarrow> k \<notin> set ALLOWED_CONDITION_FIELDS \<Longrightarrow>
    parse_policy_conditions (PDict c) =
      Inl (PolicyParseError ''policy contains unknown condition field'')"
  by (auto simp: parse_policy_conditions_def unknown_fields_Nil_iff)

lemma parse_string_list_field:
  assumes "dict_get c f = map_option (str_list_value val) xs"
  shows "parse_string_list c f = Inr (map_option (map val) xs)"
  using assms
  by (cases xs) (simp_all add: parse_string_list_absent str_list_value_def del: map_map)

lemma parse_members_map_option:
  assumes "\<And>x. call (val x) = Some x"
  shows "parse_members msg call (map_option (map val) xs) = Inr xs"
proof (cases xs)
  case (Some ys)
  with assms show ?thesis by (simp add: parse_members_values)
qed (simp add: parse_members_def)

lemma dict_get_stored_fields:
  "dict_get (stored_fields c) ''roles'' = map_option (str_list_value agent_role_value) (cd_roles c)"
  "dict_get (stored_fields c) ''agent_ids'' = map_option (str_list_value uuid_str) (cd_agent_ids c)"
  "dict_get (stored_fields c) ''tool_names'' = map_option (str_list_value id) (cd_tool_names c)"
  "dict_get (stored_fields c) ''target_servers'' =
    map_option (str_list_value id) (cd_target_servers c)"
  "dict_get (stored_fields c) ''risk_levels'' =
    map_option (str_list_value risk_level_value) (cd_risk_levels c)"
  "dict_get (stored_fields c) ''action_types'' =
    map_option (str_list_value action_type_value) (cd_action_types c)"
  "dict_get (stored_fields c) ''resource_patterns'' =
    map_option (str_list_value id) (cd_resource_patterns c)"
  "dict_get (stored_fields c) ''argument_equals'' = map_option PDict (cd_argument_equals c)"
  "dict_get (stored_fields c) ''argument_contains_keys'' =
    map_option (str_list_value id) (cd_argument_contains_keys c)"
  by (simp_all add: dict_get_def stored_fields_def map_of_opt_field map_of_opt_field_end
      del: map_of_append)

lemma unknown_stored_fields: "unknown_fields (stored_fields c) = []"
  unfolding unknown_fields_Nil_iff stored_fields_def ALLOWED_CONDITION_FIELDS_def
  by (auto dest!: fst_opt_field simp del: fst_conv)

lemma parse_stored_conditions: "parse_policy_conditions (PDict (stored_fields c)) = Inr c"
proof -
  note strings = dict_get_stored_fields(1-7,9) [THEN parse_string_list_field]
  have eq: "parse_argument_equals (stored_fields c) = Inr (cd_argument_equals c)"
    by (simp add: parse_argument_equals_def get_or_none_def dict_get_stored_fields split: option.split)
  show ?thesis
    unfolding parse_policy_conditions_def
    by (simp add: unknown_stored_fields strings eq parse_enum_list_def parse_uuid_list_def
        parse_members_map_option option.map_id0 list.map_id0)
qed

section \<open>The loop as a search\<close>

text \<open>
  What one policy says about a context: it is broken (its conditions do not parse, or it
  matches and its effect is no \<open>PolicyEffect\<close>), it does not match, or it votes.
\<close>

datatype policy_vote = Broken | NoMatch | Vote policy_effect

definition vote :: "policy_context \<Rightarrow> policy_row \<Rightarrow> policy_vote" where
  "vote context policy =
    (case parse_policy_conditions (po_conditions policy) of
       Inl _ \<Rightarrow> Broken
     | Inr conditions \<Rightarrow>
         if policy_matches context conditions
         then (case policy_effect_of (po_effect policy) of None \<Rightarrow> Broken | Some e \<Rightarrow> Vote e)
         else NoMatch)"

definition stops :: "policy_vote \<Rightarrow> bool" where
  "stops v \<longleftrightarrow> v = Broken \<or> v = Vote DENY \<or> v = Vote REQUIRE_APPROVAL"

lemma stops_simps [simp]: "stops Broken" "\<not> stops NoMatch" "stops (Vote e) \<longleftrightarrow> e \<noteq> ALLOW"
  by (cases e; simp add: stops_def)+

definition stop_result ::
  "policy_context \<Rightarrow> json_object \<Rightarrow> string \<Rightarrow> policy_row \<Rightarrow> policy_evaluation_result" where
  "stop_result context redacted h policy = (case vote context policy of
     Vote e \<Rightarrow> policy_result policy e redacted h
   | _ \<Rightarrow> deny ''policy evaluation failed closed'' redacted h [])"

definition first_stop :: "policy_context \<Rightarrow> policy_row list \<Rightarrow> policy_row option" where
  "first_stop context = find_row (\<lambda>p. stops (vote context p))"

definition first_allow :: "policy_context \<Rightarrow> policy_row list \<Rightarrow> policy_row option" where
  "first_allow context = find_row (\<lambda>p. vote context p = Vote ALLOW)"

lemma loop_step:
  "configured_policies_loop context redacted h acc (p # ps) =
    (if stops (vote context p) then Some (stop_result context redacted h p)
     else configured_policies_loop context redacted h
       (if vote context p = Vote ALLOW \<and> acc = None
        then Some (policy_result p ALLOW redacted h) else acc) ps)"
proof -
  have "e = DENY \<or> e = REQUIRE_APPROVAL \<or> e = ALLOW" for e by (cases e) auto
  then show ?thesis
    by (auto simp: vote_def stop_result_def split: sum.split option.split)
qed

lemma configured_policies_loop_search:
  "configured_policies_loop context redacted h acc ps =
    (case first_stop context ps of
       Some p \<Rightarrow> Some (stop_result context redacted h p)
     | None \<Rightarrow> (case acc of
         Some a \<Rightarrow> Some a
       | None \<Rightarrow> map_option (\<lambda>p. policy_result p ALLOW redacted h) (first_allow context ps)))"
proof (induction ps arbitrary: acc)
  case Nil
  show ?case by (simp add: first_stop_def first_allow_def table_simps split: option.split)
next
  case (Cons p ps)
  have "vote context p = Vote ALLOW \<Longrightarrow> \<not> stops (vote context p)" by simp
  with Cons show ?case
    unfolding loop_step
    by (auto simp: first_stop_def first_allow_def table_simps split: option.split)
qed

lemma first_stop_None_iff: "first_stop context ps = None \<longleftrightarrow> (\<forall>p \<in> set ps. \<not> stops (vote context p))"
  by (simp add: first_stop_def find_row_None_iff)

lemma first_allow_None_iff:
  "first_allow context ps = None \<longleftrightarrow> (\<forall>p \<in> set ps. vote context p \<noteq> Vote ALLOW)"
  by (simp add: first_allow_def find_row_None_iff)

section \<open>Matching as a conjunction\<close>

lemma policy_matches_iff:
  "policy_matches ctx c \<longleftrightarrow>
     \<not> outside (pc_role ctx) (cd_roles c) \<and> \<not> outside (pc_agent_id ctx) (cd_agent_ids c)
   \<and> \<not> outside (pc_target_tool ctx) (cd_tool_names c)
   \<and> \<not> outside (pc_target_server ctx) (cd_target_servers c)
   \<and> \<not> outside (pc_risk_level ctx) (cd_risk_levels c)
   \<and> \<not> outside (pc_action_type ctx) (cd_action_types c)
   \<and> (\<forall>ps. cd_resource_patterns c = Some ps \<longrightarrow>
        (\<exists>r p. pc_resource ctx = Some r \<and> p \<in> set ps \<and> fnmatchcase r p))
   \<and> (\<forall>kvs k v. cd_argument_equals c = Some kvs \<longrightarrow> (k, v) \<in> set kvs \<longrightarrow>
        py_eq (get_or_none (pc_arguments ctx) k) v)
   \<and> (\<forall>ks k. cd_argument_contains_keys c = Some ks \<longrightarrow> k \<in> set ks \<longrightarrow>
        dict_get (pc_arguments ctx) k \<noteq> None)"
  unfolding policy_matches_def
  by (simp add: list_ex_iff split: option.split) blast

section \<open>The evaluation as a decision table\<close>

definition redacted_of :: "json_object \<Rightarrow> json_object" where
  "redacted_of a = redact_items a []"

lemma safe_redact_Inr: "safe_redact a = Inr (redacted_of a)"
  by (simp add: safe_redact_def redacted_of_def)

lemma redacted_of_masked: "masked (PDict (redacted_of a))"
  using masked_redact(1) [of "PDict a"] by (simp add: redacted_of_def)

lemma json_dumps_Some_iff:
  "(json_dumps fr v \<noteq> None) = json_like v"
  "(json_dumps_list fr vs \<noteq> None) = json_like_list vs"
  "(json_dumps_items fr kvs \<noteq> None) = json_like_items kvs"
  by (induction v and vs and kvs rule: json_like_json_like_list_json_like_items.induct)
    (auto split: option.splits)

text \<open>What the built-in rules leave possible.\<close>

definition built_in_cap :: "policy_context \<Rightarrow> policy_effect" where
  "built_in_cap ctx =
    (if pc_risk_level ctx = CRITICAL then DENY
     else if pc_action_type ctx = DESTRUCTIVE \<and> pc_role ctx \<noteq> ADMIN then DENY
     else if pc_risk_level ctx = HIGH then REQUIRE_APPROVAL
     else ALLOW)"

definition low_risk_read :: "policy_context \<Rightarrow> bool" where
  "low_risk_read ctx \<longleftrightarrow> pc_risk_level ctx = LOW \<and> pc_action_type ctx = READ"

definition clean_arguments :: "policy_context \<Rightarrow> bool" where
  "clean_arguments ctx \<longleftrightarrow> json_like (PDict (pc_arguments ctx)) \<and> secret_free (PDict (pc_arguments ctx))"

definition screened :: "policy_service \<Rightarrow> policy_context \<Rightarrow> bool" where
  "screened ps ctx \<longleftrightarrow>
     json_like (PDict (pc_arguments ctx)) \<and> ps_scan ps (PDict (pc_arguments ctx)) = Inr []"

text \<open>The decision the configured policies take, if they take one.\<close>

definition configured_verdict :: "policy_context \<Rightarrow> policy_row list \<Rightarrow> policy_effect option" where
  "configured_verdict ctx policies = (case first_stop ctx policies of
     Some p \<Rightarrow> Some (case vote ctx p of Vote e \<Rightarrow> e | _ \<Rightarrow> DENY)
   | None \<Rightarrow> (if first_allow ctx policies = None then None else Some ALLOW))"

definition verdict :: "bool \<Rightarrow> policy_context \<Rightarrow> exn + policy_row list \<Rightarrow> policy_effect" where
  "verdict clean ctx source =
    (if \<not> clean then DENY
     else if built_in_cap ctx \<noteq> ALLOW then built_in_cap ctx
     else (case source of
       Inl _ \<Rightarrow> DENY
     | Inr policies \<Rightarrow> (case configured_verdict ctx policies of
         Some e \<Rightarrow> e
       | None \<Rightarrow> (if low_risk_read ctx then ALLOW else DENY))))"

lemma deny_simps [simp]:
  "pr_decision (deny m r h fs) = DENY" "pr_arguments_redacted (deny m r h fs) = r"
  "pr_arguments_hash (deny m r h fs) = h"
  and policy_result_simps [simp]:
  "pr_decision (policy_result p e r h) = e" "pr_arguments_redacted (policy_result p e r h) = r"
  "pr_arguments_hash (policy_result p e r h) = h"
  by (simp_all add: deny_def policy_result_def)

text \<open>Every result carries the redacted arguments it was given, and the hash or nothing.\<close>

definition carries :: "json_object \<Rightarrow> string \<Rightarrow> policy_effect \<Rightarrow> policy_evaluation_result \<Rightarrow> bool" where
  "carries r h e res \<longleftrightarrow> pr_arguments_redacted res = r \<and> pr_arguments_hash res = h \<and> pr_decision res = e"

lemma carries_simps [simp]:
  "carries r h e (deny m r h fs) \<longleftrightarrow> e = DENY"
  "carries r h e (policy_result p e' r h) \<longleftrightarrow> e = e'"
  "carries r h e \<lparr>pr_decision = e', pr_reason = m, pr_matched_policy_id = i,
     pr_arguments_redacted = r, pr_arguments_hash = h, pr_secret_findings = fs\<rparr> \<longleftrightarrow> e = e'"
  by (auto simp: carries_def)

definition built_in_verdict :: "policy_context \<Rightarrow> policy_effect option" where
  "built_in_verdict ctx = (if built_in_cap ctx = ALLOW then None else Some (built_in_cap ctx))"

lemma built_in_rules_carry:
  "rel_option (carries r h) (built_in_verdict ctx) (evaluate_non_overridable_built_in_rules ctx r h)"
  by (simp add: built_in_verdict_def evaluate_non_overridable_built_in_rules_def built_in_cap_def)

lemma low_risk_carry:
  "rel_option (carries r h) (if low_risk_read ctx then Some ALLOW else None)
     (evaluate_low_risk_read_allow ctx r h)"
  by (simp add: evaluate_low_risk_read_allow_def low_risk_read_def)

lemma configured_carry:
  "rel_option (carries r h) (configured_verdict ctx ps) (evaluate_configured_policies ctx ps r h)"
  unfolding evaluate_configured_policies_def configured_policies_loop_search configured_verdict_def
  by (auto simp: stop_result_def option.rel_map split: option.split policy_vote.split)

lemma rel_option_carry_cases:
  assumes "rel_option (carries r h) v x"
  obtains "v = None" "x = None" | e res where "v = Some e" "x = Some res" "carries r h e res"
  using assms by (cases v; cases x) simp_all

text \<open>
  The scanner and the policy source as \<open>PolicyService\<close> relies on them: an empty report means
  there is no secret, and a failure is the one exception the service catches.
\<close>

locale secret_scanner_port =
  fixes sc :: "pyval \<Rightarrow> exn + secret_finding list"
  assumes report: "sc v = Inr fs \<Longrightarrow> (fs = []) = secret_free v"
    and failure: "sc v = Inl e \<Longrightarrow> e = SecretScanningError"

locale policy_source_port =
  fixes src :: "uuid \<Rightarrow> exn + policy_row list"
  assumes read_failure: "src t = Inl e \<Longrightarrow> e = PolicyRepositoryError"

locale policy_ports =
  secret_scanner_port "ps_scan ps" + policy_source_port "ps_list_active_by_tenant_ordered ps"
  for ps :: policy_service
begin

text \<open>
  The evaluation always returns, its decision is the decision table's, and what it hands on
  for storage is the redaction of the arguments and their hash.
\<close>

lemma scan_outcome:
  obtains (reject) m fs where "safe_scan ps a r h = Inr (deny m r h fs)" "ps_scan ps (PDict a) \<noteq> Inr []"
  | (pass) res where "safe_scan ps a r h = Inr res" "pr_decision res \<noteq> DENY" "ps_scan ps (PDict a) = Inr []"
proof (cases "ps_scan ps (PDict a)")
  case (Inl e)
  with failure have "e = SecretScanningError" by blast
  with Inl reject show thesis by (simp add: safe_scan_def)
next
  case (Inr fs)
  with reject pass show thesis by (cases "fs = []") (simp_all add: safe_scan_def)
qed

lemma passed_secret_free: "screened ps ctx \<Longrightarrow> clean_arguments ctx"
  using report [of "PDict (pc_arguments ctx)" "[]"]
  by (simp add: screened_def clean_arguments_def)

lemma evaluate_after_scan:
  assumes "carries r h e res" and "rel_option (carries r h) (built_in_verdict ctx) b"
    and "\<And>policies. rel_option (carries r h) (configured_verdict ctx policies) (c policies)"
    and "rel_option (carries r h) (if low_risk_read ctx then Some ALLOW else None) l"
  shows "\<exists>res. (case b of
       Some result \<Rightarrow> Inr result
     | None \<Rightarrow> (case ps_list_active_by_tenant_ordered ps t of
         Inl PolicyRepositoryError \<Rightarrow> Inr (deny m r h [])
       | Inl e \<Rightarrow> Inl e
       | Inr policies \<Rightarrow> (case c policies of
           Some result \<Rightarrow> Inr result
         | None \<Rightarrow> (case l of
             Some result \<Rightarrow> Inr result
           | None \<Rightarrow> Inr (deny m' r h []))))) = Inr res
    \<and> carries r h (verdict True ctx (ps_list_active_by_tenant_ordered ps t)) res"
proof (cases rule: rel_option_carry_cases [OF assms(2)])
  case (2 e res)
  then show ?thesis by (simp add: verdict_def built_in_verdict_def split: if_splits)
next
  case 1
  then have cap: "built_in_cap ctx = ALLOW" by (simp add: built_in_verdict_def split: if_splits)
  show ?thesis
  proof (cases "ps_list_active_by_tenant_ordered ps t")
    case (Inl e)
    with read_failure have "e = PolicyRepositoryError" by blast
    with Inl 1 cap show ?thesis by (simp add: verdict_def)
  next
    case (Inr policies)
    show ?thesis
    proof (cases rule: rel_option_carry_cases [OF assms(3) [of policies]])
      case (2 e res)
      with Inr 1 cap show ?thesis by (simp add: verdict_def)
    next
      case none: 1
      with Inr 1 cap show ?thesis
        by (cases rule: rel_option_carry_cases [OF assms(4)])
          (auto simp: verdict_def split: if_splits)
    qed
  qed
qed

lemma evaluate_raises:
  assumes "\<not> encodable_arguments (ps_encodable ps) (ps_float_repr ps) (pc_arguments ctx)"
  shows "evaluate ps ctx = Inl UnicodeEncodeError"
  using assms
  by (cases rule: canonical_arguments_hash_cases [where enc = "ps_encodable ps" and sha = "ps_sha256 ps"
        and fr = "ps_float_repr ps" and a = "pc_arguments ctx"])
    (simp_all add: evaluate_def safe_redact_Inr safe_hash_def encodable_arguments_def del: json_dumps.simps)

lemma evaluate_verdict:
  assumes "encodable_arguments (ps_encodable ps) (ps_float_repr ps) (pc_arguments ctx)"
  shows "\<exists>r. evaluate ps ctx = Inr r \<and>
    carries (redacted_of (pc_arguments ctx))
      (case canonical_arguments_hash (ps_encodable ps) (ps_sha256 ps) (ps_float_repr ps) (pc_arguments ctx) of
         Inl _ \<Rightarrow> [] | Inr h \<Rightarrow> h)
      (verdict (screened ps ctx) ctx (ps_list_active_by_tenant_ordered ps (pc_tenant_id ctx))) r"
proof (cases rule: canonical_arguments_hash_cases [where enc = "ps_encodable ps" and sha = "ps_sha256 ps"
      and fr = "ps_float_repr ps" and a = "pc_arguments ctx"])
  case fails
  then have "\<not> json_like (PDict (pc_arguments ctx))"
    using json_dumps_Some_iff(1) [of "ps_float_repr ps" "PDict (pc_arguments ctx)"] by (simp del: json_like.simps)
  with fails show ?thesis
    by (simp add: evaluate_def safe_redact_Inr safe_hash_def verdict_def screened_def del: json_like.simps)
next
  case (raises t)
  with assms show ?thesis by (simp add: encodable_arguments_def del: json_dumps.simps)
next
  case (hash t)
  let ?a = "pc_arguments ctx" and ?r = "redacted_of (pc_arguments ctx)" and ?h = "ps_sha256 ps (utf8_encode t)"
  have like: "json_like (PDict ?a)" using hash json_dumps_Some_iff(1) [of "ps_float_repr ps" "PDict ?a"] by simp
  have start: "safe_redact ?a = Inr ?r" "safe_hash ps ?a ?r = Inr (Inr ?h)"
    using hash by (simp_all add: safe_redact_Inr safe_hash_def)
  show ?thesis
  proof (cases rule: scan_outcome [of ?a ?r ?h])
    case (reject m fs)
    with start hash show ?thesis
      by (simp add: evaluate_def verdict_def screened_def del: json_like.simps)
  next
    case (pass res)
    with like have "screened ps ctx" by (simp add: screened_def)
    with start hash pass show ?thesis
      using evaluate_after_scan [OF _ built_in_rules_carry configured_carry low_risk_carry]
      by (simp add: evaluate_def) (metis carries_simps(1))
  qed
qed

end

end
