(* ===== verification/Gateway_World.thy ===== *)
theory Gateway_World
  imports Policy_Engine
begin

text \<open>
  The world in which a request runs: what the process gets from outside the repository (clock,
  random source, which texts can be encoded, hash functions, JSON Schema validator, database failures, MCP client) as a
  record of functions, the settings, and the state: the rows the session of the request sees,
  the rows that are committed, and the log of the calls sent to upstream servers. Sources of
  fresh values are streams indexed by a counter of the state.
\<close>

section \<open>The MCP client port\<close>

record mcp_tool_metadata =
  mt_name :: string
  mt_description :: "string option"
  mt_input_schema :: json_object

text \<open>
  \<open>McpClient\<close> of \<open>application/ports/mcp_client.py\<close>. The first argument numbers the upstream
  calls of the process, so that the answers may change over time.
\<close>

record mcp_client =
  mc_list_tools :: "nat \<Rightarrow> tool_server_row \<Rightarrow> 64 word \<Rightarrow> exn + mcp_tool_metadata list"
  mc_call_tool :: "nat \<Rightarrow> tool_server_row \<Rightarrow> tool_definition_row \<Rightarrow> json_object \<Rightarrow> 64 word
    \<Rightarrow> exn + json_object"

section \<open>Host, settings and state\<close>

text \<open>The outcome of checking a schema and validating arguments with \<open>jsonschema\<close>.\<close>

datatype validation = Valid | ValidationFails | SchemaFails | ValidatorRaises string

record host =
  h_now :: "nat \<Rightarrow> datetime"
  h_uuid4 :: "nat \<Rightarrow> uuid"
  h_token_urlsafe :: "nat \<Rightarrow> string"
  h_encodable :: "string \<Rightarrow> bool"
  h_sha256 :: "string \<Rightarrow> string"
  h_hmac_sha256 :: "string \<Rightarrow> string \<Rightarrow> string"
  h_float_repr :: "64 word \<Rightarrow> string"
  h_validate :: "json_object \<Rightarrow> json_object \<Rightarrow> validation"
  h_policy_read_ok :: "nat \<Rightarrow> bool"

record settings =
  api_key_pepper :: string
  admin_api_key_hash :: string
  approval_request_ttl_seconds :: int
  mcp_call_timeout_seconds :: "64 word"

datatype upstream_event =
    ToolsListed tool_server_row
  | ToolCalled tool_server_row tool_definition_row json_object

record world =
  w_db :: db
  w_committed :: db
  w_clock :: nat
  w_uuids :: nat
  w_tokens :: nat
  w_policy_reads :: nat
  w_upstream :: "upstream_event list"

type_synonym 'a gw = "(world, exn, 'a) prog"

section \<open>Primitive actions\<close>

definition utc_now :: "host \<Rightarrow> datetime gw" where
  "utc_now h w = (Inr (h_now h (w_clock w)), w\<lparr>w_clock := Suc (w_clock w)\<rparr>)"

definition uuid4 :: "host \<Rightarrow> uuid gw" where
  "uuid4 h w = (Inr (h_uuid4 h (w_uuids w)), w\<lparr>w_uuids := Suc (w_uuids w)\<rparr>)"

definition token_urlsafe :: "host \<Rightarrow> string gw" where
  "token_urlsafe h w = (Inr (h_token_urlsafe h (w_tokens w)), w\<lparr>w_tokens := Suc (w_tokens w)\<rparr>)"

text \<open>A flush: the statement changes the session's rows or raises and changes nothing.\<close>

definition db_step :: "(db \<Rightarrow> exn + db) \<Rightarrow> unit gw" where
  "db_step f w = (case f (w_db w) of
     Inl e \<Rightarrow> (Inl e, w)
   | Inr d \<Rightarrow> (Inr (), w\<lparr>w_db := d\<rparr>))"

definition commit :: "unit gw" where
  "commit w = (Inr (), w\<lparr>w_committed := w_db w\<rparr>)"

text \<open>Closing a session without a commit.\<close>

definition rollback :: "world \<Rightarrow> world" where
  "rollback w = w\<lparr>w_db := w_committed w\<rparr>"

definition upstream_call_tool ::
  "mcp_client \<Rightarrow> tool_server_row \<Rightarrow> tool_definition_row \<Rightarrow> json_object \<Rightarrow> 64 word \<Rightarrow> json_object gw" where
  "upstream_call_tool mc server tool arguments timeout w =
    (mc_call_tool mc (length (w_upstream w)) server tool arguments timeout,
     w\<lparr>w_upstream := w_upstream w @ [ToolCalled server tool arguments]\<rparr>)"

definition upstream_list_tools ::
  "mcp_client \<Rightarrow> tool_server_row \<Rightarrow> 64 word \<Rightarrow> mcp_tool_metadata list gw" where
  "upstream_list_tools mc server timeout w =
    (mc_list_tools mc (length (w_upstream w)) server timeout,
     w\<lparr>w_upstream := w_upstream w @ [ToolsListed server]\<rparr>)"

lemma wp_utc_now [wp_simps]:
  "wp (utc_now h) Q E w = Q (h_now h (w_clock w)) (w\<lparr>w_clock := Suc (w_clock w)\<rparr>)"
  by (simp add: wp_def utc_now_def)

lemma wp_uuid4 [wp_simps]:
  "wp (uuid4 h) Q E w = Q (h_uuid4 h (w_uuids w)) (w\<lparr>w_uuids := Suc (w_uuids w)\<rparr>)"
  by (simp add: wp_def uuid4_def)

lemma wp_token_urlsafe [wp_simps]:
  "wp (token_urlsafe h) Q E w = Q (h_token_urlsafe h (w_tokens w)) (w\<lparr>w_tokens := Suc (w_tokens w)\<rparr>)"
  by (simp add: wp_def token_urlsafe_def)

lemma wp_db_step [wp_simps]:
  "wp (db_step f) Q E w = (case f (w_db w) of Inl e \<Rightarrow> E e w | Inr d \<Rightarrow> Q () (w\<lparr>w_db := d\<rparr>))"
  by (simp add: wp_def db_step_def split: sum.split)

lemma wp_commit [wp_simps]: "wp commit Q E w = Q () (w\<lparr>w_committed := w_db w\<rparr>)"
  by (simp add: wp_def commit_def)

lemma wp_upstream_call_tool [wp_simps]:
  "wp (upstream_call_tool mc server tool arguments timeout) Q E w =
    (let w' = w\<lparr>w_upstream := w_upstream w @ [ToolCalled server tool arguments]\<rparr>
     in case mc_call_tool mc (length (w_upstream w)) server tool arguments timeout of
          Inl e \<Rightarrow> E e w' | Inr x \<Rightarrow> Q x w')"
  by (simp add: wp_def upstream_call_tool_def Let_def split: sum.split)

lemma wp_upstream_list_tools [wp_simps]:
  "wp (upstream_list_tools mc server timeout) Q E w =
    (let w' = w\<lparr>w_upstream := w_upstream w @ [ToolsListed server]\<rparr>
     in case mc_list_tools mc (length (w_upstream w)) server timeout of
          Inl e \<Rightarrow> E e w' | Inr x \<Rightarrow> Q x w')"
  by (simp add: wp_def upstream_list_tools_def Let_def split: sum.split)

end
