(* ===== verification/Repositories.thy ===== *)
theory Repositories
  imports Gateway_World
begin

text \<open>
  The repositories of \<open>infrastructure/db/repositories.py\<close>, one group of operations per class,
  on the rows the session sees. A \<open>create\<close> takes the row as a function of the values its
  column defaults compute at the flush, in column order: the \<open>uuid4\<close> identifier, then
  \<open>created_at\<close>, then \<open>updated_at\<close>. An \<open>update\<close> flushes a row the caller changed: nothing is
  written when no column changed, and otherwise \<open>updated_at\<close> takes the time of the flush.
  A query without an order gives the rows in table order.
\<close>

section \<open>Flushing new and changed rows\<close>

definition create_row ::
  "host \<Rightarrow> (uuid \<Rightarrow> datetime \<Rightarrow> datetime \<Rightarrow> 'r) \<Rightarrow> ('r \<Rightarrow> db \<Rightarrow> exn + db) \<Rightarrow> 'r gw" where
  "create_row h mk ins =
    seq (uuid4 h) (\<lambda>i. seq (utc_now h) (\<lambda>created. seq (utc_now h) (\<lambda>updated.
    seq (db_step (ins (mk i created updated))) (\<lambda>_. return_p (mk i created updated)))))"

lemma wp_create_row [wp_simps]:
  "wp (create_row h mk ins) Q E w =
    (let r = mk (h_uuid4 h (w_uuids w)) (h_now h (w_clock w)) (h_now h (Suc (w_clock w)));
         w' = w\<lparr>w_uuids := Suc (w_uuids w), w_clock := Suc (Suc (w_clock w))\<rparr>
     in case ins r (w_db w) of Inl e \<Rightarrow> E e w' | Inr d \<Rightarrow> Q r (w'\<lparr>w_db := d\<rparr>))"
  by (simp add: create_row_def wp_simps Let_def split: sum.split)

text \<open>
  \<open>flush_row\<close>: the flush of a loaded object. Without a changed column there is no statement;
  otherwise the object gets its new \<open>updated_at\<close> and \<open>write\<close> updates the row.
\<close>

definition flush_row ::
  "host \<Rightarrow> bool \<Rightarrow> 'r \<Rightarrow> (datetime \<Rightarrow> 'r) \<Rightarrow> ('r \<Rightarrow> db \<Rightarrow> exn + db) \<Rightarrow> 'r gw" where
  "flush_row h changed r stamp write =
    (if \<not> changed then return_p r
     else seq (utc_now h) (\<lambda>now. seq (db_step (write (stamp now))) (\<lambda>_. return_p (stamp now))))"

lemma wp_flush_row [wp_simps]:
  "wp (flush_row h changed r stamp write) Q E w =
    (if \<not> changed then Q r w
     else let r' = stamp (h_now h (w_clock w)); w' = w\<lparr>w_clock := Suc (w_clock w)\<rparr>
       in case write r' (w_db w) of Inl e \<Rightarrow> E e w' | Inr d \<Rightarrow> Q r' (w'\<lparr>w_db := d\<rparr>))"
  by (simp add: flush_row_def wp_simps Let_def split: sum.split)

definition if_fits :: "bool \<Rightarrow> db \<Rightarrow> exn + db" where
  "if_fits widths d = (if widths then Inr d else Inl DataError)"

text \<open>
  \<open>UPDATE ... WHERE ... RETURNING\<close>: every row that satisfies the condition is changed, and the
  first of them is the scalar the session returns.
\<close>

definition update_where ::
  "host \<Rightarrow> ('r \<Rightarrow> bool) \<Rightarrow> (datetime \<Rightarrow> 'r \<Rightarrow> 'r) \<Rightarrow> (db \<Rightarrow> 'r list) \<Rightarrow> ('r list \<Rightarrow> db \<Rightarrow> db)
    \<Rightarrow> 'r option gw" where
  "update_where h p change rows put = seq (utc_now h) (\<lambda>now w.
     (Inr (map_option (change now) (find_row p (rows (w_db w)))),
      w\<lparr>w_db := put (update_rows p (change now) (rows (w_db w))) (w_db w)\<rparr>))"

lemma wp_update_where [wp_simps]:
  "wp (update_where h p change rows put) Q E w =
    (let now = h_now h (w_clock w)
     in Q (map_option (change now) (find_row p (rows (w_db w))))
          (w\<lparr>w_clock := Suc (w_clock w),
             w_db := put (update_rows p (change now) (rows (w_db w))) (w_db w)\<rparr>))"
  by (simp add: update_where_def wp_simps Let_def) (simp add: wp_def)

definition put_agents :: "agent_row list \<Rightarrow> db \<Rightarrow> db" where
  "put_agents t d = d\<lparr>db_agents := t\<rparr>"

definition put_tool_definitions :: "tool_definition_row list \<Rightarrow> db \<Rightarrow> db" where
  "put_tool_definitions t d = d\<lparr>db_tool_definitions := t\<rparr>"

definition put_tool_calls :: "tool_call_row list \<Rightarrow> db \<Rightarrow> db" where
  "put_tool_calls t d = d\<lparr>db_tool_calls := t\<rparr>"

definition put_approvals :: "approval_row list \<Rightarrow> db \<Rightarrow> db" where
  "put_approvals t d = d\<lparr>db_approvals := t\<rparr>"

lemmas put_defs = put_agents_def put_tool_definitions_def put_tool_calls_def put_approvals_def

section \<open>SQLAlchemyTenantRepository\<close>

definition tenant_create :: "host \<Rightarrow> (uuid \<Rightarrow> datetime \<Rightarrow> datetime \<Rightarrow> tenant_row) \<Rightarrow> tenant_row gw" where
  "tenant_create h mk = create_row h mk insert_tenant"

definition tenant_get_by_id :: "uuid \<Rightarrow> tenant_row option gw" where
  "tenant_get_by_id i = gets_p (\<lambda>w. find_row (\<lambda>r. tn_id r = i) (db_tenants (w_db w)))"

definition tenant_list :: "tenant_row list gw" where
  "tenant_list = gets_p (\<lambda>w. db_tenants (w_db w))"

section \<open>SQLAlchemyAgentRepository\<close>

definition agent_create :: "host \<Rightarrow> (uuid \<Rightarrow> datetime \<Rightarrow> datetime \<Rightarrow> agent_row) \<Rightarrow> agent_row gw" where
  "agent_create h mk = create_row h mk insert_agent"

definition agent_get_by_id :: "uuid \<Rightarrow> agent_row option gw" where
  "agent_get_by_id i = gets_p (\<lambda>w. find_row (\<lambda>r. ag_id r = i) (db_agents (w_db w)))"

definition agent_list_by_tenant :: "uuid \<Rightarrow> agent_row list gw" where
  "agent_list_by_tenant t = gets_p (\<lambda>w. filter (\<lambda>r. ag_tenant_id r = t) (db_agents (w_db w)))"

definition agent_get_by_api_key_hash :: "string \<Rightarrow> agent_row option gw" where
  "agent_get_by_api_key_hash k =
    gets_p (\<lambda>w. find_row (\<lambda>r. ag_api_key_hash r = k) (db_agents (w_db w)))"

definition write_agent :: "agent_row \<Rightarrow> db \<Rightarrow> exn + db" where
  "write_agent r d = if_fits (agent_widths r) (put_agents
     (update_rows (\<lambda>x. ag_id x = ag_id r)
       (\<lambda>x. x\<lparr>ag_status := ag_status r, ag_updated_at := ag_updated_at r\<rparr>) (db_agents d)) d)"

definition agent_disable :: "host \<Rightarrow> uuid \<Rightarrow> agent_row option gw" where
  "agent_disable h i = seq (agent_get_by_id i) (\<lambda>found. case found of
     None \<Rightarrow> return_p None
   | Some agent \<Rightarrow> (let r = agent\<lparr>ag_status := entity_status_value DISABLED\<rparr> in
       seq (flush_row h (r \<noteq> agent) r (\<lambda>now. r\<lparr>ag_updated_at := now\<rparr>) write_agent)
         (\<lambda>r'. return_p (Some r'))))"

section \<open>SQLAlchemyToolServerRepository\<close>

definition tool_server_create ::
  "host \<Rightarrow> (uuid \<Rightarrow> datetime \<Rightarrow> datetime \<Rightarrow> tool_server_row) \<Rightarrow> tool_server_row gw" where
  "tool_server_create h mk = create_row h mk insert_tool_server"

definition tool_server_get_by_id :: "uuid \<Rightarrow> tool_server_row option gw" where
  "tool_server_get_by_id i = gets_p (\<lambda>w. find_row (\<lambda>r. ts_id r = i) (db_tool_servers (w_db w)))"

definition tool_server_list_by_tenant :: "uuid \<Rightarrow> tool_server_row list gw" where
  "tool_server_list_by_tenant t =
    gets_p (\<lambda>w. filter (\<lambda>r. ts_tenant_id r = t) (db_tool_servers (w_db w)))"

definition tool_server_get_by_server_id :: "uuid \<Rightarrow> string \<Rightarrow> tool_server_row option gw" where
  "tool_server_get_by_server_id t sid = gets_p (\<lambda>w.
     find_row (\<lambda>r. ts_tenant_id r = t \<and> ts_server_id r = sid) (db_tool_servers (w_db w)))"

section \<open>SQLAlchemyToolDefinitionRepository\<close>

definition tool_definition_create ::
  "host \<Rightarrow> (uuid \<Rightarrow> datetime \<Rightarrow> datetime \<Rightarrow> tool_definition_row) \<Rightarrow> tool_definition_row gw" where
  "tool_definition_create h mk = create_row h mk insert_tool_definition"

definition tool_definition_get_by_id :: "uuid \<Rightarrow> tool_definition_row option gw" where
  "tool_definition_get_by_id i =
    gets_p (\<lambda>w. find_row (\<lambda>r. td_id r = i) (db_tool_definitions (w_db w)))"

definition tool_definition_list_by_tenant :: "uuid \<Rightarrow> tool_definition_row list gw" where
  "tool_definition_list_by_tenant t =
    gets_p (\<lambda>w. filter (\<lambda>r. td_tenant_id r = t) (db_tool_definitions (w_db w)))"

definition tool_definition_get_by_name ::
  "uuid \<Rightarrow> uuid \<Rightarrow> string \<Rightarrow> tool_definition_row option gw" where
  "tool_definition_get_by_name t s n = gets_p (\<lambda>w.
     find_row (\<lambda>r. td_tenant_id r = t \<and> td_server_id r = s \<and> td_tool_name r = n)
       (db_tool_definitions (w_db w)))"

definition tool_definition_list_by_server :: "uuid \<Rightarrow> uuid \<Rightarrow> tool_definition_row list gw" where
  "tool_definition_list_by_server t s = gets_p (\<lambda>w.
     filter (\<lambda>r. td_tenant_id r = t \<and> td_server_id r = s) (db_tool_definitions (w_db w)))"

text \<open>
  The UPDATE of a loaded definition sets the columns the program assigns. \<open>loaded\<close> is the row
  as the session read it, \<open>definition\<close> the object with its changes.
\<close>

definition write_tool_definition :: "tool_definition_row \<Rightarrow> db \<Rightarrow> exn + db" where
  "write_tool_definition r d = if_fits (tool_definition_widths r) (put_tool_definitions
     (update_rows (\<lambda>x. td_id x = td_id r)
       (\<lambda>x. x\<lparr>td_description := td_description r, td_input_schema := td_input_schema r,
              td_risk_level := td_risk_level r, td_action_type := td_action_type r,
              td_status := td_status r, td_schema_hash := td_schema_hash r,
              td_updated_at := td_updated_at r\<rparr>)
       (db_tool_definitions d)) d)"

definition tool_definition_update ::
  "host \<Rightarrow> tool_definition_row \<Rightarrow> tool_definition_row \<Rightarrow> tool_definition_row gw" where
  "tool_definition_update h loaded r =
    flush_row h (r \<noteq> loaded) r (\<lambda>now. r\<lparr>td_updated_at := now\<rparr>) write_tool_definition"

section \<open>SQLAlchemyPolicyRepository\<close>

definition policy_create :: "host \<Rightarrow> (uuid \<Rightarrow> datetime \<Rightarrow> datetime \<Rightarrow> policy_row) \<Rightarrow> policy_row gw" where
  "policy_create h mk = create_row h mk insert_policy"

definition policy_get_by_id :: "uuid \<Rightarrow> policy_row option gw" where
  "policy_get_by_id i = gets_p (\<lambda>w. find_row (\<lambda>r. po_id r = i) (db_policies (w_db w)))"

definition policy_list_by_tenant :: "uuid \<Rightarrow> policy_row list gw" where
  "policy_list_by_tenant t = gets_p (\<lambda>w. filter (\<lambda>r. po_tenant_id r = t) (db_policies (w_db w)))"

text \<open>
  The ordered read of the active policies; a \<open>SQLAlchemyError\<close> becomes
  \<open>PolicyRepositoryError\<close>. \<open>ok\<close> says whether the database answers.
\<close>

definition policies_active_ordered :: "bool \<Rightarrow> db \<Rightarrow> uuid \<Rightarrow> exn + policy_row list" where
  "policies_active_ordered ok d t =
    (if ok then Inr (sort_key po_priority
       (filter (\<lambda>r. po_tenant_id r = t \<and> po_status r = entity_status_value ACTIVE) (db_policies d)))
     else Inl PolicyRepositoryError)"

section \<open>SQLAlchemyToolCallRepository\<close>

definition tool_call_create ::
  "host \<Rightarrow> (uuid \<Rightarrow> datetime \<Rightarrow> datetime \<Rightarrow> tool_call_row) \<Rightarrow> tool_call_row gw" where
  "tool_call_create h mk = create_row h mk insert_tool_call"

definition tool_call_get_by_id :: "uuid \<Rightarrow> tool_call_row option gw" where
  "tool_call_get_by_id i = gets_p (\<lambda>w. find_row (\<lambda>r. tc_id r = i) (db_tool_calls (w_db w)))"

definition tool_call_list_by_tenant :: "uuid \<Rightarrow> tool_call_row list gw" where
  "tool_call_list_by_tenant t =
    gets_p (\<lambda>w. filter (\<lambda>r. tc_tenant_id r = t) (db_tool_calls (w_db w)))"

definition tool_call_get_by_idempotency_key ::
  "uuid \<Rightarrow> uuid \<Rightarrow> string \<Rightarrow> tool_call_row option gw" where
  "tool_call_get_by_idempotency_key t a k = gets_p (\<lambda>w.
     find_row (\<lambda>r. tc_tenant_id r = t \<and> tc_agent_id r = a \<and> tc_idempotency_key r = Some k)
       (db_tool_calls (w_db w)))"

text \<open>The columns of a loaded tool call the program assigns.\<close>

definition write_tool_call :: "tool_call_row \<Rightarrow> db \<Rightarrow> exn + db" where
  "write_tool_call r d = if_fits (tool_call_widths r) (put_tool_calls
     (update_rows (\<lambda>x. tc_id x = tc_id r)
       (\<lambda>x. x\<lparr>tc_approval_id := tc_approval_id r, tc_status := tc_status r,
              tc_error_code := tc_error_code r, tc_error_message := tc_error_message r,
              tc_updated_at := tc_updated_at r\<rparr>)
       (db_tool_calls d)) d)"

definition tool_call_update :: "host \<Rightarrow> tool_call_row \<Rightarrow> tool_call_row \<Rightarrow> tool_call_row gw" where
  "tool_call_update h loaded r =
    flush_row h (r \<noteq> loaded) r (\<lambda>now. r\<lparr>tc_updated_at := now\<rparr>) write_tool_call"

definition tool_call_transition_status ::
  "host \<Rightarrow> uuid \<Rightarrow> tool_call_status \<Rightarrow> tool_call_status \<Rightarrow> tool_call_row option gw" where
  "tool_call_transition_status h i expected_status next_status =
    update_where h (\<lambda>x. tc_id x = i \<and> tc_status x = tool_call_status_value expected_status)
      (\<lambda>now x. x\<lparr>tc_status := tool_call_status_value next_status, tc_updated_at := now\<rparr>)
      db_tool_calls put_tool_calls"

definition clear_arguments_payload :: "host \<Rightarrow> uuid \<Rightarrow> tool_call_row option gw" where
  "clear_arguments_payload h i =
    update_where h (\<lambda>x. tc_id x = i)
      (\<lambda>now x. x\<lparr>tc_arguments_payload := None, tc_updated_at := now\<rparr>)
      db_tool_calls put_tool_calls"

section \<open>SQLAlchemyApprovalRequestRepository\<close>

fun terminal_approval_status :: "approval_status \<Rightarrow> bool" where
  "terminal_approval_status AP_DENIED = True"
| "terminal_approval_status AP_EXPIRED = True"
| "terminal_approval_status AP_EXECUTED = True"
| "terminal_approval_status AP_FAILED = True"
| "terminal_approval_status AP_PENDING = False"
| "terminal_approval_status AP_APPROVED = False"

definition approval_create ::
  "host \<Rightarrow> (uuid \<Rightarrow> datetime \<Rightarrow> datetime \<Rightarrow> approval_row) \<Rightarrow> approval_row gw" where
  "approval_create h mk = create_row h mk insert_approval"

definition approval_get_by_id :: "uuid \<Rightarrow> approval_row option gw" where
  "approval_get_by_id i = gets_p (\<lambda>w. find_row (\<lambda>r. ap_id r = i) (db_approvals (w_db w)))"

definition approval_list_by_tenant :: "uuid \<Rightarrow> approval_row list gw" where
  "approval_list_by_tenant t =
    gets_p (\<lambda>w. filter (\<lambda>r. ap_tenant_id r = t) (db_approvals (w_db w)))"

text \<open>A negative \<open>LIMIT\<close> is refused by the database.\<close>

definition approval_list_filtered ::
  "approval_status option \<Rightarrow> uuid option \<Rightarrow> int option \<Rightarrow> approval_row list gw" where
  "approval_list_filtered status tenant_id limit w =
    (let rows = sort_key ap_created_at
          (filter (\<lambda>r. case tenant_id of None \<Rightarrow> True | Some t \<Rightarrow> ap_tenant_id r = t)
          (filter (\<lambda>r. case status of None \<Rightarrow> True | Some s \<Rightarrow> ap_status r = approval_status_value s)
            (db_approvals (w_db w))))
     in (case limit of
           None \<Rightarrow> Inr rows
         | Some n \<Rightarrow> if n < 0 then Inl DataError else Inr (take (nat n) rows), w))"

definition approval_get_by_tool_call_id :: "uuid \<Rightarrow> approval_row option gw" where
  "approval_get_by_tool_call_id i =
    gets_p (\<lambda>w. find_row (\<lambda>r. ap_tool_call_id r = i) (db_approvals (w_db w)))"

definition transition_values ::
  "datetime \<Rightarrow> approval_status \<Rightarrow> string option \<Rightarrow> approval_row \<Rightarrow> approval_row" where
  "transition_values now next review_reason r =
    (let r1 = r\<lparr>ap_status := approval_status_value next, ap_updated_at := now,
            ap_version := ap_version r + 1\<rparr>;
         r2 = (if next = AP_APPROVED then r1\<lparr>ap_approved_at := Some now\<rparr> else r1);
         r3 = (if next = AP_DENIED then r2\<lparr>ap_denied_at := Some now\<rparr> else r2);
         r4 = (if next = AP_EXECUTED then r3\<lparr>ap_executed_at := Some now\<rparr> else r3)
     in (case review_reason of None \<Rightarrow> r4 | Some reason \<Rightarrow> r4\<lparr>ap_review_reason := Some reason\<rparr>))"

definition approval_transition_status ::
  "host \<Rightarrow> uuid \<Rightarrow> approval_status \<Rightarrow> approval_status \<Rightarrow> string option \<Rightarrow> approval_row option gw" where
  "approval_transition_status h i expected_status next_status review_reason =
    (if terminal_approval_status expected_status then return_p None
     else update_where h
       (\<lambda>x. ap_id x = i \<and> ap_status x = approval_status_value expected_status)
       (\<lambda>now. transition_values now next_status review_reason)
       db_approvals put_approvals)"

section \<open>SQLAlchemyAuditEventRepository\<close>

text \<open>An audit event has an identifier and a creation time, and is never updated.\<close>

definition audit_append :: "host \<Rightarrow> (uuid \<Rightarrow> datetime \<Rightarrow> audit_row) \<Rightarrow> audit_row gw" where
  "audit_append h mk =
    seq (uuid4 h) (\<lambda>i. seq (utc_now h) (\<lambda>created.
    seq (db_step (insert_audit_event (mk i created))) (\<lambda>_. return_p (mk i created))))"

definition audit_get_by_id :: "uuid \<Rightarrow> audit_row option gw" where
  "audit_get_by_id i = gets_p (\<lambda>w. find_row (\<lambda>r. ae_event_id r = i) (db_audit_events (w_db w)))"

definition audit_list_by_tenant :: "uuid \<Rightarrow> audit_row list gw" where
  "audit_list_by_tenant t =
    gets_p (\<lambda>w. filter (\<lambda>r. ae_tenant_id r = t) (db_audit_events (w_db w)))"

section \<open>The ports of the policy engine\<close>

text \<open>
  The policy repository and the default scanner honour the contracts of \<open>policy_ports\<close>, so
  every evaluation on the gateway's own repositories has its properties.
\<close>

interpretation default_scanner: secret_scanner_port "\<lambda>v. Inr (scan v)"
  by unfold_locales (auto simp: scan_Nil_iff)

interpretation policy_repository: policy_source_port "policies_active_ordered ok d" for ok d
  by unfold_locales (simp add: policies_active_ordered_def split: if_splits)

interpretation gateway_policies:
  policy_ports "PolicyService enc sha fr (policies_active_ordered ok d) None" for enc sha fr ok d
  by unfold_locales
    (auto simp: PolicyService_def scan_Nil_iff policies_active_ordered_def split: if_splits)

lemma screened_default: "screened (PolicyService enc sha fr src None) ctx \<longleftrightarrow> clean_arguments ctx"
  by (simp add: screened_def clean_arguments_def PolicyService_def scan_Nil_iff
      del: json_like.simps secret_free.simps)

lemma PolicyService_simps [simp]:
  "ps_list_active_by_tenant_ordered (PolicyService enc sha fr src sc) = src"
  "ps_encodable (PolicyService enc sha fr src sc) = enc"
  "ps_sha256 (PolicyService enc sha fr src sc) = sha"
  "ps_float_repr (PolicyService enc sha fr src sc) = fr"
  by (simp_all add: PolicyService_def)

text \<open>What the gateway's evaluation returns, and the one case in which it raises.\<close>

lemma gateway_evaluate:
  obtains (raises) "evaluate (PolicyService enc sha fr (policies_active_ordered ok d) None) ctx = Inl UnicodeEncodeError"
    "\<not> encodable_arguments enc fr (pc_arguments ctx)"
  | (returns) r where "evaluate (PolicyService enc sha fr (policies_active_ordered ok d) None) ctx = Inr r"
    "encodable_arguments enc fr (pc_arguments ctx)"
    "pr_decision r = verdict (clean_arguments ctx) ctx (policies_active_ordered ok d (pc_tenant_id ctx))"
    "pr_arguments_redacted r = redacted_of (pc_arguments ctx)"
    "pr_arguments_hash r = (case canonical_arguments_hash enc sha fr (pc_arguments ctx) of
       Inl _ \<Rightarrow> [] | Inr h \<Rightarrow> h)"
proof (cases "encodable_arguments enc fr (pc_arguments ctx)")
  case True
  with gateway_policies.evaluate_verdict [of enc sha fr ok d ctx] returns show thesis
    by (auto simp: carries_def screened_default)
next
  case False
  with gateway_policies.evaluate_raises [of enc sha fr ok d ctx] raises show thesis by simp
qed

end
