(* ===== verification/Db_Invariant.thy ===== *)
theory Db_Invariant
  imports Repositories
begin

text \<open>
  What every operation of the program keeps of the database: primary keys, unique constraints
  and foreign keys; enumeration columns that hold members; stored arguments that are masked;
  and how rows may change over time (\<open>grown\<close>): audit events, servers, policies and tenants are
  only ever appended, an agent is only ever disabled, an approval moves forward through its
  status machine, a tool call keeps its request and loses its payload at most.
\<close>

section \<open>Keys and references\<close>

definition idempotency_keys :: "tool_call_row list \<Rightarrow> (uuid \<times> uuid \<times> string option) list" where
  "idempotency_keys t = map (\<lambda>x. (tc_tenant_id x, tc_agent_id x, tc_idempotency_key x))
     (filter (\<lambda>x. tc_idempotency_key x \<noteq> None) t)"

definition keys_ok :: "db \<Rightarrow> bool" where
  "keys_ok d \<longleftrightarrow>
     distinct (map tn_id (db_tenants d)) \<and> distinct (map tn_name (db_tenants d))
   \<and> distinct (map ag_id (db_agents d))
   \<and> distinct (map (\<lambda>x. (ag_tenant_id x, ag_name x)) (db_agents d))
   \<and> distinct (map ag_api_key_hash (db_agents d))
   \<and> distinct (map ts_id (db_tool_servers d))
   \<and> distinct (map (\<lambda>x. (ts_tenant_id x, ts_server_id x)) (db_tool_servers d))
   \<and> distinct (map td_id (db_tool_definitions d))
   \<and> distinct (map (\<lambda>x. (td_tenant_id x, td_server_id x, td_tool_name x)) (db_tool_definitions d))
   \<and> distinct (map po_id (db_policies d))
   \<and> distinct (map (\<lambda>x. (po_tenant_id x, po_name x)) (db_policies d))
   \<and> distinct (map tc_id (db_tool_calls d)) \<and> distinct (idempotency_keys (db_tool_calls d))
   \<and> distinct (map ap_id (db_approvals d)) \<and> distinct (map ap_tool_call_id (db_approvals d))
   \<and> distinct (map ae_event_id (db_audit_events d))"

definition refs_ok :: "db \<Rightarrow> bool" where
  "refs_ok d \<longleftrightarrow> (let tenants = set (map tn_id (db_tenants d)); agents = set (map ag_id (db_agents d)) in
     set (map ag_tenant_id (db_agents d)) \<subseteq> tenants
   \<and> set (map ts_tenant_id (db_tool_servers d)) \<subseteq> tenants
   \<and> set (map td_tenant_id (db_tool_definitions d)) \<subseteq> tenants
   \<and> set (map td_server_id (db_tool_definitions d)) \<subseteq> set (map ts_id (db_tool_servers d))
   \<and> set (map po_tenant_id (db_policies d)) \<subseteq> tenants
   \<and> set (map tc_tenant_id (db_tool_calls d)) \<subseteq> tenants
   \<and> set (map tc_agent_id (db_tool_calls d)) \<subseteq> agents
   \<and> set (map ap_tenant_id (db_approvals d)) \<subseteq> tenants
   \<and> set (map ap_agent_id (db_approvals d)) \<subseteq> agents
   \<and> set (map ap_tool_call_id (db_approvals d)) \<subseteq> set (map tc_id (db_tool_calls d)))"

section \<open>Rows\<close>

definition masked_opt :: "json_object option \<Rightarrow> bool" where
  "masked_opt a = (case a of None \<Rightarrow> True | Some kvs \<Rightarrow> masked (PDict kvs))"

definition agent_ok :: "agent_row \<Rightarrow> bool" where
  "agent_ok r \<longleftrightarrow> agent_role_of (ag_role r) \<noteq> None \<and> entity_status_of (ag_status r) \<noteq> None"

text \<open>The \<open>args\<close> column holds null or a list of strings.\<close>

definition args_ok :: "pyval \<Rightarrow> bool" where
  "args_ok v = (case v of
     PNone \<Rightarrow> True
   | PList xs \<Rightarrow> list_all (\<lambda>x. case x of PStr s \<Rightarrow> True | _ \<Rightarrow> False) xs
   | _ \<Rightarrow> False)"

text \<open>A JSONB column of an object holds null or an object.\<close>

definition object_ok :: "pyval \<Rightarrow> bool" where
  "object_ok v = (case v of PNone \<Rightarrow> True | PDict kvs \<Rightarrow> True | _ \<Rightarrow> False)"

lemma object_ok_simps [simp]: "object_ok PNone" "object_ok (PDict kvs)"
  by (simp_all add: object_ok_def)

definition tool_server_ok :: "tool_server_row \<Rightarrow> bool" where
  "tool_server_ok r \<longleftrightarrow> transport_type_of (ts_transport_type r) \<noteq> None
     \<and> entity_status_of (ts_status r) \<noteq> None \<and> args_ok (ts_args r) \<and> object_ok (ts_env r)"

definition tool_definition_ok :: "tool_definition_row \<Rightarrow> bool" where
  "tool_definition_ok r \<longleftrightarrow> risk_level_of (td_risk_level r) \<noteq> None
     \<and> action_type_of (td_action_type r) \<noteq> None \<and> entity_status_of (td_status r) \<noteq> None
     \<and> object_ok (td_resource_patterns r)"

definition decision_ok :: "string option \<Rightarrow> bool" where
  "decision_ok e = (case e of None \<Rightarrow> True | Some s \<Rightarrow> policy_effect_of s \<noteq> None)"

definition tool_call_ok :: "tool_call_row \<Rightarrow> bool" where
  "tool_call_ok r \<longleftrightarrow> masked (PDict (tc_arguments_redacted r))
     \<and> tool_call_status_of (tc_status r) \<noteq> None \<and> decision_ok (tc_policy_decision r)"

definition approval_ok :: "approval_row \<Rightarrow> bool" where
  "approval_ok r \<longleftrightarrow> masked (PDict (ap_arguments_redacted r)) \<and> approval_status_of (ap_status r) \<noteq> None"

definition audit_ok :: "audit_row \<Rightarrow> bool" where
  "audit_ok r \<longleftrightarrow> masked_opt (ae_arguments_redacted r) \<and> ae_event_type r = ''tool_call''
     \<and> object_ok (ae_metadata_json r)"

definition rows_ok :: "db \<Rightarrow> bool" where
  "rows_ok d \<longleftrightarrow> list_all agent_ok (db_agents d) \<and> list_all tool_server_ok (db_tool_servers d)
     \<and> list_all tool_definition_ok (db_tool_definitions d) \<and> list_all tool_call_ok (db_tool_calls d)
     \<and> list_all approval_ok (db_approvals d) \<and> list_all audit_ok (db_audit_events d)"

definition db_inv :: "db \<Rightarrow> bool" where
  "db_inv d \<longleftrightarrow> keys_ok d \<and> refs_ok d \<and> rows_ok d"

lemma db_inv_empty: "db_inv empty_db"
  by (simp add: db_inv_def keys_ok_def refs_ok_def rows_ok_def empty_db_def idempotency_keys_def)

section \<open>How rows change\<close>

text \<open>\<open>evolves R t0 t\<close>: the rows of \<open>t0\<close> are still there, in place, each related by \<open>R\<close>.\<close>

definition evolves :: "('r \<Rightarrow> 'r \<Rightarrow> bool) \<Rightarrow> 'r list \<Rightarrow> 'r list \<Rightarrow> bool" where
  "evolves R t0 t \<longleftrightarrow> length t0 \<le> length t \<and> list_all2 R t0 (take (length t0) t)"

lemma evolves_iff: "evolves R t0 t \<longleftrightarrow> length t0 \<le> length t \<and> (\<forall>i < length t0. R (t0 ! i) (t ! i))"
  by (auto simp: evolves_def list_all2_conv_all_nth)

lemma evolves_refl: "(\<And>r. R r r) \<Longrightarrow> evolves R t t"
  by (simp add: evolves_iff)

lemma evolves_trans:
  assumes R: "\<And>a b c. R a b \<Longrightarrow> R b c \<Longrightarrow> R a c" and "evolves R t u" "evolves R u v"
  shows "evolves R t v"
  unfolding evolves_iff
proof (intro conjI allI impI)
  show "length t \<le> length v" using assms(2,3) by (simp add: evolves_iff)
  fix i assume i: "i < length t"
  with assms(2) have "R (t ! i) (u ! i)" "i < length u" by (simp_all add: evolves_iff)
  with assms(3) show "R (t ! i) (v ! i)" by (auto simp: evolves_iff intro: R)
qed

lemma evolves_append: "(\<And>r. R r r) \<Longrightarrow> evolves R t (t @ u)"
  by (simp add: evolves_iff nth_append)

lemma evolves_update:
  "(\<And>r. R r r) \<Longrightarrow> (\<And>r. r \<in> set t \<Longrightarrow> p r \<Longrightarrow> R r (f r)) \<Longrightarrow> evolves R t (update_rows p f t)"
  by (simp add: evolves_iff update_rows_def)

definition agent_progress :: "agent_row \<Rightarrow> agent_row \<Rightarrow> bool" where
  "agent_progress r r' \<longleftrightarrow> ag_id r' = ag_id r \<and> ag_tenant_id r' = ag_tenant_id r
     \<and> ag_name r' = ag_name r \<and> ag_role r' = ag_role r \<and> ag_api_key_hash r' = ag_api_key_hash r
     \<and> ag_created_at r' = ag_created_at r
     \<and> (ag_status r' = ag_status r \<or> ag_status r' = entity_status_value DISABLED)"

definition tool_definition_progress :: "tool_definition_row \<Rightarrow> tool_definition_row \<Rightarrow> bool" where
  "tool_definition_progress r r' \<longleftrightarrow> td_id r' = td_id r \<and> td_tenant_id r' = td_tenant_id r
     \<and> td_server_id r' = td_server_id r \<and> td_tool_name r' = td_tool_name r
     \<and> td_resource_patterns r' = td_resource_patterns r \<and> td_created_at r' = td_created_at r"

definition tool_call_progress :: "tool_call_row \<Rightarrow> tool_call_row \<Rightarrow> bool" where
  "tool_call_progress r r' \<longleftrightarrow> tc_id r' = tc_id r \<and> tc_trace_id r' = tc_trace_id r
     \<and> tc_tenant_id r' = tc_tenant_id r \<and> tc_agent_id r' = tc_agent_id r
     \<and> tc_target_server r' = tc_target_server r \<and> tc_target_tool r' = tc_target_tool r
     \<and> tc_arguments_redacted r' = tc_arguments_redacted r
     \<and> tc_arguments_hash r' = tc_arguments_hash r
     \<and> (tc_arguments_payload r' = tc_arguments_payload r \<or> tc_arguments_payload r' = None)
     \<and> tc_tool_schema_hash r' = tc_tool_schema_hash r
     \<and> tc_policy_decision r' = tc_policy_decision r \<and> tc_decision_reason r' = tc_decision_reason r
     \<and> tc_idempotency_key r' = tc_idempotency_key r \<and> tc_created_at r' = tc_created_at r"

text \<open>The status machine of an approval, on the values of the column.\<close>

definition approval_moves :: "approval_status \<Rightarrow> approval_status \<Rightarrow> bool" where
  "approval_moves s s' \<longleftrightarrow> (s, s') \<in> {(AP_PENDING, AP_APPROVED), (AP_PENDING, AP_DENIED),
     (AP_PENDING, AP_EXPIRED), (AP_APPROVED, AP_EXECUTED), (AP_APPROVED, AP_FAILED)}"

definition approval_reaches :: "string \<Rightarrow> string \<Rightarrow> bool" where
  "approval_reaches s s' \<longleftrightarrow> s' = s
     \<or> s = ''pending'' \<and> s' \<in> {''approved'', ''denied'', ''expired'', ''executed'', ''failed''}
     \<or> s = ''approved'' \<and> s' \<in> {''executed'', ''failed''}"

definition approval_progress :: "approval_row \<Rightarrow> approval_row \<Rightarrow> bool" where
  "approval_progress r r' \<longleftrightarrow> ap_id r' = ap_id r \<and> ap_tenant_id r' = ap_tenant_id r
     \<and> ap_agent_id r' = ap_agent_id r \<and> ap_tool_call_id r' = ap_tool_call_id r
     \<and> ap_target_server r' = ap_target_server r \<and> ap_target_tool r' = ap_target_tool r
     \<and> ap_arguments_redacted r' = ap_arguments_redacted r
     \<and> ap_arguments_hash r' = ap_arguments_hash r \<and> ap_requested_reason r' = ap_requested_reason r
     \<and> ap_expires_at r' = ap_expires_at r \<and> ap_created_at r' = ap_created_at r
     \<and> approval_reaches (ap_status r) (ap_status r')
     \<and> (r' = r \<or> ap_version r < ap_version r')"

definition grown :: "db \<Rightarrow> db \<Rightarrow> bool" where
  "grown d0 d \<longleftrightarrow> prefix (db_tenants d0) (db_tenants d)
     \<and> evolves agent_progress (db_agents d0) (db_agents d)
     \<and> prefix (db_tool_servers d0) (db_tool_servers d)
     \<and> evolves tool_definition_progress (db_tool_definitions d0) (db_tool_definitions d)
     \<and> prefix (db_policies d0) (db_policies d)
     \<and> evolves tool_call_progress (db_tool_calls d0) (db_tool_calls d)
     \<and> evolves approval_progress (db_approvals d0) (db_approvals d)
     \<and> prefix (db_audit_events d0) (db_audit_events d)"

lemma progress_refl [simp]:
  "agent_progress a a" "tool_definition_progress t t" "tool_call_progress c c" "approval_progress p p"
  by (simp_all add: agent_progress_def tool_definition_progress_def tool_call_progress_def
      approval_progress_def approval_reaches_def)

lemma agent_progress_trans: "agent_progress a b \<Longrightarrow> agent_progress b c \<Longrightarrow> agent_progress a c"
  unfolding agent_progress_def by auto

lemma tool_definition_progress_trans:
  "tool_definition_progress a b \<Longrightarrow> tool_definition_progress b c \<Longrightarrow> tool_definition_progress a c"
  by (simp add: tool_definition_progress_def)

lemma tool_call_progress_trans:
  "tool_call_progress a b \<Longrightarrow> tool_call_progress b c \<Longrightarrow> tool_call_progress a c"
  unfolding tool_call_progress_def by auto

lemma approval_reaches_trans:
  "approval_reaches a b \<Longrightarrow> approval_reaches b c \<Longrightarrow> approval_reaches a c"
  unfolding approval_reaches_def by auto

lemma approval_progress_trans:
  assumes "approval_progress a b" "approval_progress b c"
  shows "approval_progress a c"
proof -
  have "approval_reaches (ap_status a) (ap_status c)"
    using assms unfolding approval_progress_def by (blast intro: approval_reaches_trans)
  moreover have "c = a \<or> ap_version a < ap_version c"
    using assms unfolding approval_progress_def by (metis order_less_trans)
  ultimately show ?thesis
    using assms by (simp add: approval_progress_def)
qed

lemma grown_refl: "grown d d"
  by (simp add: grown_def evolves_refl)

lemma evolves_trans_rules:
  "evolves agent_progress t u \<Longrightarrow> evolves agent_progress u v \<Longrightarrow> evolves agent_progress t v"
  "evolves tool_definition_progress t' u' \<Longrightarrow> evolves tool_definition_progress u' v' \<Longrightarrow>
    evolves tool_definition_progress t' v'"
  "evolves tool_call_progress x y \<Longrightarrow> evolves tool_call_progress y z \<Longrightarrow>
    evolves tool_call_progress x z"
  "evolves approval_progress x' y' \<Longrightarrow> evolves approval_progress y' z' \<Longrightarrow>
    evolves approval_progress x' z'"
  by (rule evolves_trans, erule (1) agent_progress_trans, assumption+)
    (rule evolves_trans, erule (1) tool_definition_progress_trans tool_call_progress_trans
      approval_progress_trans, assumption+)+

lemma grown_trans: "grown a b \<Longrightarrow> grown b c \<Longrightarrow> grown a c"
  unfolding grown_def
  by (elim conjE, intro conjI)
    (erule (1) prefix_order.trans evolves_trans_rules)+

section \<open>Statements keep the invariant\<close>

text \<open>\<open>sound_step d d'\<close>: the invariant carries over, and the database has only grown.\<close>

definition sound_step :: "db \<Rightarrow> db \<Rightarrow> bool" where
  "sound_step d d' \<longleftrightarrow> (db_inv d \<longrightarrow> db_inv d') \<and> grown d d'"

lemmas inv_defs = db_inv_def keys_ok_def refs_ok_def rows_ok_def Let_def

lemma map_filter_update_rows [table_simps]:
  assumes "\<And>r. q (f r) = q r" and "\<And>r. g (f r) = g r"
  shows "map g (filter q (update_rows p f t)) = map g (filter q t)"
  using assms by (induction t) (auto simp: update_rows_def)

lemma list_all_update_rows:
  assumes "list_all ok t" and "\<And>r. ok r \<Longrightarrow> ok (f r)"
  shows "list_all ok (update_rows p f t)"
  using assms by (auto simp: list_all_iff set_update_rows)

lemma idempotency_keys_append:
  "distinct (idempotency_keys (t @ [r])) \<longleftrightarrow> distinct (idempotency_keys t) \<and>
    (tc_idempotency_key r = None \<or> (tc_tenant_id r, tc_agent_id r, tc_idempotency_key r)
       \<notin> (\<lambda>x. (tc_tenant_id x, tc_agent_id x, tc_idempotency_key x)) ` set t)"
  by (cases "tc_idempotency_key r") (auto simp: idempotency_keys_def image_iff)

lemma subset_insertI: "A \<subseteq> B \<Longrightarrow> A \<subseteq> insert b B"
  by (rule subset_insertI2)

lemma insert_tenant_sound: "insert_tenant r d = Inr d' \<Longrightarrow> sound_step d d'"
  unfolding sound_step_def insert_tenant_def checked_Inr_iff
  by (auto simp: inv_defs grown_def evolves_refl)

lemma insert_agent_sound: "insert_agent r d = Inr d' \<Longrightarrow> agent_ok r \<Longrightarrow> sound_step d d'"
  unfolding sound_step_def insert_agent_def checked_Inr_iff tenant_exists_def
  by (auto simp: inv_defs grown_def evolves_refl evolves_append)

lemma insert_tool_server_sound:
  "insert_tool_server r d = Inr d' \<Longrightarrow> tool_server_ok r \<Longrightarrow> sound_step d d'"
  unfolding sound_step_def insert_tool_server_def checked_Inr_iff tenant_exists_def
  by (auto simp: inv_defs grown_def evolves_refl)

lemma insert_tool_definition_sound:
  "insert_tool_definition r d = Inr d' \<Longrightarrow> tool_definition_ok r \<Longrightarrow> sound_step d d'"
  unfolding sound_step_def insert_tool_definition_def checked_Inr_iff tenant_exists_def
  by (auto simp: inv_defs grown_def evolves_refl evolves_append)

lemma insert_policy_sound: "insert_policy r d = Inr d' \<Longrightarrow> sound_step d d'"
  unfolding sound_step_def insert_policy_def checked_Inr_iff tenant_exists_def
  by (auto simp: inv_defs grown_def evolves_refl)

lemma insert_tool_call_sound:
  "insert_tool_call r d = Inr d' \<Longrightarrow> tool_call_ok r \<Longrightarrow> sound_step d d'"
  unfolding sound_step_def insert_tool_call_def checked_Inr_iff tenant_exists_def agent_exists_def
  by (auto simp: inv_defs idempotency_keys_append grown_def evolves_refl evolves_append)

lemma insert_approval_sound:
  "insert_approval r d = Inr d' \<Longrightarrow> approval_ok r \<Longrightarrow> sound_step d d'"
  unfolding sound_step_def insert_approval_def checked_Inr_iff tenant_exists_def agent_exists_def
  by (auto simp: inv_defs grown_def evolves_refl evolves_append)

lemma insert_audit_event_sound:
  "insert_audit_event r d = Inr d' \<Longrightarrow> audit_ok r \<Longrightarrow> sound_step d d'"
  unfolding sound_step_def insert_audit_event_def checked_Inr_iff
  by (auto simp: inv_defs grown_def evolves_refl)

lemmas insert_sound = insert_tenant_sound insert_agent_sound insert_tool_server_sound
  insert_tool_definition_sound insert_policy_sound insert_tool_call_sound insert_approval_sound
  insert_audit_event_sound

lemma if_fits_Inr_iff: "if_fits w d = Inr d' \<longleftrightarrow> w \<and> d' = d"
  by (auto simp: if_fits_def)

lemma write_agent_sound:
  assumes "write_agent r d = Inr d'" and "ag_status r = entity_status_value DISABLED"
  shows "sound_step d d'"
  using assms unfolding sound_step_def write_agent_def if_fits_Inr_iff put_defs
  by (auto simp: inv_defs grown_def table_simps evolves_refl agent_progress_def agent_ok_def
      intro!: evolves_update list_all_update_rows)

lemma write_tool_definition_sound:
  assumes "write_tool_definition r d = Inr d'" and "tool_definition_ok r"
  shows "sound_step d d'"
  using assms unfolding sound_step_def write_tool_definition_def if_fits_Inr_iff put_defs
  by (auto simp: inv_defs grown_def table_simps evolves_refl tool_definition_progress_def
      tool_definition_ok_def intro!: evolves_update list_all_update_rows)

lemma write_tool_call_sound:
  assumes "write_tool_call r d = Inr d'" and "tool_call_ok r"
  shows "sound_step d d'"
  using assms unfolding sound_step_def write_tool_call_def if_fits_Inr_iff put_defs
  by (auto simp: inv_defs idempotency_keys_def grown_def table_simps evolves_refl
      tool_call_progress_def tool_call_ok_def intro!: evolves_update list_all_update_rows)

lemma clear_payload_sound:
  "sound_step d (put_tool_calls (update_rows p
     (\<lambda>x. x\<lparr>tc_arguments_payload := None, tc_updated_at := now\<rparr>) (db_tool_calls d)) d)"
  unfolding sound_step_def put_defs
  by (auto simp: inv_defs idempotency_keys_def grown_def table_simps evolves_refl
      tool_call_progress_def tool_call_ok_def intro!: evolves_update list_all_update_rows)

lemma tool_call_transition_sound:
  "sound_step d (put_tool_calls (update_rows p
     (\<lambda>x. x\<lparr>tc_status := tool_call_status_value s, tc_updated_at := now\<rparr>) (db_tool_calls d)) d)"
  unfolding sound_step_def put_defs
  by (auto simp: inv_defs idempotency_keys_def grown_def table_simps evolves_refl
      tool_call_progress_def tool_call_ok_def intro!: evolves_update list_all_update_rows)

lemma transition_values_simps [simp]:
  "ap_id (transition_values now n rr r) = ap_id r"
  "ap_tenant_id (transition_values now n rr r) = ap_tenant_id r"
  "ap_agent_id (transition_values now n rr r) = ap_agent_id r"
  "ap_tool_call_id (transition_values now n rr r) = ap_tool_call_id r"
  "ap_target_server (transition_values now n rr r) = ap_target_server r"
  "ap_target_tool (transition_values now n rr r) = ap_target_tool r"
  "ap_arguments_redacted (transition_values now n rr r) = ap_arguments_redacted r"
  "ap_arguments_hash (transition_values now n rr r) = ap_arguments_hash r"
  "ap_status (transition_values now n rr r) = approval_status_value n"
  "ap_requested_reason (transition_values now n rr r) = ap_requested_reason r"
  "ap_reviewer_id (transition_values now n rr r) = ap_reviewer_id r"
  "ap_expires_at (transition_values now n rr r) = ap_expires_at r"
  "ap_created_at (transition_values now n rr r) = ap_created_at r"
  "ap_updated_at (transition_values now n rr r) = now"
  "ap_version (transition_values now n rr r) = ap_version r + 1"
  by (simp_all add: transition_values_def Let_def split: option.split)

lemma approval_moves_reaches:
  "approval_moves s s' \<Longrightarrow> approval_reaches (approval_status_value s) (approval_status_value s')"
  by (auto simp: approval_moves_def approval_reaches_def)

lemma approval_transition_sound:
  assumes "approval_moves e n"
  shows "sound_step d (put_approvals (update_rows
    (\<lambda>x. ap_id x = i \<and> ap_status x = approval_status_value e) (transition_values now n rr)
    (db_approvals d)) d)"
  unfolding sound_step_def put_defs
  using approval_moves_reaches [OF assms]
  by (auto simp: inv_defs grown_def table_simps evolves_refl approval_progress_def approval_ok_def
      intro!: evolves_update list_all_update_rows)

section \<open>The invariant of a request\<close>

text \<open>
  Between the start of a request and its commit: the session's rows satisfy the invariant and
  have grown from \<open>d0\<close>, the upstream log extends \<open>u0\<close>, and the committed rows are still \<open>c0\<close>.
\<close>

definition request_inv :: "db \<Rightarrow> upstream_event list \<Rightarrow> db \<Rightarrow> world \<Rightarrow> bool" where
  "request_inv d0 u0 c0 w \<longleftrightarrow> db_inv (w_db w) \<and> grown d0 (w_db w) \<and> prefix u0 (w_upstream w)
     \<and> w_committed w = c0"

lemma request_inv_db:
  "request_inv d0 u0 c0 w \<Longrightarrow> sound_step (w_db w) d \<Longrightarrow> request_inv d0 u0 c0 (w\<lparr>w_db := d\<rparr>)"
  by (auto simp: request_inv_def sound_step_def intro: grown_trans)

lemma request_inv_simps [simp]:
  "request_inv d0 u0 c0 (w\<lparr>w_clock := n\<rparr>) = request_inv d0 u0 c0 w"
  "request_inv d0 u0 c0 (w\<lparr>w_uuids := n\<rparr>) = request_inv d0 u0 c0 w"
  "request_inv d0 u0 c0 (w\<lparr>w_tokens := n\<rparr>) = request_inv d0 u0 c0 w"
  "request_inv d0 u0 c0 (w\<lparr>w_policy_reads := n\<rparr>) = request_inv d0 u0 c0 w"
  by (simp_all add: request_inv_def)

lemma keeps_fresh [keeps_intros]:
  "keeps (request_inv d0 u0 c0) (utc_now h) (\<lambda>_. True)"
  "keeps (request_inv d0 u0 c0) (uuid4 h) (\<lambda>_. True)"
  "keeps (request_inv d0 u0 c0) (token_urlsafe h) (\<lambda>_. True)"
  by (simp_all add: keeps_def wp_simps)

lemma keeps_upstream [keeps_intros]:
  "keeps (request_inv d0 u0 c0) (upstream_call_tool mc s t a tm) (\<lambda>_. True)"
  "keeps (request_inv d0 u0 c0) (upstream_list_tools mc s tm) (\<lambda>_. True)"
  by (simp_all add: keeps_def wp_simps request_inv_def Let_def split: sum.split)

lemma keeps_db_step:
  assumes "\<And>d d'. f d = Inr d' \<Longrightarrow> sound_step d d'"
  shows "keeps (request_inv d0 u0 c0) (db_step f) (\<lambda>_. True)"
  using assms by (auto simp: keeps_def wp_simps intro: request_inv_db split: sum.split)

lemma keeps_create_row:
  assumes "\<And>i c u. ok (mk i c u)" and "\<And>r d d'. ins r d = Inr d' \<Longrightarrow> ok r \<Longrightarrow> sound_step d d'"
  shows "keeps (request_inv d0 u0 c0) (create_row h mk ins) ok"
  unfolding create_row_def
  by (rule keeps_intros keeps_db_step TrueI assms(1) | (erule assms(2), rule assms(1)))+

lemma keeps_flush_row:
  assumes "ok r" and "\<And>now. ok (stamp now)" and "\<And>r d d'. write r d = Inr d' \<Longrightarrow> ok r \<Longrightarrow> sound_step d d'"
  shows "keeps (request_inv d0 u0 c0) (flush_row h changed r stamp write) ok"
  unfolding flush_row_def
  by (rule keeps_intros keeps_db_step TrueI assms(1,2) | (erule assms(3), rule assms(2)))+

lemma keeps_update_where:
  assumes "\<And>now d. sound_step d (put (update_rows p (change now) (rows d)) d)"
    and "\<And>d. db_inv d \<Longrightarrow> list_all ok (rows d)" and "\<And>now r. ok r \<Longrightarrow> ok (change now r)"
  shows "keeps (request_inv d0 u0 c0) (update_where h p change rows put) (pred_option ok)"
proof -
  have "pred_option ok (map_option (change now) (find_row p (rows d)))" if "db_inv d" for now d
    using assms(2) [OF that] assms(3)
    by (cases "find_row p (rows d)") (auto dest!: find_row_SomeD simp: list_all_iff)
  with assms(1) show ?thesis
    by (auto simp: keeps_def wp_simps request_inv_def Let_def sound_step_def intro: grown_trans)
qed

lemma pred_find_row: "list_all ok t \<Longrightarrow> pred_option ok (find_row p t)"
  by (cases "find_row p t") (auto dest: find_row_SomeD simp: list_all_iff)

lemma list_all_filter: "list_all ok t \<Longrightarrow> list_all ok (filter p t)"
  by (auto simp: list_all_iff)

lemma db_inv_rows:
  assumes "db_inv d"
  shows "list_all agent_ok (db_agents d)" "list_all tool_server_ok (db_tool_servers d)"
    "list_all tool_definition_ok (db_tool_definitions d)" "list_all tool_call_ok (db_tool_calls d)"
    "list_all approval_ok (db_approvals d)" "list_all audit_ok (db_audit_events d)"
  using assms by (simp_all add: inv_defs)

section \<open>Every repository operation keeps it\<close>

lemmas query_defs = tenant_get_by_id_def tenant_list_def agent_get_by_id_def
  agent_list_by_tenant_def agent_get_by_api_key_hash_def tool_server_get_by_id_def
  tool_server_list_by_tenant_def tool_server_get_by_server_id_def tool_definition_get_by_id_def
  tool_definition_list_by_tenant_def tool_definition_get_by_name_def
  tool_definition_list_by_server_def policy_get_by_id_def policy_list_by_tenant_def
  tool_call_get_by_id_def tool_call_list_by_tenant_def tool_call_get_by_idempotency_key_def
  approval_get_by_id_def approval_list_by_tenant_def approval_get_by_tool_call_id_def
  audit_get_by_id_def audit_list_by_tenant_def

lemma keeps_queries [keeps_intros]:
  "keeps (request_inv d0 u0 c0) (tenant_get_by_id i) (\<lambda>_. True)"
  "keeps (request_inv d0 u0 c0) tenant_list (\<lambda>_. True)"
  "keeps (request_inv d0 u0 c0) (agent_get_by_id i) (pred_option agent_ok)"
  "keeps (request_inv d0 u0 c0) (agent_list_by_tenant t) (list_all agent_ok)"
  "keeps (request_inv d0 u0 c0) (agent_get_by_api_key_hash k) (pred_option agent_ok)"
  "keeps (request_inv d0 u0 c0) (tool_server_get_by_id i) (pred_option tool_server_ok)"
  "keeps (request_inv d0 u0 c0) (tool_server_list_by_tenant t) (list_all tool_server_ok)"
  "keeps (request_inv d0 u0 c0) (tool_server_get_by_server_id t k) (pred_option tool_server_ok)"
  "keeps (request_inv d0 u0 c0) (tool_definition_get_by_id i) (pred_option tool_definition_ok)"
  "keeps (request_inv d0 u0 c0) (tool_definition_list_by_tenant t) (list_all tool_definition_ok)"
  "keeps (request_inv d0 u0 c0) (tool_definition_get_by_name t s k) (pred_option tool_definition_ok)"
  "keeps (request_inv d0 u0 c0) (tool_definition_list_by_server t s) (list_all tool_definition_ok)"
  "keeps (request_inv d0 u0 c0) (tool_call_get_by_id i) (pred_option tool_call_ok)"
  "keeps (request_inv d0 u0 c0) (tool_call_list_by_tenant t) (list_all tool_call_ok)"
  "keeps (request_inv d0 u0 c0) (tool_call_get_by_idempotency_key t a k) (pred_option tool_call_ok)"
  "keeps (request_inv d0 u0 c0) (approval_get_by_id i) (pred_option approval_ok)"
  "keeps (request_inv d0 u0 c0) (approval_list_by_tenant t) (list_all approval_ok)"
  "keeps (request_inv d0 u0 c0) (approval_get_by_tool_call_id i) (pred_option approval_ok)"
  "keeps (request_inv d0 u0 c0) (audit_get_by_id i) (pred_option audit_ok)"
  "keeps (request_inv d0 u0 c0) (audit_list_by_tenant t) (list_all audit_ok)"
  unfolding query_defs
  by (intro keeps_gets, simp add: request_inv_def db_inv_rows pred_find_row list_all_filter)+

lemma keeps_list_filtered [keeps_intros]:
  "keeps (request_inv d0 u0 c0) (approval_list_filtered s t l) (list_all approval_ok)"
  by (auto simp: keeps_def wp_def approval_list_filtered_def Let_def list_all_iff request_inv_def
      inv_defs dest!: in_set_takeD split: option.splits)

lemma keeps_creates [keeps_intros]:
  "(\<And>i c u. agent_ok (mk i c u)) \<Longrightarrow> keeps (request_inv d0 u0 c0) (agent_create h mk) agent_ok"
  "(\<And>i c u. tool_server_ok (mk' i c u)) \<Longrightarrow>
    keeps (request_inv d0 u0 c0) (tool_server_create h mk') tool_server_ok"
  "(\<And>i c u. tool_definition_ok (mk'' i c u)) \<Longrightarrow>
    keeps (request_inv d0 u0 c0) (tool_definition_create h mk'') tool_definition_ok"
  "(\<And>i c u. tool_call_ok (mk3 i c u)) \<Longrightarrow>
    keeps (request_inv d0 u0 c0) (tool_call_create h mk3) tool_call_ok"
  "(\<And>i c u. approval_ok (mk4 i c u)) \<Longrightarrow>
    keeps (request_inv d0 u0 c0) (approval_create h mk4) approval_ok"
  unfolding agent_create_def tool_server_create_def tool_definition_create_def tool_call_create_def
    approval_create_def
  by (rule keeps_create_row, assumption, erule (1) insert_sound)+

lemma keeps_audit_append [keeps_intros]:
  "(\<And>i c. audit_ok (mk i c)) \<Longrightarrow> keeps (request_inv d0 u0 c0) (audit_append h mk) audit_ok"
  unfolding audit_append_def
  by (rule keeps_intros keeps_db_step TrueI | (erule insert_audit_event_sound, assumption) | assumption)+

lemma keeps_updates [keeps_intros]:
  "tool_definition_ok r \<Longrightarrow>
    keeps (request_inv d0 u0 c0) (tool_definition_update h r0 r) tool_definition_ok"
  "tool_call_ok c \<Longrightarrow> keeps (request_inv d0 u0 c0) (tool_call_update h k0 c) tool_call_ok"
  unfolding tool_definition_update_def tool_call_update_def
  by (rule keeps_flush_row; simp add: tool_definition_ok_def tool_call_ok_def
      write_tool_definition_sound write_tool_call_sound)+

lemma keeps_agent_flush:
  assumes "agent_ok r" "ag_status r = entity_status_value DISABLED"
  shows "keeps (request_inv d0 u0 c0)
    (flush_row h c r (\<lambda>now. r\<lparr>ag_updated_at := now\<rparr>) write_agent) agent_ok"
proof (rule keeps_mono)
  show "keeps (request_inv d0 u0 c0) (flush_row h c r (\<lambda>now. r\<lparr>ag_updated_at := now\<rparr>) write_agent)
      (\<lambda>r. agent_ok r \<and> ag_status r = entity_status_value DISABLED)"
    by (rule keeps_flush_row) (use assms in \<open>auto simp: agent_ok_def intro: write_agent_sound\<close>)
qed simp

lemma keeps_agent_disable [keeps_intros]:
  "keeps (request_inv d0 u0 c0) (agent_disable h i) (pred_option agent_ok)"
  unfolding agent_disable_def
  by (rule keeps_intros keeps_agent_flush | (simp add: agent_ok_def; fail))+

lemma keeps_transitions [keeps_intros]:
  "keeps (request_inv d0 u0 c0) (clear_arguments_payload h i) (pred_option tool_call_ok)"
  "keeps (request_inv d0 u0 c0) (tool_call_transition_status h i a b) (pred_option tool_call_ok)"
  "approval_moves e n \<Longrightarrow>
    keeps (request_inv d0 u0 c0) (approval_transition_status h i e n rr) (pred_option approval_ok)"
  unfolding clear_arguments_payload_def tool_call_transition_status_def approval_transition_status_def
  by (intro keeps_intros keeps_update_where clear_payload_sound tool_call_transition_sound
        approval_transition_sound db_inv_rows;
      simp add: tool_call_ok_def approval_ok_def)+

end
