(* ===== verification/Status_Cas.thy ===== *)
theory Status_Cas
  imports Db_Invariant
begin

text \<open>
  The compare-and-set contract of \<open>transition_status\<close>, on which the approval flow rests: the
  statement changes the row of the given identifier when its status is the expected one, and
  otherwise it changes nothing and returns \<open>None\<close>. The contract is a locale, interpreted on
  the repository of approvals and on that of tool calls; what it gives is that of any number
  of competing transitions from one status at most one wins.
\<close>

section \<open>Conditional updates of a row\<close>

definition find_id :: "('r \<Rightarrow> uuid) \<Rightarrow> uuid \<Rightarrow> 'r list \<Rightarrow> 'r option" where
  "find_id key i = find_row (\<lambda>r. key r = i)"

lemma find_id_cond:
  assumes "distinct (map key t)"
  shows "find_row (\<lambda>r. key r = i \<and> q r) t =
    (case find_id key i t of None \<Rightarrow> None | Some r \<Rightarrow> if q r then Some r else None)"
proof (cases "find_id key i t")
  case None
  then have "\<forall>r \<in> set t. key r \<noteq> i" by (simp add: find_id_def find_row_None_iff)
  then have "find_row (\<lambda>r. key r = i \<and> q r) t = None" by (simp add: find_row_None_iff)
  with None show ?thesis by simp
next
  case (Some r)
  then have r: "r \<in> set t" "key r = i" by (auto simp: find_id_def dest: find_row_SomeD)
  have only: "x = r" if "x \<in> set t" "key x = i" for x
    using assms that r by (metis distinct_map inj_on_eq_iff)
  show ?thesis
  proof (cases "q r")
    case True
    have "find_row (\<lambda>r. key r = i \<and> q r) t \<noteq> None"
      using r True by (auto simp: find_row_None_iff)
    then obtain x where x: "find_row (\<lambda>r. key r = i \<and> q r) t = Some x" by blast
    with only have "x = r" by (auto dest: find_row_SomeD)
    with x True Some show ?thesis by simp
  next
    case False
    with only Some show ?thesis by (auto simp: find_row_None_iff)
  qed
qed

lemma find_id_update_cond:
  assumes "\<And>r. key (f r) = key r"
  shows "find_id key j (update_rows (\<lambda>r. key r = i \<and> q r) f t) =
    map_option (\<lambda>r. if j = i \<and> q r then f r else r) (find_id key j t)"
  using assms by (induction t) (auto simp: find_id_def find_row_def update_rows_def)

lemma find_id_update:
  assumes "\<And>r. key (f r) = key r"
  shows "find_id key j (update_rows (\<lambda>r. key r = i) f t) =
    map_option (\<lambda>r. if j = i then f r else r) (find_id key j t)"
  using find_id_update_cond [where key = key and f = f and q = "\<lambda>_. True", OF assms] by simp

section \<open>The contract\<close>

text \<open>The number of transitions that return a row, made one after the other.\<close>

fun cas_wins :: "('s \<Rightarrow> 'r option gw) \<Rightarrow> 's list \<Rightarrow> world \<Rightarrow> nat" where
  "cas_wins attempt [] w = 0"
| "cas_wins attempt (n # ns) w = (case attempt n w of
     (Inr (Some r), w') \<Rightarrow> Suc (cas_wins attempt ns w')
   | (_, w') \<Rightarrow> cas_wins attempt ns w')"

locale status_cas =
  fixes wf :: "db \<Rightarrow> bool"
    and look :: "uuid \<Rightarrow> db \<Rightarrow> 'r option"
    and status :: "'r \<Rightarrow> string"
    and val :: "'s \<Rightarrow> string"
    and closed :: "'s \<Rightarrow> bool"
    and cas :: "uuid \<Rightarrow> 's \<Rightarrow> 's \<Rightarrow> 'r option gw"
  assumes hit: "wf (w_db w) \<Longrightarrow> look i (w_db w) = Some r \<Longrightarrow> status r = val e \<Longrightarrow> \<not> closed e \<Longrightarrow>
      \<exists>r' w'. cas i e n w = (Inr (Some r'), w') \<and> look i (w_db w') = Some r' \<and> status r' = val n
        \<and> wf (w_db w')"
    and miss: "wf (w_db w) \<Longrightarrow> closed e \<or> pred_option (\<lambda>r. status r \<noteq> val e) (look i (w_db w)) \<Longrightarrow>
      \<exists>w'. cas i e n w = (Inr None, w') \<and> w_db w' = w_db w"
    and frame: "wf (w_db w) \<Longrightarrow> j \<noteq> i \<Longrightarrow> look j (w_db (snd (cas i e n w))) = look j (w_db w)"
begin

lemma cas_cases:
  assumes "wf (w_db w)"
  obtains (won) r' w' where "cas i e n w = (Inr (Some r'), w')" "look i (w_db w') = Some r'"
      "status r' = val n" "wf (w_db w')" "\<not> closed e"
  | (lost) w' where "cas i e n w = (Inr None, w')" "w_db w' = w_db w"
proof (cases "closed e \<or> pred_option (\<lambda>r. status r \<noteq> val e) (look i (w_db w))")
  case True
  with miss [OF assms] lost show thesis by blast
next
  case False
  then obtain r where "look i (w_db w) = Some r" "status r = val e" "\<not> closed e"
    by (cases "look i (w_db w)") auto
  from hit [OF assms this] won \<open>\<not> closed e\<close> show thesis by blast
qed

lemma no_win_when_moved:
  assumes "wf (w_db w)" and "look i (w_db w) = Some r" and "status r \<noteq> val e"
  shows "cas_wins (cas i e) ns w = 0"
  using assms
proof (induction ns arbitrary: w)
  case (Cons n ns)
  from miss [OF Cons.prems(1), of e i n] Cons.prems(2,3)
  obtain w' where "cas i e n w = (Inr None, w')" "w_db w' = w_db w" by auto
  with Cons show ?case by simp
qed simp

lemma at_most_one_win:
  assumes "wf (w_db w)" and "\<And>n. n \<in> set ns \<Longrightarrow> val n \<noteq> val e"
  shows "cas_wins (cas i e) ns w \<le> 1"
  using assms
proof (induction ns arbitrary: w)
  case (Cons n ns)
  show ?case
  proof (cases rule: cas_cases [OF Cons.prems(1), of i e n, case_names won lost])
    case (won r' w')
    moreover have "status r' \<noteq> val e" using won(3) Cons.prems(2) [of n] by simp
    ultimately show ?thesis using no_win_when_moved [of w' i r' e ns] by simp
  next
    case (lost w')
    with Cons.IH [of w'] Cons.prems show ?thesis by simp
  qed
qed simp

end

section \<open>The two repositories provide it\<close>

definition approval_ids_ok :: "db \<Rightarrow> bool" where
  "approval_ids_ok d \<longleftrightarrow> distinct (map ap_id (db_approvals d))"

definition tool_call_ids_ok :: "db \<Rightarrow> bool" where
  "tool_call_ids_ok d \<longleftrightarrow> distinct (map tc_id (db_tool_calls d))"

definition look_approval :: "uuid \<Rightarrow> db \<Rightarrow> approval_row option" where
  "look_approval i d = find_id ap_id i (db_approvals d)"

definition look_tool_call :: "uuid \<Rightarrow> db \<Rightarrow> tool_call_row option" where
  "look_tool_call i d = find_id tc_id i (db_tool_calls d)"

lemma db_inv_ids: "db_inv d \<Longrightarrow> approval_ids_ok d" "db_inv d \<Longrightarrow> tool_call_ids_ok d"
  by (simp_all add: approval_ids_ok_def tool_call_ids_ok_def inv_defs)

lemma approval_transition_eq:
  assumes "approval_ids_ok (w_db w)"
  shows "approval_transition_status h i e n rr w =
    (if terminal_approval_status e then (Inr None, w)
     else let now = h_now h (w_clock w);
              w' = w\<lparr>w_clock := Suc (w_clock w),
                w_db := put_approvals (update_rows
                  (\<lambda>x. ap_id x = i \<and> ap_status x = approval_status_value e)
                  (transition_values now n rr) (db_approvals (w_db w))) (w_db w)\<rparr>
       in (Inr (case look_approval i (w_db w) of None \<Rightarrow> None
            | Some r \<Rightarrow> if ap_status r = approval_status_value e
                then Some (transition_values now n rr r) else None), w'))"
  using assms
  by (simp add: approval_transition_status_def update_where_def prog_defs utc_now_def Let_def
      look_approval_def approval_ids_ok_def find_id_cond split: option.split)

lemma update_rows_unhit:
  assumes "distinct (map key t)" and "pred_option (\<lambda>r. \<not> q r) (find_id key i t)"
  shows "update_rows (\<lambda>x. key x = i \<and> q x) f t = t"
proof (rule update_rows_Nil_iff)
  fix r assume r: "r \<in> set t"
  show "\<not> (key r = i \<and> q r)"
  proof
    assume hit: "key r = i \<and> q r"
    with distinct_map_find_row [OF assms(1) r] have "find_id key i t = Some r"
      by (simp add: find_id_def)
    with assms(2) hit show False by simp
  qed
qed

interpretation approvals_cas: status_cas approval_ids_ok look_approval ap_status approval_status_value
  terminal_approval_status "\<lambda>i e n. approval_transition_status h i e n rr" for h rr
proof
  fix w :: world and i r e n
  assume wf: "approval_ids_ok (w_db w)" and "look_approval i (w_db w) = Some r"
    and "ap_status r = approval_status_value e" and "\<not> terminal_approval_status e"
  then show "\<exists>r' w'. approval_transition_status h i e n rr w = (Inr (Some r'), w')
      \<and> look_approval i (w_db w') = Some r' \<and> ap_status r' = approval_status_value n
      \<and> approval_ids_ok (w_db w')"
    by (simp add: approval_transition_eq Let_def look_approval_def put_approvals_def
        find_id_update_cond approval_ids_ok_def table_simps)
next
  fix w :: world and e i n
  assume "approval_ids_ok (w_db w)"
    and "terminal_approval_status e
      \<or> pred_option (\<lambda>r. ap_status r \<noteq> approval_status_value e) (look_approval i (w_db w))"
  then show "\<exists>w'. approval_transition_status h i e n rr w = (Inr None, w') \<and> w_db w' = w_db w"
    by (auto simp: approval_transition_eq Let_def put_approvals_def approval_ids_ok_def
        look_approval_def update_rows_unhit split: option.split)
next
  fix w :: world and j i :: uuid and e n
  assume "approval_ids_ok (w_db w)" and "j \<noteq> i"
  then show "look_approval j (w_db (snd (approval_transition_status h i e n rr w)))
      = look_approval j (w_db w)"
    by (simp add: approval_transition_eq Let_def look_approval_def put_approvals_def
        find_id_update_cond option.map_ident)
qed

lemma tool_call_transition_eq:
  assumes "tool_call_ids_ok (w_db w)"
  shows "tool_call_transition_status h i e n w =
    (let now = h_now h (w_clock w);
         change = (\<lambda>x. x\<lparr>tc_status := tool_call_status_value n, tc_updated_at := now\<rparr>);
         w' = w\<lparr>w_clock := Suc (w_clock w),
           w_db := put_tool_calls (update_rows
             (\<lambda>x. tc_id x = i \<and> tc_status x = tool_call_status_value e)
             change (db_tool_calls (w_db w))) (w_db w)\<rparr>
     in (Inr (case look_tool_call i (w_db w) of None \<Rightarrow> None
          | Some r \<Rightarrow> if tc_status r = tool_call_status_value e then Some (change r) else None), w'))"
  using assms
  by (simp add: tool_call_transition_status_def update_where_def prog_defs utc_now_def Let_def
      look_tool_call_def tool_call_ids_ok_def find_id_cond split: option.split)

interpretation tool_calls_cas: status_cas tool_call_ids_ok look_tool_call tc_status
  tool_call_status_value "\<lambda>_. False" "tool_call_transition_status h" for h
proof
  fix w :: world and i r e n
  assume "tool_call_ids_ok (w_db w)" and "look_tool_call i (w_db w) = Some r"
    and "tc_status r = tool_call_status_value e"
  then show "\<exists>r' w'. tool_call_transition_status h i e n w = (Inr (Some r'), w')
      \<and> look_tool_call i (w_db w') = Some r' \<and> tc_status r' = tool_call_status_value n
      \<and> tool_call_ids_ok (w_db w')"
    by (simp add: tool_call_transition_eq Let_def look_tool_call_def put_tool_calls_def
        find_id_update_cond tool_call_ids_ok_def table_simps)
next
  fix w :: world and e i n
  assume "tool_call_ids_ok (w_db w)"
    and "False \<or> pred_option (\<lambda>r. tc_status r \<noteq> tool_call_status_value e) (look_tool_call i (w_db w))"
  then show "\<exists>w'. tool_call_transition_status h i e n w = (Inr None, w') \<and> w_db w' = w_db w"
    by (auto simp: tool_call_transition_eq Let_def put_tool_calls_def tool_call_ids_ok_def
        look_tool_call_def update_rows_unhit split: option.split)
next
  fix w :: world and j i :: uuid and e n
  assume "tool_call_ids_ok (w_db w)" and "j \<noteq> i"
  then show "look_tool_call j (w_db (snd (tool_call_transition_status h i e n w)))
      = look_tool_call j (w_db w)"
    by (simp add: tool_call_transition_eq Let_def look_tool_call_def put_tool_calls_def
        find_id_update_cond option.map_ident)
qed

section \<open>Weakest preconditions of the row operations\<close>

text \<open>
  The operations on one approval or one tool call, read through \<open>look_approval\<close> and
  \<open>look_tool_call\<close>.
\<close>

lemma wp_approval_get [wp_simps]:
  "wp (approval_get_by_id i) Q E w = Q (look_approval i (w_db w)) w"
  by (simp add: approval_get_by_id_def look_approval_def find_id_def wp_simps)

lemma wp_tool_call_get [wp_simps]:
  "wp (tool_call_get_by_id i) Q E w = Q (look_tool_call i (w_db w)) w"
  by (simp add: tool_call_get_by_id_def look_tool_call_def find_id_def wp_simps)

end
