(* ===== verification/Approval_Service.thy ===== *)
theory Approval_Service
  imports Status_Cas
begin

text \<open>
  The audit service (\<open>application/services/audit_service.py\<close>) and the approval service
  (\<open>application/services/approval_service.py\<close>). The execution of an approved call belongs to
  the tool call service; here it is an argument of \<open>approve_approval\<close>, as in the code.
\<close>

section \<open>AuditService\<close>

text \<open>The keyword arguments of \<open>append_tool_call_event\<close>.\<close>

record tool_call_event =
  ev_trace_id :: "string option"
  ev_tenant_id :: uuid
  ev_agent_id :: "uuid option"
  ev_target_server :: "string option"
  ev_target_tool :: "string option"
  ev_arguments_redacted :: "json_object option"
  ev_arguments_hash :: "string option"
  ev_policy_decision :: "string option"
  ev_decision_reason :: "string option"
  ev_approval_id :: "uuid option"
  ev_status :: string
  ev_error_code :: "string option"
  ev_error_message :: "string option"
  ev_metadata :: pyval

definition append_tool_call_event :: "host \<Rightarrow> tool_call_event \<Rightarrow> audit_row gw" where
  "append_tool_call_event h ev = audit_append h (\<lambda>event_id created_at.
     \<lparr>ae_event_id = event_id, ae_trace_id = ev_trace_id ev, ae_tenant_id = ev_tenant_id ev,
      ae_agent_id = ev_agent_id ev, ae_event_type = ''tool_call'',
      ae_target_server = ev_target_server ev, ae_target_tool = ev_target_tool ev,
      ae_arguments_redacted = ev_arguments_redacted ev, ae_arguments_hash = ev_arguments_hash ev,
      ae_policy_decision = ev_policy_decision ev, ae_decision_reason = ev_decision_reason ev,
      ae_approval_id = ev_approval_id ev, ae_status = ev_status ev,
      ae_error_code = ev_error_code ev, ae_error_message = ev_error_message ev,
      ae_metadata_json = ev_metadata ev, ae_created_at = created_at\<rparr>)"

lemma keeps_append_event [keeps_intros]:
  "masked_opt (ev_arguments_redacted ev) \<Longrightarrow> object_ok (ev_metadata ev) \<Longrightarrow>
    keeps (request_inv d0 u0 c0) (append_tool_call_event h ev) audit_ok"
  unfolding append_tool_call_event_def by (rule keeps_intros) (simp add: audit_ok_def)

section \<open>ApprovalService\<close>

record approval_action_error =
  ax_code :: string
  ax_message :: string

record approval_action_result =
  ar_approval_id :: uuid
  ar_tool_call_id :: uuid
  ar_status :: approval_status
  ar_tool_call_status :: tool_call_status
  ar_result :: "json_object option"
  ar_error :: "approval_action_error option"

text \<open>
  The service's own fields: the time to live of a request, and whether it was built with a tool
  call repository and with an audit service.
\<close>

record approval_service =
  as_request_ttl_seconds :: int
  as_tool_call_repository :: bool
  as_audit_service :: bool

text \<open>\<open>utc_now() + timedelta(seconds=ttl)\<close>; a date after the year 9999 overflows.\<close>

definition MAX_DATETIME :: datetime where
  "MAX_DATETIME = 253402300799999999"

definition add_seconds :: "datetime \<Rightarrow> int \<Rightarrow> exn + datetime" where
  "add_seconds t s = (if t + s * 1000000 \<le> MAX_DATETIME then Inr (t + s * 1000000) else Inl OverflowError)"

record pending_approval =
  pa_tenant_id :: uuid
  pa_agent_id :: uuid
  pa_tool_call_id :: uuid
  pa_target_server :: string
  pa_target_tool :: string
  pa_arguments_redacted :: json_object
  pa_arguments_hash :: string
  pa_requested_reason :: string

definition create_pending_approval :: "host \<Rightarrow> approval_service \<Rightarrow> pending_approval \<Rightarrow> approval_row gw" where
  "create_pending_approval h srv pa =
    seq (utc_now h) (\<lambda>now.
    seq (lift_p (add_seconds now (as_request_ttl_seconds srv))) (\<lambda>expires_at.
    approval_create h (\<lambda>i created updated.
      \<lparr>ap_id = i, ap_tenant_id = pa_tenant_id pa, ap_agent_id = pa_agent_id pa,
       ap_tool_call_id = pa_tool_call_id pa, ap_target_server = pa_target_server pa,
       ap_target_tool = pa_target_tool pa, ap_arguments_redacted = pa_arguments_redacted pa,
       ap_arguments_hash = pa_arguments_hash pa, ap_status = approval_status_value AP_PENDING,
       ap_requested_reason = Some (pa_requested_reason pa), ap_reviewer_id = None,
       ap_review_reason = None, ap_expires_at = expires_at, ap_approved_at = None,
       ap_denied_at = None, ap_executed_at = None, ap_created_at = created,
       ap_updated_at = updated, ap_version = 1\<rparr>)))"

definition list_approvals ::
  "approval_status option \<Rightarrow> uuid option \<Rightarrow> int option \<Rightarrow> approval_row list gw" where
  "list_approvals status tenant_id limit = approval_list_filtered status tenant_id limit"

definition get_approval_or_raise :: "uuid \<Rightarrow> approval_row gw" where
  "get_approval_or_raise i = seq (approval_get_by_id i) (\<lambda>found. case found of
     None \<Rightarrow> raise_p (AppError ApprovalNotFoundError) | Some approval \<Rightarrow> return_p approval)"

definition non_pending_error :: "approval_row \<Rightarrow> app_error" where
  "non_pending_error approval =
    (if ap_status approval = approval_status_value AP_DENIED then ApprovalDeniedError
     else if ap_status approval \<in> {approval_status_value AP_EXPIRED,
         approval_status_value AP_EXECUTED, approval_status_value AP_FAILED}
       then ApprovalAlreadyProcessedError
     else ApprovalNotPendingError)"

definition mark_tool_call_denied :: "host \<Rightarrow> approval_service \<Rightarrow> uuid \<Rightarrow> string \<Rightarrow> tool_call_row gw" where
  "mark_tool_call_denied h srv tool_call_id error_code =
    (if \<not> as_tool_call_repository srv then raise_p (AppError ApprovalNotFoundError)
     else seq (tool_call_get_by_id tool_call_id) (\<lambda>found. case found of
       None \<Rightarrow> raise_p (AppError ApprovalNotFoundError)
     | Some tool_call \<Rightarrow>
         seq (tool_call_update h tool_call (tool_call\<lparr>tc_status := tool_call_status_value TC_DENIED,
                tc_error_code := Some error_code,
                tc_error_message := Some ''Approval request did not permit execution''\<rparr>))
         (\<lambda>updated. seq (clear_arguments_payload h (tc_id updated))
         (\<lambda>cleared. return_p (case cleared of None \<Rightarrow> updated | Some c \<Rightarrow> c)))))"

definition append_approval_audit ::
  "host \<Rightarrow> approval_service \<Rightarrow> approval_row \<Rightarrow> tool_call_row option \<Rightarrow> string \<Rightarrow> string option \<Rightarrow> unit gw" where
  "append_approval_audit h srv approval tool_call status error_code =
    (if \<not> as_audit_service srv then raise_p (AppError ApprovalNotFoundError)
     else seq (append_tool_call_event h
       \<lparr>ev_trace_id = (case tool_call of None \<Rightarrow> None | Some c \<Rightarrow> tc_trace_id c),
        ev_tenant_id = ap_tenant_id approval, ev_agent_id = Some (ap_agent_id approval),
        ev_target_server = Some (ap_target_server approval),
        ev_target_tool = Some (ap_target_tool approval),
        ev_arguments_redacted = Some (ap_arguments_redacted approval),
        ev_arguments_hash = Some (ap_arguments_hash approval), ev_policy_decision = None,
        ev_decision_reason = ap_requested_reason approval, ev_approval_id = Some (ap_id approval),
        ev_status = status, ev_error_code = error_code, ev_error_message = None,
        ev_metadata = PDict [(''tool_call_id'', PStr (uuid_str (ap_tool_call_id approval)))]\<rparr>)
       (\<lambda>_. return_p ()))"

text \<open>A member call on a column of the database: \<open>ToolCallStatus(tool_call.status)\<close>.\<close>

definition member_or_raise :: "'a option \<Rightarrow> 'a gw" where
  "member_or_raise m = lift_p (case m of None \<Rightarrow> Inl ValueError | Some x \<Rightarrow> Inr x)"

text \<open>The branch that both actions take on a pending request whose time is over.\<close>

definition expire_approval :: "host \<Rightarrow> approval_service \<Rightarrow> uuid \<Rightarrow> approval_action_result gw" where
  "expire_approval h srv approval_id =
    seq (approval_transition_status h approval_id AP_PENDING AP_EXPIRED None) (\<lambda>expired.
    case expired of
      None \<Rightarrow> raise_p (AppError ApprovalNotPendingError)
    | Some approval \<Rightarrow>
        seq (mark_tool_call_denied h srv (ap_tool_call_id approval) ''approval_expired'') (\<lambda>tool_call.
        seq (append_approval_audit h srv approval (Some tool_call) ''expired''
               (Some ''approval_expired'')) (\<lambda>_.
        seq (member_or_raise (tool_call_status_of (tc_status tool_call))) (\<lambda>st.
        return_p \<lparr>ar_approval_id = ap_id approval, ar_tool_call_id = ap_tool_call_id approval,
          ar_status = AP_EXPIRED, ar_tool_call_status = st, ar_result = None,
          ar_error = Some \<lparr>ax_code = ''approval_expired'',
            ax_message = ''Approval request has expired''\<rparr>\<rparr>))))"

definition approve_approval ::
  "host \<Rightarrow> approval_service \<Rightarrow> (approval_row \<Rightarrow> approval_action_result gw) \<Rightarrow> uuid \<Rightarrow> string
    \<Rightarrow> approval_action_result gw" where
  "approve_approval h srv execute_approved_tool_call approval_id review_reason =
    seq (get_approval_or_raise approval_id) (\<lambda>approval.
    if ap_status approval \<noteq> approval_status_value AP_PENDING
    then raise_p (AppError (non_pending_error approval))
    else seq (utc_now h) (\<lambda>now.
      if now > ap_expires_at approval then expire_approval h srv approval_id
      else seq (approval_transition_status h approval_id AP_PENDING AP_APPROVED (Some review_reason))
        (\<lambda>approved. case approved of
          None \<Rightarrow> raise_p (AppError ApprovalNotPendingError)
        | Some approval' \<Rightarrow>
            seq (append_approval_audit h srv approval' None ''approved'' None) (\<lambda>_.
            execute_approved_tool_call approval'))))"

definition deny_approval ::
  "host \<Rightarrow> approval_service \<Rightarrow> uuid \<Rightarrow> string \<Rightarrow> approval_action_result gw" where
  "deny_approval h srv approval_id review_reason =
    seq (get_approval_or_raise approval_id) (\<lambda>approval.
    if ap_status approval \<noteq> approval_status_value AP_PENDING
    then raise_p (AppError (non_pending_error approval))
    else seq (utc_now h) (\<lambda>now.
      if now > ap_expires_at approval then expire_approval h srv approval_id
      else seq (approval_transition_status h approval_id AP_PENDING AP_DENIED (Some review_reason))
        (\<lambda>denied. case denied of
          None \<Rightarrow> raise_p (AppError ApprovalNotPendingError)
        | Some approval' \<Rightarrow>
            seq (mark_tool_call_denied h srv (ap_tool_call_id approval') ''approval_denied'')
              (\<lambda>tool_call.
            seq (append_approval_audit h srv approval' (Some tool_call) ''denied''
                   (Some ''approval_denied'')) (\<lambda>_.
            seq (member_or_raise (tool_call_status_of (tc_status tool_call))) (\<lambda>st.
            return_p \<lparr>ar_approval_id = ap_id approval', ar_tool_call_id = ap_tool_call_id approval',
              ar_status = AP_DENIED, ar_tool_call_status = st, ar_result = None,
              ar_error = None\<rparr>))))))"

section \<open>The service keeps the invariant of a request\<close>

lemma keeps_member [keeps_intros]: "keeps P (member_or_raise m) (\<lambda>_. True)"
  unfolding member_or_raise_def by (rule keeps_lift) simp

lemma keeps_get_approval [keeps_intros]:
  "keeps (request_inv d0 u0 c0) (get_approval_or_raise i) approval_ok"
  unfolding get_approval_or_raise_def
  by (rule keeps_intros | (simp; fail))+

lemma keeps_create_pending [keeps_intros]:
  "masked (PDict (pa_arguments_redacted pa)) \<Longrightarrow>
    keeps (request_inv d0 u0 c0) (create_pending_approval h srv pa) approval_ok"
  unfolding create_pending_approval_def
  by (rule TrueI keeps_intros | (simp add: approval_ok_def; fail))+

lemma keeps_mark_denied [keeps_intros]:
  "keeps (request_inv d0 u0 c0) (mark_tool_call_denied h srv i code) tool_call_ok"
  unfolding mark_tool_call_denied_def
  by (rule TrueI keeps_intros | (simp add: tool_call_ok_def; fail) | (auto split: option.split; fail))+

lemma keeps_approval_audit [keeps_intros]:
  "approval_ok approval \<Longrightarrow>
    keeps (request_inv d0 u0 c0) (append_approval_audit h srv approval c st code) (\<lambda>_. True)"
  unfolding append_approval_audit_def
  by (rule TrueI keeps_intros | (simp add: approval_ok_def masked_opt_def; fail))+

lemma approval_moves_simps [simp]:
  "approval_moves AP_PENDING AP_APPROVED" "approval_moves AP_PENDING AP_DENIED"
  "approval_moves AP_PENDING AP_EXPIRED" "approval_moves AP_APPROVED AP_EXECUTED"
  "approval_moves AP_APPROVED AP_FAILED"
  by (simp_all add: approval_moves_def)

lemma keeps_expire [keeps_intros]:
  "keeps (request_inv d0 u0 c0) (expire_approval h srv i) (\<lambda>_. True)"
  unfolding expire_approval_def
  by (rule TrueI keeps_intros | (simp; fail))+

lemma keeps_deny_approval [keeps_intros]:
  "keeps (request_inv d0 u0 c0) (deny_approval h srv i reason) (\<lambda>_. True)"
  unfolding deny_approval_def
  by (rule TrueI keeps_intros | (simp; fail))+

text \<open>
  What \<open>approve_approval\<close> asks of the service that executes an approved call: it keeps the
  invariant of a request when it gets a well-formed approval.
\<close>

locale approved_call_executor =
  fixes execute :: "approval_row \<Rightarrow> approval_action_result gw"
  assumes execute_keeps: "approval_ok a \<Longrightarrow> keeps (request_inv d0 u0 c0) (execute a) (\<lambda>_. True)"
begin

lemma keeps_approve_approval:
  "keeps (request_inv d0 u0 c0) (approve_approval h srv execute i reason) (\<lambda>_. True)"
  unfolding approve_approval_def
  by (rule TrueI keeps_intros execute_keeps | (simp; fail))+

end

end
