(* ===== verification/Tool_Call_Service.thy ===== *)
theory Tool_Call_Service
  imports Approval_Service
begin

text \<open>
  The tool call service of \<open>application/services/tool_call_service.py\<close>: the call of an agent
  from lookup to upstream execution, the execution of an approved call, and their audit events.
\<close>

record agent_dto =
  dto_id :: uuid
  dto_tenant_id :: uuid
  dto_name :: string
  dto_role :: agent_role
  dto_status :: entity_status

record tool_call_request =
  rq_target_server :: string
  rq_target_tool :: string
  rq_arguments :: json_object
  rq_trace_id :: "string option"
  rq_idempotency_key :: "string option"

record tool_call_error =
  tx_code :: string
  tx_message :: string

record tool_call_result =
  tr_tool_call_id :: uuid
  tr_status :: tool_call_status
  tr_policy_decision :: "policy_effect option"
  tr_reason :: "string option"
  tr_approval_id :: "uuid option"
  tr_result :: "json_object option"
  tr_error :: "tool_call_error option"

text \<open>The collaborators that differ between deployments: approval service, client, timeout.\<close>

record tool_call_service =
  sv_approval_service :: approval_service
  sv_mcp_client :: "mcp_client option"
  sv_mcp_call_timeout_seconds :: "64 word"

section \<open>Helpers\<close>

definition resource_from_arguments :: "json_object \<Rightarrow> string option" where
  "resource_from_arguments arguments =
    (case get_or_none arguments ''resource'' of
       PStr resource \<Rightarrow> Some resource
     | _ \<Rightarrow> (case get_or_none arguments ''repo'' of
         PStr repo \<Rightarrow> Some (''repo:'' @ repo)
       | _ \<Rightarrow> None))"

definition redacted_arguments :: "json_object \<Rightarrow> json_object" where
  "redacted_arguments arguments = (case redact_arguments (PDict arguments) of
     PDict redacted \<Rightarrow> redacted
   | _ \<Rightarrow> [])"

text \<open>\<open>SchemaError\<close> and \<open>ValidationError\<close> give \<open>False\<close>; another exception passes through.\<close>

definition arguments_match_schema :: "host \<Rightarrow> json_object \<Rightarrow> json_object \<Rightarrow> exn + bool" where
  "arguments_match_schema h schema arguments =
    (case h_validate h schema arguments of
       Valid \<Rightarrow> Inr True
     | ValidationFails \<Rightarrow> Inr False
     | SchemaFails \<Rightarrow> Inr False
     | ValidatorRaises m \<Rightarrow> Inl (UncaughtError m))"

fun initial_status :: "policy_effect \<Rightarrow> tool_call_status" where
  "initial_status DENY = TC_DENIED"
| "initial_status REQUIRE_APPROVAL = TC_PENDING_APPROVAL"
| "initial_status ALLOW = TC_EXECUTING"

text \<open>
  The policy repository of the request's session, as the function the policy service calls: it
  reads the rows of this moment, when the database answers.
\<close>

definition policy_repository :: "host \<Rightarrow> (uuid \<Rightarrow> exn + policy_row list) gw" where
  "policy_repository h w =
    (Inr (policies_active_ordered (h_policy_read_ok h (w_policy_reads w)) (w_db w)),
     w\<lparr>w_policy_reads := Suc (w_policy_reads w)\<rparr>)"

definition policy_repository_evaluate ::
  "host \<Rightarrow> agent_dto \<Rightarrow> tool_call_request \<Rightarrow> risk_level \<Rightarrow> action_type \<Rightarrow> policy_evaluation_result gw" where
  "policy_repository_evaluate h agent request tool_risk tool_action =
    seq (utc_now h) (\<lambda>now.
    seq (policy_repository h) (\<lambda>repository.
    lift_p (evaluate (PolicyService (h_encodable h) (h_sha256 h) (h_float_repr h) repository None)
      \<lparr>pc_tenant_id = dto_tenant_id agent, pc_agent_id = dto_id agent, pc_role = dto_role agent,
       pc_target_server = rq_target_server request, pc_target_tool = rq_target_tool request,
       pc_risk_level = tool_risk, pc_action_type = tool_action,
       pc_arguments = rq_arguments request,
       pc_resource = resource_from_arguments (rq_arguments request), pc_current_time = now\<rparr>)))"

definition create_tool_call ::
  "host \<Rightarrow> agent_dto \<Rightarrow> tool_call_request \<Rightarrow> string \<Rightarrow> policy_evaluation_result \<Rightarrow> json_object option
    \<Rightarrow> string option \<Rightarrow> tool_call_row gw" where
  "create_tool_call h agent request trace_id evaluation payload tool_schema_hash =
    tool_call_create h (\<lambda>i created updated.
      \<lparr>tc_id = i, tc_trace_id = Some trace_id, tc_tenant_id = dto_tenant_id agent,
       tc_agent_id = dto_id agent, tc_target_server = rq_target_server request,
       tc_target_tool = rq_target_tool request,
       tc_arguments_redacted = pr_arguments_redacted evaluation,
       tc_arguments_hash = pr_arguments_hash evaluation, tc_arguments_payload = payload,
       tc_tool_schema_hash = tool_schema_hash,
       tc_policy_decision = Some (policy_effect_value (pr_decision evaluation)),
       tc_decision_reason = Some (pr_reason evaluation), tc_approval_id = None,
       tc_status = tool_call_status_value (initial_status (pr_decision evaluation)),
       tc_error_code = None, tc_error_message = None,
       tc_idempotency_key = rq_idempotency_key request, tc_created_at = created,
       tc_updated_at = updated\<rparr>)"

section \<open>Audit events\<close>

definition append_tool_call_audit :: "host \<Rightarrow> tool_call_row \<Rightarrow> string option \<Rightarrow> unit gw" where
  "append_tool_call_audit h tool_call status =
    seq (case status of
        Some s \<Rightarrow> return_p s
      | None \<Rightarrow> seq (member_or_raise (tool_call_status_of (tc_status tool_call)))
          (\<lambda>st. return_p (tool_call_status_value st))) (\<lambda>st.
    seq (append_tool_call_event h
       \<lparr>ev_trace_id = tc_trace_id tool_call, ev_tenant_id = tc_tenant_id tool_call,
        ev_agent_id = Some (tc_agent_id tool_call),
        ev_target_server = Some (tc_target_server tool_call),
        ev_target_tool = Some (tc_target_tool tool_call),
        ev_arguments_redacted = Some (tc_arguments_redacted tool_call),
        ev_arguments_hash = Some (tc_arguments_hash tool_call),
        ev_policy_decision = tc_policy_decision tool_call,
        ev_decision_reason = tc_decision_reason tool_call,
        ev_approval_id = tc_approval_id tool_call, ev_status = st,
        ev_error_code = tc_error_code tool_call, ev_error_message = tc_error_message tool_call,
        ev_metadata = PDict [(''tool_call_id'', PStr (uuid_str (tc_id tool_call)))]\<rparr>)
      (\<lambda>_. return_p ()))"

definition append_failure_audit ::
  "host \<Rightarrow> agent_dto \<Rightarrow> tool_call_request \<Rightarrow> string \<Rightarrow> json_object \<Rightarrow> string \<Rightarrow> string \<Rightarrow> string \<Rightarrow> string
    \<Rightarrow> unit gw" where
  "append_failure_audit h agent request trace_id redacted arguments_hash status error_code error_message =
    seq (append_tool_call_event h
       \<lparr>ev_trace_id = Some trace_id, ev_tenant_id = dto_tenant_id agent,
        ev_agent_id = Some (dto_id agent), ev_target_server = Some (rq_target_server request),
        ev_target_tool = Some (rq_target_tool request), ev_arguments_redacted = Some redacted,
        ev_arguments_hash = Some arguments_hash, ev_policy_decision = None,
        ev_decision_reason = None, ev_approval_id = None, ev_status = status,
        ev_error_code = Some error_code, ev_error_message = Some error_message,
        ev_metadata = PNone\<rparr>)
      (\<lambda>_. return_p ())"

section \<open>The outcomes of a call\<close>

definition idempotent_result ::
  "tool_call_row \<Rightarrow> tool_call_request \<Rightarrow> string \<Rightarrow> string \<Rightarrow> tool_call_result gw" where
  "idempotent_result existing request arguments_hash trace_id =
    (if tc_target_server existing \<noteq> rq_target_server request
        \<or> tc_target_tool existing \<noteq> rq_target_tool request
        \<or> tc_arguments_hash existing \<noteq> arguments_hash
     then raise_p (AppError (IdempotencyConflictError (Some trace_id)))
     else if tc_status existing = tool_call_status_value TC_EXECUTING
     then raise_p (AppError (IdempotencyConflictError (Some trace_id)))
     else
       seq (if tc_status existing = tool_call_status_value TC_PENDING_APPROVAL
               \<and> tc_approval_id existing = None
            then seq (approval_get_by_tool_call_id (tc_id existing))
              (\<lambda>approval. return_p (map_option ap_id approval))
            else return_p (tc_approval_id existing)) (\<lambda>approval_id.
       seq (member_or_raise (tool_call_status_of (tc_status existing))) (\<lambda>status.
       seq (case tc_policy_decision existing of
           None \<Rightarrow> return_p None
         | Some d \<Rightarrow> seq (member_or_raise (policy_effect_of d)) (\<lambda>e. return_p (Some e)))
         (\<lambda>decision.
       return_p \<lparr>tr_tool_call_id = tc_id existing, tr_status = status,
         tr_policy_decision = decision, tr_reason = tc_decision_reason existing,
         tr_approval_id = approval_id, tr_result = None,
         tr_error = (case tc_error_code existing of None \<Rightarrow> None
           | Some code \<Rightarrow> Some \<lparr>tx_code = code,
               tx_message = (case tc_error_message existing of
                   None \<Rightarrow> ''Tool call failed''
                 | Some m \<Rightarrow> if m = [] then ''Tool call failed'' else m)\<rparr>)\<rparr>))))"

definition mark_upstream_failed ::
  "host \<Rightarrow> tool_call_row \<Rightarrow> string \<Rightarrow> string \<Rightarrow> tool_call_result gw" where
  "mark_upstream_failed h tool_call error_code error_message =
    seq (tool_call_update h tool_call (tool_call\<lparr>tc_status := tool_call_status_value TC_FAILED,
           tc_error_code := Some error_code, tc_error_message := Some error_message\<rparr>)) (\<lambda>failed.
    seq (append_tool_call_audit h failed None) (\<lambda>_.
    return_p \<lparr>tr_tool_call_id = tc_id failed, tr_status = TC_FAILED,
      tr_policy_decision = Some ALLOW, tr_reason = None, tr_approval_id = None, tr_result = None,
      tr_error = Some \<lparr>tx_code = error_code, tx_message = error_message\<rparr>\<rparr>))"

text \<open>The three continuations of \<open>call_tool\<close> after the tool call is stored.\<close>

definition finish_denied :: "host \<Rightarrow> tool_call_row \<Rightarrow> policy_evaluation_result \<Rightarrow> tool_call_result gw" where
  "finish_denied h tool_call evaluation =
    seq (append_tool_call_audit h tool_call None) (\<lambda>_.
    return_p \<lparr>tr_tool_call_id = tc_id tool_call, tr_status = TC_DENIED,
      tr_policy_decision = Some DENY, tr_reason = Some (pr_reason evaluation),
      tr_approval_id = None, tr_result = None, tr_error = None\<rparr>)"

definition finish_pending ::
  "host \<Rightarrow> tool_call_service \<Rightarrow> agent_dto \<Rightarrow> tool_call_request \<Rightarrow> tool_call_row
    \<Rightarrow> policy_evaluation_result \<Rightarrow> tool_call_result gw" where
  "finish_pending h srv agent request tool_call evaluation =
    seq (create_pending_approval h (sv_approval_service srv)
      \<lparr>pa_tenant_id = dto_tenant_id agent, pa_agent_id = dto_id agent,
       pa_tool_call_id = tc_id tool_call, pa_target_server = rq_target_server request,
       pa_target_tool = rq_target_tool request,
       pa_arguments_redacted = pr_arguments_redacted evaluation,
       pa_arguments_hash = pr_arguments_hash evaluation,
       pa_requested_reason = pr_reason evaluation\<rparr>) (\<lambda>approval.
    seq (tool_call_update h tool_call (tool_call\<lparr>tc_approval_id := Some (ap_id approval)\<rparr>)) (\<lambda>tool_call'.
    seq (append_tool_call_audit h tool_call' None) (\<lambda>_.
    return_p \<lparr>tr_tool_call_id = tc_id tool_call', tr_status = TC_PENDING_APPROVAL,
      tr_policy_decision = Some REQUIRE_APPROVAL, tr_reason = Some (pr_reason evaluation),
      tr_approval_id = Some (ap_id approval), tr_result = None, tr_error = None\<rparr>)))"

text \<open>\<open>try: ... except McpUpstreamError\<close>: \<open>Inl\<close> is the code and message caught.\<close>

definition try_upstream :: "'a gw \<Rightarrow> ((string \<times> string) + 'a) gw" where
  "try_upstream m = catch_p (seq m (\<lambda>x. return_p (Inr x)))
     (\<lambda>e. case upstream_error e of None \<Rightarrow> raise_p e | Some cm \<Rightarrow> return_p (Inl cm))"

definition finish_allowed ::
  "host \<Rightarrow> tool_call_service \<Rightarrow> tool_server_row \<Rightarrow> tool_definition_row \<Rightarrow> tool_call_request
    \<Rightarrow> tool_call_row \<Rightarrow> tool_call_result gw" where
  "finish_allowed h srv server tool request tool_call =
    (case sv_mcp_client srv of
       None \<Rightarrow> mark_upstream_failed h tool_call ''mcp_client_not_configured''
                 ''MCP client is not configured''
     | Some client \<Rightarrow>
         seq (try_upstream (upstream_call_tool client server tool (rq_arguments request)
                (sv_mcp_call_timeout_seconds srv))) (\<lambda>outcome. case outcome of
           Inl cm \<Rightarrow> mark_upstream_failed h tool_call (fst cm) (snd cm)
         | Inr upstream_result \<Rightarrow>
             seq (tool_call_update h tool_call
                    (tool_call\<lparr>tc_status := tool_call_status_value TC_SUCCEEDED\<rparr>)) (\<lambda>done_call.
             seq (append_tool_call_audit h done_call None) (\<lambda>_.
             return_p \<lparr>tr_tool_call_id = tc_id done_call, tr_status = TC_SUCCEEDED,
               tr_policy_decision = Some ALLOW, tr_reason = None, tr_approval_id = None,
               tr_result = Some upstream_result, tr_error = None\<rparr>))))"

section \<open>call_tool\<close>

text \<open>
  The part after the lookups and the schema check: the policy decides, the call is stored with
  its initial status, and the decision is carried out.
\<close>

definition dispatch_call ::
  "host \<Rightarrow> tool_call_service \<Rightarrow> agent_dto \<Rightarrow> tool_call_request \<Rightarrow> string \<Rightarrow> tool_server_row
    \<Rightarrow> tool_definition_row \<Rightarrow> tool_call_result gw" where
  "dispatch_call h srv agent request trace_id server tool =
    seq (member_or_raise (risk_level_of (td_risk_level tool))) (\<lambda>tool_risk.
    seq (member_or_raise (action_type_of (td_action_type tool))) (\<lambda>tool_action.
    seq (policy_repository_evaluate h agent request tool_risk tool_action) (\<lambda>evaluation.
    seq (create_tool_call h agent request trace_id evaluation
           (if pr_decision evaluation = REQUIRE_APPROVAL then Some (rq_arguments request) else None)
           (Some (td_schema_hash tool))) (\<lambda>tool_call.
    if pr_decision evaluation = DENY then finish_denied h tool_call evaluation
    else if pr_decision evaluation = REQUIRE_APPROVAL
      then finish_pending h srv agent request tool_call evaluation
    else finish_allowed h srv server tool request tool_call))))"

definition call_tool ::
  "host \<Rightarrow> tool_call_service \<Rightarrow> agent_dto \<Rightarrow> tool_call_request \<Rightarrow> tool_call_result gw" where
  "call_tool h srv agent request =
    seq (case rq_trace_id request of
        Some t \<Rightarrow> (if t = [] then seq (uuid4 h) (\<lambda>u. return_p (''trace_'' @ hex_str 32 (unat u)))
                   else return_p t)
      | None \<Rightarrow> seq (uuid4 h) (\<lambda>u. return_p (''trace_'' @ hex_str 32 (unat u)))) (\<lambda>trace_id.
    let redacted = redacted_arguments (rq_arguments request) in
    seq (lift_p (canonical_arguments_hash (h_encodable h) (h_sha256 h) (h_float_repr h) (rq_arguments request)))
      (\<lambda>arguments_hash.
    let failure = append_failure_audit h agent request trace_id redacted arguments_hash ''failed'' in
    seq (case rq_idempotency_key request of
        None \<Rightarrow> return_p None
      | Some key \<Rightarrow> tool_call_get_by_idempotency_key (dto_tenant_id agent) (dto_id agent) key)
      (\<lambda>existing. case existing of
      Some row \<Rightarrow> idempotent_result row request arguments_hash trace_id
    | None \<Rightarrow>
    seq (tool_server_get_by_server_id (dto_tenant_id agent) (rq_target_server request))
      (\<lambda>found_server. case found_server of
      None \<Rightarrow> seq (failure ''tool_server_not_found'' ''Tool server not found'')
        (\<lambda>_. raise_p (AppError (ToolServerNotFoundError (Some trace_id))))
    | Some server \<Rightarrow>
    if ts_status server \<noteq> entity_status_value ACTIVE
    then seq (failure ''tool_disabled'' ''Tool server is disabled'')
      (\<lambda>_. raise_p (AppError (ToolDisabledError (Some trace_id))))
    else
    seq (tool_definition_get_by_name (dto_tenant_id agent) (ts_id server) (rq_target_tool request))
      (\<lambda>found_tool. case found_tool of
      None \<Rightarrow> seq (failure ''tool_not_found'' ''Tool not found'')
        (\<lambda>_. raise_p (AppError (ToolNotFoundError (Some trace_id))))
    | Some tool \<Rightarrow>
    if td_status tool \<noteq> entity_status_value ACTIVE
    then seq (failure ''tool_disabled'' ''Tool is disabled'')
      (\<lambda>_. raise_p (AppError (ToolDisabledError (Some trace_id))))
    else
    seq (lift_p (arguments_match_schema h (td_input_schema tool) (rq_arguments request)))
      (\<lambda>matches.
    if \<not> matches
    then seq (failure ''argument_schema_invalid'' ''Tool arguments do not match input schema'')
      (\<lambda>_. raise_p (AppError (ArgumentSchemaInvalidError (Some trace_id))))
    else
    dispatch_call h srv agent request trace_id server tool))))))"

section \<open>execute_approved_tool_call\<close>

definition approval_execution_failed ::
  "host \<Rightarrow> approval_row \<Rightarrow> tool_call_row option \<Rightarrow> string \<Rightarrow> string \<Rightarrow> approval_action_result gw" where
  "approval_execution_failed h approval tool_call error_code error_message =
    seq (case tool_call of
        None \<Rightarrow> return_p None
      | Some call \<Rightarrow>
          seq (tool_call_update h call (call\<lparr>tc_status := tool_call_status_value TC_FAILED,
                 tc_error_code := Some error_code, tc_error_message := Some error_message\<rparr>)) (\<lambda>failed.
          seq (clear_arguments_payload h (tc_id failed)) (\<lambda>cleared.
          return_p (Some (case cleared of None \<Rightarrow> failed | Some c \<Rightarrow> c))))) (\<lambda>call'.
    seq (approval_transition_status h (ap_id approval) AP_APPROVED AP_FAILED None) (\<lambda>failed.
    seq (append_tool_call_event h
      \<lparr>ev_trace_id = (case call' of None \<Rightarrow> None | Some c \<Rightarrow> tc_trace_id c),
       ev_tenant_id = ap_tenant_id approval, ev_agent_id = Some (ap_agent_id approval),
       ev_target_server = Some (ap_target_server approval),
       ev_target_tool = Some (ap_target_tool approval),
       ev_arguments_redacted = Some (ap_arguments_redacted approval),
       ev_arguments_hash = Some (ap_arguments_hash approval), ev_policy_decision = None,
       ev_decision_reason = ap_requested_reason approval, ev_approval_id = Some (ap_id approval),
       ev_status = ''failed'', ev_error_code = Some error_code,
       ev_error_message = Some error_message,
       ev_metadata = PDict [(''tool_call_id'', PStr (uuid_str (ap_tool_call_id approval)))]\<rparr>) (\<lambda>_.
    seq (case failed of
        Some _ \<Rightarrow> return_p AP_FAILED
      | None \<Rightarrow> member_or_raise (approval_status_of (ap_status approval))) (\<lambda>status.
    seq (case call' of
        Some c \<Rightarrow> member_or_raise (tool_call_status_of (tc_status c))
      | None \<Rightarrow> return_p TC_FAILED) (\<lambda>call_status.
    return_p \<lparr>ar_approval_id = ap_id approval, ar_tool_call_id = ap_tool_call_id approval,
      ar_status = status, ar_tool_call_status = call_status, ar_result = None,
      ar_error = Some \<lparr>ax_code = error_code, ax_message = error_message\<rparr>\<rparr>)))))"

definition finish_executed ::
  "host \<Rightarrow> approval_row \<Rightarrow> tool_call_row \<Rightarrow> json_object \<Rightarrow> approval_action_result gw" where
  "finish_executed h approval tool_call upstream_result =
    seq (tool_call_update h tool_call (tool_call\<lparr>tc_status := tool_call_status_value TC_SUCCEEDED,
           tc_error_code := None, tc_error_message := None\<rparr>)) (\<lambda>done_call.
    seq (clear_arguments_payload h (tc_id done_call)) (\<lambda>cleared.
    let call' = (case cleared of None \<Rightarrow> done_call | Some c \<Rightarrow> c) in
    seq (approval_transition_status h (ap_id approval) AP_APPROVED AP_EXECUTED None) (\<lambda>executed.
    case executed of
      None \<Rightarrow> approval_execution_failed h approval (Some call') ''approval_already_processed''
                ''Approval request was already processed''
    | Some _ \<Rightarrow>
        seq (append_tool_call_audit h call' (Some ''executed'')) (\<lambda>_.
        return_p \<lparr>ar_approval_id = ap_id approval, ar_tool_call_id = ap_tool_call_id approval,
          ar_status = AP_EXECUTED, ar_tool_call_status = TC_SUCCEEDED,
          ar_result = Some upstream_result, ar_error = None\<rparr>))))"

text \<open>\<open>row is None or row.status != ACTIVE\<close> as a failing lookup.\<close>

definition active_or_none :: "('r \<Rightarrow> string) \<Rightarrow> 'r option \<Rightarrow> 'r option" where
  "active_or_none status found = (case found of
     None \<Rightarrow> None
   | Some row \<Rightarrow> if status row \<noteq> entity_status_value ACTIVE then None else Some row)"

definition execute_approved_tool_call ::
  "host \<Rightarrow> tool_call_service \<Rightarrow> approval_row \<Rightarrow> approval_action_result gw" where
  "execute_approved_tool_call h srv approval =
    seq (tool_call_get_by_id (ap_tool_call_id approval)) (\<lambda>found. case found of
      None \<Rightarrow> approval_execution_failed h approval None ''approval_execution_failed''
                ''Approved tool call was not found''
    | Some tool_call \<Rightarrow>
    (case tc_arguments_payload tool_call of
      None \<Rightarrow> approval_execution_failed h approval (Some tool_call) ''approval_execution_failed''
                ''Execution payload is not available''
    | Some arguments \<Rightarrow>
    seq (tool_server_get_by_server_id (ap_tenant_id approval) (ap_target_server approval))
      (\<lambda>found_server. case active_or_none ts_status found_server of
      None \<Rightarrow> approval_execution_failed h approval (Some tool_call) ''tool_disabled''
                ''Tool server is not active''
    | Some server \<Rightarrow>
    seq (tool_definition_get_by_name (ap_tenant_id approval) (ts_id server) (ap_target_tool approval))
      (\<lambda>found_tool. case active_or_none td_status found_tool of
      None \<Rightarrow> approval_execution_failed h approval (Some tool_call) ''tool_disabled''
                ''Tool is not active''
    | Some tool \<Rightarrow>
    (case sv_mcp_client srv of
      None \<Rightarrow> approval_execution_failed h approval (Some tool_call) ''mcp_client_not_configured''
                ''MCP client is not configured''
    | Some client \<Rightarrow>
    seq (try_upstream (upstream_call_tool client server tool arguments
           (sv_mcp_call_timeout_seconds srv))) (\<lambda>outcome. case outcome of
      Inl cm \<Rightarrow> approval_execution_failed h approval (Some tool_call) (fst cm) (snd cm)
    | Inr upstream_result \<Rightarrow> finish_executed h approval tool_call upstream_result))))))"

section \<open>The service keeps the invariant of a request\<close>

lemma keeps_try_upstream [keeps_intros]:
  assumes "keeps P m R"
  shows "keeps P (try_upstream m) (\<lambda>_. True)"
  unfolding try_upstream_def
  by (rule TrueI keeps_intros assms)+

lemma redacted_arguments_eq: "redacted_arguments a = redacted_of a"
  by (simp add: redacted_arguments_def redacted_of_def)

lemma wp_policy_repository [wp_simps]:
  "wp (policy_repository h) Q E w =
    Q (policies_active_ordered (h_policy_read_ok h (w_policy_reads w)) (w_db w))
      (w\<lparr>w_policy_reads := Suc (w_policy_reads w)\<rparr>)"
  by (simp add: wp_def policy_repository_def)

lemma keeps_policy_repository [keeps_intros]:
  "keeps (request_inv d0 u0 c0) (policy_repository h) (\<lambda>r. \<exists>ok d. r = policies_active_ordered ok d)"
  by (auto simp: keeps_def wp_simps)

lemma evaluate_masked:
  assumes "evaluate (PolicyService enc sha fr (policies_active_ordered ok d) None) ctx = Inr r"
  shows "masked (PDict (pr_arguments_redacted r))"
  by (rule gateway_evaluate [of enc sha fr ok d ctx]) (use assms redacted_of_masked in simp_all)

lemma keeps_policy_evaluate [keeps_intros]:
  "keeps (request_inv d0 u0 c0) (policy_repository_evaluate h agent request risk action)
     (\<lambda>r. masked (PDict (pr_arguments_redacted r)))"
  unfolding policy_repository_evaluate_def
  by (rule TrueI keeps_intros | (elim exE, simp only:, erule evaluate_masked))+

lemma keeps_create_tool_call [keeps_intros]:
  "masked (PDict (pr_arguments_redacted r)) \<Longrightarrow>
    keeps (request_inv d0 u0 c0) (create_tool_call h agent request t r p k) tool_call_ok"
  unfolding create_tool_call_def
  by (rule keeps_intros) (simp add: tool_call_ok_def decision_ok_def)

lemma keeps_tool_call_audit [keeps_intros]:
  "tool_call_ok c \<Longrightarrow> keeps (request_inv d0 u0 c0) (append_tool_call_audit h c st) (\<lambda>_. True)"
  unfolding append_tool_call_audit_def
  by (rule TrueI keeps_intros | (simp add: tool_call_ok_def masked_opt_def; fail))+

lemma keeps_failure_audit [keeps_intros]:
  "masked (PDict r) \<Longrightarrow>
    keeps (request_inv d0 u0 c0) (append_failure_audit h agent request t r k st code m) (\<lambda>_. True)"
  unfolding append_failure_audit_def
  by (rule TrueI keeps_intros | (simp add: masked_opt_def; fail))+

lemma keeps_idempotent_result [keeps_intros]:
  "keeps (request_inv d0 u0 c0) (idempotent_result e request k t) (\<lambda>_. True)"
  unfolding idempotent_result_def
  by (rule TrueI keeps_intros)+

lemma keeps_mark_upstream_failed [keeps_intros]:
  "tool_call_ok c \<Longrightarrow> keeps (request_inv d0 u0 c0) (mark_upstream_failed h c code m) (\<lambda>_. True)"
  unfolding mark_upstream_failed_def
  by (rule TrueI keeps_intros | (simp add: tool_call_ok_def; fail))+

lemma keeps_finish_denied [keeps_intros]:
  "tool_call_ok c \<Longrightarrow> keeps (request_inv d0 u0 c0) (finish_denied h c r) (\<lambda>_. True)"
  unfolding finish_denied_def by (rule TrueI keeps_intros | assumption)+

lemma keeps_finish_pending [keeps_intros]:
  "tool_call_ok c \<Longrightarrow> masked (PDict (pr_arguments_redacted r)) \<Longrightarrow>
    keeps (request_inv d0 u0 c0) (finish_pending h srv agent request c r) (\<lambda>_. True)"
  unfolding finish_pending_def
  by (rule TrueI keeps_intros | assumption | (simp add: tool_call_ok_def; fail))+

lemma keeps_finish_allowed [keeps_intros]:
  "tool_call_ok c \<Longrightarrow>
    keeps (request_inv d0 u0 c0) (finish_allowed h srv server tool request c) (\<lambda>_. True)"
  unfolding finish_allowed_def
  by (rule TrueI keeps_intros | assumption | (simp add: tool_call_ok_def; fail))+

lemma keeps_dispatch_call [keeps_intros]:
  "keeps (request_inv d0 u0 c0) (dispatch_call h srv agent request t server tool) (\<lambda>_. True)"
  unfolding dispatch_call_def by (rule TrueI keeps_intros | assumption)+

lemma keeps_call_tool [keeps_intros]:
  "keeps (request_inv d0 u0 c0) (call_tool h srv agent request) (\<lambda>_. True)"
  unfolding call_tool_def redacted_arguments_eq
  by (rule TrueI keeps_intros redacted_of_masked keeps_mono [OF keeps_queries(15)] | (simp; fail))+

lemma keeps_execution_failed [keeps_intros]:
  "approval_ok a \<Longrightarrow> pred_option tool_call_ok c \<Longrightarrow>
    keeps (request_inv d0 u0 c0) (approval_execution_failed h a c code m) (\<lambda>_. True)"
  unfolding approval_execution_failed_def
  by (rule TrueI keeps_intros
      | (simp add: tool_call_ok_def approval_ok_def masked_opt_def; fail))+

lemma keeps_finish_executed [keeps_intros]:
  "approval_ok a \<Longrightarrow> tool_call_ok c \<Longrightarrow>
    keeps (request_inv d0 u0 c0) (finish_executed h a c r) (\<lambda>_. True)"
  unfolding finish_executed_def
  by (rule TrueI keeps_intros | (simp add: tool_call_ok_def; fail)
      | (auto split: option.split; fail))+

lemma keeps_execute_approved [keeps_intros]:
  "approval_ok a \<Longrightarrow> keeps (request_inv d0 u0 c0) (execute_approved_tool_call h srv a) (\<lambda>_. True)"
  unfolding execute_approved_tool_call_def
  by (rule TrueI keeps_intros | (simp; fail))+

interpretation tool_call_executor: approved_call_executor "execute_approved_tool_call h srv" for h srv
  by unfold_locales (rule keeps_execute_approved)

lemmas keeps_approve_approval [keeps_intros] = tool_call_executor.keeps_approve_approval

end
