(* ===== verification/Agent_Service.thy ===== *)
theory Agent_Service
  imports Tool_Call_Service
begin

text \<open>
  API keys (\<open>infrastructure/auth/api_keys.py\<close>) and the agent service
  (\<open>application/services/agent_service.py\<close>): creation, listing, disabling and authentication
  of agents. Only the keyed hash of an API key is stored.
\<close>

section \<open>API keys\<close>

definition generate_api_key :: "host \<Rightarrow> string gw" where
  "generate_api_key h = seq (token_urlsafe h) (\<lambda>t. return_p (''msgw_'' @ t))"

definition hash_api_key :: "host \<Rightarrow> string \<Rightarrow> string \<Rightarrow> string" where
  "hash_api_key h api_key pepper = h_hmac_sha256 h (utf8_encode pepper) (utf8_encode api_key)"

text \<open>\<open>hmac.compare_digest\<close> on strings raises \<open>TypeError\<close> unless both are ASCII.\<close>

definition compare_digest :: "string \<Rightarrow> string \<Rightarrow> exn + bool" where
  "compare_digest a b =
    (if list_all (\<lambda>c. char_code c < 128) a \<and> list_all (\<lambda>c. char_code c < 128) b
     then Inr (a = b) else Inl (UncaughtError ''TypeError''))"

definition verify_api_key_hash :: "host \<Rightarrow> string \<Rightarrow> string \<Rightarrow> string \<Rightarrow> exn + bool" where
  "verify_api_key_hash h api_key expected_hash pepper =
    compare_digest (hash_api_key h api_key pepper) expected_hash"

section \<open>AgentService\<close>

record created_agent_dto =
  ca_agent :: agent_dto
  ca_api_key :: string

definition to_dto :: "agent_row \<Rightarrow> exn + agent_dto" where
  "to_dto agent = (case agent_role_of (ag_role agent) of
     None \<Rightarrow> Inl ValueError
   | Some role \<Rightarrow> (case entity_status_of (ag_status agent) of
       None \<Rightarrow> Inl ValueError
     | Some status \<Rightarrow> Inr \<lparr>dto_id = ag_id agent, dto_tenant_id = ag_tenant_id agent,
         dto_name = ag_name agent, dto_role = role, dto_status = status\<rparr>))"

definition create_agent ::
  "host \<Rightarrow> string \<Rightarrow> uuid \<Rightarrow> string \<Rightarrow> agent_role \<Rightarrow> created_agent_dto gw" where
  "create_agent h pepper tenant_id name role =
    seq (tenant_get_by_id tenant_id) (\<lambda>tenant. case tenant of
      None \<Rightarrow> raise_p (AppError TenantNotFoundError)
    | Some _ \<Rightarrow>
    seq (generate_api_key h) (\<lambda>api_key.
    seq (catch_p
          (agent_create h (\<lambda>i created updated.
            \<lparr>ag_id = i, ag_tenant_id = tenant_id, ag_name = name, ag_role = agent_role_value role,
             ag_status = entity_status_value ACTIVE,
             ag_api_key_hash = hash_api_key h api_key pepper,
             ag_created_at = created, ag_updated_at = updated\<rparr>))
          (\<lambda>e. if e = IntegrityError then raise_p (AppError AgentNameConflictError) else raise_p e))
      (\<lambda>agent.
    seq (lift_p (to_dto agent)) (\<lambda>dto.
    return_p \<lparr>ca_agent = dto, ca_api_key = api_key\<rparr>))))"

definition list_agents :: "uuid \<Rightarrow> agent_dto list gw" where
  "list_agents tenant_id = seq (tenant_get_by_id tenant_id) (\<lambda>tenant. case tenant of
     None \<Rightarrow> raise_p (AppError TenantNotFoundError)
   | Some _ \<Rightarrow> seq (agent_list_by_tenant tenant_id) (\<lambda>agents.
       lift_p (map_sum_list to_dto agents)))"

definition get_agent :: "uuid \<Rightarrow> agent_dto gw" where
  "get_agent agent_id = seq (agent_get_by_id agent_id) (\<lambda>agent. case agent of
     None \<Rightarrow> raise_p (AppError AgentNotFoundError) | Some a \<Rightarrow> lift_p (to_dto a))"

definition disable_agent :: "host \<Rightarrow> uuid \<Rightarrow> agent_dto gw" where
  "disable_agent h agent_id = seq (agent_disable h agent_id) (\<lambda>agent. case agent of
     None \<Rightarrow> raise_p (AppError AgentNotFoundError) | Some a \<Rightarrow> lift_p (to_dto a))"

definition authenticate_agent_by_api_key :: "host \<Rightarrow> string \<Rightarrow> string \<Rightarrow> agent_dto gw" where
  "authenticate_agent_by_api_key h pepper api_key =
    seq (agent_get_by_api_key_hash (hash_api_key h api_key pepper)) (\<lambda>agent. case agent of
      None \<Rightarrow> raise_p (AppError UnauthenticatedError)
    | Some a \<Rightarrow> (if ag_status a = entity_status_value DISABLED
        then raise_p (AppError AgentDisabledError) else lift_p (to_dto a)))"

section \<open>What the creation of an agent leaves\<close>

definition agent_added ::
  "host \<Rightarrow> string \<Rightarrow> uuid \<Rightarrow> string \<Rightarrow> agent_role \<Rightarrow> world \<Rightarrow> created_agent_dto \<Rightarrow> world \<Rightarrow> agent_row \<Rightarrow> bool" where
  "agent_added h pepper tenant_id name role w created w' row \<longleftrightarrow>
     db_agents (w_db w') = db_agents (w_db w) @ [row] \<and> db_tenants (w_db w') = db_tenants (w_db w)
   \<and> ca_api_key created = ''msgw_'' @ h_token_urlsafe h (w_tokens w)
   \<and> ca_agent created = \<lparr>dto_id = ag_id row, dto_tenant_id = tenant_id, dto_name = name,
       dto_role = role, dto_status = ACTIVE\<rparr>
   \<and> to_dto row = Inr (ca_agent created) \<and> ag_status row = entity_status_value ACTIVE
   \<and> ag_api_key_hash row = hash_api_key h (ca_api_key created) pepper
   \<and> ag_api_key_hash row \<notin> ag_api_key_hash ` set (db_agents (w_db w))"

lemma wp_created_agent:
  "wp (create_agent h pepper tenant_id name role)
    (\<lambda>created w'. \<exists>row. agent_added h pepper tenant_id name role w created w' row) (\<lambda>_ _. True) w"
  by (auto simp: agent_added_def create_agent_def generate_api_key_def tenant_get_by_id_def wp_simps
      Let_def agent_create_def insert_agent_def checked_def to_dto_def split: option.split)

lemma added_agent_authenticates:
  assumes "agent_added h pepper tenant_id name role w created w' row"
    and "db_agents (w_db v) = db_agents (w_db w')"
  shows "authenticate_agent_by_api_key h pepper (ca_api_key created) v = (Inr (ca_agent created), v)"
proof -
  have "find_row (\<lambda>r. ag_api_key_hash r = ag_api_key_hash row) (db_agents (w_db w)) = None"
    unfolding find_row_None_iff using assms(1) by (auto simp: agent_added_def image_iff)
  then have "find_row (\<lambda>r. ag_api_key_hash r = hash_api_key h (ca_api_key created) pepper)
      (db_agents (w_db v)) = Some row"
    using assms by (simp add: agent_added_def find_row_append find_row_Cons)
  with assms(1) show ?thesis
    by (simp add: authenticate_agent_by_api_key_def agent_get_by_api_key_hash_def prog_defs agent_added_def)
qed

section \<open>The service keeps the invariant of a request\<close>

lemma keeps_generate [keeps_intros]: "keeps (request_inv d0 u0 c0) (generate_api_key h) (\<lambda>_. True)"
  unfolding generate_api_key_def by (rule TrueI keeps_intros)+

lemma keeps_lift_any: "keeps P (lift_p r) (\<lambda>_. True)"
  by (rule keeps_lift) simp

lemma keeps_create_agent [keeps_intros]:
  "keeps (request_inv d0 u0 c0) (create_agent h pepper t n role) (\<lambda>_. True)"
  unfolding create_agent_def
  by (rule TrueI keeps_intros | (simp add: agent_ok_def; fail))+

lemma keeps_agent_queries [keeps_intros]:
  "keeps (request_inv d0 u0 c0) (list_agents t) (\<lambda>_. True)"
  "keeps (request_inv d0 u0 c0) (get_agent i) (\<lambda>_. True)"
  "keeps (request_inv d0 u0 c0) (disable_agent h i) (\<lambda>_. True)"
  "keeps (request_inv d0 u0 c0) (authenticate_agent_by_api_key h pepper k) (\<lambda>_. True)"
  unfolding list_agents_def get_agent_def disable_agent_def authenticate_agent_by_api_key_def
  by (rule TrueI keeps_lift_any keeps_intros)+

end
