(* ===== verification/Mcp_Stdio_Client.thy ===== *)
theory Mcp_Stdio_Client
  imports Gateway_World
begin

text \<open>
  The stdio MCP client of \<open>infrastructure/mcp/stdio_client.py\<close>. The MCP SDK and the process
  it spawns are third-party: a record of functions that gives the outcome of a connected,
  initialised and finished exchange. The model covers what the client adds: the parameters it
  passes, the exceptions it turns into the port's errors, and the JSON it makes of a result.
\<close>

section \<open>str() and repr() of Python values\<close>

definition py_printable :: "char \<Rightarrow> bool" where
  "py_printable c = (let n = char_code c in
     (32 \<le> n \<and> n \<le> 126) \<or> (161 \<le> n \<and> n \<le> 255 \<and> n \<noteq> 173))"

definition repr_char :: "char \<Rightarrow> char \<Rightarrow> string" where
  "repr_char quote c =
    (if c = quote \<or> c = CHR 0x5C then [CHR 0x5C, c]
     else if c = CHR 0x0A then [CHR 0x5C, CHR ''n'']
     else if c = CHR 0x0D then [CHR 0x5C, CHR ''r'']
     else if c = CHR 0x09 then [CHR 0x5C, CHR ''t'']
     else if py_printable c then [c]
     else [CHR 0x5C, CHR ''x''] @ hex_str 2 (char_code c))"

definition repr_str :: "string \<Rightarrow> string" where
  "repr_str s = (let quote = (if CHR 0x27 \<in> set s \<and> CHR 0x22 \<notin> set s then CHR 0x22 else CHR 0x27)
     in [quote] @ concat (map (repr_char quote) s) @ [quote])"

fun py_repr :: "(64 word \<Rightarrow> string) \<Rightarrow> pyval \<Rightarrow> string"
  and py_repr_list :: "(64 word \<Rightarrow> string) \<Rightarrow> pyval list \<Rightarrow> string list"
  and py_repr_items :: "(64 word \<Rightarrow> string) \<Rightarrow> json_object \<Rightarrow> string list" where
  "py_repr fr PNone = ''None''"
| "py_repr fr (PBool b) = (if b then ''True'' else ''False'')"
| "py_repr fr (PInt i) = py_int_str i"
| "py_repr fr (PFloat f) = fr f"
| "py_repr fr (PStr s) = repr_str s"
| "py_repr fr (PObj s) = s"
| "py_repr fr (PList xs) = ''['' @ str_join '', '' (py_repr_list fr xs) @ '']''"
| "py_repr fr (PDict kvs) = ''{'' @ str_join '', '' (py_repr_items fr kvs) @ ''}''"
| "py_repr_list fr [] = []"
| "py_repr_list fr (x # xs) = py_repr fr x # py_repr_list fr xs"
| "py_repr_items fr [] = []"
| "py_repr_items fr ((k, v) # kvs) = (repr_str k @ '': '' @ py_repr fr v) # py_repr_items fr kvs"

definition py_str :: "(64 word \<Rightarrow> string) \<Rightarrow> pyval \<Rightarrow> string" where
  "py_str fr v = (case v of PStr s \<Rightarrow> s | _ \<Rightarrow> py_repr fr v)"

section \<open>The SDK\<close>

record stdio_parameters =
  sp_command :: string
  sp_args :: "string list"
  sp_env :: "(string \<times> string) list option"

text \<open>
  What ends an exchange: the time limit, one of the exceptions the client names, another
  exception, or a result.
\<close>

datatype 'a sdk_outcome =
    SdkTimeout | SdkMcpError | SdkOSError | SdkRuntimeError | SdkValueError
  | SdkRaises string | SdkResult 'a

text \<open>Attributes of the SDK's objects; an absent \<open>text\<close> is \<open>None\<close>, other absent ones \<open>PNone\<close>.\<close>

record content_item =
  ci_type :: pyval
  ci_text :: "pyval option"

record call_result =
  cr_isError :: bool
  cr_structuredContent :: pyval
  cr_structured_content :: pyval
  cr_content :: "content_item list option"

record sdk_tool =
  st_name :: string
  st_description :: "string option"
  st_inputSchema :: json_object

record mcp_sdk =
  sdk_list_tools :: "nat \<Rightarrow> stdio_parameters \<Rightarrow> 64 word \<Rightarrow> sdk_tool list sdk_outcome"
  sdk_call_tool :: "nat \<Rightarrow> stdio_parameters \<Rightarrow> string \<Rightarrow> json_object \<Rightarrow> 64 word \<Rightarrow> call_result sdk_outcome"

section \<open>Parameters of the child process\<close>

definition string_list :: "(64 word \<Rightarrow> string) \<Rightarrow> pyval \<Rightarrow> exn + string list" where
  "string_list fr v = (case v of
     PNone \<Rightarrow> Inr []
   | PList xs \<Rightarrow> Inr (map (py_str fr) xs)
   | _ \<Rightarrow> Inl (McpUpstreamError ''mcp_connection_failed'' ''MCP stdio server args must be a list''))"

definition string_map :: "(64 word \<Rightarrow> string) \<Rightarrow> pyval \<Rightarrow> exn + (string \<times> string) list" where
  "string_map fr v = (case v of
     PDict kvs \<Rightarrow> Inr (map (\<lambda>(key, item). (key, py_str fr item)) kvs)
   | _ \<Rightarrow> Inl (McpUpstreamError ''mcp_connection_failed'' ''MCP stdio server env must be an object''))"

definition connect_parameters :: "(64 word \<Rightarrow> string) \<Rightarrow> tool_server_row \<Rightarrow> exn + stdio_parameters" where
  "connect_parameters fr server =
    (case ts_command server of
       None \<Rightarrow> Inl (McpUpstreamError ''mcp_connection_failed'' ''MCP stdio server command is required'')
     | Some command \<Rightarrow>
         if command = []
         then Inl (McpUpstreamError ''mcp_connection_failed'' ''MCP stdio server command is required'')
         else sum_bind (string_list fr (ts_args server)) (\<lambda>args.
           sum_bind (if ts_env server = PNone then Inr None
                     else sum_bind (string_map fr (ts_env server)) (\<lambda>m. Inr (Some m))) (\<lambda>env.
           Inr \<lparr>sp_command = command, sp_args = args, sp_env = env\<rparr>)))"

section \<open>Results as JSON\<close>

fun json_safe :: "(64 word \<Rightarrow> string) \<Rightarrow> pyval \<Rightarrow> pyval"
  and json_safe_list :: "(64 word \<Rightarrow> string) \<Rightarrow> pyval list \<Rightarrow> pyval list"
  and json_safe_items :: "(64 word \<Rightarrow> string) \<Rightarrow> json_object \<Rightarrow> json_object" where
  "json_safe fr (PDict kvs) = PDict (json_safe_items fr kvs)"
| "json_safe fr (PList xs) = PList (json_safe_list fr xs)"
| "json_safe fr (PStr s) = PStr s"
| "json_safe fr (PInt i) = PInt i"
| "json_safe fr (PFloat f) = PFloat f"
| "json_safe fr (PBool b) = PBool b"
| "json_safe fr PNone = PNone"
| "json_safe fr (PObj s) = PStr (py_str fr (PObj s))"
| "json_safe_list fr [] = []"
| "json_safe_list fr (x # xs) = json_safe fr x # json_safe_list fr xs"
| "json_safe_items fr [] = []"
| "json_safe_items fr ((key, item) # kvs) = (key, json_safe fr item) # json_safe_items fr kvs"

definition content_item_to_json_safe :: "(64 word \<Rightarrow> string) \<Rightarrow> content_item \<Rightarrow> pyval" where
  "content_item_to_json_safe fr item =
    (if ci_type item = PStr ''text''
     then PDict [(''type'', PStr ''text''),
       (''text'', PStr (py_str fr (case ci_text item of None \<Rightarrow> PStr [] | Some t \<Rightarrow> t)))]
     else (case ci_type item of
         PStr t \<Rightarrow> if t \<noteq> [] then PDict [(''type'', PStr t)] else PDict [(''type'', PStr ''unknown'')]
       | _ \<Rightarrow> PDict [(''type'', PStr ''unknown'')]))"

definition mcp_result_to_json_safe :: "(64 word \<Rightarrow> string) \<Rightarrow> call_result \<Rightarrow> json_object" where
  "mcp_result_to_json_safe fr result =
    (let structured = (if cr_structuredContent result = PNone then cr_structured_content result
           else cr_structuredContent result)
     in if structured \<noteq> PNone then [(''structured'', json_safe fr structured)]
        else (case cr_content result of
            None \<Rightarrow> [(''content'', PList [])]
          | Some items \<Rightarrow>
              let converted = map (content_item_to_json_safe fr) items
              in if converted \<noteq> [] then [(''content'', PList converted)]
                 else [(''content'', PList [])]))"

definition ensure_mcp_call_result_ok :: "call_result \<Rightarrow> exn + unit" where
  "ensure_mcp_call_result_ok result =
    (if cr_isError result
     then Inl (McpUpstreamError ''mcp_tool_call_failed'' ''MCP tool returned an error'') else Inr ())"

section \<open>StdioMcpClient\<close>

definition stdio_list_tools ::
  "(64 word \<Rightarrow> string) \<Rightarrow> mcp_sdk \<Rightarrow> nat \<Rightarrow> tool_server_row \<Rightarrow> 64 word \<Rightarrow> exn + mcp_tool_metadata list" where
  "stdio_list_tools fr sdk n server timeout_seconds =
    (if ts_transport_type server = transport_type_value STREAMABLE_HTTP
     then Inl (McpToolListError ''transport_not_supported_yet''
       ''Streamable HTTP MCP transport is not supported yet'')
     else sum_bind (connect_parameters fr server) (\<lambda>parameters.
       (case sdk_list_tools sdk n parameters timeout_seconds of
          SdkTimeout \<Rightarrow> Inl (McpToolListError ''mcp_timeout'' ''MCP tool discovery timed out'')
        | SdkRaises m \<Rightarrow> Inl (UncaughtError m)
        | SdkResult tools \<Rightarrow> Inr (map (\<lambda>tool. \<lparr>mt_name = st_name tool,
            mt_description = st_description tool, mt_input_schema = st_inputSchema tool\<rparr>) tools)
        | _ \<Rightarrow> Inl (McpToolListError ''mcp_tool_list_failed'' ''MCP tool discovery failed''))))"

definition stdio_call_tool ::
  "(64 word \<Rightarrow> string) \<Rightarrow> mcp_sdk \<Rightarrow> nat \<Rightarrow> tool_server_row \<Rightarrow> tool_definition_row \<Rightarrow> json_object
    \<Rightarrow> 64 word \<Rightarrow> exn + json_object" where
  "stdio_call_tool fr sdk n server tool arguments timeout_seconds =
    (if ts_transport_type server = transport_type_value STREAMABLE_HTTP
     then Inl (McpUpstreamError ''transport_not_supported_yet''
       ''Streamable HTTP MCP transport is not supported yet'')
     else sum_bind (connect_parameters fr server) (\<lambda>parameters.
       (case sdk_call_tool sdk n parameters (td_tool_name tool) arguments timeout_seconds of
          SdkTimeout \<Rightarrow> Inl (McpUpstreamTimeoutError ''mcp_timeout'' ''MCP tool call timed out'')
        | SdkRaises m \<Rightarrow> Inl (UncaughtError m)
        | SdkResult result \<Rightarrow> sum_bind (ensure_mcp_call_result_ok result)
            (\<lambda>_. Inr (mcp_result_to_json_safe fr result))
        | _ \<Rightarrow> Inl (McpUpstreamError ''mcp_tool_call_failed'' ''MCP tool call failed''))))"

definition create_mcp_client :: "(64 word \<Rightarrow> string) \<Rightarrow> mcp_sdk \<Rightarrow> mcp_client" where
  "create_mcp_client fr sdk =
    \<lparr>mc_list_tools = stdio_list_tools fr sdk, mc_call_tool = stdio_call_tool fr sdk\<rparr>"

section \<open>What the client guarantees\<close>

lemma json_safe_like:
  "json_like (json_safe fr v)" "json_like_list (json_safe_list fr vs)"
  "json_like_items (json_safe_items fr kvs)"
  by (induction v and vs and kvs rule: json_like_json_like_list_json_like_items.induct) simp_all

lemma json_safe_id:
  "json_like v \<Longrightarrow> json_safe fr v = v" "json_like_list vs \<Longrightarrow> json_safe_list fr vs = vs"
  "json_like_items kvs \<Longrightarrow> json_safe_items fr kvs = kvs"
  by (induction v and vs and kvs rule: json_like_json_like_list_json_like_items.induct) simp_all

lemma content_item_like: "json_like (content_item_to_json_safe fr item)"
  by (simp add: content_item_to_json_safe_def split: pyval.split)

lemma result_json_like: "json_like (PDict (mcp_result_to_json_safe fr result))"
  by (auto simp: mcp_result_to_json_safe_def Let_def json_safe_like json_like_list_iff
      content_item_like split: option.split)

text \<open>A named failure of the exchange is always one of the port's errors.\<close>

definition sdk_raises :: "'a sdk_outcome \<Rightarrow> bool" where
  "sdk_raises r = (case r of SdkRaises m \<Rightarrow> True | _ \<Rightarrow> False)"

lemma connect_parameters_error:
  "connect_parameters fr server = Inl e \<Longrightarrow> \<exists>m. e = McpUpstreamError ''mcp_connection_failed'' m"
  by (auto simp: connect_parameters_def string_list_def string_map_def sum_bind_def
      split: option.splits if_splits pyval.splits sum.splits)

lemma stdio_call_tool_error:
  assumes "stdio_call_tool fr sdk n server tool arguments tm = Inl e" and "upstream_error e = None"
  shows "\<exists>p. connect_parameters fr server = Inr p
    \<and> sdk_raises (sdk_call_tool sdk n p (td_tool_name tool) arguments tm)"
proof (cases "connect_parameters fr server")
  case (Inl e')
  with connect_parameters_error [OF Inl] assms show ?thesis
    by (auto simp: stdio_call_tool_def split: if_splits)
next
  case (Inr p)
  with assms show ?thesis
    by (auto simp: stdio_call_tool_def sdk_raises_def ensure_mcp_call_result_ok_def
        split: if_splits sdk_outcome.splits)
qed

end
