(* ===== verification/Tool_Registry.thy ===== *)
theory Tool_Registry
  imports Tool_Call_Service Mcp_Stdio_Client
begin

text \<open>
  The tool registry of \<open>application/services/tool_registry_service.py\<close>: registration of tool
  servers, discovery of their tools and the administrator's classification of a tool.
\<close>

record tool_server_create_request =
  sc_tenant_id :: uuid
  sc_server_id :: string
  sc_name :: string
  sc_transport_type :: transport_type
  sc_endpoint_url :: "string option"
  sc_command :: "string option"
  sc_args :: "string list option"
  sc_env :: "json_object option"

record tool_definition_update_request =
  du_risk_level :: "risk_level option"
  du_action_type :: "action_type option"
  du_status :: "entity_status option"
  du_description :: "string option"

record tool_registry =
  tg_mcp_client :: "mcp_client option"
  tg_mcp_call_timeout_seconds :: "64 word"

definition create_tool_server :: "host \<Rightarrow> tool_server_create_request \<Rightarrow> tool_server_row gw" where
  "create_tool_server h request =
    seq (tenant_get_by_id (sc_tenant_id request)) (\<lambda>tenant.
    if tenant = None then raise_p (AppError TenantNotFoundError)
    else if sc_transport_type request = STDIO
        \<and> (case sc_command request of None \<Rightarrow> True | Some c \<Rightarrow> c = [])
      then raise_p (AppError (ToolServerConfigurationError ''stdio tool servers require command''))
    else catch_p
      (tool_server_create h (\<lambda>i created updated.
        \<lparr>ts_id = i, ts_tenant_id = sc_tenant_id request, ts_server_id = sc_server_id request,
         ts_name = sc_name request,
         ts_transport_type = transport_type_value (sc_transport_type request),
         ts_endpoint_url = sc_endpoint_url request, ts_command = sc_command request,
         ts_args = (case sc_args request of None \<Rightarrow> PNone | Some xs \<Rightarrow> PList (map PStr xs)),
         ts_env = (case sc_env request of None \<Rightarrow> PNone | Some e \<Rightarrow> PDict e),
         ts_status = entity_status_value ACTIVE, ts_created_at = created,
         ts_updated_at = updated\<rparr>))
      (\<lambda>e. if e = IntegrityError then raise_p (AppError ToolServerConflictError) else raise_p e))"

definition list_tool_servers :: "uuid \<Rightarrow> tool_server_row list gw" where
  "list_tool_servers tenant_id = tool_server_list_by_tenant tenant_id"

text \<open>\<open>schema_hash_for\<close>: the canonical JSON text, encoded and hashed; a value outside JSON is a
  \<open>TypeError\<close>.\<close>

definition schema_hash_for :: "host \<Rightarrow> json_object \<Rightarrow> exn + string" where
  "schema_hash_for h schema = (case json_dumps (h_float_repr h) (PDict schema) of
     None \<Rightarrow> Inl (UncaughtError ''TypeError'')
   | Some encoded \<Rightarrow> sum_bind (encode_utf8 (h_encodable h) encoded) (\<lambda>bytes. Inr (h_sha256 h bytes)))"

text \<open>One round of the loop over the discovered tools.\<close>

definition register_tool ::
  "host \<Rightarrow> uuid \<Rightarrow> tool_server_row \<Rightarrow> mcp_tool_metadata \<Rightarrow> tool_definition_row gw" where
  "register_tool h tenant_id server discovered =
    seq (tool_definition_get_by_name tenant_id (ts_id server) (mt_name discovered)) (\<lambda>existing.
    seq (lift_p (schema_hash_for h (mt_input_schema discovered))) (\<lambda>schema_hash.
    case existing of
      None \<Rightarrow> tool_definition_create h (\<lambda>i created updated.
        \<lparr>td_id = i, td_tenant_id = tenant_id, td_server_id = ts_id server,
         td_tool_name = mt_name discovered, td_description = mt_description discovered,
         td_input_schema = mt_input_schema discovered,
         td_risk_level = risk_level_value CRITICAL, td_action_type = action_type_value PRIVILEGED,
         td_resource_patterns = PNone, td_status = entity_status_value DISABLED,
         td_schema_hash = schema_hash, td_created_at = created, td_updated_at = updated\<rparr>)
    | Some tool \<Rightarrow> tool_definition_update h tool
        (tool\<lparr>td_description := mt_description discovered,
              td_input_schema := mt_input_schema discovered, td_schema_hash := schema_hash\<rparr>)))"

definition refresh_tools ::
  "host \<Rightarrow> tool_registry \<Rightarrow> uuid \<Rightarrow> string \<Rightarrow> tool_definition_row list gw" where
  "refresh_tools h srv tenant_id server_id =
    seq (tool_server_get_by_server_id tenant_id server_id) (\<lambda>found. case found of
      None \<Rightarrow> raise_p (AppError (ToolServerNotFoundError None))
    | Some server \<Rightarrow>
    if ts_status server \<noteq> entity_status_value ACTIVE
    then raise_p (AppError (ToolServerNotFoundError None))
    else (case tg_mcp_client srv of
      None \<Rightarrow> raise_p (AppError McpClientNotConfiguredError)
    | Some client \<Rightarrow>
    seq (catch_p (upstream_list_tools client server (tg_mcp_call_timeout_seconds srv))
          (\<lambda>e. case e of
             McpToolListError code message \<Rightarrow> raise_p (AppError (McpToolListFailedError code))
           | _ \<Rightarrow> raise_p e)) (\<lambda>discovered_tools.
    map_prog (register_tool h tenant_id server) discovered_tools)))"

definition list_tool_definitions :: "uuid \<Rightarrow> string \<Rightarrow> tool_definition_row list gw" where
  "list_tool_definitions tenant_id server_id =
    seq (tool_server_get_by_server_id tenant_id server_id) (\<lambda>found. case found of
      None \<Rightarrow> raise_p (AppError (ToolServerNotFoundError None))
    | Some server \<Rightarrow> tool_definition_list_by_server tenant_id (ts_id server))"

definition apply_tool_update ::
  "tool_definition_update_request \<Rightarrow> tool_definition_row \<Rightarrow> tool_definition_row" where
  "apply_tool_update request d0 =
    (let d1 = (case du_risk_level request of None \<Rightarrow> d0
           | Some r \<Rightarrow> d0\<lparr>td_risk_level := risk_level_value r\<rparr>);
         d2 = (case du_action_type request of None \<Rightarrow> d1
           | Some a \<Rightarrow> d1\<lparr>td_action_type := action_type_value a\<rparr>);
         d3 = (case du_status request of None \<Rightarrow> d2
           | Some s \<Rightarrow> d2\<lparr>td_status := entity_status_value s\<rparr>)
     in (case du_description request of None \<Rightarrow> d3 | Some m \<Rightarrow> d3\<lparr>td_description := Some m\<rparr>))"

definition update_tool_definition ::
  "host \<Rightarrow> uuid \<Rightarrow> tool_definition_update_request \<Rightarrow> tool_definition_row gw" where
  "update_tool_definition h tool_definition_id request =
    seq (tool_definition_get_by_id tool_definition_id) (\<lambda>found. case found of
      None \<Rightarrow> raise_p (AppError (ToolNotFoundError None))
    | Some tool \<Rightarrow> tool_definition_update h tool (apply_tool_update request tool))"

section \<open>The registry keeps the invariant of a request\<close>

lemma keeps_create_tool_server [keeps_intros]:
  "keeps (request_inv d0 u0 c0) (create_tool_server h request) tool_server_ok"
  unfolding create_tool_server_def
  by (rule TrueI keeps_intros
      | (simp add: tool_server_ok_def args_ok_def list_all_iff split: option.split; fail))+

lemma keeps_register_tool [keeps_intros]:
  "keeps (request_inv d0 u0 c0) (register_tool h t s d) tool_definition_ok"
  unfolding register_tool_def
  by (rule TrueI keeps_intros | (simp add: tool_definition_ok_def; fail))+

lemma keeps_list_error [keeps_intros]:
  "keeps P (case e of McpToolListError code message \<Rightarrow> raise_p (AppError (McpToolListFailedError code))
     | _ \<Rightarrow> raise_p e) R"
  by (cases e) (simp_all add: keeps_raise)

lemma keeps_refresh_tools [keeps_intros]:
  "keeps (request_inv d0 u0 c0) (refresh_tools h srv t s) (list_all tool_definition_ok)"
  unfolding refresh_tools_def by (rule TrueI keeps_intros)+

lemma tool_update_ok: "tool_definition_ok d \<Longrightarrow> tool_definition_ok (apply_tool_update request d)"
  by (auto simp: apply_tool_update_def tool_definition_ok_def Let_def split: option.split)

lemma keeps_update_tool_definition [keeps_intros]:
  "keeps (request_inv d0 u0 c0) (update_tool_definition h i request) tool_definition_ok"
  unfolding update_tool_definition_def
  by (rule TrueI keeps_intros tool_update_ok | (simp; fail))+

lemma keeps_registry_queries [keeps_intros]:
  "keeps (request_inv d0 u0 c0) (list_tool_servers t) (list_all tool_server_ok)"
  "keeps (request_inv d0 u0 c0) (list_tool_definitions t s) (list_all tool_definition_ok)"
  unfolding list_tool_servers_def list_tool_definitions_def
  by (rule TrueI keeps_intros)+

end
