(* ===== verification/Api_Layer.thy ===== *)
theory Api_Layer
  imports Agent_Service Tool_Registry
begin

text \<open>
  The HTTP layer: error responses (\<open>api/errors.py\<close>), authentication (\<open>api/dependencies.py\<close>),
  response models (\<open>api/schemas.py\<close>) and the route handlers (\<open>api/routes\<close>) with their session:
  a request runs on the committed rows, commits where its handler says so, and whatever is not
  committed when it ends is gone.
\<close>

section \<open>Error responses\<close>

record http_response =
  hr_status_code :: nat
  hr_body :: pyval

definition error_response :: "nat \<Rightarrow> string \<Rightarrow> string \<Rightarrow> json_object \<Rightarrow> http_response" where
  "error_response status_code code message raw_details =
    \<lparr>hr_status_code = status_code,
     hr_body = PDict [(''error'', PDict
       [(''code'', PStr code), (''message'', PStr message),
        (''details'', PDict (filter (\<lambda>(key, value). key \<noteq> ''trace_id'') raw_details)),
        (''trace_id'', get_or_none raw_details ''trace_id'')])]\<rparr>"

fun status_code_for_error :: "app_error \<Rightarrow> nat" where
  "status_code_for_error UnauthenticatedError = 401"
| "status_code_for_error AgentDisabledError = 403"
| "status_code_for_error TenantNotFoundError = 404"
| "status_code_for_error AgentNotFoundError = 404"
| "status_code_for_error AgentNameConflictError = 409"
| "status_code_for_error ToolServerConflictError = 409"
| "status_code_for_error (ToolServerConfigurationError m) = 422"
| "status_code_for_error (ToolServerNotFoundError t) = 404"
| "status_code_for_error (ToolNotFoundError t) = 404"
| "status_code_for_error (ToolDisabledError t) = 409"
| "status_code_for_error (ArgumentSchemaInvalidError t) = 422"
| "status_code_for_error (IdempotencyConflictError t) = 409"
| "status_code_for_error McpClientNotConfiguredError = 500"
| "status_code_for_error McpTransportNotSupportedError = 409"
| "status_code_for_error (McpToolListFailedError c) =
    (if c = ''transport_not_supported_yet'' then 409
     else if c = ''mcp_timeout'' then 504
     else 502)"
| "status_code_for_error ApprovalNotFoundError = 404"
| "status_code_for_error ApprovalNotPendingError = 409"
| "status_code_for_error ApprovalAlreadyProcessedError = 409"
| "status_code_for_error ApprovalExpiredError = 409"
| "status_code_for_error ApprovalDeniedError = 409"
| "status_code_for_error (ApprovalExecutionFailedError d) = 500"

text \<open>
  The installed handlers: \<open>APIError\<close>, \<open>ApplicationError\<close> and \<open>RuntimeError\<close>, of which the
  port's errors are subclasses. \<open>None\<close>: no handler, the server answers a bare 500.
\<close>

definition error_handler :: "exn \<Rightarrow> http_response option" where
  "error_handler e = (case e of
     ApiError code message status_code \<Rightarrow> Some (error_response status_code code message [])
   | AppError err \<Rightarrow> Some (error_response (status_code_for_error err) (app_error_code err)
       (app_error_message err) (app_error_details err))
   | _ \<Rightarrow> (if upstream_error e \<noteq> None
       then Some (error_response 500 ''internal_error'' ''Internal server error'' []) else None))"

section \<open>Authentication\<close>

definition unauthenticated :: exn where
  "unauthenticated = ApiError ''unauthenticated'' ''Authentication is required'' 401"

text \<open>\<open>str.split(sep)\<close> with a one-character separator.\<close>

fun py_split :: "char \<Rightarrow> string \<Rightarrow> string list" where
  "py_split sep [] = [[]]"
| "py_split sep (c # s) =
    (if c = sep then [] # py_split sep s
     else (case py_split sep s of [] \<Rightarrow> [[c]] | p # ps \<Rightarrow> (c # p) # ps))"

definition extract_bearer_token :: "string option \<Rightarrow> exn + string" where
  "extract_bearer_token authorization = (case authorization of
     None \<Rightarrow> Inl unauthenticated
   | Some a \<Rightarrow> (let parts = py_split (CHR '' '') a in
       if length parts \<noteq> 2 \<or> parts ! 0 \<noteq> ''Bearer'' \<or> parts ! 1 = [] then Inl unauthenticated
       else Inr (parts ! 1)))"

lemma py_split_nonempty: "py_split sep s \<noteq> []"
  by (induction s) (auto split: list.split)

lemma py_split_Cons:
  "py_split sep (c # s) = (if c = sep then [] # py_split sep s
    else (c # hd (py_split sep s)) # tl (py_split sep s))"
  by (cases "py_split sep s") (auto simp: py_split_nonempty)

lemma py_split_one: "py_split sep s = [p] \<longleftrightarrow> s = p \<and> sep \<notin> set p"
proof (induction s arbitrary: p)
  case (Cons c s)
  obtain q qs where "py_split sep s = q # qs" by (metis py_split_nonempty list.exhaust)
  with Cons.IH show ?case by (cases p) (auto simp del: py_split.simps simp: py_split_Cons)
qed auto

lemma py_split_two: "py_split sep s = [p, q] \<longleftrightarrow> s = p @ sep # q \<and> sep \<notin> set p \<and> sep \<notin> set q"
proof (induction s arbitrary: p)
  case (Cons c s)
  obtain r rs where "py_split sep s = r # rs" by (metis py_split_nonempty list.exhaust)
  with Cons.IH show ?case
    by (cases p) (auto simp del: py_split.simps simp: py_split_Cons py_split_one [symmetric])
qed simp

lemma bearer_token: "extract_bearer_token auth = Inr t \<longleftrightarrow>
    auth = Some (''Bearer '' @ t) \<and> t \<noteq> [] \<and> CHR '' '' \<notin> set t"
proof (cases auth)
  case (Some a)
  have "extract_bearer_token auth = Inr t \<longleftrightarrow> t \<noteq> [] \<and> py_split (CHR '' '') a = [''Bearer'', t]"
    using Some by (auto simp: extract_bearer_token_def Let_def length_Suc_conv numeral_2_eq_2)
  then show ?thesis using Some by (auto simp: py_split_two)
qed (simp add: extract_bearer_token_def)

definition require_admin :: "host \<Rightarrow> settings \<Rightarrow> string option \<Rightarrow> exn + unit" where
  "require_admin h st authorization =
    sum_bind (extract_bearer_token authorization) (\<lambda>token.
    sum_bind (verify_api_key_hash h token (admin_api_key_hash st) (api_key_pepper st)) (\<lambda>ok.
    if \<not> ok then Inl unauthenticated else Inr ()))"

definition require_agent :: "host \<Rightarrow> settings \<Rightarrow> string option \<Rightarrow> agent_dto gw" where
  "require_agent h st authorization =
    seq (lift_p (extract_bearer_token authorization)) (\<lambda>token.
    authenticate_agent_by_api_key h (api_key_pepper st) token)"

section \<open>Response models\<close>

text \<open>A server's response has no \<open>env\<close>. A row that does not validate is a server error.\<close>

record tool_server_response =
  rs_id :: uuid
  rs_tenant_id :: uuid
  rs_server_id :: string
  rs_name :: string
  rs_transport_type :: transport_type
  rs_endpoint_url :: "string option"
  rs_command :: "string option"
  rs_args :: "string list option"
  rs_status :: entity_status

record tool_definition_response =
  rd_id :: uuid
  rd_tenant_id :: uuid
  rd_server_id :: uuid
  rd_tool_name :: string
  rd_description :: "string option"
  rd_input_schema :: json_object
  rd_risk_level :: risk_level
  rd_action_type :: action_type
  rd_status :: entity_status
  rd_schema_hash :: string

record approval_list_item =
  ri_id :: uuid
  ri_tenant_id :: uuid
  ri_agent_id :: uuid
  ri_tool_call_id :: uuid
  ri_target_server :: string
  ri_target_tool :: string
  ri_arguments_redacted :: json_object
  ri_arguments_hash :: string
  ri_status :: approval_status
  ri_requested_reason :: "string option"
  ri_expires_at :: datetime
  ri_created_at :: datetime

definition validated :: "'a option \<Rightarrow> exn + 'a" where
  "validated m = (case m of None \<Rightarrow> Inl (UncaughtError ''ValidationError'') | Some x \<Rightarrow> Inr x)"

definition args_field :: "pyval \<Rightarrow> string list option option" where
  "args_field v = (case v of
     PNone \<Rightarrow> Some None
   | PList xs \<Rightarrow> (case map_sum_list str_item xs of Inl _ \<Rightarrow> None | Inr ss \<Rightarrow> Some (Some ss))
   | _ \<Rightarrow> None)"

definition tool_server_response_of :: "tool_server_row \<Rightarrow> exn + tool_server_response" where
  "tool_server_response_of r =
    sum_bind (validated (transport_type_of (ts_transport_type r))) (\<lambda>transport.
    sum_bind (validated (args_field (ts_args r))) (\<lambda>args.
    sum_bind (validated (entity_status_of (ts_status r))) (\<lambda>status.
    Inr \<lparr>rs_id = ts_id r, rs_tenant_id = ts_tenant_id r, rs_server_id = ts_server_id r,
      rs_name = ts_name r, rs_transport_type = transport, rs_endpoint_url = ts_endpoint_url r,
      rs_command = ts_command r, rs_args = args, rs_status = status\<rparr>)))"

definition tool_definition_response_of :: "tool_definition_row \<Rightarrow> exn + tool_definition_response" where
  "tool_definition_response_of r =
    sum_bind (validated (risk_level_of (td_risk_level r))) (\<lambda>risk.
    sum_bind (validated (action_type_of (td_action_type r))) (\<lambda>action.
    sum_bind (validated (entity_status_of (td_status r))) (\<lambda>status.
    Inr \<lparr>rd_id = td_id r, rd_tenant_id = td_tenant_id r, rd_server_id = td_server_id r,
      rd_tool_name = td_tool_name r, rd_description = td_description r,
      rd_input_schema = td_input_schema r, rd_risk_level = risk, rd_action_type = action,
      rd_status = status, rd_schema_hash = td_schema_hash r\<rparr>)))"

definition approval_list_item_of :: "approval_row \<Rightarrow> exn + approval_list_item" where
  "approval_list_item_of r =
    sum_bind (validated (approval_status_of (ap_status r))) (\<lambda>status.
    Inr \<lparr>ri_id = ap_id r, ri_tenant_id = ap_tenant_id r, ri_agent_id = ap_agent_id r,
      ri_tool_call_id = ap_tool_call_id r, ri_target_server = ap_target_server r,
      ri_target_tool = ap_target_tool r, ri_arguments_redacted = ap_arguments_redacted r,
      ri_arguments_hash = ap_arguments_hash r, ri_status = status,
      ri_requested_reason = ap_requested_reason r, ri_expires_at = ap_expires_at r,
      ri_created_at = ap_created_at r\<rparr>)"

section \<open>Routes\<close>

text \<open>One constructor per route; the first field is the \<open>Authorization\<close> header.\<close>

datatype api_request =
    PostAgent "string option" uuid string agent_role
  | ListAgents "string option" uuid
  | GetAgent "string option" uuid
  | DisableAgent "string option" uuid
  | GetCurrentAgent "string option"
  | PostToolServer "string option" tool_server_create_request
  | ListToolServers "string option" uuid
  | RefreshTools "string option" string uuid
  | ListToolDefinitions "string option" uuid string
  | PatchToolDefinition "string option" uuid tool_definition_update_request
  | ListApprovals "string option" approval_status "uuid option" "int option"
  | ApproveApproval "string option" uuid string
  | DenyApproval "string option" uuid string
  | PostToolCall "string option" tool_call_request

datatype api_response =
    AgentCreated agent_dto string
  | AgentIs agent_dto
  | AgentsAre "agent_dto list"
  | ToolServerCreated tool_server_response
  | ToolServersAre "tool_server_response list"
  | ToolDefinitionIs tool_definition_response
  | ToolDefinitionsAre "tool_definition_response list"
  | ApprovalsAre "approval_list_item list"
  | ApprovalAction approval_action_result
  | ToolCallAnswer tool_call_result

text \<open>\<open>build_service\<close> and \<open>build_services\<close> of the three route modules.\<close>

definition build_tool_registry :: "settings \<Rightarrow> mcp_client option \<Rightarrow> tool_registry" where
  "build_tool_registry st client =
    \<lparr>tg_mcp_client = client, tg_mcp_call_timeout_seconds = mcp_call_timeout_seconds st\<rparr>"

definition build_tool_call_service :: "settings \<Rightarrow> mcp_client option \<Rightarrow> tool_call_service" where
  "build_tool_call_service st client =
    \<lparr>sv_approval_service = \<lparr>as_request_ttl_seconds = approval_request_ttl_seconds st,
       as_tool_call_repository = False, as_audit_service = False\<rparr>,
     sv_mcp_client = client, sv_mcp_call_timeout_seconds = mcp_call_timeout_seconds st\<rparr>"

definition build_approval_services ::
  "settings \<Rightarrow> mcp_client option \<Rightarrow> approval_service \<times> tool_call_service" where
  "build_approval_services st client =
    (let approvals = \<lparr>as_request_ttl_seconds = approval_request_ttl_seconds st,
           as_tool_call_repository = True, as_audit_service = True\<rparr>
     in (approvals, \<lparr>sv_approval_service = approvals, sv_mcp_client = client,
           sv_mcp_call_timeout_seconds = mcp_call_timeout_seconds st\<rparr>))"

text \<open>\<open>result = ...; session.commit(); return ...\<close>\<close>

definition committing :: "'a gw \<Rightarrow> 'a gw" where
  "committing m = seq m (\<lambda>x. seq commit (\<lambda>_. return_p x))"

definition admin :: "host \<Rightarrow> settings \<Rightarrow> string option \<Rightarrow> 'a gw \<Rightarrow> 'a gw" where
  "admin h st authorization m = seq (lift_p (require_admin h st authorization)) (\<lambda>_. m)"

text \<open>The handlers of \<open>admin_agents.py\<close> and \<open>agent_self.py\<close>.\<close>

definition create_agent_route ::
  "host \<Rightarrow> settings \<Rightarrow> string option \<Rightarrow> uuid \<Rightarrow> string \<Rightarrow> agent_role \<Rightarrow> api_response gw" where
  "create_agent_route h st auth tenant_id name role = admin h st auth
     (seq (committing (create_agent h (api_key_pepper st) tenant_id name role)) (\<lambda>created.
      return_p (AgentCreated (ca_agent created) (ca_api_key created))))"

definition list_agents_route ::
  "host \<Rightarrow> settings \<Rightarrow> string option \<Rightarrow> uuid \<Rightarrow> api_response gw" where
  "list_agents_route h st auth tenant_id = admin h st auth
     (seq (list_agents tenant_id) (\<lambda>agents. return_p (AgentsAre agents)))"

definition get_agent_route ::
  "host \<Rightarrow> settings \<Rightarrow> string option \<Rightarrow> uuid \<Rightarrow> api_response gw" where
  "get_agent_route h st auth agent_id = admin h st auth
     (seq (get_agent agent_id) (\<lambda>agent. return_p (AgentIs agent)))"

definition disable_agent_route ::
  "host \<Rightarrow> settings \<Rightarrow> string option \<Rightarrow> uuid \<Rightarrow> api_response gw" where
  "disable_agent_route h st auth agent_id = admin h st auth
     (seq (committing (disable_agent h agent_id)) (\<lambda>agent. return_p (AgentIs agent)))"

definition get_current_agent_route ::
  "host \<Rightarrow> settings \<Rightarrow> string option \<Rightarrow> api_response gw" where
  "get_current_agent_route h st auth =
     seq (require_agent h st auth) (\<lambda>agent. return_p (AgentIs agent))"

text \<open>The handlers of \<open>admin_tools.py\<close>.\<close>

definition create_tool_server_route ::
  "host \<Rightarrow> settings \<Rightarrow> string option \<Rightarrow> tool_server_create_request \<Rightarrow> api_response gw" where
  "create_tool_server_route h st auth body = admin h st auth
     (seq (committing (create_tool_server h body)) (\<lambda>server.
      seq (lift_p (tool_server_response_of server)) (\<lambda>r. return_p (ToolServerCreated r))))"

definition list_tool_servers_route ::
  "host \<Rightarrow> settings \<Rightarrow> string option \<Rightarrow> uuid \<Rightarrow> api_response gw" where
  "list_tool_servers_route h st auth tenant_id = admin h st auth
     (seq (list_tool_servers tenant_id) (\<lambda>servers.
      seq (lift_p (map_sum_list tool_server_response_of servers)) (\<lambda>rs.
      return_p (ToolServersAre rs))))"

definition refresh_tools_route ::
  "host \<Rightarrow> settings \<Rightarrow> mcp_client option \<Rightarrow> string option \<Rightarrow> string \<Rightarrow> uuid \<Rightarrow> api_response gw" where
  "refresh_tools_route h st client auth server_id tenant_id = admin h st auth
     (seq (committing (refresh_tools h (build_tool_registry st client) tenant_id server_id))
      (\<lambda>definitions.
      seq (lift_p (map_sum_list tool_definition_response_of definitions)) (\<lambda>rs.
      return_p (ToolDefinitionsAre rs))))"

definition list_tool_definitions_route ::
  "host \<Rightarrow> settings \<Rightarrow> string option \<Rightarrow> uuid \<Rightarrow> string \<Rightarrow> api_response gw" where
  "list_tool_definitions_route h st auth tenant_id server_id = admin h st auth
     (seq (list_tool_definitions tenant_id server_id) (\<lambda>definitions.
      seq (lift_p (map_sum_list tool_definition_response_of definitions)) (\<lambda>rs.
      return_p (ToolDefinitionsAre rs))))"

definition update_tool_definition_route ::
  "host \<Rightarrow> settings \<Rightarrow> string option \<Rightarrow> uuid \<Rightarrow> tool_definition_update_request \<Rightarrow> api_response gw" where
  "update_tool_definition_route h st auth tool_definition_id body = admin h st auth
     (seq (committing (update_tool_definition h tool_definition_id body)) (\<lambda>tool.
      seq (lift_p (tool_definition_response_of tool)) (\<lambda>r. return_p (ToolDefinitionIs r))))"

text \<open>The handlers of \<open>admin_approvals.py\<close> and \<open>tool_calls.py\<close>.\<close>

definition list_approvals_route ::
  "host \<Rightarrow> settings \<Rightarrow> string option \<Rightarrow> approval_status \<Rightarrow> uuid option \<Rightarrow> int option \<Rightarrow> api_response gw" where
  "list_approvals_route h st auth status tenant_id limit = admin h st auth
     (seq (list_approvals (Some status) tenant_id limit) (\<lambda>approvals.
      seq (lift_p (map_sum_list approval_list_item_of approvals)) (\<lambda>items.
      return_p (ApprovalsAre items))))"

definition approve_approval_route ::
  "host \<Rightarrow> settings \<Rightarrow> mcp_client option \<Rightarrow> string option \<Rightarrow> uuid \<Rightarrow> string \<Rightarrow> api_response gw" where
  "approve_approval_route h st client auth approval_id review_reason = admin h st auth
     (case build_approval_services st client of (approvals, calls) \<Rightarrow>
      seq (committing (approve_approval h approvals (execute_approved_tool_call h calls)
             approval_id review_reason)) (\<lambda>result. return_p (ApprovalAction result)))"

definition deny_approval_route ::
  "host \<Rightarrow> settings \<Rightarrow> mcp_client option \<Rightarrow> string option \<Rightarrow> uuid \<Rightarrow> string \<Rightarrow> api_response gw" where
  "deny_approval_route h st client auth approval_id review_reason = admin h st auth
     (case build_approval_services st client of (approvals, calls) \<Rightarrow>
      seq (committing (deny_approval h approvals approval_id review_reason))
        (\<lambda>result. return_p (ApprovalAction result)))"

definition call_tool_route ::
  "host \<Rightarrow> settings \<Rightarrow> mcp_client option \<Rightarrow> string option \<Rightarrow> tool_call_request \<Rightarrow> api_response gw" where
  "call_tool_route h st client auth body =
     seq (require_agent h st auth) (\<lambda>agent.
     seq (committing (call_tool h (build_tool_call_service st client) agent body))
       (\<lambda>result. return_p (ToolCallAnswer result)))"

lemmas route_defs = create_agent_route_def list_agents_route_def get_agent_route_def
  disable_agent_route_def get_current_agent_route_def create_tool_server_route_def
  list_tool_servers_route_def refresh_tools_route_def list_tool_definitions_route_def
  update_tool_definition_route_def list_approvals_route_def approve_approval_route_def
  deny_approval_route_def call_tool_route_def

text \<open>The routers \<open>create_app\<close> includes, as one dispatch.\<close>

fun handle ::
  "host \<Rightarrow> settings \<Rightarrow> mcp_client option \<Rightarrow> api_request \<Rightarrow> api_response gw" where
  "handle h st client (PostAgent auth t n r) = create_agent_route h st auth t n r"
| "handle h st client (ListAgents auth t) = list_agents_route h st auth t"
| "handle h st client (GetAgent auth i) = get_agent_route h st auth i"
| "handle h st client (DisableAgent auth i) = disable_agent_route h st auth i"
| "handle h st client (GetCurrentAgent auth) = get_current_agent_route h st auth"
| "handle h st client (PostToolServer auth body) = create_tool_server_route h st auth body"
| "handle h st client (ListToolServers auth t) = list_tool_servers_route h st auth t"
| "handle h st client (RefreshTools auth s t) = refresh_tools_route h st client auth s t"
| "handle h st client (ListToolDefinitions auth t s) = list_tool_definitions_route h st auth t s"
| "handle h st client (PatchToolDefinition auth i body) = update_tool_definition_route h st auth i body"
| "handle h st client (ListApprovals auth s t n) = list_approvals_route h st auth s t n"
| "handle h st client (ApproveApproval auth i r) = approve_approval_route h st client auth i r"
| "handle h st client (DenyApproval auth i r) = deny_approval_route h st client auth i r"
| "handle h st client (PostToolCall auth body) = call_tool_route h st client auth body"

text \<open>
  A request: a new session sees the committed rows; closing it drops what is not committed.
\<close>

definition with_session :: "'a gw \<Rightarrow> 'a gw" where
  "with_session m w = (case m (w\<lparr>w_db := w_committed w\<rparr>) of (r, w') \<Rightarrow> (r, rollback w'))"

definition serve ::
  "host \<Rightarrow> settings \<Rightarrow> mcp_client option \<Rightarrow> api_request \<Rightarrow> api_response gw" where
  "serve h st client req = with_session (handle h st client req)"

fun success_status :: "api_request \<Rightarrow> nat" where
  "success_status (PostAgent _ _ _ _) = 201"
| "success_status (PostToolServer _ _) = 201"
| "success_status _ = 200"

text \<open>The status code the client sees.\<close>

definition answer_status :: "api_request \<Rightarrow> exn + api_response \<Rightarrow> nat" where
  "answer_status req r = (case r of
     Inr _ \<Rightarrow> success_status req
   | Inl e \<Rightarrow> (case error_handler e of Some resp \<Rightarrow> hr_status_code resp | None \<Rightarrow> 500))"

section \<open>A request is atomic and keeps the invariant\<close>

lemma args_field_ok: "args_ok v \<Longrightarrow> args_field v \<noteq> None"
proof (cases v)
  case (PList xs)
  assume "args_ok v"
  with PList have "list_all (\<lambda>x. case x of PStr s \<Rightarrow> True | _ \<Rightarrow> False) xs" by (simp add: args_ok_def)
  then have "\<exists>ss. map_sum_list str_item xs = Inr ss"
    by (induction xs) (auto simp: str_item_def split: pyval.splits)
  with PList show ?thesis by (auto simp: args_field_def)
qed (simp_all add: args_ok_def args_field_def)

lemma validated_Some [simp]: "validated (Some x) = Inr x"
  by (simp add: validated_def)

lemma tool_server_response_valid:
  assumes "tool_server_ok s"
  shows "\<exists>r. tool_server_response_of s = Inr r"
proof -
  have "args_field (ts_args s) \<noteq> None" using assms by (simp add: tool_server_ok_def args_field_ok)
  with assms show ?thesis by (auto simp: tool_server_ok_def tool_server_response_of_def)
qed

lemma tool_definition_response_valid:
  "tool_definition_ok d \<Longrightarrow> \<exists>r. tool_definition_response_of d = Inr r"
  by (auto simp: tool_definition_ok_def tool_definition_response_of_def)

lemmas responses_valid = tool_server_response_valid tool_definition_response_valid

lemma map_sum_list_total:
  assumes "list_all ok xs" and "\<And>x. ok x \<Longrightarrow> \<exists>y. f x = Inr y"
  shows "\<exists>ys. map_sum_list f xs = Inr ys"
  using assms(1)
proof (induction xs)
  case (Cons x xs)
  from assms(2) Cons.prems obtain y where "f x = Inr y" by (metis list.pred_inject(2))
  moreover obtain ys where "map_sum_list f xs = Inr ys" using Cons by auto
  ultimately show ?case by simp
qed simp

text \<open>
  \<open>atomic_on c0 u0 m\<close>: started on the committed rows \<open>c0\<close>, the program either returns and
  the committed rows then satisfy the invariant and have grown from \<open>c0\<close>, or it raises and
  the committed rows are \<open>c0\<close>.
\<close>

definition atomic_on :: "db \<Rightarrow> upstream_event list \<Rightarrow> 'a gw \<Rightarrow> bool" where
  "atomic_on c0 u0 m \<longleftrightarrow> (\<forall>w. request_inv c0 u0 c0 w \<longrightarrow> wp m
     (\<lambda>x w'. db_inv (w_committed w') \<and> grown c0 (w_committed w') \<and> prefix u0 (w_upstream w'))
     (\<lambda>e w'. w_committed w' = c0 \<and> prefix u0 (w_upstream w')) w)"

lemma atomic_reading:
  assumes "db_inv c0" and "keeps (request_inv c0 u0 c0) m R"
  shows "atomic_on c0 u0 m"
  unfolding atomic_on_def
proof (intro allI impI)
  fix w assume "request_inv c0 u0 c0 w"
  with assms(2) have "wp m (\<lambda>x w'. request_inv c0 u0 c0 w' \<and> R x) (\<lambda>_. request_inv c0 u0 c0) w"
    by (simp add: keeps_def)
  then show "wp m (\<lambda>x w'. db_inv (w_committed w') \<and> grown c0 (w_committed w') \<and> prefix u0 (w_upstream w'))
     (\<lambda>e w'. w_committed w' = c0 \<and> prefix u0 (w_upstream w')) w"
    by (rule wp_mono) (use assms(1) grown_refl in \<open>auto simp: request_inv_def\<close>)
qed

lemma atomic_seq:
  assumes "keeps (request_inv c0 u0 c0) m R" and "\<And>x. R x \<Longrightarrow> atomic_on c0 u0 (f x)"
  shows "atomic_on c0 u0 (seq m f)"
  unfolding atomic_on_def wp_seq
proof (intro allI impI)
  fix w assume "request_inv c0 u0 c0 w"
  with assms(1) have "wp m (\<lambda>x w'. request_inv c0 u0 c0 w' \<and> R x) (\<lambda>_. request_inv c0 u0 c0) w"
    by (simp add: keeps_def)
  then show "wp m (\<lambda>x. wp (f x)
      (\<lambda>x w'. db_inv (w_committed w') \<and> grown c0 (w_committed w') \<and> prefix u0 (w_upstream w'))
      (\<lambda>e w'. w_committed w' = c0 \<and> prefix u0 (w_upstream w')))
     (\<lambda>e w'. w_committed w' = c0 \<and> prefix u0 (w_upstream w')) w"
    by (rule wp_mono) (use assms(2) in \<open>auto simp: atomic_on_def request_inv_def\<close>)
qed

lemma atomic_committing:
  assumes "keeps (request_inv c0 u0 c0) m R" and "\<And>x w. R x \<Longrightarrow> \<exists>y. f x w = (Inr y, w)"
  shows "atomic_on c0 u0 (seq (committing m) f)"
  unfolding atomic_on_def committing_def wp_simps
proof (intro allI impI)
  fix w assume "request_inv c0 u0 c0 w"
  with assms(1) have "wp m (\<lambda>x w'. request_inv c0 u0 c0 w' \<and> R x) (\<lambda>_. request_inv c0 u0 c0) w"
    by (simp add: keeps_def)
  then show "wp m (\<lambda>x w. wp (f x)
      (\<lambda>x w'. db_inv (w_committed w') \<and> grown c0 (w_committed w') \<and> prefix u0 (w_upstream w'))
      (\<lambda>e w'. w_committed w' = c0 \<and> prefix u0 (w_upstream w')) (w\<lparr>w_committed := w_db w\<rparr>))
     (\<lambda>e w'. w_committed w' = c0 \<and> prefix u0 (w_upstream w')) w"
  proof (rule wp_mono)
    fix x w' assume *: "request_inv c0 u0 c0 w' \<and> R x"
    with assms(2) obtain y
      where "f x (w'\<lparr>w_committed := w_db w'\<rparr>) = (Inr y, w'\<lparr>w_committed := w_db w'\<rparr>)" by blast
    with * show "wp (f x)
      (\<lambda>x w'. db_inv (w_committed w') \<and> grown c0 (w_committed w') \<and> prefix u0 (w_upstream w'))
      (\<lambda>e w'. w_committed w' = c0 \<and> prefix u0 (w_upstream w')) (w'\<lparr>w_committed := w_db w'\<rparr>)"
      by (simp add: wp_def request_inv_def)
  qed (simp add: request_inv_def)
qed

lemma atomic_admin: "atomic_on c0 u0 m \<Longrightarrow> atomic_on c0 u0 (admin h st auth m)"
  unfolding admin_def by (rule atomic_seq [OF keeps_lift_any])

lemma keeps_require_agent [keeps_intros]:
  "keeps (request_inv d0 u0 c0) (require_agent h st auth) (\<lambda>_. True)"
  unfolding require_agent_def by (rule TrueI keeps_lift_any keeps_intros)+

lemma lift_total:
  "(\<exists>r. v = Inr r) \<Longrightarrow> \<exists>y. seq (lift_p v) (\<lambda>r. return_p (g r)) w = (Inr y, w)"
  by (auto simp: prog_defs)

lemma return_total: "\<exists>y. return_p (g x) w = (Inr y, w)"
  by (simp add: return_p_def)

lemmas atomic_cases = atomic_admin atomic_committing return_total lift_total responses_valid
lemmas reading_cases = TrueI keeps_lift_any keeps_intros

lemma handle_atomic:
  assumes "db_inv c0"
  shows "atomic_on c0 u0 (handle h st client req)"
proof (cases req)
  case (RefreshTools auth server_id tenant_id)
  then show ?thesis
    by (simp add: route_defs) (rule atomic_admin, rule atomic_committing [OF keeps_refresh_tools],
      rule lift_total, erule map_sum_list_total, rule tool_definition_response_valid)
next
  case (PostToolCall auth body)
  then show ?thesis
    by (simp add: route_defs) (rule atomic_seq [OF keeps_require_agent],
      rule atomic_committing [OF keeps_call_tool], rule return_total)
next
  case (ApproveApproval auth approval_id review_reason)
  then show ?thesis
    by (simp add: route_defs build_approval_services_def Let_def)
      (rule atomic_admin, rule atomic_committing [OF keeps_approve_approval], rule return_total)
next
  case (DenyApproval auth approval_id review_reason)
  then show ?thesis
    by (simp add: route_defs build_approval_services_def Let_def)
      (rule atomic_admin, rule atomic_committing [OF keeps_deny_approval], rule return_total)
next
  case (PostAgent auth tenant_id name role)
  then show ?thesis
    by (simp add: route_defs)
      (rule atomic_admin, rule atomic_committing [OF keeps_create_agent], rule return_total)
next
  case (DisableAgent auth agent_id)
  then show ?thesis
    by (simp add: route_defs)
      (rule atomic_admin, rule atomic_committing [OF keeps_agent_queries(3)], rule return_total)
next
  case (PostToolServer auth body)
  then show ?thesis
    by (simp add: route_defs) (rule atomic_admin, rule atomic_committing [OF keeps_create_tool_server],
      rule lift_total, erule tool_server_response_valid)
next
  case (PatchToolDefinition auth i body)
  then show ?thesis
    by (simp add: route_defs)
      (rule atomic_admin, rule atomic_committing [OF keeps_update_tool_definition],
      rule lift_total, erule tool_definition_response_valid)
next
  case (ListApprovals auth status tenant_id limit)
  then show ?thesis
    by (simp add: route_defs list_approvals_def)
      (rule atomic_admin, rule atomic_reading [OF assms], (rule reading_cases)+)
next
  case (GetCurrentAgent auth)
  then show ?thesis
    by (simp add: route_defs) (rule atomic_reading [OF assms], (rule reading_cases)+)
qed (simp_all add: route_defs, (rule atomic_admin, rule atomic_reading [OF assms],
    (rule reading_cases)+)+)

text \<open>What a request does to the committed rows.\<close>

lemma serve_atomic:
  assumes "db_inv (w_committed w)"
  obtains (returns) r w' where "serve h st client req w = (Inr r, w')"
      "db_inv (w_committed w')" "grown (w_committed w) (w_committed w')"
      "prefix (w_upstream w) (w_upstream w')" "w_db w' = w_committed w'"
  | (raises) e w' where "serve h st client req w = (Inl e, w')"
      "w_committed w' = w_committed w" "prefix (w_upstream w) (w_upstream w')"
      "w_db w' = w_committed w'"
proof -
  let ?c = "w_committed w" and ?w = "w\<lparr>w_db := w_committed w\<rparr>"
  have "request_inv ?c (w_upstream w) ?c ?w"
    using assms by (simp add: request_inv_def grown_refl)
  with handle_atomic [OF assms, of "w_upstream w" h st client req]
  have wp: "wp (handle h st client req)
     (\<lambda>x w'. db_inv (w_committed w') \<and> grown ?c (w_committed w') \<and> prefix (w_upstream w) (w_upstream w'))
     (\<lambda>e w'. w_committed w' = ?c \<and> prefix (w_upstream w) (w_upstream w')) ?w"
    by (simp add: atomic_on_def)
  obtain r w' where run: "handle h st client req ?w = (r, w')" by (cases "handle h st client req ?w")
  then have eq: "serve h st client req w = (r, rollback w')" by (simp add: serve_def with_session_def)
  show thesis
  proof (cases r)
    case (Inl e)
    with wp run eq show thesis by (intro raises [of e "rollback w'"]) (simp_all add: wp_def rollback_def)
  next
    case (Inr x)
    with wp run eq show thesis by (intro returns [of x "rollback w'"]) (simp_all add: wp_def rollback_def)
  qed
qed

end
