(* ===== verification/Row_Effects.thy ===== *)
theory Row_Effects
  imports Tool_Call_Service
begin

text \<open>
  What the services do to the rows, in closed form. \<open>set_call\<close> and \<open>set_approval\<close> replace a
  row, \<open>add_call\<close>, \<open>add_approval\<close> and \<open>add_audits\<close> append; every sequence of statements of a
  service normalises to one of these on the rows it started from. The rules for the repository
  operations are stated for runs that return: their exception postcondition is \<open>anyhow\<close>,
  because a request that raises leaves nothing behind.
\<close>

definition anyhow :: "'e \<Rightarrow> 's \<Rightarrow> bool" where
  "anyhow e s \<longleftrightarrow> True"

lemma anyhow [simp]: "anyhow e s"
  by (simp add: anyhow_def)

definition set_call :: "tool_call_row \<Rightarrow> db \<Rightarrow> db" where
  "set_call c d = put_tool_calls (update_rows (\<lambda>x. tc_id x = tc_id c) (\<lambda>_. c) (db_tool_calls d)) d"

definition set_approval :: "approval_row \<Rightarrow> db \<Rightarrow> db" where
  "set_approval a d = put_approvals (update_rows (\<lambda>x. ap_id x = ap_id a) (\<lambda>_. a) (db_approvals d)) d"

definition add_call :: "tool_call_row \<Rightarrow> db \<Rightarrow> db" where
  "add_call c d = put_tool_calls (db_tool_calls d @ [c]) d"

definition add_approval :: "approval_row \<Rightarrow> db \<Rightarrow> db" where
  "add_approval a d = put_approvals (db_approvals d @ [a]) d"

definition add_audits :: "audit_row list \<Rightarrow> db \<Rightarrow> db" where
  "add_audits evs d = d\<lparr>db_audit_events := db_audit_events d @ evs\<rparr>"

lemmas row_effect_defs = set_call_def set_approval_def add_call_def add_approval_def add_audits_def
  put_defs

section \<open>Normal forms\<close>

lemma set_absorb [simp]:
  "tc_id c' = tc_id c \<Longrightarrow> set_call c' (set_call c d) = set_call c' d"
  "ap_id a' = ap_id a \<Longrightarrow> set_approval a' (set_approval a d) = set_approval a' d"
  by (simp_all add: row_effect_defs update_rows_def)

lemma row_effects_commute [simp]:
  "set_call c (set_approval a d) = set_approval a (set_call c d)"
  "set_call c (add_audits evs d) = add_audits evs (set_call c d)"
  "set_approval a (add_audits evs d) = add_audits evs (set_approval a d)"
  "set_call c (add_approval a d) = add_approval a (set_call c d)"
  "add_approval a (add_audits evs d) = add_audits evs (add_approval a d)"
  "add_audits evs' (add_audits evs d) = add_audits (evs @ evs') d"
  by (simp_all add: row_effect_defs)

lemma find_id_set:
  "key c = i \<Longrightarrow> find_id key j (update_rows (\<lambda>x. key x = i) (\<lambda>_. c) t) =
    (case find_id key j t of None \<Rightarrow> None | Some r \<Rightarrow> Some (if j = i then c else r))"
  by (induction t) (auto simp: find_id_def find_row_def update_rows_def)

lemma look_set_call [simp]:
  "look_tool_call j (set_call c d) =
    (case look_tool_call j d of None \<Rightarrow> None | Some r \<Rightarrow> Some (if j = tc_id c then c else r))"
  "look_approval j (set_call c d) = look_approval j d"
  by (simp_all add: look_tool_call_def look_approval_def row_effect_defs find_id_set)

lemma look_set_approval [simp]:
  "look_approval j (set_approval a d) =
    (case look_approval j d of None \<Rightarrow> None | Some r \<Rightarrow> Some (if j = ap_id a then a else r))"
  "look_tool_call j (set_approval a d) = look_tool_call j d"
  by (simp_all add: look_tool_call_def look_approval_def row_effect_defs find_id_set)

lemma look_add [simp]:
  "look_tool_call j (add_call c d) =
    (case look_tool_call j d of None \<Rightarrow> if tc_id c = j then Some c else None | Some r \<Rightarrow> Some r)"
  "look_approval j (add_call c d) = look_approval j d"
  "look_approval j (add_approval a d) =
    (case look_approval j d of None \<Rightarrow> if ap_id a = j then Some a else None | Some r \<Rightarrow> Some r)"
  "look_tool_call j (add_approval a d) = look_tool_call j d"
  "look_tool_call j (add_audits evs d) = look_tool_call j d"
  "look_approval j (add_audits evs d) = look_approval j d"
  by (simp_all add: look_tool_call_def look_approval_def row_effect_defs find_id_def table_simps
      split: option.split)

lemma map_key_set: "key c = i \<Longrightarrow> map key (update_rows (\<lambda>x. key x = i) (\<lambda>_. c) t) = map key t"
  by (simp add: update_rows_def)

lemma ids_ok_simps [simp]:
  "tool_call_ids_ok (set_call c d) = tool_call_ids_ok d"
  "approval_ids_ok (set_call c d) = approval_ids_ok d"
  "tool_call_ids_ok (set_approval a d) = tool_call_ids_ok d"
  "approval_ids_ok (set_approval a d) = approval_ids_ok d"
  "tool_call_ids_ok (add_audits evs d) = tool_call_ids_ok d"
  "approval_ids_ok (add_audits evs d) = approval_ids_ok d"
  "approval_ids_ok (add_call c d) = approval_ids_ok d"
  "tool_call_ids_ok (add_approval a d) = tool_call_ids_ok d"
  by (simp_all add: tool_call_ids_ok_def approval_ids_ok_def row_effect_defs map_key_set)

lemma look_key: "look_tool_call i d = Some c \<Longrightarrow> tc_id c = i" "look_approval i d = Some a \<Longrightarrow> ap_id a = i"
  by (auto simp: look_tool_call_def look_approval_def find_id_def dest: find_row_SomeD)

text \<open>Replacing the one row of a key, whatever the function says of other rows.\<close>

lemma update_rows_one:
  assumes "distinct (map key t)" and "find_id key i t = Some c" and "q c" and "key (f c) = i"
  shows "update_rows (\<lambda>x. key x = i \<and> q x) f t = update_rows (\<lambda>x. key x = key (f c)) (\<lambda>_. f c) t"
  unfolding update_rows_def
proof (rule map_cong [OF refl])
  fix x assume x: "x \<in> set t"
  have "x = c" if "key x = i"
    using distinct_map_find_row [OF assms(1) x] that assms(2) by (simp add: find_id_def)
  with assms(3,4) show "(if key x = i \<and> q x then f x else x) = (if key x = key (f c) then f c else x)"
    by auto
qed

lemma set_call_id: "tool_call_ids_ok d \<Longrightarrow> look_tool_call i d = Some c \<Longrightarrow> set_call c d = d"
proof -
  assume "tool_call_ids_ok d" and c: "look_tool_call i d = Some c"
  then have "update_rows (\<lambda>x. tc_id x = i \<and> True) (\<lambda>x. x) (db_tool_calls d)
      = update_rows (\<lambda>x. tc_id x = tc_id c) (\<lambda>_. c) (db_tool_calls d)"
    by (intro update_rows_one [where f = "\<lambda>x. x" and q = "\<lambda>_. True"])
      (auto simp: tool_call_ids_ok_def look_tool_call_def look_key(1) [OF c])
  then show "set_call c d = d" by (simp add: row_effect_defs update_rows_def)
qed

section \<open>Rules for the repository operations\<close>

text \<open>The columns an update of a loaded tool call leaves alone.\<close>

definition same_request :: "tool_call_row \<Rightarrow> tool_call_row \<Rightarrow> bool" where
  "same_request c r \<longleftrightarrow> r = c\<lparr>tc_approval_id := tc_approval_id r, tc_status := tc_status r,
     tc_error_code := tc_error_code r, tc_error_message := tc_error_message r\<rparr>"

lemma wp_update_call:
  assumes ok: "tool_call_ids_ok (w_db w)" and c: "look_tool_call i (w_db w) = Some c"
    and r: "same_request c r"
    and Q: "\<And>t n. Q (r\<lparr>tc_updated_at := t\<rparr>)
      (w\<lparr>w_clock := n, w_db := set_call (r\<lparr>tc_updated_at := t\<rparr>) (w_db w)\<rparr>)"
  shows "wp (tool_call_update h c r) Q anyhow w"
proof (cases "r = c")
  case True
  with Q [of "tc_updated_at c" "w_clock w"] show ?thesis
    by (simp add: tool_call_update_def wp_simps set_call_id [OF ok c])
next
  case False
  have id: "tc_id r = i" using r look_key(1) [OF c] unfolding same_request_def
    by (metis tool_call_row.select_convs(1) tool_call_row.surjective tool_call_row.update_convs(13-16))
  let ?r = "\<lambda>t. r\<lparr>tc_updated_at := t\<rparr>"
  have eq: "c\<lparr>tc_approval_id := tc_approval_id r, tc_status := tc_status r,
      tc_error_code := tc_error_code r, tc_error_message := tc_error_message r,
      tc_updated_at := t\<rparr> = ?r t" for t
    using r unfolding same_request_def by metis
  have "update_rows (\<lambda>x. tc_id x = i \<and> True) (\<lambda>x. x\<lparr>tc_approval_id := tc_approval_id r,
      tc_status := tc_status r, tc_error_code := tc_error_code r,
      tc_error_message := tc_error_message r, tc_updated_at := t\<rparr>) (db_tool_calls (w_db w))
    = update_rows (\<lambda>x. tc_id x = tc_id (?r t)) (\<lambda>_. ?r t) (db_tool_calls (w_db w))" for t
    using ok c unfolding eq [symmetric]
    by (intro update_rows_one) (simp_all add: tool_call_ids_ok_def look_tool_call_def look_key(1) [OF c])
  then have "write_tool_call (?r t) (w_db w) = if_fits (tool_call_widths (?r t)) (set_call (?r t) (w_db w))" for t
    by (simp add: write_tool_call_def set_call_def id)
  with False Q show ?thesis
    by (simp add: tool_call_update_def wp_simps Let_def if_fits_def)
qed

lemma wp_clear_payload:
  assumes ok: "tool_call_ids_ok (w_db w)" and c: "look_tool_call i (w_db w) = Some c"
    and Q: "\<And>t n. Q (Some (c\<lparr>tc_arguments_payload := None, tc_updated_at := t\<rparr>))
      (w\<lparr>w_clock := n, w_db := set_call (c\<lparr>tc_arguments_payload := None, tc_updated_at := t\<rparr>) (w_db w)\<rparr>)"
  shows "wp (clear_arguments_payload h i) Q E w"
proof -
  let ?f = "\<lambda>t x. x\<lparr>tc_arguments_payload := None, tc_updated_at := t\<rparr>"
  have "update_rows (\<lambda>x. tc_id x = i \<and> True) (?f t) (db_tool_calls (w_db w))
    = update_rows (\<lambda>x. tc_id x = tc_id (?f t c)) (\<lambda>_. ?f t c) (db_tool_calls (w_db w))" for t
    using ok c
    by (intro update_rows_one) (simp_all add: tool_call_ids_ok_def look_tool_call_def look_key(1) [OF c])
  then have "put_tool_calls (update_rows (\<lambda>x. tc_id x = i) (?f t) (db_tool_calls (w_db w))) (w_db w)
    = set_call (?f t c) (w_db w)" for t
    by (simp add: set_call_def)
  moreover have "find_row (\<lambda>x. tc_id x = i) (db_tool_calls (w_db w)) = Some c"
    using c by (simp add: look_tool_call_def find_id_def)
  ultimately show ?thesis
    using Q by (simp add: clear_arguments_payload_def wp_simps Let_def)
qed

lemma wp_transition:
  assumes ok: "approval_ids_ok (w_db w)" and a: "look_approval i (w_db w) = Some a"
    and e: "ap_status a = approval_status_value e" "\<not> terminal_approval_status e"
    and Q: "\<And>t k. Q (Some (transition_values t n rr a))
      (w\<lparr>w_clock := k, w_db := set_approval (transition_values t n rr a) (w_db w)\<rparr>)"
  shows "wp (approval_transition_status h i e n rr) Q E w"
proof -
  let ?f = "\<lambda>t. transition_values t n rr"
  have "update_rows (\<lambda>x. ap_id x = i \<and> ap_status x = approval_status_value e) (?f t) (db_approvals (w_db w))
    = update_rows (\<lambda>x. ap_id x = ap_id (?f t a)) (\<lambda>_. ?f t a) (db_approvals (w_db w))" for t
    using ok a e
    by (intro update_rows_one) (simp_all add: approval_ids_ok_def look_approval_def look_key(2) [OF a])
  then have "put_approvals (update_rows (\<lambda>x. ap_id x = i \<and> ap_status x = approval_status_value e) (?f t)
      (db_approvals (w_db w))) (w_db w) = set_approval (?f t a) (w_db w)" for t
    by (simp add: set_approval_def)
  with Q a e ok show ?thesis
    by (simp add: wp_def approval_transition_eq Let_def)
qed

lemma wp_append_event:
  assumes "\<And>ev' n k. ae_arguments_redacted ev' = ev_arguments_redacted ev \<Longrightarrow>
      ae_status ev' = ev_status ev \<Longrightarrow> ae_approval_id ev' = ev_approval_id ev \<Longrightarrow>
      ae_error_code ev' = ev_error_code ev \<Longrightarrow> ae_tenant_id ev' = ev_tenant_id ev \<Longrightarrow>
      Q ev' (w\<lparr>w_uuids := n, w_clock := k, w_db := add_audits [ev'] (w_db w)\<rparr>)"
  shows "wp (append_tool_call_event h ev) Q anyhow w"
  unfolding append_tool_call_event_def audit_append_def wp_simps insert_audit_event_def checked_def
  using assms by (simp add: add_audits_def wp_simps)

end
