(* ===== verification/Approval_Flow.thy ===== *)
theory Approval_Flow
  imports Row_Effects
begin

text \<open>
  What an approval action leaves in the database: the approval and its tool call end in a
  matching pair of statuses, the stored payload is gone, and the audit trail has grown. The
  rules follow the code from the leaves up; each says which rows a returning run has replaced.
\<close>

lemma same_request_simps [simp]:
  "same_request c (c\<lparr>tc_status := s, tc_error_code := e, tc_error_message := m\<rparr>)"
  "same_request c (c\<lparr>tc_status := s\<rparr>)" "same_request c (c\<lparr>tc_approval_id := i\<rparr>)"
  by (simp_all add: same_request_def)

definition settled_call :: "tool_call_status \<Rightarrow> string option \<Rightarrow> string option \<Rightarrow> datetime
    \<Rightarrow> tool_call_row \<Rightarrow> tool_call_row" where
  "settled_call s code message t c = c\<lparr>tc_arguments_payload := None,
     tc_status := tool_call_status_value s, tc_error_code := code, tc_error_message := message,
     tc_updated_at := t\<rparr>"

lemma settled_call_simps [simp]:
  "tc_id (settled_call s code m t c) = tc_id c"
  "tc_status (settled_call s code m t c) = tool_call_status_value s"
  "tc_arguments_payload (settled_call s code m t c) = None"
  "tc_trace_id (settled_call s code m t c) = tc_trace_id c"
  "tc_error_code (settled_call s code m t c) = code"
  by (simp_all add: settled_call_def)

text \<open>The update and the clearing of the payload, together.\<close>

lemma wp_settle_call:
  assumes ok: "tool_call_ids_ok (w_db w)" and c: "look_tool_call i (w_db w) = Some c"
    and Q: "\<And>t n. Q (settled_call s code m t c)
      (w\<lparr>w_clock := n, w_db := set_call (settled_call s code m t c) (w_db w)\<rparr>)"
  shows "wp (tool_call_update h c (c\<lparr>tc_status := tool_call_status_value s, tc_error_code := code,
      tc_error_message := m\<rparr>)) (\<lambda>updated. wp (clear_arguments_payload h (tc_id updated))
      (\<lambda>cleared. Q (case cleared of None \<Rightarrow> updated | Some x \<Rightarrow> x)) anyhow) anyhow w"
proof (rule wp_update_call [OF ok c])
  fix t n
  let ?r = "c\<lparr>tc_status := tool_call_status_value s, tc_error_code := code, tc_error_message := m,
    tc_updated_at := t\<rparr>"
  have "wp (clear_arguments_payload h (tc_id c)) (\<lambda>cleared. Q (case cleared of None \<Rightarrow> ?r | Some x \<Rightarrow> x))
      anyhow (w\<lparr>w_clock := n, w_db := set_call ?r (w_db w)\<rparr>)"
  proof (rule wp_clear_payload [where c = ?r])
    fix t' n'
    have "?r\<lparr>tc_arguments_payload := None, tc_updated_at := t'\<rparr> = settled_call s code m t' c"
      by (simp add: settled_call_def)
    with Q [of t' n'] show "Q (case Some (?r\<lparr>tc_arguments_payload := None, tc_updated_at := t'\<rparr>) of
        None \<Rightarrow> ?r | Some x \<Rightarrow> x)
      (w\<lparr>w_clock := n, w_db := set_call ?r (w_db w)\<rparr>\<lparr>w_clock := n',
        w_db := set_call (?r\<lparr>tc_arguments_payload := None, tc_updated_at := t'\<rparr>)
          (w_db (w\<lparr>w_clock := n, w_db := set_call ?r (w_db w)\<rparr>))\<rparr>)"
      by simp
  qed (use ok c look_key(1) [OF c] in simp_all)
  then show "wp (clear_arguments_payload h (tc_id (c\<lparr>tc_status := tool_call_status_value s,
        tc_error_code := code, tc_error_message := m\<rparr>\<lparr>tc_updated_at := t\<rparr>)))
      (\<lambda>cleared. Q (case cleared of None \<Rightarrow> c\<lparr>tc_status := tool_call_status_value s,
        tc_error_code := code, tc_error_message := m\<rparr>\<lparr>tc_updated_at := t\<rparr> | Some x \<Rightarrow> x)) anyhow
      (w\<lparr>w_clock := n, w_db := set_call (c\<lparr>tc_status := tool_call_status_value s,
        tc_error_code := code, tc_error_message := m\<rparr>\<lparr>tc_updated_at := t\<rparr>) (w_db w)\<rparr>)"
    by simp
qed simp

definition DENIED_MESSAGE :: string where
  "DENIED_MESSAGE = ''Approval request did not permit execution''"

lemma wp_mark_denied:
  assumes "as_tool_call_repository srv" and "tool_call_ids_ok (w_db w)"
    and "look_tool_call i (w_db w) = Some c"
    and "\<And>t n. Q (settled_call TC_DENIED (Some code) (Some DENIED_MESSAGE) t c)
      (w\<lparr>w_clock := n,
         w_db := set_call (settled_call TC_DENIED (Some code) (Some DENIED_MESSAGE) t c) (w_db w)\<rparr>)"
  shows "wp (mark_tool_call_denied h srv i code) Q anyhow w"
  using assms wp_settle_call [OF assms(2,3), where s = TC_DENIED and code = "Some code"
      and m = "Some DENIED_MESSAGE" and Q = Q and h = h]
  by (simp add: mark_tool_call_denied_def wp_simps DENIED_MESSAGE_def)

section \<open>The final pairs\<close>

text \<open>An approval and its tool call after a decision: statuses that match, and no payload.\<close>

definition pair_settled :: "approval_row \<Rightarrow> tool_call_row \<Rightarrow> bool" where
  "pair_settled a c \<longleftrightarrow> tc_id c = ap_tool_call_id a \<and> tc_arguments_payload c = None
     \<and> (ap_status a, tc_status c) \<in> {(''denied'', ''denied''), (''expired'', ''denied''),
          (''executed'', ''succeeded''), (''failed'', ''failed'')}"

text \<open>
  \<open>settles i d r d'\<close>: from the rows \<open>d\<close> the action on approval \<open>i\<close> has replaced exactly the
  approval and its tool call, by a settled pair that the result \<open>r\<close> reports, and has appended
  audit events for this approval.
\<close>

definition settles :: "uuid \<Rightarrow> db \<Rightarrow> approval_action_result \<Rightarrow> db \<Rightarrow> bool" where
  "settles i d r d' \<longleftrightarrow> (\<exists>a c evs. d' = add_audits evs (set_approval a (set_call c d))
     \<and> ap_id a = i \<and> pair_settled a c \<and> evs \<noteq> []
     \<and> approval_status_value (ar_status r) = ap_status a
     \<and> tool_call_status_value (ar_tool_call_status r) = tc_status c
     \<and> ar_approval_id r = i \<and> ar_tool_call_id r = ap_tool_call_id a)"

lemma settlesI:
  assumes "d' = add_audits evs (set_approval a (set_call c d))" "ap_id a = i" "pair_settled a c"
    "evs \<noteq> []"
    "approval_status_value (ar_status r) = ap_status a"
    "tool_call_status_value (ar_tool_call_status r) = tc_status c"
    "ar_approval_id r = i" "ar_tool_call_id r = ap_tool_call_id a"
  shows "settles i d r d'"
  using assms unfolding settles_def by blast

lemma wp_member_or_raise [wp_simps]:
  "wp (member_or_raise m) Q E w = (case m of None \<Rightarrow> E ValueError w | Some x \<Rightarrow> Q x w)"
  by (simp add: member_or_raise_def wp_simps split: option.split)

lemma wp_append_approval_audit:
  assumes "as_audit_service srv"
    and "\<And>e n k. Q () (w\<lparr>w_uuids := n, w_clock := k, w_db := add_audits [e] (w_db w)\<rparr>)"
  shows "wp (append_approval_audit h srv a c st code) Q anyhow w"
  using assms by (auto simp: append_approval_audit_def wp_simps intro!: wp_append_event)

text \<open>A deadline that has passed.\<close>

lemma wp_expire_approval:
  assumes srv: "as_tool_call_repository srv" "as_audit_service srv"
    and ids: "tool_call_ids_ok (w_db w)" "approval_ids_ok (w_db w)"
    and a: "look_approval i (w_db w) = Some a" "ap_status a = approval_status_value AP_PENDING"
    and c: "look_tool_call (ap_tool_call_id a) (w_db w) = Some c"
    and Q: "\<And>r w'. settles i (w_db w) r (w_db w') \<Longrightarrow> ar_status r = AP_EXPIRED \<Longrightarrow>
      w_upstream w' = w_upstream w \<Longrightarrow> Q r w'"
  shows "wp (expire_approval h srv i) Q anyhow w"
  unfolding expire_approval_def wp_simps
  by (rule wp_transition [OF ids(2) a], simp)
    (use srv ids c look_key(1) [OF c] look_key(2) [OF a(1)] in
      \<open>auto simp: wp_simps pair_settled_def intro!: wp_mark_denied wp_append_approval_audit Q settlesI\<close>)

section \<open>Failure and success of an approved execution\<close>

text \<open>The actions of an approval start from a pending approval with its call in the table.\<close>

lemma wp_approval_execution_failed:
  assumes ids: "tool_call_ids_ok (w_db w)" "approval_ids_ok (w_db w)"
    and a0: "look_approval (ap_id a) (w_db w) = Some a0" "ap_status a0 = approval_status_value AP_APPROVED"
      "ap_tool_call_id a0 = ap_tool_call_id a"
    and c: "look_tool_call (ap_tool_call_id a) (w_db w) = Some c"
    and Q: "\<And>r w'. settles (ap_id a) (w_db w) r (w_db w') \<Longrightarrow> ar_status r = AP_FAILED \<Longrightarrow>
      w_upstream w' = w_upstream w \<Longrightarrow> Q r w'"
  shows "wp (approval_execution_failed h a (Some c) code message) Q anyhow w"
proof -
  have "wp (seq (tool_call_update h c (c\<lparr>tc_status := tool_call_status_value TC_FAILED,
          tc_error_code := Some code, tc_error_message := Some message\<rparr>)) (\<lambda>failed.
          seq (clear_arguments_payload h (tc_id failed)) (\<lambda>cleared.
          return_p (Some (case cleared of None \<Rightarrow> failed | Some x \<Rightarrow> x))))) R anyhow w"
    if R: "\<And>t n. R (Some (settled_call TC_FAILED (Some code) (Some message) t c)) (w\<lparr>w_clock := n,
      w_db := set_call (settled_call TC_FAILED (Some code) (Some message) t c) (w_db w)\<rparr>)" for R
    unfolding wp_simps
    by (rule wp_settle_call [OF ids(1) c, where s = TC_FAILED and code = "Some code" and
          m = "Some message" and Q = "\<lambda>x. R (Some x)" and h = h]) (use R in simp)
  note settle = this
  show ?thesis
    unfolding approval_execution_failed_def option.case
    by (subst wp_seq, rule settle, unfold wp_simps, rule wp_transition [where a = a0])
      (use ids a0 c look_key(1) [OF c] look_key(2) [OF a0(1)] in
        \<open>auto simp: wp_simps pair_settled_def intro!: wp_append_event Q settlesI\<close>)
qed

lemma wp_finish_executed:
  assumes ids: "tool_call_ids_ok (w_db w)" "approval_ids_ok (w_db w)"
    and a0: "look_approval (ap_id a) (w_db w) = Some a0" "ap_status a0 = approval_status_value AP_APPROVED"
      "ap_tool_call_id a0 = ap_tool_call_id a"
    and c: "look_tool_call (ap_tool_call_id a) (w_db w) = Some c"
    and Q: "\<And>r w'. settles (ap_id a) (w_db w) r (w_db w') \<Longrightarrow> ar_status r = AP_EXECUTED \<Longrightarrow>
      ar_result r = Some res \<Longrightarrow> w_upstream w' = w_upstream w \<Longrightarrow> Q r w'"
  shows "wp (finish_executed h a c res) Q anyhow w"
proof -
  let ?done = "\<lambda>t. settled_call TC_SUCCEEDED None None t c"
  have body: "wp (seq (approval_transition_status h (ap_id a) AP_APPROVED AP_EXECUTED None) (\<lambda>executed.
      case executed of
        None \<Rightarrow> approval_execution_failed h a (Some (?done t)) ''approval_already_processed''
                  ''Approval request was already processed''
      | Some _ \<Rightarrow> seq (append_tool_call_audit h (?done t) (Some ''executed'')) (\<lambda>_.
          return_p \<lparr>ar_approval_id = ap_id a, ar_tool_call_id = ap_tool_call_id a,
            ar_status = AP_EXECUTED, ar_tool_call_status = TC_SUCCEEDED,
            ar_result = Some res, ar_error = None\<rparr>))) Q anyhow
      (w\<lparr>w_clock := n, w_db := set_call (?done t) (w_db w)\<rparr>)" for t n
    unfolding wp_simps
    by (rule wp_transition [where a = a0])
      (use ids a0 c look_key(1) [OF c] look_key(2) [OF a0(1)] in
        \<open>auto simp: wp_simps append_tool_call_audit_def pair_settled_def
          intro!: wp_append_event Q settlesI\<close>)
  show ?thesis
    unfolding finish_executed_def Let_def
    by (subst wp_seq, subst wp_seq, rule wp_settle_call [OF ids(1) c, where s = TC_SUCCEEDED
        and code = None and m = None and h = h and Q = "\<lambda>x. wp (seq (approval_transition_status h
          (ap_id a) AP_APPROVED AP_EXECUTED None) (\<lambda>executed. case executed of
            None \<Rightarrow> approval_execution_failed h a (Some x) ''approval_already_processed''
                      ''Approval request was already processed''
          | Some _ \<Rightarrow> seq (append_tool_call_audit h x (Some ''executed'')) (\<lambda>_.
              return_p \<lparr>ar_approval_id = ap_id a, ar_tool_call_id = ap_tool_call_id a,
                ar_status = AP_EXECUTED, ar_tool_call_status = TC_SUCCEEDED,
                ar_result = Some res, ar_error = None\<rparr>))) Q anyhow"])
      (rule body)
qed

section \<open>Executing an approved call\<close>

text \<open>
  The one upstream call an approved request may send: the stored payload, to the active server
  and tool the approval names.
\<close>

definition approved_event :: "db \<Rightarrow> approval_row \<Rightarrow> tool_call_row \<Rightarrow> upstream_event \<Rightarrow> bool" where
  "approved_event d a c ev = (case ev of
     ToolsListed s \<Rightarrow> False
   | ToolCalled server tool arguments \<Rightarrow>
       tc_arguments_payload c = Some arguments
     \<and> server \<in> set (db_tool_servers d) \<and> ts_tenant_id server = ap_tenant_id a
     \<and> ts_server_id server = ap_target_server a \<and> ts_status server = ''active''
     \<and> tool \<in> set (db_tool_definitions d) \<and> td_tenant_id tool = ap_tenant_id a
     \<and> td_server_id tool = ts_id server \<and> td_tool_name tool = ap_target_tool a
     \<and> td_status tool = ''active'')"

lemma active_or_none_Some:
  "active_or_none st found = Some r \<longleftrightarrow> found = Some r \<and> st r = ''active''"
  by (auto simp: active_or_none_def split: option.split)

lemma active_or_none_None:
  "active_or_none st found = None \<longleftrightarrow> (\<forall>r. found = Some r \<longrightarrow> st r \<noteq> ''active'')"
  by (auto simp: active_or_none_def split: option.split)

lemma wp_try_upstream_call:
  "wp (try_upstream (upstream_call_tool mc server tool arguments tm)) Q E w =
    (let w' = w\<lparr>w_upstream := w_upstream w @ [ToolCalled server tool arguments]\<rparr>
     in case mc_call_tool mc (length (w_upstream w)) server tool arguments tm of
          Inr x \<Rightarrow> Q (Inr x) w'
        | Inl e \<Rightarrow> (case upstream_error e of None \<Rightarrow> E e w' | Some cm \<Rightarrow> Q (Inl cm) w'))"
  by (simp add: try_upstream_def wp_simps Let_def split: sum.split option.split)

definition executed_by :: "db \<Rightarrow> approval_row \<Rightarrow> tool_call_row \<Rightarrow> upstream_event list
    \<Rightarrow> approval_action_result \<Rightarrow> upstream_event list \<Rightarrow> bool" where
  "executed_by d a c u r u' \<longleftrightarrow>
     (u' = u \<and> ar_status r = AP_FAILED)
   \<or> (\<exists>ev. u' = u @ [ev] \<and> approved_event d a c ev \<and> ar_status r \<in> {AP_EXECUTED, AP_FAILED})"

lemma wp_execute_approved:
  assumes ids: "tool_call_ids_ok (w_db w)" "approval_ids_ok (w_db w)"
    and a: "look_approval (ap_id a) (w_db w) = Some a" "ap_status a = approval_status_value AP_APPROVED"
    and c: "look_tool_call (ap_tool_call_id a) (w_db w) = Some c"
    and Q: "\<And>r w'. settles (ap_id a) (w_db w) r (w_db w') \<Longrightarrow>
      executed_by (w_db w) a c (w_upstream w) r (w_upstream w') \<Longrightarrow> Q r w'"
  shows "wp (execute_approved_tool_call h srv a) Q anyhow w"
proof -
  have fail: "wp (approval_execution_failed h a (Some c) code message) Q anyhow w" for code message
    by (rule wp_approval_execution_failed [OF ids a _ c]) (auto simp: executed_by_def intro!: Q)
  have call: "wp (try_upstream (upstream_call_tool client server tool arguments tm))
      (\<lambda>outcome. case outcome of
          Inl cm \<Rightarrow> wp (approval_execution_failed h a (Some c) (fst cm) (snd cm)) Q anyhow
        | Inr upstream_result \<Rightarrow> wp (finish_executed h a c upstream_result) Q anyhow) anyhow w"
    if "approved_event (w_db w) a c (ToolCalled server tool arguments)"
    for client server tool arguments tm
    using ids a c that
    by (auto simp: wp_try_upstream_call Let_def executed_by_def split: sum.split option.split
        intro!: wp_approval_execution_failed [where a = a] wp_finish_executed [where a = a] Q)
  show ?thesis
    unfolding execute_approved_tool_call_def tool_server_get_by_server_id_def
      tool_definition_get_by_name_def
    by (auto simp: wp_simps c approved_event_def active_or_none_Some dest!: find_row_SomeD
        intro!: fail call split: option.split)
qed

section \<open>The two decisions\<close>

text \<open>A pending approval whose tool call is in the table.\<close>

definition awaiting :: "uuid \<Rightarrow> approval_row \<Rightarrow> tool_call_row \<Rightarrow> db \<Rightarrow> bool" where
  "awaiting i a c d \<longleftrightarrow> tool_call_ids_ok d \<and> approval_ids_ok d \<and> look_approval i d = Some a
     \<and> ap_status a = ''pending'' \<and> look_tool_call (ap_tool_call_id a) d = Some c"

lemma wp_get_approval_or_raise [wp_simps]:
  "wp (get_approval_or_raise i) Q E w = (case look_approval i (w_db w) of
     None \<Rightarrow> E (AppError ApprovalNotFoundError) w | Some a \<Rightarrow> Q a w)"
  by (simp add: get_approval_or_raise_def wp_simps split: option.split)

lemma executed_by_transition:
  "executed_by (add_audits [e] (set_approval b d)) (transition_values t n rr a) c u r u'
    = executed_by d a c u r u'"
  by (simp add: executed_by_def approved_event_def row_effect_defs split: upstream_event.split)

lemma settles_after_approval:
  assumes "settles i (add_audits [e] (set_approval b d)) r d'" and "ap_id b = i"
  shows "settles i d r d'"
proof -
  from assms(1) obtain a c evs where "d' = add_audits evs (set_approval a (set_call c
      (add_audits [e] (set_approval b d))))" "ap_id a = i" "pair_settled a c" "evs \<noteq> []"
      "approval_status_value (ar_status r) = ap_status a"
      "tool_call_status_value (ar_tool_call_status r) = tc_status c"
      "ar_approval_id r = i" "ar_tool_call_id r = ap_tool_call_id a"
    unfolding settles_def by blast
  with assms(2) show ?thesis
    by (intro settlesI [where evs = "e # evs" and a = a and c = c]) auto
qed

lemma wp_deny_approval:
  assumes srv: "as_tool_call_repository srv" "as_audit_service srv"
    and await: "awaiting i a c (w_db w)"
    and Q: "\<And>r w'. settles i (w_db w) r (w_db w') \<Longrightarrow> w_upstream w' = w_upstream w \<Longrightarrow>
      ar_status r = (if h_now h (w_clock w) > ap_expires_at a then AP_EXPIRED else AP_DENIED) \<Longrightarrow> Q r w'"
  shows "wp (deny_approval h srv i reason) Q anyhow w"
proof -
  let ?w = "w\<lparr>w_clock := Suc (w_clock w)\<rparr>"
  have deny: "wp (seq (approval_transition_status h i AP_PENDING AP_DENIED (Some reason))
        (\<lambda>denied. case denied of
          None \<Rightarrow> raise_p (AppError ApprovalNotPendingError)
        | Some approval' \<Rightarrow>
            seq (mark_tool_call_denied h srv (ap_tool_call_id approval') ''approval_denied'')
              (\<lambda>tool_call.
            seq (append_approval_audit h srv approval' (Some tool_call) ''denied''
                   (Some ''approval_denied'')) (\<lambda>_.
            seq (member_or_raise (tool_call_status_of (tc_status tool_call))) (\<lambda>st.
            return_p \<lparr>ar_approval_id = ap_id approval', ar_tool_call_id = ap_tool_call_id approval',
              ar_status = AP_DENIED, ar_tool_call_status = st, ar_result = None,
              ar_error = None\<rparr>))))) Q anyhow ?w"
    if "\<not> h_now h (w_clock w) > ap_expires_at a"
    unfolding wp_simps
    by (rule wp_transition [where a = a])
      (use srv await that in \<open>auto simp: awaiting_def wp_simps pair_settled_def look_key
        intro!: wp_mark_denied wp_append_approval_audit Q settlesI\<close>)
  have expire: "wp (expire_approval h srv i) Q anyhow ?w" if "h_now h (w_clock w) > ap_expires_at a"
    by (rule wp_expire_approval [where a = a and c = c])
      (use srv await that in \<open>auto simp: awaiting_def intro!: Q\<close>)
  show ?thesis
    unfolding deny_approval_def
    using await deny expire by (simp add: wp_simps awaiting_def)
qed

lemma wp_approve_approval:
  assumes srv: "as_tool_call_repository srv" "as_audit_service srv"
    and await: "awaiting i a c (w_db w)"
    and Q: "\<And>r w'. settles i (w_db w) r (w_db w') \<Longrightarrow>
      (if h_now h (w_clock w) > ap_expires_at a
       then ar_status r = AP_EXPIRED \<and> w_upstream w' = w_upstream w
       else executed_by (w_db w) a c (w_upstream w) r (w_upstream w')) \<Longrightarrow> Q r w'"
  shows "wp (approve_approval h srv (execute_approved_tool_call h calls) i reason) Q anyhow w"
proof -
  let ?w = "w\<lparr>w_clock := Suc (w_clock w)\<rparr>"
  let ?a = "\<lambda>t. transition_values t AP_APPROVED (Some reason) a"
  have id: "ap_id a = i" using await by (auto simp: awaiting_def look_key)
  have run: "wp (execute_approved_tool_call h calls (?a t)) Q anyhow
      (w\<lparr>w_uuids := k, w_clock := n, w_db := add_audits [e] (set_approval (?a t) (w_db w))\<rparr>)"
    if "\<not> h_now h (w_clock w) > ap_expires_at a" for t k n e
    by (rule wp_execute_approved [where c = c])
      (use await that id in \<open>auto simp: awaiting_def executed_by_transition
        intro!: Q dest: settles_after_approval\<close>)
  have approve: "wp (seq (approval_transition_status h i AP_PENDING AP_APPROVED (Some reason))
        (\<lambda>approved. case approved of
          None \<Rightarrow> raise_p (AppError ApprovalNotPendingError)
        | Some approval' \<Rightarrow>
            seq (append_approval_audit h srv approval' None ''approved'' None) (\<lambda>_.
            execute_approved_tool_call h calls approval'))) Q anyhow ?w"
    if "\<not> h_now h (w_clock w) > ap_expires_at a"
    unfolding wp_simps
    by (rule wp_transition [where a = a])
      (use srv await that run in \<open>auto simp: awaiting_def wp_simps intro!: wp_append_approval_audit\<close>)
  have expire: "wp (expire_approval h srv i) Q anyhow ?w" if "h_now h (w_clock w) > ap_expires_at a"
    by (rule wp_expire_approval [where a = a and c = c])
      (use srv await that in \<open>auto simp: awaiting_def intro!: Q\<close>)
  show ?thesis
    unfolding approve_approval_def
    using await approve expire by (simp add: wp_simps awaiting_def)
qed

end
