(* ===== verification/Call_Flow.thy ===== *)
theory Call_Flow
  imports Approval_Flow
begin

text \<open>
  What a returning tool call leaves in the database: nothing when an idempotency key replays an
  earlier call, and otherwise one new tool call with one audit event, and with one pending
  approval exactly when the policy requires it.
\<close>

definition fresh_call :: "tool_call_row \<Rightarrow> db \<Rightarrow> bool" where
  "fresh_call c d \<longleftrightarrow> tc_id c \<notin> tc_id ` set (db_tool_calls d)"

definition fresh_approval :: "approval_row \<Rightarrow> db \<Rightarrow> bool" where
  "fresh_approval a d \<longleftrightarrow> ap_id a \<notin> ap_id ` set (db_approvals d)
     \<and> ap_tool_call_id a \<notin> ap_tool_call_id ` set (db_approvals d)"

lemma set_call_add_call [simp]:
  "fresh_call c d \<Longrightarrow> tc_id c' = tc_id c \<Longrightarrow> set_call c' (add_call c d) = add_call c' d"
proof -
  assume "fresh_call c d" "tc_id c' = tc_id c"
  moreover from this have "update_rows (\<lambda>x. tc_id x = tc_id c) (\<lambda>_. c') (db_tool_calls d) = db_tool_calls d"
    by (intro update_rows_Nil_iff) (metis fresh_call_def imageI)
  ultimately show ?thesis
    by (simp add: row_effect_defs) (simp add: update_rows_def)
qed

lemma fresh_look: "fresh_call c d \<Longrightarrow> look_tool_call (tc_id c) d = None"
  by (auto simp: fresh_call_def look_tool_call_def find_id_def find_row_None_iff image_iff)

lemma ids_ok_add_call: "tool_call_ids_ok d \<Longrightarrow> fresh_call c d \<Longrightarrow> tool_call_ids_ok (add_call c d)"
  by (simp add: tool_call_ids_ok_def fresh_call_def row_effect_defs)

lemma wp_create_call:
  assumes "\<And>i t t'. tc_id (mk i t t') = i"
    and "\<And>i t t' k n. fresh_call (mk i t t') (w_db w) \<Longrightarrow> Q (mk i t t')
      (w\<lparr>w_uuids := k, w_clock := n, w_db := add_call (mk i t t') (w_db w)\<rparr>)"
  shows "wp (tool_call_create h mk) Q anyhow w"
proof -
  let ?r = "mk (h_uuid4 h (w_uuids w)) (h_now h (w_clock w)) (h_now h (Suc (w_clock w)))"
  have "Q ?r (w\<lparr>w_uuids := k, w_clock := n, w_db := add_call ?r (w_db w)\<rparr>)" if "fresh_call ?r (w_db w)" for k n
    using assms(2) that by blast
  then show ?thesis
    by (auto simp: tool_call_create_def wp_simps Let_def insert_tool_call_def checked_def
        fresh_call_def add_call_def put_tool_calls_def)
qed

lemma wp_create_approval:
  assumes "\<And>i t t' k n. fresh_approval (mk i t t') (w_db w) \<Longrightarrow> Q (mk i t t')
      (w\<lparr>w_uuids := k, w_clock := n, w_db := add_approval (mk i t t') (w_db w)\<rparr>)"
  shows "wp (approval_create h mk) Q anyhow w"
proof -
  let ?r = "mk (h_uuid4 h (w_uuids w)) (h_now h (w_clock w)) (h_now h (Suc (w_clock w)))"
  have "Q ?r (w\<lparr>w_uuids := k, w_clock := n, w_db := add_approval ?r (w_db w)\<rparr>)"
    if "fresh_approval ?r (w_db w)" for k n
    using assms that by blast
  then show ?thesis
    by (auto simp: approval_create_def wp_simps Let_def insert_approval_def checked_def
        fresh_approval_def add_approval_def put_approvals_def)
qed

lemma wp_append_call_audit:
  assumes "tc_status c = tool_call_status_value s"
    and "\<And>e k n. ae_status e = (case st of None \<Rightarrow> tc_status c | Some x \<Rightarrow> x) \<Longrightarrow>
      ae_arguments_redacted e = Some (tc_arguments_redacted c) \<Longrightarrow> ae_tenant_id e = tc_tenant_id c \<Longrightarrow>
      Q () (w\<lparr>w_uuids := k, w_clock := n, w_db := add_audits [e] (w_db w)\<rparr>)"
  shows "wp (append_tool_call_audit h c st) Q anyhow w"
  unfolding append_tool_call_audit_def
  by (cases st) (use assms in \<open>auto simp: wp_simps intro!: wp_append_event\<close>)

section \<open>The three continuations\<close>

text \<open>
  \<open>call_recorded r d d'\<close>: one new settled call and its audit event, as the answer says.
  \<open>call_suspended r d d'\<close>: one new pending call that keeps its payload, one pending approval
  for it, and the audit event.
\<close>

definition call_recorded :: "tool_call_result \<Rightarrow> db \<Rightarrow> db \<Rightarrow> bool" where
  "call_recorded r d d' \<longleftrightarrow> (\<exists>c e. d' = add_audits [e] (add_call c d) \<and> fresh_call c d
     \<and> tr_tool_call_id r = tc_id c \<and> tc_status c = tool_call_status_value (tr_status r)
     \<and> tr_status r \<in> {TC_DENIED, TC_SUCCEEDED, TC_FAILED} \<and> tc_arguments_payload c = None
     \<and> ae_status e = tc_status c \<and> ae_tenant_id e = tc_tenant_id c)"

definition call_suspended :: "json_object \<Rightarrow> tool_call_result \<Rightarrow> db \<Rightarrow> db \<Rightarrow> bool" where
  "call_suspended arguments r d d' \<longleftrightarrow> (\<exists>c a e. d' = add_audits [e] (add_approval a (add_call c d))
     \<and> fresh_call c d \<and> fresh_approval a d \<and> tr_tool_call_id r = tc_id c
     \<and> tr_status r = TC_PENDING_APPROVAL \<and> tr_approval_id r = Some (ap_id a)
     \<and> tc_status c = ''pending_approval'' \<and> tc_arguments_payload c = Some arguments
     \<and> tc_approval_id c = Some (ap_id a) \<and> ap_status a = ''pending'' \<and> ap_tool_call_id a = tc_id c
     \<and> ae_status e = ''pending_approval'' \<and> ae_approval_id e = Some (ap_id a))"

lemma call_recordedI:
  assumes "d' = add_audits [e] (add_call c d)" "fresh_call c d" "tr_tool_call_id r = tc_id c"
    "tc_status c = tool_call_status_value (tr_status r)"
    "tr_status r = TC_DENIED \<or> tr_status r = TC_SUCCEEDED \<or> tr_status r = TC_FAILED"
    "tc_arguments_payload c = None" "ae_status e = tc_status c" "ae_tenant_id e = tc_tenant_id c"
  shows "call_recorded r d d'"
  using assms unfolding call_recorded_def by blast

lemma wp_finish_denied:
  assumes c: "fresh_call c d" "w_db w = add_call c d" "tc_status c = ''denied''" "tc_arguments_payload c = None"
    and Q: "\<And>r w'. call_recorded r d (w_db w') \<Longrightarrow> tr_status r = TC_DENIED \<Longrightarrow>
      w_upstream w' = w_upstream w \<Longrightarrow> Q r w'"
  shows "wp (finish_denied h c ev) Q anyhow w"
  unfolding finish_denied_def wp_simps
  by (rule wp_append_call_audit [where s = TC_DENIED])
    (use c in \<open>auto intro!: Q call_recordedI\<close>)

lemma wp_settled_audit:
  assumes c: "fresh_call c d" "w_db w = add_call c d" "tc_arguments_payload c = None"
    "tool_call_ids_ok d" and s: "s = TC_SUCCEEDED \<or> s = TC_FAILED"
    and r0: "same_request c r0" "tc_status r0 = tool_call_status_value s"
    and Q: "\<And>c' w'. tc_id c' = tc_id c \<Longrightarrow> call_recorded (mk c') d (w_db w') \<Longrightarrow>
      w_upstream w' = w_upstream w \<Longrightarrow> Q (mk c') w'"
    and mk: "\<And>c'. tr_tool_call_id (mk c') = tc_id c'" "\<And>c'. tr_status (mk c') = s"
  shows "wp (seq (tool_call_update h c r0) (\<lambda>c'. seq (append_tool_call_audit h c' None)
    (\<lambda>_. return_p (mk c')))) Q anyhow w"
proof -
  have fixed: "tc_id r0 = tc_id c" "tc_arguments_payload r0 = None" "tc_tenant_id r0 = tc_tenant_id c"
    using r0(1) c(3) unfolding same_request_def
    by (metis tool_call_row.select_convs tool_call_row.surjective tool_call_row.update_convs(13-16))+
  show ?thesis
    unfolding wp_simps
  proof (rule wp_update_call [where i = "tc_id c"])
    fix t n
    let ?r = "r0\<lparr>tc_updated_at := t\<rparr>"
    show "wp (append_tool_call_audit h ?r None) (\<lambda>_. Q (mk ?r)) anyhow
        (w\<lparr>w_clock := n, w_db := set_call ?r (w_db w)\<rparr>)"
      by (rule wp_append_call_audit [where s = s])
        (use c r0 s fixed mk in \<open>auto simp: fresh_call_def intro!: Q call_recordedI\<close>)
  qed (use c r0 in \<open>simp_all add: ids_ok_add_call fresh_look\<close>)
qed

lemma wp_lift_any:
  "(\<And>x. r = Inr x \<Longrightarrow> Q x w) \<Longrightarrow> wp (lift_p r) Q anyhow w"
  by (simp add: wp_simps split: sum.split)

lemma call_suspendedI:
  assumes "d' = add_audits [e] (add_approval a (add_call c d))" "fresh_call c d" "fresh_approval a d"
    "tr_tool_call_id r = tc_id c" "tr_status r = TC_PENDING_APPROVAL"
    "tr_approval_id r = Some (ap_id a)" "tc_status c = ''pending_approval''"
    "tc_arguments_payload c = Some arguments" "tc_approval_id c = Some (ap_id a)"
    "ap_status a = ''pending''" "ap_tool_call_id a = tc_id c" "ae_status e = ''pending_approval''"
    "ae_approval_id e = Some (ap_id a)"
  shows "call_suspended arguments r d d'"
  using assms unfolding call_suspended_def by blast

lemma fresh_approval_add_call [simp]: "fresh_approval a (add_call c d) = fresh_approval a d"
  by (simp add: fresh_approval_def row_effect_defs)

lemma wp_finish_pending:
  assumes c: "fresh_call c d" "w_db w = add_call c d" "tool_call_ids_ok d"
    "tc_status c = ''pending_approval''" "tc_arguments_payload c = Some arguments"
    and Q: "\<And>r w'. call_suspended arguments r d (w_db w') \<Longrightarrow> w_upstream w' = w_upstream w \<Longrightarrow> Q r w'"
  shows "wp (finish_pending h srv agent request c ev) Q anyhow w"
proof -
  let ?k = "\<lambda>a. seq (tool_call_update h c (c\<lparr>tc_approval_id := Some (ap_id a)\<rparr>)) (\<lambda>tool_call'.
    seq (append_tool_call_audit h tool_call' None) (\<lambda>_.
    return_p \<lparr>tr_tool_call_id = tc_id tool_call', tr_status = TC_PENDING_APPROVAL,
      tr_policy_decision = Some REQUIRE_APPROVAL, tr_reason = Some (pr_reason ev),
      tr_approval_id = Some (ap_id a), tr_result = None, tr_error = None\<rparr>))"
  have rest: "wp (?k a) Q anyhow w1"
    if "w_db w1 = add_approval a (add_call c d)" "fresh_approval a d" "w_upstream w1 = w_upstream w"
      "ap_status a = ''pending''" "ap_tool_call_id a = tc_id c" for a w1
    unfolding wp_simps
  proof (rule wp_update_call [where i = "tc_id c"])
    fix t n
    let ?r = "c\<lparr>tc_approval_id := Some (ap_id a)\<rparr>\<lparr>tc_updated_at := t\<rparr>"
    have event: "wp (append_tool_call_event h x) R anyhow w2"
      if "\<And>e k m. ae_status e = ev_status x \<Longrightarrow> ae_approval_id e = ev_approval_id x \<Longrightarrow>
        R e (w2\<lparr>w_uuids := k, w_clock := m, w_db := add_audits [e] (w_db w2)\<rparr>)" for x R w2
      by (rule wp_append_event) (use that in simp)
    show "wp (append_tool_call_audit h ?r None) (\<lambda>_. Q \<lparr>tr_tool_call_id = tc_id ?r,
        tr_status = TC_PENDING_APPROVAL, tr_policy_decision = Some REQUIRE_APPROVAL,
        tr_reason = Some (pr_reason ev), tr_approval_id = Some (ap_id a), tr_result = None,
        tr_error = None\<rparr>) anyhow (w1\<lparr>w_clock := n, w_db := set_call ?r (w_db w1)\<rparr>)"
      unfolding append_tool_call_audit_def
      by (use c that in \<open>auto simp: wp_simps fresh_call_def intro!: event Q call_suspendedI\<close>)
  qed (use c that in \<open>simp_all add: ids_ok_add_call fresh_look\<close>)
  show ?thesis
    unfolding finish_pending_def create_pending_approval_def wp_seq wp_utc_now
    by (rule wp_lift_any, rule wp_create_approval, rule rest [unfolded wp_seq]) (use c in simp_all)
qed

lemma wp_finish_allowed:
  assumes c: "fresh_call c d" "w_db w = add_call c d" "tool_call_ids_ok d" "tc_arguments_payload c = None"
    and Q: "\<And>r w'. call_recorded r d (w_db w') \<Longrightarrow> tr_status r \<noteq> TC_DENIED \<Longrightarrow>
      w_upstream w' = w_upstream w \<and> tr_status r = TC_FAILED
        \<or> w_upstream w' = w_upstream w @ [ToolCalled server tool (rq_arguments request)] \<Longrightarrow> Q r w'"
  shows "wp (finish_allowed h srv server tool request c) Q anyhow w"
proof -
  have failed: "wp (mark_upstream_failed h c code message) Q anyhow w1"
    if "w_db w1 = add_call c d" "w_upstream w1 = w_upstream w
        \<or> w_upstream w1 = w_upstream w @ [ToolCalled server tool (rq_arguments request)]"
    for code message w1
    unfolding mark_upstream_failed_def
    by (rule wp_settled_audit [where d = d and s = TC_FAILED]) (use c that in \<open>auto intro!: Q\<close>)
  have succeeded: "wp (seq (tool_call_update h c
        (c\<lparr>tc_status := tool_call_status_value TC_SUCCEEDED\<rparr>)) (\<lambda>done_call.
      seq (append_tool_call_audit h done_call None) (\<lambda>_.
      return_p \<lparr>tr_tool_call_id = tc_id done_call, tr_status = TC_SUCCEEDED,
        tr_policy_decision = Some ALLOW, tr_reason = None, tr_approval_id = None,
        tr_result = Some res, tr_error = None\<rparr>))) Q anyhow w1"
    if "w_db w1 = add_call c d"
      "w_upstream w1 = w_upstream w @ [ToolCalled server tool (rq_arguments request)]" for res w1
    by (rule wp_settled_audit [where d = d and s = TC_SUCCEEDED]) (use c that in \<open>auto intro!: Q\<close>)
  show ?thesis
  proof (cases "sv_mcp_client srv")
    case None
    with failed c show ?thesis by (simp add: finish_allowed_def)
  next
    case (Some client)
    with failed succeeded c show ?thesis
      unfolding finish_allowed_def
      by (auto simp: wp_seq wp_case_sum wp_try_upstream_call Let_def split: sum.split option.split)
  qed
qed

section \<open>call_tool\<close>

text \<open>
  The answers of \<open>call_tool\<close>: a replay, a recorded call that sent at most the request's own
  arguments upstream, or a suspended call that sent nothing.
\<close>

definition call_answered ::
  "json_object \<Rightarrow> tool_call_result \<Rightarrow> db \<Rightarrow> upstream_event list \<Rightarrow> db \<Rightarrow> upstream_event list \<Rightarrow> bool" where
  "call_answered arguments r d u d' u' \<longleftrightarrow>
     (d' = d \<and> u' = u)
   \<or> (call_recorded r d d' \<and> u' = u \<and> tr_status r \<in> {TC_DENIED, TC_FAILED})
   \<or> (call_recorded r d d' \<and> tr_status r \<in> {TC_SUCCEEDED, TC_FAILED}
      \<and> (\<exists>server tool. u' = u @ [ToolCalled server tool arguments]))
   \<or> (call_suspended arguments r d d' \<and> u' = u)"

lemma call_recorded_status:
  "call_recorded r d d' \<Longrightarrow> tr_status r = TC_DENIED \<or> tr_status r = TC_SUCCEEDED \<or> tr_status r = TC_FAILED"
  by (auto simp: call_recorded_def)

lemma wp_idempotent_result:
  "(\<And>r. Q r w) \<Longrightarrow> wp (idempotent_result e request k t) Q anyhow w"
  unfolding idempotent_result_def approval_get_by_tool_call_id_def
  by (simp add: wp_simps split: option.split)

lemma wp_store_call:
  assumes ids: "tool_call_ids_ok (w_db w)"
    and Q: "\<And>r w'. call_answered (rq_arguments request) r (w_db w) (w_upstream w) (w_db w') (w_upstream w')
      \<Longrightarrow> Q r w'"
  shows "wp (seq (create_tool_call h agent request trace_id ev
           (if pr_decision ev = REQUIRE_APPROVAL then Some (rq_arguments request) else None) k)
      (\<lambda>tool_call.
        if pr_decision ev = DENY then finish_denied h tool_call ev
        else if pr_decision ev = REQUIRE_APPROVAL
          then finish_pending h srv agent request tool_call ev
        else finish_allowed h srv server tool request tool_call)) Q anyhow w"
proof -
  have "pr_decision ev = DENY \<or> pr_decision ev = REQUIRE_APPROVAL \<or> pr_decision ev = ALLOW"
    by (cases "pr_decision ev") simp_all
  then consider "pr_decision ev = DENY" | "pr_decision ev = REQUIRE_APPROVAL" | "pr_decision ev = ALLOW"
    by blast
  then show ?thesis
  proof cases
    case 1
    then show ?thesis
      unfolding create_tool_call_def wp_seq
      by (intro wp_create_call; simp)
        (rule wp_finish_denied [where d = "w_db w"]; auto intro!: Q simp: call_answered_def)
  next
    case 2
    then show ?thesis
      unfolding create_tool_call_def wp_seq
      by (intro wp_create_call; simp)
        (rule wp_finish_pending [where d = "w_db w" and arguments = "rq_arguments request"];
         auto intro!: Q simp: call_answered_def ids)
  next
    case 3
    then show ?thesis
      unfolding create_tool_call_def wp_seq
      by (intro wp_create_call; simp)
        (rule wp_finish_allowed [where d = "w_db w"];
         auto intro!: Q simp: call_answered_def ids dest: call_recorded_status)
  qed
qed

lemma wp_anyhow_lift:
  "wp (lift_p r) Q anyhow w \<longleftrightarrow> (\<forall>x. r = Inr x \<longrightarrow> Q x w)"
  by (simp add: wp_simps split: sum.split)

lemma wp_whatever: "wp m (\<lambda>x s. True) anyhow w"
  by (simp add: wp_def split: prod.split sum.split)

lemma wp_dispatch_call:
  assumes ids: "tool_call_ids_ok (w_db w)"
    and Q: "\<And>r w'. call_answered (rq_arguments request) r (w_db w) (w_upstream w) (w_db w') (w_upstream w')
      \<Longrightarrow> Q r w'"
  shows "wp (dispatch_call h srv agent request t server tool) Q anyhow w"
proof -
  have evaluated: "wp (policy_repository_evaluate h agent request risk action) R anyhow w"
    if "\<And>ev w2. w_db w2 = w_db w \<Longrightarrow> w_upstream w2 = w_upstream w \<Longrightarrow> R ev w2" for risk action R
    unfolding policy_repository_evaluate_def by (simp add: wp_simps that split: sum.split)
  show ?thesis
    unfolding dispatch_call_def
    by (auto simp: wp_seq wp_member_or_raise split: option.split
        intro!: evaluated wp_store_call [unfolded wp_seq])
      (auto simp: ids intro!: Q)
qed

lemma wp_call_tool:
  assumes ids: "tool_call_ids_ok (w_db w)"
    and Q: "\<And>r w'. call_answered (rq_arguments request) r (w_db w) (w_upstream w) (w_db w') (w_upstream w')
      \<Longrightarrow> Q r w'"
  shows "wp (call_tool h srv agent request) Q anyhow w"
proof -
  have replay: "wp (idempotent_result e request k t) Q anyhow w1"
    if "w_db w1 = w_db w" "w_upstream w1 = w_upstream w" for e k t w1
    by (rule wp_idempotent_result) (use that in \<open>auto intro!: Q simp: call_answered_def\<close>)
  have dispatch: "wp (dispatch_call h srv agent request t server tool) Q anyhow w1"
    if "w_db w1 = w_db w" "w_upstream w1 = w_upstream w" for t server tool w1
    by (rule wp_dispatch_call) (use ids that in \<open>auto intro!: Q\<close>)
  note parts = tool_call_get_by_idempotency_key_def tool_server_get_by_server_id_def
    tool_definition_get_by_name_def
  show ?thesis
    unfolding call_tool_def parts Let_def
    by (auto simp: wp_seq wp_gets wp_return wp_raise wp_case_option wp_if wp_anyhow_lift wp_uuid4
        intro!: replay dispatch wp_whatever split: option.split)
qed

end
