(* ===== verification/Gateway_System.thy ===== *)
theory Gateway_System
  imports Api_Layer Call_Flow
begin

text \<open>
  The gateway as a system: requests served one after the other on the committed rows, and the
  operator's seeding of tenants and policies, for which there is no route. Beside the database
  invariant, every committed state has its flows settled: a tool call is finished and has no
  payload, or it waits with its payload for exactly one pending approval.
\<close>

section \<open>Settled flows\<close>

definition call_finished :: "tool_call_row \<Rightarrow> bool" where
  "call_finished c \<longleftrightarrow> tc_status c \<in> {''denied'', ''succeeded'', ''failed''}
     \<and> tc_arguments_payload c = None"

definition call_waiting :: "tool_call_row \<Rightarrow> bool" where
  "call_waiting c \<longleftrightarrow> tc_status c = ''pending_approval'' \<and> tc_arguments_payload c \<noteq> None"

definition approval_of :: "approval_row \<Rightarrow> tool_call_row \<Rightarrow> bool" where
  "approval_of a c \<longleftrightarrow> ap_tool_call_id a = tc_id c"

definition flows_ok :: "db \<Rightarrow> bool" where
  "flows_ok d \<longleftrightarrow>
     (\<forall>c \<in> set (db_tool_calls d). call_finished c
       \<or> call_waiting c \<and> (\<exists>a \<in> set (db_approvals d). approval_of a c \<and> ap_status a = ''pending''))
   \<and> (\<forall>a \<in> set (db_approvals d). \<exists>c \<in> set (db_tool_calls d). approval_of a c
       \<and> (ap_status a = ''pending'' \<and> call_waiting c \<or> pair_settled a c))"

lemma flows_ok_empty: "flows_ok empty_db"
  by (simp add: flows_ok_def empty_db_def)

lemma flows_okI:
  assumes "\<And>c. c \<in> set (db_tool_calls d) \<Longrightarrow> call_finished c
      \<or> call_waiting c \<and> (\<exists>a \<in> set (db_approvals d). approval_of a c \<and> ap_status a = ''pending'')"
    and "\<And>a. a \<in> set (db_approvals d) \<Longrightarrow> \<exists>c \<in> set (db_tool_calls d). approval_of a c
      \<and> (ap_status a = ''pending'' \<and> call_waiting c \<or> pair_settled a c)"
  shows "flows_ok d"
  using assms unfolding flows_ok_def by blast

lemma pair_settled_finished: "pair_settled a c \<Longrightarrow> call_finished c \<and> approval_of a c"
  by (auto simp: pair_settled_def call_finished_def approval_of_def)

lemma flows_recorded:
  assumes "flows_ok d" and "call_recorded r d d'"
  shows "flows_ok d'"
proof -
  from assms(2) obtain c e where d': "d' = add_audits [e] (add_call c d)" and c: "call_finished c"
    by (auto simp: call_recorded_def call_finished_def)
  show ?thesis
    unfolding d' by (rule flows_okI) (use assms(1) c in \<open>auto simp: flows_ok_def row_effect_defs\<close>)
qed

lemma flows_suspended:
  assumes "flows_ok d" and "call_suspended arguments r d d'"
  shows "flows_ok d'"
proof -
  from assms(2) obtain c a e where d': "d' = add_audits [e] (add_approval a (add_call c d))"
    and c: "call_waiting c" "approval_of a c" "ap_status a = ''pending''"
    by (auto simp: call_suspended_def call_waiting_def approval_of_def)
  show ?thesis
    unfolding d'
    by (rule flows_okI) (use assms(1) c in \<open>auto simp: flows_ok_def row_effect_defs\<close>)
qed

lemma flows_answered:
  "flows_ok d \<Longrightarrow> call_answered arguments r d u d' u' \<Longrightarrow> flows_ok d'"
  by (auto simp: call_answered_def intro: flows_recorded flows_suspended)

lemma mem_set_row:
  "x \<in> set t \<Longrightarrow> key x \<noteq> i \<Longrightarrow> x \<in> set (update_rows (\<lambda>x. key x = i) (\<lambda>_. c) t)"
  "x \<in> set t \<Longrightarrow> key x = i \<Longrightarrow> c \<in> set (update_rows (\<lambda>x. key x = i) (\<lambda>_. c) t)"
  by (force simp: update_rows_def)+

lemma set_rowE:
  assumes "y \<in> set (update_rows (\<lambda>x. key x = i) (\<lambda>_. c) t)"
  obtains (new) "y = c" | (old) "y \<in> set t" "key y \<noteq> i"
  using assms by (auto simp: update_rows_def split: if_splits)

lemma look_mem:
  "look_approval i d = Some a \<Longrightarrow> a \<in> set (db_approvals d) \<and> ap_id a = i"
  "look_tool_call i d = Some c \<Longrightarrow> c \<in> set (db_tool_calls d) \<and> tc_id c = i"
  by (auto simp: look_approval_def look_tool_call_def find_id_def dest: find_row_SomeD)

lemma distinct_map_eq: "distinct (map f xs) \<Longrightarrow> x \<in> set xs \<Longrightarrow> y \<in> set xs \<Longrightarrow> f x = f y \<Longrightarrow> x = y"
  by (metis distinct_map inj_on_eq_iff)

lemma flows_settles:
  assumes ok: "flows_ok d" "db_inv d" and a0: "look_approval i d = Some a0" and
    a: "ap_id a = i" "ap_tool_call_id a = ap_tool_call_id a0" "pair_settled a c"
  shows "flows_ok (add_audits evs (set_approval a (set_call c d)))"
proof -
  let ?calls = "update_rows (\<lambda>x. tc_id x = tc_id c) (\<lambda>_. c) (db_tool_calls d)"
  let ?approvals = "update_rows (\<lambda>x. ap_id x = i) (\<lambda>_. a) (db_approvals d)"
  have ids: "distinct (map ap_id (db_approvals d))" "distinct (map ap_tool_call_id (db_approvals d))"
    using ok(2) by (simp_all add: inv_defs)
  have a0': "a0 \<in> set (db_approvals d)" "ap_id a0 = i" using look_mem(1) [OF a0] by simp_all
  have cid: "tc_id c = ap_tool_call_id a0" using a by (simp add: pair_settled_def)
  from ok(1) a0'(1) obtain c0 where "c0 \<in> set (db_tool_calls d)" "tc_id c0 = tc_id c"
    by (auto simp: flows_ok_def approval_of_def cid)
  then have c: "c \<in> set ?calls" by (rule mem_set_row(2))
  have other: "ap_id b \<noteq> i \<longleftrightarrow> ap_tool_call_id b \<noteq> tc_id c" if "b \<in> set (db_approvals d)" for b
    using that a0' cid distinct_map_eq [OF ids(1)] distinct_map_eq [OF ids(2)] by metis
  have kept: "b \<in> set ?approvals" if "b \<in> set (db_approvals d)" "ap_tool_call_id b \<noteq> tc_id c" for b
    using that other by (intro mem_set_row(1)) auto
  have "flows_ok d'" if "db_tool_calls d' = ?calls" "db_approvals d' = ?approvals" for d'
  proof (rule flows_okI; unfold that)
    fix x assume "x \<in> set ?calls"
    then show "call_finished x \<or> call_waiting x \<and> (\<exists>b \<in> set ?approvals. approval_of b x \<and> ap_status b = ''pending'')"
    proof (cases rule: set_rowE)
      case new
      with a(3) show ?thesis by (simp add: pair_settled_finished)
    next
      case old
      with ok(1) kept show ?thesis by (fastforce simp: flows_ok_def approval_of_def)
    qed
  next
    fix b assume "b \<in> set ?approvals"
    then show "\<exists>x \<in> set ?calls. approval_of b x \<and> (ap_status b = ''pending'' \<and> call_waiting x \<or> pair_settled b x)"
    proof (cases rule: set_rowE)
      case new
      with a(3) c show ?thesis by (blast dest: pair_settled_finished)
    next
      case old
      with ok(1) obtain x where x: "x \<in> set (db_tool_calls d)" "approval_of b x"
        "ap_status b = ''pending'' \<and> call_waiting x \<or> pair_settled b x" by (auto simp: flows_ok_def)
      moreover have "x \<in> set ?calls"
        using x other [OF old(1)] old(2) by (intro mem_set_row(1)) (auto simp: approval_of_def)
      ultimately show ?thesis by blast
    qed
  qed
  then show ?thesis by (simp add: row_effect_defs a(1))
qed


lemma evolves_set_row:
  assumes "evolves R t (update_rows (\<lambda>x. key x = i) (\<lambda>_. a) t)" and "x \<in> set t" and "key x = i"
  shows "R x a"
proof -
  from assms(2) obtain n where n: "n < length t" "t ! n = x" by (auto simp: in_set_conv_nth)
  with assms(1) have "R (t ! n) (update_rows (\<lambda>x. key x = i) (\<lambda>_. a) t ! n)" by (auto simp: evolves_iff)
  with n assms(3) show ?thesis by (simp add: update_rows_def)
qed

lemma flows_settled:
  assumes "flows_ok d" "db_inv d" and a0: "look_approval i d = Some a0"
    and s: "settles i d r d'" and g: "grown d d'"
  shows "flows_ok d'"
proof -
  from s obtain a c evs where d': "d' = add_audits evs (set_approval a (set_call c d))"
    and a: "ap_id a = i" "pair_settled a c" by (auto simp: settles_def)
  have "approval_progress a0 a"
    by (rule evolves_set_row [where key = ap_id and i = i and t = "db_approvals d"])
      (use g look_mem(1) [OF a0] in \<open>simp_all add: grown_def d' row_effect_defs a(1)\<close>)
  then have "ap_tool_call_id a = ap_tool_call_id a0" by (simp add: approval_progress_def)
  with assms(1,2) a0 a show ?thesis unfolding d' by (intro flows_settles)
qed

text \<open>A pending approval in a settled state waits for a call that has its payload.\<close>

lemma pending_awaits:
  assumes "flows_ok d" "db_inv d" "look_approval i d = Some a" "ap_status a = ''pending''"
  obtains c where "awaiting i a c d" "call_waiting c"
proof -
  have "\<not> pair_settled a x" for x using assms(4) by (auto simp: pair_settled_def)
  with assms(1) look_mem(1) [OF assms(3)] obtain c
    where c: "c \<in> set (db_tool_calls d)" "tc_id c = ap_tool_call_id a" "call_waiting c"
    unfolding flows_ok_def approval_of_def by metis
  moreover have "look_tool_call (tc_id c) d = Some c"
    using distinct_map_find_row [of tc_id "db_tool_calls d" c] c(1) db_inv_ids(2) [OF assms(2)]
    by (simp add: look_tool_call_def find_id_def tool_call_ids_ok_def)
  ultimately show thesis
    using assms db_inv_ids [OF assms(2)] by (intro that [of c]) (simp_all add: awaiting_def)
qed

section \<open>The other handlers leave the flows alone\<close>

definition same_flows :: "db \<Rightarrow> world \<Rightarrow> bool" where
  "same_flows d w \<longleftrightarrow> db_tool_calls (w_db w) = db_tool_calls d \<and> db_approvals (w_db w) = db_approvals d
     \<and> db_tool_calls (w_committed w) = db_tool_calls d \<and> db_approvals (w_committed w) = db_approvals d"

lemma flows_same: "flows_ok d \<Longrightarrow> same_flows d w \<Longrightarrow> flows_ok (w_committed w)"
  by (simp add: flows_ok_def same_flows_def)

lemma keeps_same_flows [keeps_intros]:
  "keeps (same_flows d) (utc_now h) (\<lambda>_. True)" "keeps (same_flows d) (uuid4 h) (\<lambda>_. True)"
  "keeps (same_flows d) (token_urlsafe h) (\<lambda>_. True)"
  "keeps (same_flows d) commit (\<lambda>_. True)"
  "keeps (same_flows d) (upstream_list_tools mc s tm) (\<lambda>_. True)"
  "keeps (same_flows d) (gets_p f) (\<lambda>_. True)"
  by (auto simp: keeps_def wp_simps same_flows_def Let_def split: sum.split)

lemma keeps_same_flows_step:
  "(\<And>d0 d1. f d0 = Inr d1 \<Longrightarrow> db_tool_calls d1 = db_tool_calls d0 \<and> db_approvals d1 = db_approvals d0) \<Longrightarrow>
    keeps (same_flows d) (db_step f) (\<lambda>_. True)"
  by (auto simp: keeps_def wp_simps same_flows_def split: sum.split)

lemmas registry_statements = agent_create_def tool_server_create_def tool_definition_create_def
  create_row_def agent_disable_def tool_definition_update_def flush_row_def
  insert_agent_def insert_tool_server_def insert_tool_definition_def write_agent_def
  write_tool_definition_def

lemma keeps_same_flows_statements [keeps_intros]:
  "keeps (same_flows d) (agent_create h mk) (\<lambda>_. True)"
  "keeps (same_flows d) (tool_server_create h mk') (\<lambda>_. True)"
  "keeps (same_flows d) (tool_definition_create h mk2) (\<lambda>_. True)"
  "keeps (same_flows d) (agent_disable h i) (\<lambda>_. True)"
  "keeps (same_flows d) (tool_definition_update h r0 r) (\<lambda>_. True)"
  unfolding registry_statements query_defs Let_def
  by (simp_all add: keeps_def wp_simps same_flows_def Let_def checked_def if_fits_def put_defs
      split: option.split sum.split)

lemma keeps_same_flows_handlers [keeps_intros]:
  "keeps (same_flows d) (create_agent h pepper t n role) (\<lambda>_. True)"
  "keeps (same_flows d) (disable_agent h i) (\<lambda>_. True)"
  "keeps (same_flows d) (authenticate_agent_by_api_key h pepper k) (\<lambda>_. True)"
  "keeps (same_flows d) (create_tool_server h sc) (\<lambda>_. True)"
  "keeps (same_flows d) (register_tool h t s dt) (\<lambda>_. True)"
  "keeps (same_flows d) (update_tool_definition h i du) (\<lambda>_. True)"
  unfolding create_agent_def generate_api_key_def disable_agent_def authenticate_agent_by_api_key_def
    create_tool_server_def register_tool_def update_tool_definition_def query_defs Let_def
  by (rule TrueI keeps_lift_any keeps_same_flows keeps_intros)+

definition touches_flows :: "api_request \<Rightarrow> bool" where
  "touches_flows req = (case req of
     PostToolCall auth body \<Rightarrow> True | ApproveApproval auth i r \<Rightarrow> True | DenyApproval auth i r \<Rightarrow> True
   | _ \<Rightarrow> False)"

lemma keeps_same_flows_admin [keeps_intros]:
  "keeps (same_flows d) m R \<Longrightarrow> keeps (same_flows d) (admin h st auth m) R"
  unfolding admin_def by (rule keeps_seq [OF keeps_lift_any])

lemma keeps_same_flows_committing [keeps_intros]:
  "keeps (same_flows d) m (\<lambda>_. True) \<Longrightarrow> keeps (same_flows d) (committing m) (\<lambda>_. True)"
  unfolding committing_def by (rule TrueI keeps_same_flows keeps_intros | assumption)+

lemma keeps_same_flows_refresh [keeps_intros]:
  "keeps (same_flows d) (refresh_tools h srv t s) (\<lambda>_. True)"
proof -
  have "keeps (same_flows d) (map_prog (register_tool h t server) xs) (\<lambda>_. True)" for server xs
    by (induction xs) (auto intro!: keeps_intros)
  note discovered = this
  show ?thesis
    unfolding refresh_tools_def tool_server_get_by_server_id_def
    by (rule TrueI discovered keeps_same_flows keeps_intros)+
qed

lemma keeps_same_flows_queries [keeps_intros]:
  "keeps (same_flows d) (list_agents t) (\<lambda>_. True)"
  "keeps (same_flows d) (get_agent i) (\<lambda>_. True)"
  "keeps (same_flows d) (list_tool_servers t) (\<lambda>_. True)"
  "keeps (same_flows d) (list_tool_definitions t s) (\<lambda>_. True)"
  "keeps (same_flows d) (list_approvals st ten n) (\<lambda>_. True)"
  "keeps (same_flows d) (require_agent h stt auth) (\<lambda>_. True)"
  unfolding list_agents_def get_agent_def list_tool_servers_def list_tool_definitions_def
    require_agent_def query_defs
      apply ((rule TrueI keeps_lift_any keeps_same_flows keeps_intros)+)[4]
   apply (simp add: keeps_def wp_def list_approvals_def approval_list_filtered_def Let_def
      split: option.split)
  apply (rule TrueI keeps_lift_any keeps_same_flows keeps_intros)+
  done

lemma keeps_same_flows_handle:
  "\<not> touches_flows req \<Longrightarrow> keeps (same_flows d) (handle h st client req) (\<lambda>_. True)"
  by (cases req; simp add: touches_flows_def route_defs;
      (rule TrueI keeps_lift_any keeps_same_flows_queries keeps_intros)+)


section \<open>A request keeps the flows settled\<close>

lemma wp_review_settles:
  assumes ok: "flows_ok (w_db w)" "db_inv (w_db w)"
    and srv: "as_tool_call_repository srv" "as_audit_service srv"
    and Q: "\<And>a r w'. look_approval i (w_db w) = Some a \<Longrightarrow> ap_status a = ''pending'' \<Longrightarrow>
      settles i (w_db w) r (w_db w') \<Longrightarrow> Q r w'"
  shows "wp (approve_approval h srv (execute_approved_tool_call h calls) i reason) Q anyhow w"
    "wp (deny_approval h srv i reason) Q anyhow w"
proof -
  have both: "wp (approve_approval h srv (execute_approved_tool_call h calls) i reason) Q anyhow w
      \<and> wp (deny_approval h srv i reason) Q anyhow w"
  proof (cases "\<exists>a. look_approval i (w_db w) = Some a \<and> ap_status a = ''pending''")
    case True
    then obtain a where a: "look_approval i (w_db w) = Some a" "ap_status a = ''pending''" by blast
    from pending_awaits [OF ok a] obtain c where c: "awaiting i a c (w_db w)" .
    show ?thesis
      by (intro conjI wp_approve_approval [OF srv c] wp_deny_approval [OF srv c]) (use a Q in blast)+
  next
    case False
    then show ?thesis
      by (auto simp: approve_approval_def deny_approval_def wp_simps split: option.split)
  qed
  then show "wp (approve_approval h srv (execute_approved_tool_call h calls) i reason) Q anyhow w"
    "wp (deny_approval h srv i reason) Q anyhow w" by simp_all
qed

lemma wp_handle_review:
  assumes ok: "flows_ok (w_db w)" "db_inv (w_db w)"
    and req: "req = ApproveApproval auth i reason \<or> req = DenyApproval auth i reason"
    and Q: "\<And>r x w'. \<exists>a. look_approval i (w_db w) = Some a \<and> ap_status a = ''pending'' \<Longrightarrow>
      settles i (w_db w) r (w_committed w') \<Longrightarrow> Q x w'"
  shows "wp (handle h st client req) Q anyhow w"
proof -
  have srv: "as_tool_call_repository (fst (build_approval_services st client))"
    "as_audit_service (fst (build_approval_services st client))"
    by (simp_all add: build_approval_services_def Let_def)
  have "wp (approve_approval h (fst (build_approval_services st client)) (execute_approved_tool_call h
      (snd (build_approval_services st client))) i reason) R anyhow w"
    "wp (deny_approval h (fst (build_approval_services st client)) i reason) R anyhow w"
    if "\<And>a r w'. look_approval i (w_db w) = Some a \<Longrightarrow> ap_status a = ''pending'' \<Longrightarrow>
      settles i (w_db w) r (w_db w') \<Longrightarrow> R r w'" for R
    using wp_review_settles [OF ok srv, of i R] that by blast+
  note review = this
  show ?thesis
    using req
    by (auto simp: route_defs admin_def committing_def wp_simps case_prod_beta split: sum.split
        intro!: review Q)
qed

lemma wp_authenticate:
  "(\<And>a. Q a w) \<Longrightarrow> wp (require_agent h st auth) Q anyhow w"
  by (auto simp: require_agent_def authenticate_agent_by_api_key_def agent_get_by_api_key_hash_def
      wp_simps split: sum.split option.split)

lemma wp_handle_call:
  assumes ids: "tool_call_ids_ok (w_db w)"
    and Q: "\<And>r x w'. call_answered (rq_arguments body) r (w_db w) (w_upstream w) (w_committed w') (w_upstream w')
      \<Longrightarrow> x = ToolCallAnswer r \<Longrightarrow> Q x w'"
  shows "wp (handle h st client (PostToolCall auth body)) Q anyhow w"
  unfolding handle.simps call_tool_route_def committing_def wp_seq
  by (rule wp_authenticate, rule wp_call_tool [OF ids]) (auto simp: wp_simps intro: Q)

lemma handle_flows:
  assumes "db_inv c" "flows_ok c" and w: "w_db w = c" "w_committed w = c"
  shows "wp (handle h st client req) (\<lambda>x w'. grown c (w_committed w') \<longrightarrow> flows_ok (w_committed w')) anyhow w"
proof (cases "touches_flows req")
  case False
  from keeps_same_flows_handle [OF False, of c h st client] w
  have "wp (handle h st client req) (\<lambda>x w'. same_flows c w' \<and> True) (\<lambda>e w'. same_flows c w') w"
    unfolding keeps_def by (auto simp: same_flows_def [of c w])
  then show ?thesis by (rule wp_mono) (auto dest: flows_same [OF assms(2)])
next
  case True
  then consider auth body where "req = PostToolCall auth body"
    | auth i reason where "req = ApproveApproval auth i reason \<or> req = DenyApproval auth i reason"
    by (cases req) (auto simp: touches_flows_def)
  then show ?thesis
  proof cases
    case 1
    show ?thesis
      unfolding 1 by (rule wp_handle_call) (use assms in \<open>auto simp: db_inv_ids intro: flows_answered\<close>)
  next
    case 2
    show ?thesis
      by (rule wp_handle_review [OF _ _ 2]) (use assms in \<open>auto intro: flows_settled\<close>)
  qed
qed

lemma serve_flows:
  assumes "db_inv (w_committed w)" "flows_ok (w_committed w)"
  shows "flows_ok (w_committed (snd (serve h st client req w)))"
proof -
  let ?w = "w\<lparr>w_db := w_committed w\<rparr>"
  obtain r w1 where run: "handle h st client req ?w = (r, w1)" by (cases "handle h st client req ?w")
  have serve: "serve h st client req w = (r, rollback w1)" by (simp add: serve_def with_session_def run)
  show ?thesis
  proof (cases rule: serve_atomic [OF assms(1), of h st client req, case_names returns raises])
    case (returns x w')
    with serve have r: "r = Inr x" "w_committed w1 = w_committed w'" by (simp_all add: rollback_def)
    have "wp (handle h st client req)
        (\<lambda>x w'. grown (w_committed w) (w_committed w') \<longrightarrow> flows_ok (w_committed w')) anyhow ?w"
      by (rule handle_flows) (use assms in simp_all)
    with run r returns(3) have "flows_ok (w_committed w1)" by (simp add: wp_def)
    with serve show ?thesis by (simp add: rollback_def)
  next
    case (raises e w')
    with assms show ?thesis by simp
  qed
qed

section \<open>Reachable states\<close>

text \<open>
  One step of the system: a request, or the operator inserting a tenant or a policy. The host,
  the settings and the MCP client are those of the process.
\<close>

inductive gateway_step :: "host \<Rightarrow> settings \<Rightarrow> mcp_client option \<Rightarrow> world \<Rightarrow> world \<Rightarrow> bool"
  for h :: host and st :: settings and client :: "mcp_client option" where
  request: "serve h st client req w = (r, w') \<Longrightarrow> gateway_step h st client w w'"
| seed_tenant: "insert_tenant t (w_committed w) = Inr d \<Longrightarrow>
    gateway_step h st client w (w\<lparr>w_committed := d, w_db := d\<rparr>)"
| seed_policy: "insert_policy p (w_committed w) = Inr d \<Longrightarrow>
    gateway_step h st client w (w\<lparr>w_committed := d, w_db := d\<rparr>)"

inductive_cases gateway_stepE: "gateway_step h st client w w'"

inductive reachable :: "host \<Rightarrow> settings \<Rightarrow> mcp_client option \<Rightarrow> world \<Rightarrow> bool"
  for h :: host and st :: settings and client :: "mcp_client option" where
  start: "w_committed w = empty_db \<Longrightarrow> reachable h st client w"
| step: "reachable h st client w \<Longrightarrow> gateway_step h st client w w' \<Longrightarrow> reachable h st client w'"

inductive_simps reachable_iff: "reachable h st client w"

lemma seeded_flows: "db_tool_calls d' = db_tool_calls d \<Longrightarrow> db_approvals d' = db_approvals d \<Longrightarrow>
    flows_ok d \<Longrightarrow> flows_ok d'"
  by (simp add: flows_ok_def)

lemma step_keeps:
  assumes "gateway_step h st client w w'" and "db_inv (w_committed w)" "flows_ok (w_committed w)"
  shows "db_inv (w_committed w') \<and> flows_ok (w_committed w') \<and> grown (w_committed w) (w_committed w')
    \<and> prefix (w_upstream w) (w_upstream w')"
  using assms(1)
proof (cases rule: gateway_stepE [consumes 1, case_names request tenant policy])
  case (request req r)
  have flows: "flows_ok (w_committed w')" using serve_flows [OF assms(2,3), of h st client req] request by simp
  show ?thesis
    by (cases rule: serve_atomic [OF assms(2), of h st client req])
      (use assms flows request in \<open>auto simp: grown_refl\<close>)
next
  case (tenant t d)
  with insert_tenant_sound [OF tenant(2)] assms show ?thesis
    by (auto simp: sound_step_def insert_tenant_def checked_Inr_iff elim: seeded_flows [rotated 2])
next
  case (policy p d)
  with insert_policy_sound [OF policy(2)] assms show ?thesis
    by (auto simp: sound_step_def insert_policy_def checked_Inr_iff elim: seeded_flows [rotated 2])
qed

lemma reachable_sound:
  assumes "reachable h st client w"
  shows "db_inv (w_committed w) \<and> flows_ok (w_committed w)"
  using assms
proof (induction rule: reachable.induct)
  case (start w)
  then show ?case by (simp add: db_inv_empty flows_ok_empty)
next
  case (step w w')
  with step_keeps [OF step(2)] show ?case by blast
qed

end
