(* ===== verification/Upstream_Safety.thy ===== *)
theory Upstream_Safety
  imports Gateway_System
begin

text \<open>
  Which calls the gateway sends to upstream servers. Every program sends at most one event in a
  request, also when it raises later, and the event is one the request is entitled to: a
  listing for an administrator, the caller's own arguments to an active tool when the policy
  allows, or the stored arguments of a pending approval that an administrator approves in time.
\<close>

section \<open>Quiet programs\<close>

definition quiet :: "upstream_event list \<Rightarrow> world \<Rightarrow> bool" where
  "quiet u w \<longleftrightarrow> w_upstream w = u"

lemma keeps_quiet [keeps_intros]:
  "keeps (quiet u) (utc_now h) (\<lambda>_. True)" "keeps (quiet u) (uuid4 h) (\<lambda>_. True)"
  "keeps (quiet u) (token_urlsafe h) (\<lambda>_. True)" "keeps (quiet u) commit (\<lambda>_. True)"
  "keeps (quiet u) (gets_p f) (\<lambda>_. True)" "keeps (quiet u) (db_step g) (\<lambda>_. True)"
  "keeps (quiet u) (policy_repository h) (\<lambda>_. True)"
  "keeps (quiet u) (update_where h p change rows put) (\<lambda>_. True)"
  "keeps (quiet u) (approval_list_filtered s t n) (\<lambda>_. True)"
  by (auto simp: keeps_def wp_simps quiet_def Let_def wp_def approval_list_filtered_def
      db_step_def update_where_def prog_defs utc_now_def uuid4_def token_urlsafe_def commit_def
      policy_repository_def split: sum.split option.split)

lemma keeps_quiet_rows [keeps_intros]:
  "keeps (quiet u) (create_row h mk ins) (\<lambda>_. True)"
  "keeps (quiet u) (flush_row h changed r stamp write) (\<lambda>_. True)"
  "keeps (quiet u) (audit_append h mk') (\<lambda>_. True)"
  "keeps (quiet u) (approval_transition_status h i e n rr) (\<lambda>_. True)"
  unfolding create_row_def flush_row_def audit_append_def approval_transition_status_def
  by (rule TrueI keeps_quiet keeps_intros)+

lemma keeps_quiet_statements [keeps_intros]:
  "keeps (quiet u) (agent_create h mk) (\<lambda>_. True)"
  "keeps (quiet u) (tool_server_create h mk1) (\<lambda>_. True)"
  "keeps (quiet u) (tool_definition_create h mk2) (\<lambda>_. True)"
  "keeps (quiet u) (tool_call_create h mk3) (\<lambda>_. True)"
  "keeps (quiet u) (approval_create h mk4) (\<lambda>_. True)"
  "keeps (quiet u) (agent_disable h i) (\<lambda>_. True)"
  "keeps (quiet u) (tool_definition_update h d0 d1) (\<lambda>_. True)"
  "keeps (quiet u) (tool_call_update h c0 c1) (\<lambda>_. True)"
  "keeps (quiet u) (clear_arguments_payload h i) (\<lambda>_. True)"
  "keeps (quiet u) (append_tool_call_event h ev) (\<lambda>_. True)"
  "keeps (quiet u) (member_or_raise x) (\<lambda>_. True)"
  unfolding agent_create_def tool_server_create_def tool_definition_create_def tool_call_create_def
    approval_create_def agent_disable_def tool_definition_update_def tool_call_update_def
    clear_arguments_payload_def append_tool_call_event_def member_or_raise_def query_defs Let_def
  by (rule TrueI keeps_lift_any keeps_quiet keeps_quiet_rows keeps_intros)+

lemma keeps_quiet_calls [keeps_intros]:
  "keeps (quiet u) (append_tool_call_audit h c mst) (\<lambda>_. True)"
  "keeps (quiet u) (append_failure_audit h agent request t r k st code m) (\<lambda>_. True)"
  "keeps (quiet u) (idempotent_result c request k t) (\<lambda>_. True)"
  "keeps (quiet u) (create_tool_call h agent request t ev payload k') (\<lambda>_. True)"
  "keeps (quiet u) (create_pending_approval h asrv pa) (\<lambda>_. True)"
  unfolding append_tool_call_audit_def append_failure_audit_def idempotent_result_def
    create_tool_call_def create_pending_approval_def query_defs
  by (rule TrueI keeps_lift_any keeps_quiet keeps_quiet_statements keeps_intros)+

lemma keeps_quiet_outcomes [keeps_intros]:
  "keeps (quiet u) (mark_upstream_failed h c code m) (\<lambda>_. True)"
  "keeps (quiet u) (finish_denied h c ev) (\<lambda>_. True)"
  "keeps (quiet u) (finish_pending h srv agent request c ev) (\<lambda>_. True)"
  "keeps (quiet u) (approval_execution_failed h a mc code m) (\<lambda>_. True)"
  "keeps (quiet u) (append_approval_audit h asrv a mc s mcode) (\<lambda>_. True)"
  "keeps (quiet u) (mark_tool_call_denied h asrv i code) (\<lambda>_. True)"
  unfolding mark_upstream_failed_def finish_denied_def finish_pending_def
    approval_execution_failed_def append_approval_audit_def mark_tool_call_denied_def query_defs
  by (rule TrueI keeps_lift_any keeps_quiet keeps_quiet_calls keeps_intros)+

lemma keeps_quiet_reviews [keeps_intros]:
  "keeps (quiet u) (finish_executed h a c res) (\<lambda>_. True)"
  "keeps (quiet u) (get_approval_or_raise i) (\<lambda>_. True)"
  unfolding finish_executed_def get_approval_or_raise_def query_defs Let_def
  by (rule TrueI keeps_lift_any keeps_quiet keeps_quiet_outcomes keeps_intros)+

lemma keeps_quiet_expire [keeps_intros]:
  "keeps (quiet u) (expire_approval h asrv i) (\<lambda>_. True)"
  "keeps (quiet u) (deny_approval h asrv i reason) (\<lambda>_. True)"
  unfolding expire_approval_def deny_approval_def
  by (rule TrueI keeps_lift_any keeps_quiet keeps_quiet_outcomes keeps_quiet_reviews keeps_intros)+


section \<open>At most one event\<close>

text \<open>\<open>sent ok u w\<close>: since the log was \<open>u\<close>, nothing was sent, or one event that \<open>ok\<close> accepts.\<close>

definition sent :: "(upstream_event \<Rightarrow> bool) \<Rightarrow> upstream_event list \<Rightarrow> world \<Rightarrow> bool" where
  "sent ok u w \<longleftrightarrow> w_upstream w = u \<or> (\<exists>ev. w_upstream w = u @ [ev] \<and> ok ev)"

abbreviation sends :: "(upstream_event \<Rightarrow> bool) \<Rightarrow> upstream_event list \<Rightarrow> 'a gw \<Rightarrow> world \<Rightarrow> bool" where
  "sends ok u m w \<equiv> wp m (\<lambda>_. sent ok u) (\<lambda>_. sent ok u) w"

lemma sent_refl: "w_upstream w = u \<Longrightarrow> sent ok u w"
  by (simp add: sent_def)

lemma sent_mono: "sent ok u w \<Longrightarrow> (\<And>ev. ok ev \<Longrightarrow> ok' ev) \<Longrightarrow> sent ok' u w"
  by (auto simp: sent_def)

lemma wp_quiet:
  assumes "\<And>u. keeps (quiet u) m (\<lambda>_. True)"
  shows "wp m (\<lambda>x w'. w_upstream w' = w_upstream w) (\<lambda>e w'. w_upstream w' = w_upstream w) w"
proof -
  have "wp m (\<lambda>x w'. quiet (w_upstream w) w' \<and> True) (\<lambda>_. quiet (w_upstream w)) w"
    using assms [of "w_upstream w"] unfolding keeps_def by (simp add: quiet_def)
  then show ?thesis by (rule wp_mono) (simp_all add: quiet_def)
qed

lemma sends_quiet:
  assumes "\<And>u. keeps (quiet u) m (\<lambda>_. True)" and "sent ok u w"
  shows "sends ok u m w"
  using wp_quiet [OF assms(1)] by (rule wp_mono) (use assms(2) in \<open>simp_all add: sent_def\<close>)

text \<open>A rule for returning runs, extended to runs that raise without sending.\<close>

lemma wp_with_quiet:
  assumes "wp m Q anyhow w" and "\<And>u. keeps (quiet u) m (\<lambda>_. True)"
    and "\<And>x w'. Q x w' \<Longrightarrow> w_upstream w' = w_upstream w \<Longrightarrow> Q' x w'"
    and "\<And>e w'. w_upstream w' = w_upstream w \<Longrightarrow> E e w'"
  shows "wp m Q' E w"
  using assms(1,3,4) wp_quiet [OF assms(2), where w = w]
  by (simp add: wp_def split: prod.splits sum.splits)

lemma sends_upstream:
  assumes "w_upstream w = u" and "ok (ToolCalled server tool arguments)"
    and "\<And>x w'. sent ok u w' \<Longrightarrow> sends ok u (f x) w'"
  shows "sends ok u (seq (try_upstream (upstream_call_tool client server tool arguments tm)) f) w"
  using assms by (auto simp: wp_seq wp_try_upstream_call Let_def sent_def split: sum.split option.split)

section \<open>A tool call\<close>

definition call_context ::
  "agent_dto \<Rightarrow> tool_call_request \<Rightarrow> risk_level \<Rightarrow> action_type \<Rightarrow> datetime \<Rightarrow> policy_context" where
  "call_context agent request risk action now =
    \<lparr>pc_tenant_id = dto_tenant_id agent, pc_agent_id = dto_id agent, pc_role = dto_role agent,
     pc_target_server = rq_target_server request, pc_target_tool = rq_target_tool request,
     pc_risk_level = risk, pc_action_type = action, pc_arguments = rq_arguments request,
     pc_resource = resource_from_arguments (rq_arguments request), pc_current_time = now\<rparr>"

text \<open>The call of an agent that the rows \<open>d\<close> permit.\<close>

definition authorised_call ::
  "host \<Rightarrow> db \<Rightarrow> agent_dto \<Rightarrow> tool_call_request \<Rightarrow> upstream_event \<Rightarrow> bool" where
  "authorised_call h d agent request ev \<longleftrightarrow> (\<exists>server tool risk action now readable.
     ev = ToolCalled server tool (rq_arguments request)
   \<and> server \<in> set (db_tool_servers d) \<and> ts_tenant_id server = dto_tenant_id agent
   \<and> ts_server_id server = rq_target_server request \<and> ts_status server = ''active''
   \<and> tool \<in> set (db_tool_definitions d) \<and> td_tenant_id tool = dto_tenant_id agent
   \<and> td_server_id tool = ts_id server \<and> td_tool_name tool = rq_target_tool request
   \<and> td_status tool = ''active''
   \<and> h_validate h (td_input_schema tool) (rq_arguments request) = Valid
   \<and> risk_level_of (td_risk_level tool) = Some risk
   \<and> action_type_of (td_action_type tool) = Some action
   \<and> verdict (clean_arguments (call_context agent request risk action now))
       (call_context agent request risk action now)
       (policies_active_ordered readable d (dto_tenant_id agent)) = ALLOW)"

lemma sends_finish_allowed:
  assumes "w_upstream w = u" and "ok (ToolCalled server tool (rq_arguments request))"
  shows "sends ok u (finish_allowed h srv server tool request c) w"
proof (cases "sv_mcp_client srv")
  case None
  then show ?thesis
    unfolding finish_allowed_def
    by simp (rule sends_quiet, rule keeps_intros, rule sent_refl [OF assms(1)])
next
  case (Some client)
  have quiet: "keeps (quiet u') (case outcome of
      Inl cm \<Rightarrow> mark_upstream_failed h c (fst cm) (snd cm)
    | Inr upstream_result \<Rightarrow> seq (tool_call_update h c
        (c\<lparr>tc_status := tool_call_status_value TC_SUCCEEDED\<rparr>)) (\<lambda>done_call.
      seq (append_tool_call_audit h done_call None) (\<lambda>_.
      return_p \<lparr>tr_tool_call_id = tc_id done_call, tr_status = TC_SUCCEEDED,
        tr_policy_decision = Some ALLOW, tr_reason = None, tr_approval_id = None,
        tr_result = Some upstream_result, tr_error = None\<rparr>))) (\<lambda>_. True)" for outcome u'
    by (rule TrueI keeps_quiet_statements keeps_quiet_calls keeps_intros)+
  show ?thesis
    unfolding finish_allowed_def Some option.case
    by (rule sends_upstream [where ok = ok and u = u], rule assms(1), rule assms(2),
      rule sends_quiet [OF quiet])
qed

lemma wp_policy_repository_evaluate:
  assumes "\<And>ev readable now w'. w_db w' = w_db w \<Longrightarrow> w_upstream w' = w_upstream w \<Longrightarrow>
      pr_decision ev = verdict (clean_arguments (call_context agent request risk action now))
        (call_context agent request risk action now)
        (policies_active_ordered readable (w_db w) (dto_tenant_id agent)) \<Longrightarrow> Q ev w'"
    and "\<And>w'. w_db w' = w_db w \<Longrightarrow> w_upstream w' = w_upstream w \<Longrightarrow> E UnicodeEncodeError w'"
  shows "wp (policy_repository_evaluate h agent request risk action) Q E w"
proof -
  let ?ok = "h_policy_read_ok h (w_policy_reads w)" and ?now = "h_now h (w_clock w)"
  let ?ctx = "call_context agent request risk action ?now"
  show ?thesis
    unfolding policy_repository_evaluate_def
    by (rule gateway_evaluate [of "h_encodable h" "h_sha256 h" "h_float_repr h" ?ok "w_db w" ?ctx])
      (use assms(1) [where readable = ?ok and now = ?now] assms(2) in
        \<open>simp_all add: wp_simps call_context_def\<close>)
qed

lemma sends_dispatch_call:
  assumes u: "w_upstream w = u" and d: "w_db w = d"
    and server: "server \<in> set (db_tool_servers d)" "ts_tenant_id server = dto_tenant_id agent"
      "ts_server_id server = rq_target_server request" "ts_status server = ''active''"
    and tool: "tool \<in> set (db_tool_definitions d)" "td_tenant_id tool = dto_tenant_id agent"
      "td_server_id tool = ts_id server" "td_tool_name tool = rq_target_tool request"
      "td_status tool = ''active''"
      "h_validate h (td_input_schema tool) (rq_arguments request) = Valid"
  shows "sends (authorised_call h d agent request) u (dispatch_call h srv agent request t server tool) w"
proof -
  let ?ok = "authorised_call h d agent request"
  have outcome: "sends ?ok u (if pr_decision ev = DENY then finish_denied h c ev
      else if pr_decision ev = REQUIRE_APPROVAL then finish_pending h srv agent request c ev
      else finish_allowed h srv server tool request c) w'"
    if "w_upstream w' = u" "risk_level_of (td_risk_level tool) = Some risk"
      "action_type_of (td_action_type tool) = Some action"
      "pr_decision ev = verdict (clean_arguments (call_context agent request risk action now))
        (call_context agent request risk action now)
        (policies_active_ordered readable d (dto_tenant_id agent))"
    for ev c w' risk action now readable
  proof (cases "pr_decision ev")
    case ALLOW
    with that server tool have "?ok (ToolCalled server tool (rq_arguments request))"
      unfolding authorised_call_def by metis
    with ALLOW that show ?thesis by (simp add: sends_finish_allowed)
  qed (simp_all, (rule sends_quiet, rule keeps_intros, rule sent_refl [OF that(1)])+)
  have stored: "wp (create_tool_call h agent request t ev payload k) (\<lambda>c. sends ?ok u (f c)) (\<lambda>_. sent ?ok u) w'"
    if "w_upstream w' = u" "\<And>c w'. w_upstream w' = u \<Longrightarrow> sends ?ok u (f c) w'"
    for ev payload k w' and f :: "tool_call_row \<Rightarrow> tool_call_result gw"
    by (rule wp_with_quiet [OF wp_whatever keeps_quiet_calls(4)]) (use that sent_refl in auto)
  show ?thesis
  proof (cases "risk_level_of (td_risk_level tool)"; cases "action_type_of (td_action_type tool)")
    fix risk action
    assume ra: "risk_level_of (td_risk_level tool) = Some risk"
      "action_type_of (td_action_type tool) = Some action"
    have "sends ?ok u (seq (create_tool_call h agent request t ev payload k) (\<lambda>c.
        if pr_decision ev = DENY then finish_denied h c ev
        else if pr_decision ev = REQUIRE_APPROVAL then finish_pending h srv agent request c ev
        else finish_allowed h srv server tool request c)) w'"
      if "w_db w' = w_db w" "w_upstream w' = w_upstream w"
        "pr_decision ev = verdict (clean_arguments (call_context agent request risk action now))
          (call_context agent request risk action now)
          (policies_active_ordered readable (w_db w) (dto_tenant_id agent))"
      for ev readable now w' payload k
      unfolding wp_seq
      by (rule stored, simp add: that u, rule outcome [OF _ ra]) (simp_all add: that u d)
    then show ?thesis
      unfolding dispatch_call_def wp_seq wp_member_or_raise ra option.case
      by (intro wp_policy_repository_evaluate) (simp_all add: sent_refl u)
  qed (simp_all add: dispatch_call_def wp_simps sent_refl u)
qed

lemma sends_call_tool:
  assumes "w_upstream w = u" and "w_db w = d"
  shows "sends (authorised_call h d agent request) u (call_tool h srv agent request) w"
proof -
  let ?ok = "authorised_call h d agent request"
  have quiet: "sends ?ok u (append_failure_audit h agent request t r k st code m) w'"
    "sends ?ok u (idempotent_result c request k t) w'" if "w_upstream w' = u" for t r k st code m c w'
    by (rule sends_quiet, rule keeps_quiet_calls, rule sent_refl [OF that])+
  show ?thesis
    unfolding call_tool_def tool_server_get_by_server_id_def tool_definition_get_by_name_def
      tool_call_get_by_idempotency_key_def arguments_match_schema_def Let_def
    by (auto simp: wp_simps assms sent_refl dest!: find_row_SomeD intro!: quiet sends_dispatch_call
        split: option.split sum.split validation.split)
qed

section \<open>An approved call\<close>

definition approved_call :: "db \<Rightarrow> approval_row \<Rightarrow> upstream_event \<Rightarrow> bool" where
  "approved_call d a ev \<longleftrightarrow>
     (\<exists>c. look_tool_call (ap_tool_call_id a) d = Some c \<and> approved_event d a c ev)"

lemma sends_execute_approved:
  assumes "w_upstream w = u" and "w_db w = d"
  shows "sends (approved_call d a) u (execute_approved_tool_call h srv a) w"
proof -
  let ?ok = "approved_call d a"
  have quiet: "sends ?ok u (approval_execution_failed h a c code m) w'"
    "sends ?ok u (finish_executed h a c' res) w'" if "sent ?ok u w'" for c c' code m res w'
    by (rule sends_quiet [OF keeps_quiet_outcomes(4) that] sends_quiet [OF keeps_quiet_reviews(1) that])+
  have call: "wp (try_upstream (upstream_call_tool client server tool arguments tm))
      (\<lambda>outcome. case outcome of
          Inl cm \<Rightarrow> sends ?ok u (approval_execution_failed h a (Some c) (fst cm) (snd cm))
        | Inr upstream_result \<Rightarrow> sends ?ok u (finish_executed h a c upstream_result)) (\<lambda>_. sent ?ok u) w"
    if "?ok (ToolCalled server tool arguments)" for client server tool arguments tm c
    by (auto simp: wp_try_upstream_call Let_def sent_def assms that intro!: quiet
        split: sum.split option.split)
  show ?thesis
    unfolding execute_approved_tool_call_def tool_server_get_by_server_id_def
      tool_definition_get_by_name_def
    by (auto simp: wp_simps assms sent_refl approved_call_def approved_event_def active_or_none_Some
        dest!: find_row_SomeD intro!: quiet call split: option.split)
qed

text \<open>The call that the approval of the request \<open>i\<close> releases: pending, and within its time.\<close>

definition released_call :: "host \<Rightarrow> db \<Rightarrow> uuid \<Rightarrow> upstream_event \<Rightarrow> bool" where
  "released_call h d i ev \<longleftrightarrow> (\<exists>a n. look_approval i d = Some a \<and> ap_status a = ''pending''
     \<and> h_now h n \<le> ap_expires_at a \<and> approved_call d a ev)"

lemma approved_call_transition:
  "approved_call (add_audits [e] (set_approval b d)) (transition_values t n rr a) ev = approved_call d a ev"
  by (simp add: approved_call_def approved_event_def row_effect_defs look_tool_call_def
      split: upstream_event.split)

lemma sends_approve:
  assumes u: "w_upstream w = u" and d: "w_db w = d" and ids: "approval_ids_ok d"
    and srv: "as_audit_service srv"
  shows "sends (released_call h d i) u
    (approve_approval h srv (execute_approved_tool_call h calls) i reason) w"
proof -
  let ?ok = "released_call h d i"
  have approve: "sends ?ok u (seq (approval_transition_status h i AP_PENDING AP_APPROVED (Some reason))
        (\<lambda>approved. case approved of
          None \<Rightarrow> raise_p (AppError ApprovalNotPendingError)
        | Some approval' \<Rightarrow>
            seq (append_approval_audit h srv approval' None ''approved'' None) (\<lambda>_.
            execute_approved_tool_call h calls approval'))) w1"
    if a: "look_approval i d = Some a" "ap_status a = ''pending''" "h_now h n \<le> ap_expires_at a"
      and w1: "w_upstream w1 = u" "w_db w1 = d" for a n w1
  proof -
    let ?a = "\<lambda>t. transition_values t AP_APPROVED (Some reason) a"
    have exec: "sends ?ok u (execute_approved_tool_call h calls (?a t)) w2"
      if "w_upstream w2 = u" "w_db w2 = add_audits [e] (set_approval (?a t) d)" for w2 t e
      by (rule wp_mono [OF sends_execute_approved [OF that]];
          erule sent_mono) (use a in \<open>auto simp: approved_call_transition released_call_def\<close>)
    have audit: "sends ?ok u (seq (append_approval_audit h srv (?a t) None ''approved'' None)
        (\<lambda>_. execute_approved_tool_call h calls (?a t))) w2"
      if "w_upstream w2 = u" "w_db w2 = set_approval (?a t) d" for w2 t
      unfolding wp_seq
    proof (rule wp_with_quiet [where Q = "\<lambda>_ w'. \<exists>e. w_db w' = add_audits [e] (set_approval (?a t) d)"])
      show "wp (append_approval_audit h srv (?a t) None ''approved'' None)
          (\<lambda>_ w'. \<exists>e. w_db w' = add_audits [e] (set_approval (?a t) d)) anyhow w2"
        by (rule wp_append_approval_audit [OF srv]) (use that in auto)
      fix x :: unit and w' :: world assume db: "\<exists>e. w_db w' = add_audits [e] (set_approval (?a t) d)"
        and same: "w_upstream w' = w_upstream w2"
      from db obtain e where "w_db w' = add_audits [e] (set_approval (?a t) d)" ..
      then show "sends ?ok u (execute_approved_tool_call h calls (?a t)) w'"
        by (rule exec [rotated]) (simp add: same that)
    qed (simp_all add: keeps_quiet_outcomes sent_refl that)
    show ?thesis
      unfolding wp_seq [of "approval_transition_status h i AP_PENDING AP_APPROVED (Some reason)"]
    proof (rule wp_with_quiet [where Q = "\<lambda>x w'. \<exists>t. x = Some (?a t) \<and> w_db w' = set_approval (?a t) d"])
      show "wp (approval_transition_status h i AP_PENDING AP_APPROVED (Some reason))
          (\<lambda>x w'. \<exists>t. x = Some (?a t) \<and> w_db w' = set_approval (?a t) d) anyhow w1"
        by (rule wp_transition [where a = a]) (use a w1 ids in auto)
      fix x and w' :: world
      assume db: "\<exists>t. x = Some (?a t) \<and> w_db w' = set_approval (?a t) d"
        and same: "w_upstream w' = w_upstream w1"
      from db obtain t where x: "x = Some (?a t)" and "w_db w' = set_approval (?a t) d" by blast
      then show "sends ?ok u (case x of None \<Rightarrow> raise_p (AppError ApprovalNotPendingError)
          | Some approval' \<Rightarrow> seq (append_approval_audit h srv approval' None ''approved'' None)
              (\<lambda>_. execute_approved_tool_call h calls approval')) w'"
        unfolding x option.case by (intro audit) (simp add: same w1)
    qed (simp_all add: keeps_quiet_rows sent_refl w1)
  qed
  show ?thesis
    unfolding approve_approval_def
    by (auto simp: wp_simps u d not_less intro!: sent_refl sends_quiet keeps_quiet_expire
        approve [unfolded wp_seq [of "approval_transition_status h i AP_PENDING AP_APPROVED (Some reason)"]
          wp_case_option] split: option.split)
qed

section \<open>The handlers\<close>

text \<open>The agent that the bearer token of the header belongs to.\<close>

definition caller :: "host \<Rightarrow> settings \<Rightarrow> db \<Rightarrow> string option \<Rightarrow> agent_dto \<Rightarrow> bool" where
  "caller h st d auth agent \<longleftrightarrow> (\<exists>token row. extract_bearer_token auth = Inr token
     \<and> row \<in> set (db_agents d) \<and> ag_api_key_hash row = hash_api_key h token (api_key_pepper st)
     \<and> ag_status row \<noteq> ''disabled'' \<and> to_dto row = Inr agent)"

definition discovery :: "db \<Rightarrow> uuid \<Rightarrow> string \<Rightarrow> upstream_event \<Rightarrow> bool" where
  "discovery d tenant_id server_id ev \<longleftrightarrow> (\<exists>server. ev = ToolsListed server
     \<and> server \<in> set (db_tool_servers d) \<and> ts_tenant_id server = tenant_id
     \<and> ts_server_id server = server_id \<and> ts_status server = ''active'')"

fun entitled :: "host \<Rightarrow> settings \<Rightarrow> db \<Rightarrow> api_request \<Rightarrow> upstream_event \<Rightarrow> bool" where
  "entitled h st d (PostToolCall auth body) ev \<longleftrightarrow>
    (\<exists>agent. caller h st d auth agent \<and> authorised_call h d agent body ev)"
| "entitled h st d (ApproveApproval auth i r) ev \<longleftrightarrow>
    require_admin h st auth = Inr () \<and> released_call h d i ev"
| "entitled h st d (RefreshTools auth s t) ev \<longleftrightarrow>
    require_admin h st auth = Inr () \<and> discovery d t s ev"
| "entitled h st d _ ev \<longleftrightarrow> False"

lemma keeps_quiet_agents [keeps_intros]:
  "keeps (quiet u) (create_agent h pepper t n role) (\<lambda>_. True)"
  "keeps (quiet u) (disable_agent h i) (\<lambda>_. True)"
  "keeps (quiet u) (authenticate_agent_by_api_key h pepper k) (\<lambda>_. True)"
  "keeps (quiet u) (list_agents t) (\<lambda>_. True)"
  "keeps (quiet u) (get_agent i) (\<lambda>_. True)"
  unfolding create_agent_def generate_api_key_def disable_agent_def authenticate_agent_by_api_key_def
    list_agents_def get_agent_def query_defs
  by (rule TrueI keeps_lift_any keeps_quiet keeps_quiet_statements keeps_intros)+

lemma keeps_quiet_registry [keeps_intros]:
  "keeps (quiet u) (create_tool_server h sc) (\<lambda>_. True)"
  "keeps (quiet u) (register_tool h t s dt) (\<lambda>_. True)"
  "keeps (quiet u) (update_tool_definition h i du) (\<lambda>_. True)"
  "keeps (quiet u) (list_tool_servers t) (\<lambda>_. True)"
  "keeps (quiet u) (list_tool_definitions t sid) (\<lambda>_. True)"
  "keeps (quiet u) (list_approvals stt ten n) (\<lambda>_. True)"
  "keeps (quiet u) (require_agent h st auth) (\<lambda>_. True)"
  unfolding create_tool_server_def register_tool_def update_tool_definition_def
    list_tool_servers_def list_tool_definitions_def list_approvals_def require_agent_def
    query_defs Let_def
  by (rule TrueI keeps_lift_any keeps_quiet keeps_quiet_statements keeps_quiet_agents keeps_intros)+

lemma keeps_quiet_committing [keeps_intros]:
  "keeps (quiet u) m (\<lambda>_. True) \<Longrightarrow> keeps (quiet u) (committing m) (\<lambda>_. True)"
  unfolding committing_def by (rule TrueI keeps_quiet keeps_intros | assumption)+

lemma keeps_quiet_admin [keeps_intros]:
  "keeps (quiet u) m R \<Longrightarrow> keeps (quiet u) (admin h st auth m) R"
  unfolding admin_def by (rule keeps_seq [OF keeps_lift_any])

lemma keeps_quiet_handle:
  assumes "\<And>auth body. req \<noteq> PostToolCall auth body" "\<And>auth i r. req \<noteq> ApproveApproval auth i r"
    "\<And>auth s t. req \<noteq> RefreshTools auth s t"
  shows "keeps (quiet u) (handle h st client req) (\<lambda>_. True)"
  by (cases req; simp add: assms route_defs case_prod_beta;
      (rule TrueI keeps_lift_any keeps_quiet_agents keeps_quiet_registry keeps_quiet_expire keeps_intros)+)

text \<open>What follows the sending program in a handler sends nothing.\<close>

lemma sends_then_quiet:
  assumes "sends ok u m w" and "\<And>u x. keeps (quiet u) (f x) (\<lambda>_. True)"
  shows "sends ok u (seq m f) w"
  unfolding wp_seq by (rule wp_mono [OF assms(1)]) (auto intro: sends_quiet assms(2))

lemma sends_committing: "sends ok u m w \<Longrightarrow> sends ok u (committing m) w"
  unfolding committing_def
  by (erule sends_then_quiet) (rule TrueI keeps_quiet keeps_intros)+

lemma sends_admin:
  assumes "require_admin h st auth = Inr () \<Longrightarrow> sends ok u m w" and "w_upstream w = u"
  shows "sends ok u (admin h st auth m) w"
proof (cases "require_admin h st auth")
  case (Inl e)
  with assms(2) show ?thesis by (simp add: admin_def wp_simps sent_refl)
next
  case (Inr x)
  with assms(1) show ?thesis by (simp add: admin_def wp_simps)
qed

lemma wp_require_agent:
  assumes "\<And>agent. caller h st (w_db w) auth agent \<Longrightarrow> Q agent w" and "\<And>e. E e w"
  shows "wp (require_agent h st auth) Q E w"
  using assms
  by (auto simp: require_agent_def authenticate_agent_by_api_key_def agent_get_by_api_key_hash_def
      wp_simps caller_def dest!: find_row_SomeD split: sum.split option.split)

lemma sends_refresh:
  assumes "w_upstream w = u" and "w_db w = d"
  shows "sends (discovery d t s) u (refresh_tools h srv t s) w"
proof -
  have register: "sends ok u (map_prog (register_tool h t server) xs) w'"
    if "sent ok u w'" for ok server xs w'
  proof (rule sends_quiet [OF _ that])
    show "keeps (quiet u) (map_prog (register_tool h t server) xs) (\<lambda>_. True)" for u
      by (rule keeps_mono [OF keeps_map_prog]) (rule keeps_quiet_registry TrueI)+
  qed
  show ?thesis
    unfolding refresh_tools_def tool_server_get_by_server_id_def
    by (auto simp: wp_simps assms sent_def discovery_def Let_def dest!: find_row_SomeD
        intro!: register split: option.split sum.split exn.split)
qed

lemma sends_handle:
  assumes u: "w_upstream w = u" and d: "w_db w = d" and ids: "approval_ids_ok d"
  shows "sends (entitled h st d req) u (handle h st client req) w"
proof (cases "\<exists>auth body i r s t. req = PostToolCall auth body \<or> req = ApproveApproval auth i r
    \<or> req = RefreshTools auth s t")
  case False
  then have "keeps (quiet v) (handle h st client req) (\<lambda>_. True)" for v
    by (intro keeps_quiet_handle) blast+
  then show ?thesis by (rule sends_quiet) (rule sent_refl [OF u])
next
  case True
  then consider (call) auth body where "req = PostToolCall auth body"
    | (approve) auth i r where "req = ApproveApproval auth i r"
    | (refresh) auth s t where "req = RefreshTools auth s t" by blast
  then show ?thesis
  proof cases
    case call
    have "sends (entitled h st d req) u (seq (committing (call_tool h (build_tool_call_service st client)
        agent body)) (\<lambda>result. return_p (ToolCallAnswer result))) w"
      if "caller h st d auth agent" for agent
      by (rule sends_then_quiet, rule sends_committing, rule wp_mono [OF sends_call_tool [OF u d]];
          (erule sent_mono)?) (use that call in \<open>auto intro: keeps_intros\<close>)
    then show ?thesis
      unfolding call handle.simps call_tool_route_def wp_seq [of "require_agent h st auth"]
      by (intro wp_require_agent) (simp_all add: d u sent_refl)
  next
    case approve
    show ?thesis
      unfolding approve handle.simps approve_approval_route_def build_approval_services_def Let_def prod.case
      by (rule sends_admin [OF _ u], rule sends_then_quiet, rule sends_committing,
          rule wp_mono [OF sends_approve [OF u d ids]]; (erule sent_mono)?) (auto intro: keeps_intros)
  next
    case refresh
    show ?thesis
      unfolding refresh handle.simps refresh_tools_route_def
      by (rule sends_admin [OF _ u], rule sends_then_quiet, rule sends_committing,
          rule wp_mono [OF sends_refresh [OF u d]]; (erule sent_mono)?)
        (auto intro: keeps_intros keeps_lift_any)
  qed
qed

section \<open>A request\<close>

lemma serve_sends:
  assumes "db_inv (w_committed w)"
  shows "sent (entitled h st (w_committed w) req) (w_upstream w) (snd (serve h st client req w))"
proof -
  let ?w = "w\<lparr>w_db := w_committed w\<rparr>"
  obtain r w' where run: "handle h st client req ?w = (r, w')" by (cases "handle h st client req ?w")
  have "sends (entitled h st (w_committed w) req) (w_upstream w) (handle h st client req) ?w"
    by (rule sends_handle) (use db_inv_ids [OF assms] in simp_all)
  then have "sent (entitled h st (w_committed w) req) (w_upstream w) w'"
    by (cases r) (simp_all add: wp_def run)
  then show ?thesis by (simp add: serve_def with_session_def run sent_def rollback_def)
qed

end
