(* ===== verification/Gateway_Sample.thy ===== *)
theory Gateway_Sample
  imports Upstream_Safety Policy_Properties
begin

text \<open>
  A small deployment on which the properties are instantiated: a host with counters for its
  clock and random sources, an MCP client that answers every call, and a history of requests
  that registers a tenant, an agent, a server and a tool and ends with one call waiting for an
  approval. All of it is computed with the definitions of the model.
\<close>

section \<open>A host, settings and a client\<close>

definition sample_host :: host where
  "sample_host = \<lparr>h_now = (\<lambda>n. int n * 1000000), h_uuid4 = (\<lambda>n. of_nat (n + 1)),
     h_token_urlsafe = (\<lambda>n. ''key'' @ hex_str 4 n), h_encodable = (\<lambda>s. CHR 0xFF \<notin> set s),
     h_sha256 = (\<lambda>s. take 64 s),
     h_hmac_sha256 = (\<lambda>key msg. take 64 (key @ ''/'' @ msg)), h_float_repr = hex_repr,
     h_validate = (\<lambda>schema arguments. if schema = [] then Valid else ValidationFails),
     h_policy_read_ok = (\<lambda>n. True)\<rparr>"

definition sample_settings :: settings where
  "sample_settings = \<lparr>api_key_pepper = ''pepper'', admin_api_key_hash = ''pepper/root'',
     approval_request_ttl_seconds = 3600, mcp_call_timeout_seconds = 0\<rparr>"

definition sample_client :: mcp_client where
  "sample_client = \<lparr>
     mc_list_tools = (\<lambda>n server tm. Inr [\<lparr>mt_name = ''add'', mt_description = None, mt_input_schema = []\<rparr>]),
     mc_call_tool = (\<lambda>n server tool arguments tm. Inr [(''echo'', PDict arguments)])\<rparr>"

definition sample_start :: world where
  "sample_start = \<lparr>w_db = empty_db, w_committed = empty_db, w_clock = 0, w_uuids = 1, w_tokens = 0,
     w_policy_reads = 0, w_upstream = []\<rparr>"

section \<open>Histories\<close>

datatype gateway_action = Request api_request | SeedTenant tenant_row | SeedPolicy policy_row

fun perform :: "host \<Rightarrow> settings \<Rightarrow> mcp_client option \<Rightarrow> gateway_action \<Rightarrow> world \<Rightarrow> world" where
  "perform h st client (Request req) w = snd (serve h st client req w)"
| "perform h st client (SeedTenant t) w = (case insert_tenant t (w_committed w) of
     Inl _ \<Rightarrow> w | Inr d \<Rightarrow> w\<lparr>w_committed := d, w_db := d\<rparr>)"
| "perform h st client (SeedPolicy p) w = (case insert_policy p (w_committed w) of
     Inl _ \<Rightarrow> w | Inr d \<Rightarrow> w\<lparr>w_committed := d, w_db := d\<rparr>)"

lemma perform_reachable:
  assumes "reachable h st client w"
  shows "reachable h st client (perform h st client a w)"
proof (cases a)
  case (Request req)
  with assms show ?thesis
    by (auto intro: reachable.step gateway_step.request [OF surjective_pairing])
qed (use assms in \<open>auto intro: reachable.step gateway_step.intros split: sum.split\<close>)

definition sample_tenant :: tenant_row where
  "sample_tenant = \<lparr>tn_id = 100, tn_name = ''acme'', tn_status = ''active'', tn_created_at = 0,
     tn_updated_at = 0\<rparr>"

definition root :: "string option" where
  "root = Some ''Bearer root''"

definition agent_key :: "string option" where
  "agent_key = Some ''Bearer msgw_key0000''"

definition add_request :: tool_call_request where
  "add_request = \<lparr>rq_target_server = ''calc'', rq_target_tool = ''add'',
     rq_arguments = [(''a'', PInt 2), (''b'', PInt 3)], rq_trace_id = Some ''t1'',
     rq_idempotency_key = Some ''k1''\<rparr>"

definition calc_server :: tool_server_create_request where
  "calc_server = \<lparr>sc_tenant_id = 100, sc_server_id = ''calc'', sc_name = ''Calculator'',
     sc_transport_type = STDIO, sc_endpoint_url = None, sc_command = Some ''python'',
     sc_args = None, sc_env = None\<rparr>"

definition classify :: "risk_level \<Rightarrow> tool_definition_update_request" where
  "classify risk = \<lparr>du_risk_level = Some risk, du_action_type = Some READ,
     du_status = Some ACTIVE, du_description = None\<rparr>"

definition run :: "gateway_action list \<Rightarrow> world \<Rightarrow> world" where
  "run actions w = fold (perform sample_host sample_settings (Some sample_client)) actions w"

lemma run_reachable: "reachable sample_host sample_settings (Some sample_client) w \<Longrightarrow>
    reachable sample_host sample_settings (Some sample_client) (run actions w)"
  by (induction actions arbitrary: w) (auto simp: run_def perform_reachable)

text \<open>The agent's call of the tool \<open>add\<close>.\<close>

definition call_add :: api_request where
  "call_add = PostToolCall agent_key add_request"

section \<open>Committed rows\<close>

text \<open>
  The rows after the tool \<open>add\<close> of the server \<open>calc\<close> was discovered and classified, and after
  the agent \<open>bot\<close> called it at high risk: the call 5 waits for the approval 6.
\<close>

definition bot_row :: agent_row where
  "bot_row = \<lparr>ag_id = 2, ag_tenant_id = 100, ag_name = ''bot'', ag_role = ''agent'',
     ag_status = ''active'', ag_api_key_hash = ''pepper/msgw_key0000'', ag_created_at = 0,
     ag_updated_at = 1000000\<rparr>"

definition calc_row :: tool_server_row where
  "calc_row = \<lparr>ts_id = 3, ts_tenant_id = 100, ts_server_id = ''calc'', ts_name = ''Calculator'',
     ts_transport_type = ''stdio'', ts_endpoint_url = None, ts_command = Some ''python'',
     ts_args = PNone, ts_env = PNone, ts_status = ''active'', ts_created_at = 2000000,
     ts_updated_at = 3000000\<rparr>"

definition add_row :: "risk_level \<Rightarrow> tool_definition_row" where
  "add_row risk = \<lparr>td_id = 4, td_tenant_id = 100, td_server_id = 3, td_tool_name = ''add'',
     td_description = None, td_input_schema = [], td_risk_level = risk_level_value risk,
     td_action_type = ''read'', td_resource_patterns = PNone, td_status = ''active'',
     td_schema_hash = ''{}'', td_created_at = 4000000, td_updated_at = 6000000\<rparr>"

definition add_arguments :: json_object where
  "add_arguments = [(''a'', PInt 2), (''b'', PInt 3)]"

definition waiting_call :: tool_call_row where
  "waiting_call = \<lparr>tc_id = 5, tc_trace_id = Some ''t1'', tc_tenant_id = 100, tc_agent_id = 2,
     tc_target_server = ''calc'', tc_target_tool = ''add'',
     tc_arguments_redacted = add_arguments, tc_arguments_hash = ''h'',
     tc_arguments_payload = Some add_arguments, tc_tool_schema_hash = Some ''{}'',
     tc_policy_decision = Some ''require_approval'',
     tc_decision_reason = Some ''high risk tools require approval'', tc_approval_id = Some 6,
     tc_status = ''pending_approval'', tc_error_code = None, tc_error_message = None,
     tc_idempotency_key = Some ''k1'', tc_created_at = 8000000, tc_updated_at = 13000000\<rparr>"

definition waiting_approval :: approval_row where
  "waiting_approval = \<lparr>ap_id = 6, ap_tenant_id = 100, ap_agent_id = 2, ap_tool_call_id = 5,
     ap_target_server = ''calc'', ap_target_tool = ''add'',
     ap_arguments_redacted = add_arguments, ap_arguments_hash = ''h'', ap_status = ''pending'',
     ap_requested_reason = Some ''high risk tools require approval'', ap_reviewer_id = None,
     ap_review_reason = None, ap_expires_at = 3610000000, ap_approved_at = None,
     ap_denied_at = None, ap_executed_at = None, ap_created_at = 11000000,
     ap_updated_at = 12000000, ap_version = 1\<rparr>"

definition idle_db :: "risk_level \<Rightarrow> db" where
  "idle_db risk = \<lparr>db_tenants = [sample_tenant], db_agents = [bot_row],
     db_tool_servers = [calc_row], db_tool_definitions = [add_row risk],
     db_policies = [sample_policy 100 (PDict []) ''allow''], db_tool_calls = [],
     db_approvals = [], db_audit_events = []\<rparr>"

definition waiting_db :: db where
  "waiting_db = (idle_db HIGH)\<lparr>db_tool_calls := [waiting_call], db_approvals := [waiting_approval]\<rparr>"

text \<open>A world between two requests.\<close>

definition settled_world :: "db \<Rightarrow> world" where
  "settled_world d = sample_start\<lparr>w_db := d, w_committed := d, w_clock := 20, w_uuids := 20,
     w_tokens := 20\<rparr>"

lemmas sample_rows = sample_tenant_def bot_row_def calc_row_def add_row_def waiting_call_def
  waiting_approval_def idle_db_def waiting_db_def sample_policy_def add_arguments_def
lemmas sample_defs = sample_host_def sample_settings_def sample_client_def settled_world_def
  sample_start_def root_def agent_key_def

lemma sample_codes [simp]:
  "agent_role_of ''agent'' = Some AGENT" "transport_type_of ''stdio'' = Some STDIO"
  "action_type_of ''read'' = Some READ" "risk_level_of ''high'' = Some HIGH"
  "policy_effect_of ''require_approval'' = Some REQUIRE_APPROVAL"
  "\<not> is_secret_key ''a''" "\<not> is_secret_key ''b''"
  by code_simp+

lemma sample_rows_ok: "db_inv (idle_db risk)" "db_inv waiting_db" "flows_ok (idle_db risk)" "flows_ok waiting_db"
  by (simp_all add: inv_defs idempotency_keys_def sample_rows agent_ok_def tool_server_ok_def
      args_ok_def tool_definition_ok_def tool_call_ok_def approval_ok_def decision_ok_def
      flows_ok_def call_waiting_def approval_of_def)


section \<open>The call, step by step\<close>

definition bot_dto :: agent_dto where
  "bot_dto = \<lparr>dto_id = 2, dto_tenant_id = 100, dto_name = ''bot'', dto_role = AGENT, dto_status = ACTIVE\<rparr>"

definition add_hash :: string where
  "add_hash = ''{'' @ [CHR 0x22] @ ''a'' @ [CHR 0x22] @ '':2,'' @ [CHR 0x22] @ ''b'' @ [CHR 0x22] @ '':3}''"

lemma hash_add:
  "canonical_arguments_hash (h_encodable sample_host) (h_sha256 sample_host) (h_float_repr sample_host) add_arguments = Inr add_hash"
  by code_simp

definition add_evaluation :: policy_evaluation_result where
  "add_evaluation = \<lparr>pr_decision = ALLOW, pr_reason = ''because'', pr_matched_policy_id = Some 7,
     pr_arguments_redacted = add_arguments, pr_arguments_hash = add_hash, pr_secret_findings = []\<rparr>"

lemma evaluate_add: "fst (policy_repository_evaluate sample_host bot_dto add_request LOW READ
    (settled_world (idle_db LOW))) = Inr add_evaluation"
  by code_simp

lemma authenticate_bot:
  "require_agent sample_host sample_settings agent_key (settled_world (idle_db LOW))
    = (Inr bot_dto, settled_world (idle_db LOW))"
  by code_simp

lemma wp_evaluate_add:
  "wp (policy_repository_evaluate sample_host bot_dto add_request LOW READ) Q E
      (settled_world (idle_db LOW))
    = Q add_evaluation (settled_world (idle_db LOW)\<lparr>w_clock := 21, w_policy_reads := 1\<rparr>)"
  using evaluate_add
  by (simp add: policy_repository_evaluate_def wp_simps prog_defs utc_now_def policy_repository_def
      settled_world_def sample_start_def)

lemma redacted_add: "redacted_arguments add_arguments = add_arguments"
  by code_simp

lemma settled_simps [simp]:
  "w_db (settled_world d) = d" "w_committed (settled_world d) = d"
  "w_upstream (settled_world d) = []" "w_clock (settled_world d) = 20" "settled_world d\<lparr>w_db := d\<rparr> = settled_world d"
  by (simp_all add: settled_world_def sample_start_def)

lemma request_simps [simp]:
  "rq_arguments add_request = add_arguments" "rq_target_server add_request = ''calc''"
  "rq_target_tool add_request = ''add''" "rq_trace_id add_request = Some ''t1''"
  "rq_idempotency_key add_request = Some ''k1''"
  by (simp_all add: add_request_def add_arguments_def)

lemma lookup_add:
  "find_row (\<lambda>r. ts_tenant_id r = 100 \<and> ts_server_id r = ''calc'') (db_tool_servers (idle_db risk))
    = Some calc_row"
  "find_row (\<lambda>r. td_tenant_id r = 100 \<and> td_server_id r = ts_id calc_row \<and> td_tool_name r = ''add'')
    (db_tool_definitions (idle_db risk)) = Some (add_row risk)"
  "db_tool_calls (idle_db risk) = []" "ts_status calc_row = ''active''"
  "td_status (add_row risk) = ''active''" "td_risk_level (add_row risk) = risk_level_value risk"
  "td_action_type (add_row risk) = ''read''"
  "h_validate sample_host (td_input_schema (add_row risk)) a = Valid"
  by (simp_all add: sample_rows find_row_def sample_host_def)

lemmas statement_defs = create_tool_call_def tool_call_create_def create_row_def insert_tool_call_def
  checked_def tool_call_update_def flush_row_def append_tool_call_audit_def
  append_tool_call_event_def audit_append_def insert_audit_event_def tool_call_widths_def
  audit_widths_def fits_def fits_opt_def tenant_exists_def agent_exists_def write_tool_call_def
  if_fits_def put_defs

lemma wp_finish_add:
  assumes w: "w_db w = idle_db LOW" "w_upstream w = []"
    and Q: "\<And>x w'. w_upstream w' = [ToolCalled calc_row (add_row LOW) add_arguments] \<Longrightarrow> Q x w'"
  shows "wp (create_tool_call sample_host bot_dto add_request ''t1'' add_evaluation None
        (Some (td_schema_hash (add_row LOW))))
      (\<lambda>c. wp (finish_allowed sample_host (build_tool_call_service sample_settings (Some sample_client))
        calc_row (add_row LOW) add_request c) Q E) E w"
  by (simp add: statement_defs wp_simps finish_allowed_def build_tool_call_service_def
      wp_try_upstream_call Let_def sample_client_def w idle_db_def bot_dto_def sample_tenant_def
      bot_row_def add_evaluation_def add_hash_def add_row_def)
    (rule Q, simp add: add_row_def)

lemma wp_serve_add:
  "wp (handle sample_host sample_settings (Some sample_client) call_add)
    (\<lambda>x w'. w_upstream w' = [ToolCalled calc_row (add_row LOW) add_arguments]) (\<lambda>e w'. False)
    (settled_world (idle_db LOW))"
proof -
  let ?w = "settled_world (idle_db LOW)"
  have "wp (require_agent sample_host sample_settings agent_key) Q E ?w = Q bot_dto ?w" for Q E
    by (simp add: wp_def authenticate_bot)
  moreover have "dto_tenant_id bot_dto = 100" "dto_id bot_dto = 2" by (simp_all add: bot_dto_def)
  moreover have "risk_level_of ''low'' = Some LOW" by code_simp
  moreover have "pr_decision add_evaluation = ALLOW" by (simp add: add_evaluation_def)
  ultimately show ?thesis
    using hash_add
    by (simp add: call_add_def call_tool_route_def wp_simps committing_def call_tool_def Let_def
        redacted_add tool_server_get_by_server_id_def tool_definition_get_by_name_def
        tool_call_get_by_idempotency_key_def lookup_add find_row_Nil arguments_match_schema_def
        dispatch_call_def wp_member_or_raise wp_evaluate_add)
      (rule wp_finish_add; simp add: wp_commit)
qed

lemma served_add:
  "\<exists>x. fst (serve sample_host sample_settings (Some sample_client) call_add (settled_world (idle_db LOW))) = Inr x"
  "w_upstream (snd (serve sample_host sample_settings (Some sample_client) call_add
    (settled_world (idle_db LOW)))) = [ToolCalled calc_row (add_row LOW) add_arguments]"
  using wp_serve_add
  by (auto simp: serve_def with_session_def wp_def rollback_def split: prod.splits sum.splits)

section \<open>The reviews, step by step\<close>

lemma sample_looks:
  "look_approval 6 waiting_db = Some waiting_approval" "look_tool_call 5 waiting_db = Some waiting_call"
  by (simp_all add: look_approval_def look_tool_call_def find_id_def find_row_def sample_rows)

lemma waiting_ids: "approval_ids_ok waiting_db" "tool_call_ids_ok waiting_db"
  by (simp_all add: approval_ids_ok_def tool_call_ids_ok_def waiting_db_def)

lemma waiting_simps [simp]:
  "ap_expires_at waiting_approval = 3610000000" "ap_status waiting_approval = ''pending''"
  "ap_tool_call_id waiting_approval = 5" "ap_id waiting_approval = 6"
  by (simp_all add: waiting_approval_def)

lemma root_admin: "require_admin sample_host sample_settings root = Inr ()"
  by code_simp

lemma host_simps: "h_now sample_host n = int n * 1000000" "h_uuid4 sample_host n = of_nat (n + 1)"
  by (simp_all add: sample_host_def)

lemmas review_route_defs = approve_approval_route_def deny_approval_route_def admin_def root_admin
  build_approval_services_def committing_def

lemmas review_defs = approve_approval_def deny_approval_def approval_transition_status_def
  append_approval_audit_def execute_approved_tool_call_def update_rows_def find_row_def
  transition_values_def tool_server_get_by_server_id_def tool_definition_get_by_name_def
  active_or_none_def finish_executed_def clear_arguments_payload_def look_approval_def
  look_tool_call_def find_id_def mark_tool_call_denied_def wp_member_or_raise

lemmas waiting_rows = waiting_approval_def waiting_call_def waiting_db_def idle_db_def calc_row_def
  add_row_def

lemma wp_review_sample:
  "wp (handle sample_host sample_settings (Some sample_client) (ApproveApproval root 6 ''fine''))
    (\<lambda>x w'. w_upstream w' = [ToolCalled calc_row (add_row HIGH) add_arguments]) (\<lambda>e w'. False)
    (settled_world waiting_db)"
  "wp (handle sample_host sample_settings (Some sample_client) (DenyApproval root 6 ''no''))
    (\<lambda>x w'. w_upstream w' = []) (\<lambda>e w'. False) (settled_world waiting_db)"
  by (simp_all add: review_route_defs Let_def wp_seq wp_lift wp_commit wp_return)
    (simp_all add: review_defs wp_simps sample_looks settled_world_def sample_start_def host_simps
      statement_defs waiting_rows wp_try_upstream_call sample_client_def Let_def)

lemma served_review:
  "\<exists>x. serve sample_host sample_settings (Some sample_client) (ApproveApproval root 6 ''fine'')
      (settled_world waiting_db) = (Inr x, snd (serve sample_host sample_settings (Some sample_client)
        (ApproveApproval root 6 ''fine'') (settled_world waiting_db)))"
  "\<exists>x. serve sample_host sample_settings (Some sample_client) (DenyApproval root 6 ''no'')
      (settled_world waiting_db) = (Inr x, snd (serve sample_host sample_settings (Some sample_client)
        (DenyApproval root 6 ''no'') (settled_world waiting_db)))"
  using wp_review_sample
  by (auto simp: serve_def with_session_def wp_def rollback_def split: prod.splits sum.splits)

end
