(* ===== verification/Review_Liveness.thy ===== *)
theory Review_Liveness
  imports Gateway_Sample
begin

text \<open>
  A pending approval can always be closed: a denial by an administrator returns, when the
  identifier drawn for the audit event is new and the stored rows fit their columns, which the
  database enforces. The rules here are those of the approval flow with no exception left over.
\<close>

lemma wp_commit_fun: "wp commit Q E = (\<lambda>w. Q () (w\<lparr>w_committed := w_db w\<rparr>))"
  by (rule ext) (rule wp_commit)

lemma wp_no_raise: "wp m Q anyhow w \<Longrightarrow> \<exists>x w'. m w = (Inr x, w') \<Longrightarrow> wp m Q E w"
  by (auto simp: wp_def)

lemma wp_update_call_total:
  assumes ok: "tool_call_ids_ok (w_db w)" and c: "look_tool_call i (w_db w) = Some c"
    and r: "same_request c r" and fits: "tool_call_widths r"
    and Q: "\<And>t n. Q (r\<lparr>tc_updated_at := t\<rparr>)
      (w\<lparr>w_clock := n, w_db := set_call (r\<lparr>tc_updated_at := t\<rparr>) (w_db w)\<rparr>)"
  shows "wp (tool_call_update h c r) Q E w"
proof (rule wp_no_raise)
  show "wp (tool_call_update h c r) Q anyhow w" by (rule wp_update_call [OF ok c r]) (rule Q)
  show "\<exists>x w'. tool_call_update h c r w = (Inr x, w')"
    using fits by (simp add: tool_call_update_def flush_row_def prog_defs utc_now_def db_step_def
        write_tool_call_def if_fits_def tool_call_widths_def)
qed

lemma wp_mark_denied_total:
  assumes "as_tool_call_repository srv" and ids: "tool_call_ids_ok (w_db w)"
    and c: "look_tool_call i (w_db w) = Some c" and fits: "tool_call_widths c" "fits 128 code"
    and Q: "\<And>c' n. tc_status c' = ''denied'' \<Longrightarrow> tc_trace_id c' = tc_trace_id c \<Longrightarrow>
      Q c' (w\<lparr>w_clock := n, w_db := set_call c' (w_db w)\<rparr>)"
  shows "wp (mark_tool_call_denied h srv i code) Q E w"
proof -
  let ?r = "c\<lparr>tc_status := ''denied'', tc_error_code := Some code,
    tc_error_message := Some ''Approval request did not permit execution''\<rparr>"
  have i: "tc_id c = i" using look_key(1) [OF c] .
  have clear: "wp (clear_arguments_payload h i) (\<lambda>cleared. Q (case cleared of None \<Rightarrow> ?r\<lparr>tc_updated_at := t\<rparr> | Some c \<Rightarrow> c)) E
      (w\<lparr>w_clock := n, w_db := set_call (?r\<lparr>tc_updated_at := t\<rparr>) (w_db w)\<rparr>)" for t n
    by (rule wp_clear_payload [where c = "?r\<lparr>tc_updated_at := t\<rparr>"])
      (use ids c i Q in \<open>simp_all add: look_key\<close>)
  have "wp (tool_call_update h c ?r) (\<lambda>updated. wp (clear_arguments_payload h (tc_id updated))
      (\<lambda>cleared. Q (case cleared of None \<Rightarrow> updated | Some c \<Rightarrow> c)) E) E w"
    by (rule wp_update_call_total [OF ids c])
      (use fits clear i in \<open>simp_all add: tool_call_widths_def fits_opt_def fits_def\<close>)
  then show ?thesis
    using assms(1) c by (simp add: mark_tool_call_denied_def wp_simps)
qed

definition approval_texts_fit :: "approval_row \<Rightarrow> bool" where
  "approval_texts_fit a \<longleftrightarrow> fits 255 (ap_target_server a) \<and> fits 255 (ap_target_tool a)
     \<and> fits 128 (ap_arguments_hash a)"

lemma wp_approval_audit_total:
  assumes "as_audit_service srv" and "approval_texts_fit a" and "fits_opt 255 (tc_trace_id c)"
    and "fits 64 st" and "fits 128 code" and "h_uuid4 h (w_uuids w) \<notin> ae_event_id ` set (db_audit_events (w_db w))"
    and Q: "\<And>e n k. Q () (w\<lparr>w_uuids := n, w_clock := k, w_db := add_audits [e] (w_db w)\<rparr>)"
  shows "wp (append_approval_audit h srv a (Some c) st (Some code)) Q E w"
proof (rule wp_no_raise)
  show "wp (append_approval_audit h srv a (Some c) st (Some code)) Q anyhow w"
    by (rule wp_append_approval_audit [OF assms(1)]) (rule Q)
  show "\<exists>x w'. append_approval_audit h srv a (Some c) st (Some code) w = (Inr x, w')"
    using assms(1-6)
    by (simp add: append_approval_audit_def append_tool_call_event_def audit_append_def prog_defs
        uuid4_def utc_now_def db_step_def insert_audit_event_def checked_def audit_widths_def
        fits_opt_def fits_def approval_texts_fit_def)
qed

lemma approval_texts_transition [simp]:
  "approval_texts_fit (transition_values t n rr a) = approval_texts_fit a"
  by (simp add: approval_texts_fit_def)

text \<open>The common tail of a denial and of an expiry.\<close>

lemma wp_close_total:
  assumes srv: "as_tool_call_repository srv" "as_audit_service srv" and await: "awaiting i a c (w_db w)"
    and fits: "tool_call_widths c" "approval_texts_fit a" "fits 64 st" "fits 128 code"
    and fresh: "h_uuid4 h (w_uuids w) \<notin> ae_event_id ` set (db_audit_events (w_db w))"
  shows "wp (approval_transition_status h i AP_PENDING n rr) (\<lambda>x. case x of
      None \<Rightarrow> E' | Some approval' \<Rightarrow>
        wp (mark_tool_call_denied h srv (ap_tool_call_id approval') code) (\<lambda>tool_call.
        wp (append_approval_audit h srv approval' (Some tool_call) st (Some code)) (\<lambda>_.
        wp (member_or_raise (tool_call_status_of (tc_status tool_call)))
          (\<lambda>s. wp (return_p (mk approval' s)) (\<lambda>_ _. True) (\<lambda>_ _. False)) (\<lambda>_ _. False)) (\<lambda>_ _. False))
          (\<lambda>_ _. False)) (\<lambda>_ _. False) w"
proof (rule wp_transition [where a = a])
  fix t k
  let ?a = "transition_values t n rr a"
  have "wp (mark_tool_call_denied h srv (ap_tool_call_id a) code) (\<lambda>tool_call.
        wp (append_approval_audit h srv ?a (Some tool_call) st (Some code)) (\<lambda>_.
        wp (member_or_raise (tool_call_status_of (tc_status tool_call)))
          (\<lambda>s. wp (return_p (mk ?a s)) (\<lambda>_ _. True) (\<lambda>_ _. False)) (\<lambda>_ _. False)) (\<lambda>_ _. False))
          (\<lambda>_ _. False) (w\<lparr>w_clock := k, w_db := set_approval ?a (w_db w)\<rparr>)"
  proof (rule wp_mark_denied_total [where c = c])
    fix c' :: tool_call_row and m
    assume c': "tc_status c' = ''denied''" "tc_trace_id c' = tc_trace_id c"
    show "wp (append_approval_audit h srv ?a (Some c') st (Some code)) (\<lambda>_.
        wp (member_or_raise (tool_call_status_of (tc_status c')))
          (\<lambda>s. wp (return_p (mk ?a s)) (\<lambda>_ _. True) (\<lambda>_ _. False)) (\<lambda>_ _. False)) (\<lambda>_ _. False)
        (w\<lparr>w_clock := k, w_db := set_approval ?a (w_db w)\<rparr>\<lparr>w_clock := m,
          w_db := set_call c' (w_db (w\<lparr>w_clock := k, w_db := set_approval ?a (w_db w)\<rparr>))\<rparr>)"
      by (rule wp_approval_audit_total)
        (use srv fits fresh c' in \<open>simp_all add: wp_simps tool_call_widths_def row_effect_defs\<close>)
  qed (use srv await fits in \<open>simp_all add: awaiting_def\<close>)
  then show "(case Some ?a of None \<Rightarrow> E' | Some approval' \<Rightarrow>
        wp (mark_tool_call_denied h srv (ap_tool_call_id approval') code) (\<lambda>tool_call.
        wp (append_approval_audit h srv approval' (Some tool_call) st (Some code)) (\<lambda>_.
        wp (member_or_raise (tool_call_status_of (tc_status tool_call)))
          (\<lambda>s. wp (return_p (mk approval' s)) (\<lambda>_ _. True) (\<lambda>_ _. False)) (\<lambda>_ _. False)) (\<lambda>_ _. False))
          (\<lambda>_ _. False)) (w\<lparr>w_clock := k, w_db := set_approval ?a (w_db w)\<rparr>)"
    by simp
qed (use await in \<open>simp_all add: awaiting_def\<close>)

lemma wp_deny_returns:
  assumes srv: "as_tool_call_repository srv" "as_audit_service srv" and await: "awaiting i a c (w_db w)"
    and fits: "tool_call_widths c" "approval_texts_fit a"
    and fresh: "h_uuid4 h (w_uuids w) \<notin> ae_event_id ` set (db_audit_events (w_db w))"
  shows "wp (deny_approval h srv i reason) (\<lambda>_ _. True) (\<lambda>_ _. False) w"
proof -
  let ?w = "w\<lparr>w_clock := Suc (w_clock w)\<rparr>"
  have close: "wp (expire_approval h srv i) (\<lambda>_ _. True) (\<lambda>_ _. False) ?w"
    "wp (seq (approval_transition_status h i AP_PENDING AP_DENIED (Some reason))
        (\<lambda>denied. case denied of
          None \<Rightarrow> raise_p (AppError ApprovalNotPendingError)
        | Some approval' \<Rightarrow>
            seq (mark_tool_call_denied h srv (ap_tool_call_id approval') ''approval_denied'')
              (\<lambda>tool_call.
            seq (append_approval_audit h srv approval' (Some tool_call) ''denied''
                   (Some ''approval_denied'')) (\<lambda>_.
            seq (member_or_raise (tool_call_status_of (tc_status tool_call))) (\<lambda>st.
            return_p \<lparr>ar_approval_id = ap_id approval', ar_tool_call_id = ap_tool_call_id approval',
              ar_status = AP_DENIED, ar_tool_call_status = st, ar_result = None,
              ar_error = None\<rparr>))))) (\<lambda>_ _. True) (\<lambda>_ _. False) ?w"
    unfolding expire_approval_def wp_seq wp_case_option
    by (rule wp_close_total [OF srv]; use await fits fresh in \<open>simp add: awaiting_def fits_def\<close>)+
  show ?thesis
    unfolding deny_approval_def using await close by (simp add: wp_simps(1-6,8-) wp_seq awaiting_def)
qed

end
