(* ===== verification/Gateway_Properties.thy ===== *)
theory Gateway_Properties
  imports Review_Liveness
begin

text \<open>
  The properties of whole requests: atomicity, the invariant of reachable databases, the growth
  of the audit trail, the calls sent upstream, and the outcomes of tool calls and of reviews.
\<close>

section \<open>Runs of a request\<close>

lemma serve_run:
  assumes "serve h st client req w = (Inr x, w')" and "wp (handle h st client req) Q anyhow (w\<lparr>w_db := w_committed w\<rparr>)"
  obtains w1 where "Q x w1" "w' = rollback w1"
proof -
  obtain r w1 where run: "handle h st client req (w\<lparr>w_db := w_committed w\<rparr>) = (r, w1)"
    by (cases "handle h st client req (w\<lparr>w_db := w_committed w\<rparr>)")
  with assms show thesis by (intro that [of w1]) (auto simp: serve_def with_session_def wp_def)
qed

lemma serve_result: "serve h st client req w = (fst (serve h st client req w), snd (serve h st client req w))"
  by simp

text \<open>C4: A request is atomic. It runs on the committed rows, and if it raises, they are left
  as they were. If it returns, they keep the invariant and have only grown.\<close>

theorem requests_are_atomic:
  assumes "db_inv (w_committed w)"
  shows "case serve h st client req w of
      (Inl e, w') \<Rightarrow> w_committed w' = w_committed w \<and> w_db w' = w_committed w'
    | (Inr r, w') \<Rightarrow> db_inv (w_committed w') \<and> grown (w_committed w) (w_committed w')
        \<and> w_db w' = w_committed w'"
  by (cases rule: serve_atomic [OF assms, of h st client req]) simp_all

lemma requests_are_atomic_witness:
  "case serve sample_host sample_settings None call_add (settled_world waiting_db) of
      (Inl e, w') \<Rightarrow> w_committed w' = waiting_db \<and> w_db w' = waiting_db
    | (Inr r, w') \<Rightarrow> db_inv (w_committed w') \<and> grown waiting_db (w_committed w') \<and> w_db w' = w_committed w'"
  using requests_are_atomic [of "settled_world waiting_db" sample_host sample_settings None call_add]
  by (auto simp: settled_world_def sample_rows_ok split: prod.splits sum.splits)

lemma settled_statuses:
  assumes "flows_ok d"
  shows "c \<in> set (db_tool_calls d) \<Longrightarrow> tc_status c \<noteq> ''executing''"
    "a \<in> set (db_approvals d) \<Longrightarrow> ap_status a \<noteq> ''approved''"
  using assms
  by (fastforce simp: flows_ok_def call_finished_def call_waiting_def pair_settled_def)+

text \<open>C6: In every reachable state the database invariant holds (keys, references, masked
  arguments, known statuses) and the flows are settled: a tool call is finished and has no
  payload, or it waits with its payload for a pending approval of its own; no committed call
  is executing and no committed approval is merely approved.\<close>

theorem reachable_states_sound:
  assumes "reachable h st client w"
  shows "db_inv (w_committed w) \<and> flows_ok (w_committed w)
    \<and> (\<forall>c \<in> set (db_tool_calls (w_committed w)). tc_status c \<noteq> ''executing'')
    \<and> (\<forall>a \<in> set (db_approvals (w_committed w)). ap_status a \<noteq> ''approved'')"
  using reachable_sound [OF assms] settled_statuses [of "w_committed w"] by blast

text \<open>A reachable state that has a tenant and an agent.\<close>

definition populated_world :: world where
  "populated_world = run [SeedTenant sample_tenant, Request (PostAgent root 100 ''bot'' AGENT)] sample_start"

lemma populated_reachable: "reachable sample_host sample_settings (Some sample_client) populated_world"
  unfolding populated_world_def by (intro run_reachable reachable.start) (simp add: sample_start_def)

lemma reachable_states_sound_witness:
  "db_inv (w_committed populated_world) \<and> flows_ok (w_committed populated_world)"
  using reachable_states_sound [OF populated_reachable] by blast

section \<open>Time\<close>

lemma steps_keep:
  assumes "(gateway_step h st client)\<^sup>*\<^sup>* w w'" and "db_inv (w_committed w)" "flows_ok (w_committed w)"
  shows "db_inv (w_committed w') \<and> flows_ok (w_committed w') \<and> grown (w_committed w) (w_committed w')
    \<and> prefix (w_upstream w) (w_upstream w')"
  using assms(1)
proof (induction rule: rtranclp_induct)
  case base
  from assms(2,3) show ?case by (simp add: grown_refl)
next
  case (step y z)
  with step_keeps [OF step.hyps(2)] show ?case
    by (blast intro: grown_trans prefix_order.trans)
qed

lemma evolves_find:
  assumes "evolves R t t'" and "find_id key i t = Some a" and "distinct (map key t')"
    and "\<And>x y. R x y \<Longrightarrow> key y = key x"
  obtains a' where "find_id key i t' = Some a'" "R a a'"
proof -
  from assms(2) have "a \<in> set t" "key a = i" by (auto simp: find_id_def dest: find_row_SomeD)
  then obtain n where n: "n < length t" "t ! n = a" by (auto simp: in_set_conv_nth)
  with assms(1) have "t' ! n \<in> set t'" "R a (t' ! n)" by (auto simp: evolves_iff)
  with assms(3,4) \<open>key a = i\<close> show thesis
    using distinct_map_find_row [of key t' "t' ! n"] by (intro that [of "t' ! n"]) (auto simp: find_id_def)
qed

lemma approval_kept:
  assumes ok: "db_inv (w_committed w)" "flows_ok (w_committed w)"
    and "(gateway_step h st client)\<^sup>*\<^sup>* w w'" and a: "look_approval i (w_committed w) = Some a"
  shows "\<exists>a'. look_approval i (w_committed w') = Some a' \<and> ap_tool_call_id a' = ap_tool_call_id a
          \<and> ap_arguments_hash a' = ap_arguments_hash a
          \<and> (ap_status a \<noteq> ''pending'' \<longrightarrow> ap_status a' = ap_status a)"
proof -
  from steps_keep [OF assms(3) ok] have g: "evolves approval_progress (db_approvals (w_committed w))
      (db_approvals (w_committed w'))" and d: "distinct (map ap_id (db_approvals (w_committed w')))"
    by (simp_all add: grown_def inv_defs)
  obtain a' where a': "look_approval i (w_committed w') = Some a'" "approval_progress a a'"
    by (rule evolves_find [OF g _ d]) (use a in \<open>auto simp: look_approval_def approval_progress_def\<close>)
  have "ap_status a \<noteq> ''approved''" using settled_statuses(2) [OF ok(2)] look_mem(1) [OF a] by blast
  with a' show ?thesis by (auto simp: approval_progress_def approval_reaches_def)
qed

text \<open>C12: Whatever requests are served, the audit trail is only ever appended to, and a
  reviewed approval keeps its status, its request and its hash for ever.\<close>

theorem history_is_append_only:
  assumes "reachable h st client w" and "(gateway_step h st client)\<^sup>*\<^sup>* w w'"
  shows "prefix (db_audit_events (w_committed w)) (db_audit_events (w_committed w'))
    \<and> (\<forall>i a. look_approval i (w_committed w) = Some a \<longrightarrow>
        (\<exists>a'. look_approval i (w_committed w') = Some a' \<and> ap_tool_call_id a' = ap_tool_call_id a
          \<and> ap_arguments_hash a' = ap_arguments_hash a
          \<and> (ap_status a \<noteq> ''pending'' \<longrightarrow> ap_status a' = ap_status a)))"
proof -
  from reachable_sound [OF assms(1)] have ok: "db_inv (w_committed w)" "flows_ok (w_committed w)" by simp_all
  from approval_kept [OF ok assms(2)] steps_keep [OF assms(2) ok] show ?thesis by (auto simp: grown_def)
qed

lemma history_is_append_only_witness:
  "prefix (db_audit_events (w_committed populated_world)) (db_audit_events (w_committed
      (perform sample_host sample_settings (Some sample_client) (Request call_add) populated_world)))"
  using history_is_append_only [OF populated_reachable, OF r_into_rtranclp, OF gateway_step.request
      [OF serve_result [of sample_host sample_settings "Some sample_client" call_add populated_world]]]
  by simp

section \<open>What is sent upstream\<close>

text \<open>C2: A request sends at most one event upstream, also when it fails later, and only an
  event it is entitled to by the rows it started from: an administrator's discovery of an
  active server, the authorised call of an authenticated agent, or the stored arguments of
  a pending approval that an administrator approves in time.\<close>

theorem upstream_events_entitled:
  assumes "db_inv (w_committed w)"
  shows "case serve h st client req w of (r, w') \<Rightarrow>
    w_upstream w' = w_upstream w
    \<or> (\<exists>ev. w_upstream w' = w_upstream w @ [ev] \<and> entitled h st (w_committed w) req ev)"
  using serve_sends [OF assms, of h st req client] by (simp add: sent_def case_prod_beta)

lemma upstream_events_entitled_witness:
  "entitled sample_host sample_settings (idle_db LOW) call_add (ToolCalled calc_row (add_row LOW) add_arguments)"
  using upstream_events_entitled [of "settled_world (idle_db LOW)" sample_host sample_settings
      call_add "Some sample_client"] served_add(2) sample_rows_ok(1)
  by (simp add: case_prod_beta)

text \<open>C3: A call an agent sends directly goes to an active tool of an active server of the
  agent's tenant, of low or medium risk, with arguments that the tool's schema accepts and in
  which no secret is suspected; a destructive tool is called by an admin.\<close>

theorem direct_calls_are_screened:
  assumes "db_inv (w_committed w)" and "serve h st client (PostToolCall auth body) w = (r, w')"
    and "w_upstream w' \<noteq> w_upstream w"
  shows "\<exists>agent server tool. caller h st (w_committed w) auth agent
    \<and> w_upstream w' = w_upstream w @ [ToolCalled server tool (rq_arguments body)]
    \<and> ts_tenant_id server = dto_tenant_id agent \<and> ts_status server = ''active''
    \<and> td_server_id tool = ts_id server \<and> td_status tool = ''active''
    \<and> td_risk_level tool \<in> {''low'', ''medium''}
    \<and> (td_action_type tool = ''destructive'' \<longrightarrow> dto_role agent = ADMIN)
    \<and> h_validate h (td_input_schema tool) (rq_arguments body) = Valid
    \<and> scan (PDict (rq_arguments body)) = []"
proof -
  from serve_sends [OF assms(1), of h st "PostToolCall auth body" client] assms(2,3)
  obtain agent ev where ev: "w_upstream w' = w_upstream w @ [ev]" "caller h st (w_committed w) auth agent"
    "authorised_call h (w_committed w) agent body ev"
    by (auto simp: sent_def)
  then obtain server tool risk action now readable where
    call: "ev = ToolCalled server tool (rq_arguments body)" "ts_tenant_id server = dto_tenant_id agent"
      "ts_status server = ''active''" "td_server_id tool = ts_id server" "td_status tool = ''active''"
      "h_validate h (td_input_schema tool) (rq_arguments body) = Valid"
    and risk: "risk_level_of (td_risk_level tool) = Some risk"
      "action_type_of (td_action_type tool) = Some action"
    and allow: "verdict (clean_arguments (call_context agent body risk action now))
       (call_context agent body risk action now)
       (policies_active_ordered readable (w_committed w) (dto_tenant_id agent)) = ALLOW"
    unfolding authorised_call_def by blast
  from allow have "clean_arguments (call_context agent body risk action now)"
    and cap: "risk \<in> {LOW, MEDIUM}" "action = DESTRUCTIVE \<longrightarrow> dto_role agent = ADMIN"
    by (auto simp: verdict_ALLOW built_in_cap_ALLOW call_context_def)
  then have "scan (PDict (rq_arguments body)) = []"
    by (simp add: clean_arguments_def scan_Nil_iff call_context_def del: secret_free.simps)
  moreover have "td_risk_level tool \<in> {''low'', ''medium''}"
    using enum_value_of(4) [OF risk(1)] cap(1) by auto
  moreover have "td_action_type tool = ''destructive'' \<longrightarrow> dto_role agent = ADMIN"
    using enum_value_of(5) [OF risk(2)] cap(2) by (cases action) auto
  ultimately show ?thesis using ev call by blast
qed

lemma direct_calls_are_screened_witness:
  "\<exists>agent. caller sample_host sample_settings (idle_db LOW) agent_key agent"
  using direct_calls_are_screened [of "settled_world (idle_db LOW)" sample_host sample_settings
      "Some sample_client" agent_key add_request, OF _ surjective_pairing] served_add(2) sample_rows_ok(1)
  by (fastforce simp: call_add_def)

section \<open>Outcomes\<close>

text \<open>C10: A tool call that returns either replays an earlier call and changes nothing, or
  records one finished call with one audit event, having sent at most the request's own
  arguments, or suspends the call with its payload and one pending approval.\<close>

theorem tool_call_outcomes:
  assumes "db_inv (w_committed w)" and "serve h st client (PostToolCall auth body) w = (Inr x, w')"
  shows "\<exists>r. x = ToolCallAnswer r
    \<and> call_answered (rq_arguments body) r (w_committed w) (w_upstream w) (w_committed w') (w_upstream w')"
proof -
  have "wp (handle h st client (PostToolCall auth body)) (\<lambda>x w'. \<exists>r. x = ToolCallAnswer r
      \<and> call_answered (rq_arguments body) r (w_committed w) (w_upstream w) (w_committed w') (w_upstream w'))
      anyhow (w\<lparr>w_db := w_committed w\<rparr>)"
    by (rule wp_handle_call) (use db_inv_ids(2) [OF assms(1)] in auto)
  with assms(2) show ?thesis by (rule serve_run) (simp add: rollback_def)
qed

lemma tool_call_outcomes_witness:
  "\<exists>r u. call_answered add_arguments r (idle_db LOW) []
     (w_committed (snd (serve sample_host sample_settings (Some sample_client) call_add
        (settled_world (idle_db LOW))))) u"
proof -
  obtain x where "fst (serve sample_host sample_settings (Some sample_client) call_add
      (settled_world (idle_db LOW))) = Inr x" using served_add(1) by blast
  then have "serve sample_host sample_settings (Some sample_client) call_add (settled_world (idle_db LOW))
      = (Inr x, snd (serve sample_host sample_settings (Some sample_client) call_add (settled_world (idle_db LOW))))"
    by (simp add: prod_eq_iff)
  from tool_call_outcomes [OF _ this [unfolded call_add_def]] show ?thesis
    by (auto simp: sample_rows_ok call_add_def)
qed

section \<open>Reviews\<close>

lemma built_approval_service:
  "as_tool_call_repository (fst (build_approval_services st client))"
  "as_audit_service (fst (build_approval_services st client))"
  by (simp_all add: build_approval_services_def Let_def)

text \<open>A review that returns found a pending approval; the call it waits for is in the table.\<close>

lemma wp_handle_approve:
  assumes ok: "flows_ok (w_db w)" "db_inv (w_db w)"
    and Q: "\<And>a c r w'. awaiting i a c (w_db w) \<Longrightarrow> settles i (w_db w) r (w_committed w') \<Longrightarrow>
      (if h_now h (w_clock w) > ap_expires_at a
       then ar_status r = AP_EXPIRED \<and> w_upstream w' = w_upstream w
       else executed_by (w_db w) a c (w_upstream w) r (w_upstream w')) \<Longrightarrow> Q (ApprovalAction r) w'"
  shows "wp (handle h st client (ApproveApproval auth i reason)) Q anyhow w"
proof -
  let ?srv = "fst (build_approval_services st client)" and ?calls = "snd (build_approval_services st client)"
  have "wp (approve_approval h ?srv (execute_approved_tool_call h ?calls) i reason)
      (\<lambda>r w'. Q (ApprovalAction r) (w'\<lparr>w_committed := w_db w'\<rparr>)) anyhow w"
  proof (cases "\<exists>a. look_approval i (w_db w) = Some a \<and> ap_status a = ''pending''")
    case True
    then obtain a where a: "look_approval i (w_db w) = Some a" "ap_status a = ''pending''" by blast
    from pending_awaits [OF ok a] obtain c where c: "awaiting i a c (w_db w)" .
    show ?thesis
      by (rule wp_approve_approval [OF built_approval_service c]) (auto intro!: Q [OF c])
  qed (auto simp: approve_approval_def wp_simps split: option.split)
  then show ?thesis
    by (auto simp: route_defs admin_def committing_def wp_simps wp_commit_fun case_prod_beta split: sum.split)
qed

lemma wp_handle_deny:
  assumes ok: "flows_ok (w_db w)" "db_inv (w_db w)"
    and Q: "\<And>a c r w'. awaiting i a c (w_db w) \<Longrightarrow> settles i (w_db w) r (w_committed w') \<Longrightarrow>
      w_upstream w' = w_upstream w \<Longrightarrow>
      ar_status r = (if h_now h (w_clock w) > ap_expires_at a then AP_EXPIRED else AP_DENIED) \<Longrightarrow>
      Q (ApprovalAction r) w'"
  shows "wp (handle h st client (DenyApproval auth i reason)) Q anyhow w"
proof -
  let ?srv = "fst (build_approval_services st client)"
  have "wp (deny_approval h ?srv i reason)
      (\<lambda>r w'. Q (ApprovalAction r) (w'\<lparr>w_committed := w_db w'\<rparr>)) anyhow w"
  proof (cases "\<exists>a. look_approval i (w_db w) = Some a \<and> ap_status a = ''pending''")
    case True
    then obtain a where a: "look_approval i (w_db w) = Some a" "ap_status a = ''pending''" by blast
    from pending_awaits [OF ok a] obtain c where c: "awaiting i a c (w_db w)" .
    show ?thesis
      by (rule wp_deny_approval [OF built_approval_service c]) (auto intro!: Q [OF c])
  qed (auto simp: deny_approval_def wp_simps split: option.split)
  then show ?thesis
    by (auto simp: route_defs admin_def committing_def wp_simps wp_commit_fun case_prod_beta split: sum.split)
qed

text \<open>C7: An approval that returns found the request pending, and settles it: before its time
  is over it makes one attempt to execute the stored call, which sends it at most once, and the
  pair ends executed and succeeded or failed and failed; after its time it ends expired and denied and nothing is
  sent. Only the rows of this approval and its call change, and the audit trail grows.\<close>

theorem approve_settles:
  assumes "db_inv (w_committed w)" and "flows_ok (w_committed w)"
    and "serve h st client (ApproveApproval auth i reason) w = (Inr x, w')"
  shows "\<exists>a c r. x = ApprovalAction r \<and> look_approval i (w_committed w) = Some a
    \<and> ap_status a = ''pending'' \<and> look_tool_call (ap_tool_call_id a) (w_committed w) = Some c
    \<and> settles i (w_committed w) r (w_committed w')
    \<and> (if h_now h (w_clock w) > ap_expires_at a
       then ar_status r = AP_EXPIRED \<and> w_upstream w' = w_upstream w
       else executed_by (w_committed w) a c (w_upstream w) r (w_upstream w'))"
proof -
  let ?w = "w\<lparr>w_db := w_committed w\<rparr>"
  have "wp (handle h st client (ApproveApproval auth i reason)) (\<lambda>x w'. \<exists>a c r. x = ApprovalAction r
    \<and> look_approval i (w_committed w) = Some a
    \<and> ap_status a = ''pending'' \<and> look_tool_call (ap_tool_call_id a) (w_committed w) = Some c
    \<and> settles i (w_committed w) r (w_committed w')
    \<and> (if h_now h (w_clock w) > ap_expires_at a
       then ar_status r = AP_EXPIRED \<and> w_upstream w' = w_upstream w
       else executed_by (w_committed w) a c (w_upstream w) r (w_upstream w'))) anyhow ?w"
    by (rule wp_handle_approve) (use assms in \<open>auto simp: awaiting_def\<close>)
  with assms(3) show ?thesis by (rule serve_run) (simp add: rollback_def split del: if_split cong: if_cong)
qed

lemma approve_settles_witness:
  "\<exists>r d u. settles 6 waiting_db r d \<and> executed_by waiting_db waiting_approval waiting_call [] r u"
proof -
  obtain x where "serve sample_host sample_settings (Some sample_client) (ApproveApproval root 6 ''fine'')
      (settled_world waiting_db) = (Inr x, snd (serve sample_host sample_settings (Some sample_client)
        (ApproveApproval root 6 ''fine'') (settled_world waiting_db)))" using served_review(1) by blast
  from approve_settles [OF _ _ this] show ?thesis
    by (auto simp: sample_rows_ok sample_looks host_simps)
qed

text \<open>C11: A denial that returns found the request pending and settles it: the approval ends
  denied, or expired when its time is over, the call ends denied without its payload, and
  nothing is sent upstream.\<close>

theorem deny_settles:
  assumes "db_inv (w_committed w)" and "flows_ok (w_committed w)"
    and "serve h st client (DenyApproval auth i reason) w = (Inr x, w')"
  shows "\<exists>a r. x = ApprovalAction r \<and> look_approval i (w_committed w) = Some a
    \<and> ap_status a = ''pending'' \<and> settles i (w_committed w) r (w_committed w')
    \<and> ar_status r = (if h_now h (w_clock w) > ap_expires_at a then AP_EXPIRED else AP_DENIED)
    \<and> w_upstream w' = w_upstream w"
proof -
  let ?w = "w\<lparr>w_db := w_committed w\<rparr>"
  have "wp (handle h st client (DenyApproval auth i reason)) (\<lambda>x w'. \<exists>a r. x = ApprovalAction r
    \<and> look_approval i (w_committed w) = Some a
    \<and> ap_status a = ''pending'' \<and> settles i (w_committed w) r (w_committed w')
    \<and> ar_status r = (if h_now h (w_clock w) > ap_expires_at a then AP_EXPIRED else AP_DENIED)
    \<and> w_upstream w' = w_upstream w) anyhow ?w"
    by (rule wp_handle_deny) (use assms in \<open>auto simp: awaiting_def\<close>)
  with assms(3) show ?thesis by (rule serve_run) (simp add: rollback_def split del: if_split cong: if_cong)
qed

lemma deny_settles_witness: "\<exists>r d. settles 6 waiting_db r d \<and> ar_status r = AP_DENIED"
proof -
  obtain x where "serve sample_host sample_settings (Some sample_client) (DenyApproval root 6 ''no'')
      (settled_world waiting_db) = (Inr x, snd (serve sample_host sample_settings (Some sample_client)
        (DenyApproval root 6 ''no'') (settled_world waiting_db)))" using served_review(2) by blast
  from deny_settles [OF _ _ this] show ?thesis
    by (auto simp: sample_rows_ok sample_looks host_simps)
qed

lemma refused_review:
  assumes "require_admin h st auth = Inr ()" and "look_approval i (w_committed w) = Some a"
    and "ap_status a \<noteq> ''pending''"
    and "req \<in> {ApproveApproval auth i reason, DenyApproval auth i reason}"
  shows "serve h st client req w = (Inl (AppError (
      if ap_status a = ''denied'' then ApprovalDeniedError
      else if ap_status a \<in> {''expired'', ''executed'', ''failed''} then ApprovalAlreadyProcessedError
      else ApprovalNotPendingError)), w\<lparr>w_db := w_committed w\<rparr>)"
proof -
  have "find_row (\<lambda>r. ap_id r = i) (db_approvals (w_committed w)) = Some a"
    using assms(2) by (simp add: look_approval_def find_id_def)
  with assms show ?thesis
    by (auto simp: serve_def with_session_def route_defs admin_def committing_def prog_defs
        build_approval_services_def Let_def approve_approval_def deny_approval_def
        get_approval_or_raise_def approval_get_by_id_def non_pending_error_def rollback_def)
qed

text \<open>A review of an approval that is not pending any more is refused with the error of
  its status, whoever the reviewer is and whatever the deadline; nothing is changed or sent.\<close>

theorem reviewed_approval_refused:
  assumes "require_admin h st auth = Inr ()" and "look_approval i (w_committed w) = Some a"
    and "ap_status a \<noteq> ''pending''"
    and "req \<in> {ApproveApproval auth i reason, DenyApproval auth i reason}"
  shows "serve h st client req w = (Inl (AppError (
      if ap_status a = ''denied'' then ApprovalDeniedError
      else if ap_status a \<in> {''expired'', ''executed'', ''failed''} then ApprovalAlreadyProcessedError
      else ApprovalNotPendingError)), w\<lparr>w_db := w_committed w\<rparr>)"
  using assms by (rule refused_review)

definition denied_approval :: approval_row where
  "denied_approval = waiting_approval\<lparr>ap_status := ''denied''\<rparr>"

lemma reviewed_approval_refused_witness:
  "fst (serve sample_host sample_settings None (ApproveApproval root 6 ''again'')
    (settled_world (waiting_db\<lparr>db_approvals := [denied_approval]\<rparr>))) = Inl (AppError ApprovalDeniedError)"
  using reviewed_approval_refused [OF root_admin, of 6 "settled_world (waiting_db\<lparr>db_approvals := [denied_approval]\<rparr>)"
      denied_approval "ApproveApproval root 6 ''again''" "''again''" None]
  by (simp add: look_approval_def find_id_def find_row_def denied_approval_def waiting_approval_def)

lemma settles_status:
  assumes "settles i d r d'" and "look_approval i d = Some a0"
  shows "\<exists>a. look_approval i d' = Some a \<and> ap_status a \<noteq> ''pending''"
proof -
  from assms(1) obtain a c evs where d': "d' = add_audits evs (set_approval a (set_call c d))"
    and a: "ap_id a = i" "pair_settled a c" by (auto simp: settles_def)
  from assms(2) a(1) have "look_approval i d' = Some a" by (simp add: d')
  moreover from a(2) have "ap_status a \<noteq> ''pending''" by (auto simp: pair_settled_def)
  ultimately show ?thesis by blast
qed

lemma returned_review:
  assumes "db_inv (w_committed w)" "flows_ok (w_committed w)"
    and req: "req = ApproveApproval auth i reason \<or> req = DenyApproval auth i reason"
    and run: "serve h st client req w = (Inr x, w1)"
  obtains a where "look_approval i (w_committed w1) = Some a" "ap_status a \<noteq> ''pending''"
proof -
  have "wp (handle h st client req) (\<lambda>x w'. \<exists>a. look_approval i (w_committed w') = Some a
      \<and> ap_status a \<noteq> ''pending'') anyhow (w\<lparr>w_db := w_committed w\<rparr>)"
    by (rule wp_handle_review [OF _ _ req]) (use assms in \<open>auto dest: settles_status\<close>)
  with run show thesis by (rule serve_run) (use that in \<open>auto simp: rollback_def\<close>)
qed

lemma settled_review_raises:
  assumes "look_approval i (w_committed w) = Some a" "ap_status a \<noteq> ''pending''"
    and req: "req = ApproveApproval auth i reason \<or> req = DenyApproval auth i reason"
  shows "\<exists>e. serve h st client req w = (Inl e, w\<lparr>w_db := w_committed w\<rparr>)"
proof (cases "require_admin h st auth")
  case (Inl e)
  with req show ?thesis
    by (auto simp: serve_def with_session_def route_defs admin_def prog_defs rollback_def
        build_approval_services_def Let_def)
next
  case (Inr u)
  then show ?thesis using refused_review [OF _ assms(1,2), of h st auth req reason client] req by auto
qed

text \<open>
  C13: The review of an approval ends: over the whole life of the gateway at most one approval or
  denial of it returns. Whatever requests are served after one has returned, every further review
  raises, changes nothing and sends nothing, whoever sends it.
\<close>

theorem review_returns_once:
  assumes "db_inv (w_committed w)" and "flows_ok (w_committed w)"
    and "serve h st client req w = (Inr x, w1)"
    and "(gateway_step h st client)\<^sup>*\<^sup>* w1 w2"
    and "req \<in> {ApproveApproval auth i reason, DenyApproval auth i reason}"
    and "req' \<in> {ApproveApproval auth' i reason', DenyApproval auth' i reason'}"
  shows "\<exists>e. serve h st client req' w2 = (Inl e, w2\<lparr>w_db := w_committed w2\<rparr>)"
proof -
  obtain a where a: "look_approval i (w_committed w1) = Some a" "ap_status a \<noteq> ''pending''"
    by (rule returned_review [OF assms(1,2) _ assms(3)]) (use assms(5) in auto)
  have "(gateway_step h st client)\<^sup>*\<^sup>* w w1" using assms(3) by (blast intro: gateway_step.request)
  from steps_keep [OF this assms(1,2)] have "db_inv (w_committed w1)" "flows_ok (w_committed w1)" by simp_all
  from approval_kept [OF this assms(4) a(1)] a(2) obtain a'
    where a': "look_approval i (w_committed w2) = Some a'" "ap_status a' \<noteq> ''pending''" by auto
  then show ?thesis by (rule settled_review_raises) (use assms(6) in auto)
qed

lemma review_returns_once_witness:
  "\<exists>e. fst (serve sample_host sample_settings (Some sample_client) (DenyApproval root 6 ''late'')
      (snd (serve sample_host sample_settings (Some sample_client) (ApproveApproval root 6 ''fine'')
        (settled_world waiting_db)))) = Inl e"
proof -
  obtain x where run: "serve sample_host sample_settings (Some sample_client) (ApproveApproval root 6 ''fine'')
      (settled_world waiting_db) = (Inr x, snd (serve sample_host sample_settings (Some sample_client)
        (ApproveApproval root 6 ''fine'') (settled_world waiting_db)))" using served_review(1) by blast
  from review_returns_once [OF _ _ run rtranclp.rtrancl_refl, of root 6 "''fine''"
      "DenyApproval root 6 ''late''" root "''late''"]
  show ?thesis by (auto simp: sample_rows_ok)
qed

text \<open>C28: A pending approval can always be closed: when the audit identifier drawn is new
  and the stored texts fit their columns, an administrator's denial returns and settles the
  approval, whatever the clock says and whatever became of the tool, the server or the agent.\<close>

theorem pending_approval_can_be_denied:
  assumes "db_inv (w_committed w)" and "flows_ok (w_committed w)"
    and "require_admin h st auth = Inr ()"
    and "look_approval i (w_committed w) = Some a" and "ap_status a = ''pending''"
    and "approval_texts_fit a" and "\<forall>c \<in> set (db_tool_calls (w_committed w)). tool_call_widths c"
    and "h_uuid4 h (w_uuids w) \<notin> ae_event_id ` set (db_audit_events (w_committed w))"
  shows "\<exists>r w'. serve h st client (DenyApproval auth i reason) w = (Inr (ApprovalAction r), w')
    \<and> ar_status r \<in> {AP_DENIED, AP_EXPIRED} \<and> settles i (w_committed w) r (w_committed w')"
proof -
  let ?w = "w\<lparr>w_db := w_committed w\<rparr>" and ?srv = "fst (build_approval_services st client)"
  obtain c where c: "awaiting i a c (w_committed w)"
    using pending_awaits [OF assms(2,1,4,5)] by blast
  then have "c \<in> set (db_tool_calls (w_committed w))" by (auto simp: awaiting_def dest: look_mem(2))
  then have "tool_call_widths c" using assms(7) by blast
  then have "wp (deny_approval h ?srv i reason) (\<lambda>_ _. True) (\<lambda>_ _. False) ?w"
    by (intro wp_deny_returns [OF built_approval_service]) (use c assms(6,8) in simp_all)
  then have "wp (handle h st client (DenyApproval auth i reason)) (\<lambda>_ _. True) (\<lambda>_ _. False) ?w"
    using assms(3) by (simp add: route_defs admin_def committing_def wp_simps wp_commit_fun case_prod_beta)
  then obtain x w' where run: "serve h st client (DenyApproval auth i reason) w = (Inr x, w')"
    by (auto simp: wp_def serve_def with_session_def split: prod.splits sum.splits)
  have "wp (handle h st client (DenyApproval auth i reason)) (\<lambda>x w'. \<exists>r. x = ApprovalAction r
      \<and> ar_status r \<in> {AP_DENIED, AP_EXPIRED} \<and> settles i (w_committed w) r (w_committed w')) anyhow ?w"
    by (rule wp_handle_deny) (use assms(1,2) in auto)
  with run have "\<exists>r. x = ApprovalAction r \<and> ar_status r \<in> {AP_DENIED, AP_EXPIRED}
      \<and> settles i (w_committed w) r (w_committed w')"
    by (rule serve_run) (simp add: rollback_def)
  with run show ?thesis by blast
qed

lemma pending_approval_can_be_denied_witness:
  "\<exists>r d. ar_status r \<in> {AP_DENIED, AP_EXPIRED} \<and> settles 6 waiting_db r d"
proof -
  have "approval_texts_fit waiting_approval" "\<forall>c \<in> set (db_tool_calls waiting_db). tool_call_widths c"
    "db_audit_events waiting_db = []"
    by (simp_all add: approval_texts_fit_def tool_call_widths_def fits_def fits_opt_def waiting_rows)
  with pending_approval_can_be_denied [of "settled_world waiting_db" sample_host sample_settings root
      6 waiting_approval None "''no''"]
  have "\<exists>r w'. serve sample_host sample_settings None (DenyApproval root 6 ''no'') (settled_world waiting_db)
      = (Inr (ApprovalAction r), w') \<and> ar_status r \<in> {AP_DENIED, AP_EXPIRED}
    \<and> settles 6 waiting_db r (w_committed w')"
    by (simp add: sample_rows_ok root_admin sample_looks)
  then show ?thesis by blast
qed

end
