(* ===== verification/Row_Merge.thy ===== *)
theory Row_Merge
  imports Gateway_System
begin

text \<open>
  Transactions that overlap. A transaction has the rows it began with and its own rows now; the
  rows it has inserted or updated (\<open>changed\<close>) are invisible to others until it commits, and until
  then they are locked, with the values of their unique columns (\<open>locks\<close>). A commit puts these rows
  over the rows that are committed by then (\<open>merge\<close>). If two transactions have no lock in common,
  their rows fit together: keys, references and row invariants hold and the rows have only grown.
\<close>

section \<open>What a transaction has written\<close>

definition changed :: "'r list \<Rightarrow> 'r list \<Rightarrow> 'r list" where
  "changed base own = filter (\<lambda>r. r \<notin> set base) own"

datatype lock = CallRow uuid | CallKey uuid uuid string | ApprovalRow uuid | ApprovalCall uuid
  | AuditRow uuid

definition call_locks :: "tool_call_row \<Rightarrow> lock list" where
  "call_locks r = CallRow (tc_id r) # (case tc_idempotency_key r of None \<Rightarrow> []
     | Some k \<Rightarrow> [CallKey (tc_tenant_id r) (tc_agent_id r) k])"

definition approval_locks :: "approval_row \<Rightarrow> lock list" where
  "approval_locks r = [ApprovalRow (ap_id r), ApprovalCall (ap_tool_call_id r)]"

text \<open>
  The locks in the three tables that tool calls and reviews write. Between the rows \<open>base\<close> a
  transaction began with and its own rows.
\<close>

definition locks :: "db \<Rightarrow> db \<Rightarrow> lock list" where
  "locks base own = concat (map call_locks (changed (db_tool_calls base) (db_tool_calls own)))
     @ concat (map approval_locks (changed (db_approvals base) (db_approvals own)))
     @ map (\<lambda>r. AuditRow (ae_event_id r)) (changed (db_audit_events base) (db_audit_events own))"

definition disjoint_locks :: "lock list \<Rightarrow> lock list \<Rightarrow> bool" where
  "disjoint_locks ls ks \<longleftrightarrow> list_all (\<lambda>l. l \<notin> set ks) ls"

text \<open>The rows \<open>now\<close>, with the written rows over those of the same key.\<close>

definition merge_rows :: "('r \<Rightarrow> 'k) \<Rightarrow> 'r list \<Rightarrow> 'r list \<Rightarrow> 'r list" where
  "merge_rows key written now =
     map (\<lambda>r. case find_row (\<lambda>x. key x = key r) written of None \<Rightarrow> r | Some x \<Rightarrow> x) now
     @ filter (\<lambda>x. key x \<notin> key ` set now) written"

definition merge :: "db \<Rightarrow> db \<Rightarrow> db \<Rightarrow> db" where
  "merge base own now = now\<lparr>
     db_tool_calls := merge_rows tc_id (changed (db_tool_calls base) (db_tool_calls own)) (db_tool_calls now),
     db_approvals := merge_rows ap_id (changed (db_approvals base) (db_approvals own)) (db_approvals now),
     db_audit_events := merge_rows ae_event_id (changed (db_audit_events base) (db_audit_events own))
       (db_audit_events now)\<rparr>"

section \<open>One table\<close>

lemma in_changed: "r \<in> set (changed base own) \<longleftrightarrow> r \<in> set own \<and> r \<notin> set base"
  by (auto simp: changed_def)

lemma distinct_changed: "distinct (map key own) \<Longrightarrow> distinct (map key (changed base own))"
  by (simp add: changed_def distinct_map_filter)

lemma evolves_row:
  assumes "evolves R t t'" and "r \<in> set t"
  obtains r' where "r' \<in> set t'" "R r r'"
  using assms by (metis evolves_iff in_set_conv_nth less_le_trans)

lemma find_key:
  "distinct (map key w) \<Longrightarrow> x \<in> set w \<Longrightarrow> find_row (\<lambda>y. key y = key x) w = Some x"
  by (rule distinct_map_find_row)

lemma set_merge_rows:
  assumes "distinct (map key w)"
  shows "set (merge_rows key w now) = {r \<in> set now. key r \<notin> key ` set w} \<union> set w"
proof -
  have out: "(case find_row (\<lambda>x. key x = key r) w of None \<Rightarrow> r | Some x \<Rightarrow> x) = r"
    if "key r \<notin> key ` set w" for r
  proof -
    have "find_row (\<lambda>x. key x = key r) w = None" using that unfolding find_row_None_iff by (metis imageI)
    then show ?thesis by simp
  qed
  have "within": "(case find_row (\<lambda>x. key x = key r) w of None \<Rightarrow> r | Some x \<Rightarrow> x) = x"
    if "x \<in> set w" "key r = key x" for r x
    using find_key [OF assms that(1)] that(2) by simp
  have put: "(case find_row (\<lambda>x. key x = key r) w of None \<Rightarrow> r | Some x \<Rightarrow> x) \<in>
      {r \<in> set now. key r \<notin> key ` set w} \<union> set w" if "r \<in> set now" for r
    using out [of r] "within" [of _ r] that by (cases "key r \<in> key ` set w") auto
  show ?thesis
    unfolding merge_rows_def set_append set_map set_filter
  proof (intro equalityI subsetI)
    fix y assume "y \<in> (\<lambda>r. case find_row (\<lambda>x. key x = key r) w of None \<Rightarrow> r | Some x \<Rightarrow> x) ` set now
        \<union> {x \<in> set w. key x \<notin> key ` set now}"
    then show "y \<in> {r \<in> set now. key r \<notin> key ` set w} \<union> set w"
      using put by blast
  next
    fix y assume "y \<in> {r \<in> set now. key r \<notin> key ` set w} \<union> set w"
    then consider "y \<in> set now" "key y \<notin> key ` set w" | r where "y \<in> set w" "r \<in> set now" "key r = key y"
      | "y \<in> set w" "key y \<notin> key ` set now"
      by (metis (lifting) Un_iff imageE mem_Collect_eq)
    then show "y \<in> (\<lambda>r. case find_row (\<lambda>x. key x = key r) w of None \<Rightarrow> r | Some x \<Rightarrow> x) ` set now
        \<union> {x \<in> set w. key x \<notin> key ` set now}"
    proof cases
      case 1
      with out [of y] show ?thesis by force
    next
      case 2
      with "within" [of y r] show ?thesis by force
    qed simp
  qed
qed

lemma map_key_merge_rows:
  "map key (merge_rows key w now) = map key now @ map key (filter (\<lambda>x. key x \<notin> key ` set now) w)"
  by (auto simp: merge_rows_def split: option.split dest: find_row_SomeD)

lemma distinct_merge_rows:
  "distinct (map key w) \<Longrightarrow> distinct (map key now) \<Longrightarrow> distinct (map key (merge_rows key w now))"
  unfolding map_key_merge_rows by (auto simp: distinct_map_filter) (metis imageI)


text \<open>
  Two transactions on one table: \<open>b\<close> the rows both know, \<open>f\<close> the rows of the one that commits, \<open>c\<close>
  the rows committed by then. Neither has a row that the other has written.
\<close>

definition apart_rows :: "('r \<Rightarrow> 'k) \<Rightarrow> 'r list \<Rightarrow> 'r list \<Rightarrow> 'r list \<Rightarrow> bool" where
  "apart_rows key b f c \<longleftrightarrow> (\<forall>x \<in> set (changed b f). \<forall>y \<in> set (changed b c). key x \<noteq> key y)"

lemma merge_rows_origin:
  assumes "apart_rows key b f c" and "distinct (map key f)" and "r \<in> set c"
    and "key r \<in> key ` set (changed b f)"
  shows "r \<in> set b"
  using assms unfolding apart_rows_def by (metis imageE in_changed)

lemma merge_rows_replaces:
  assumes "apart_rows key b f c" and f: "distinct (map key f)" and "evolves R b f"
    and key: "\<And>x y. R x y \<Longrightarrow> key y = key x"
    and "r \<in> set c" and x: "x \<in> set (changed b f)" "key x = key r"
  shows "R r x"
proof -
  have "r \<in> set b" by (rule merge_rows_origin [OF assms(1,2,5)]) (use x in \<open>metis imageI\<close>)
  with assms(3) obtain r' where r': "r' \<in> set f" "R r r'" by (rule evolves_row)
  with key x f have "r' = x" by (metis in_changed distinct_map_eq)
  with r' show ?thesis by simp
qed

lemma evolves_merge_rows:
  assumes "apart_rows key b f c" and "distinct (map key f)" and "evolves R b f"
    and "\<And>x y. R x y \<Longrightarrow> key y = key x" and refl: "\<And>x. R x x"
  shows "evolves R c (merge_rows key (changed b f) c)"
  unfolding evolves_iff
proof (intro conjI allI impI)
  fix i assume i: "i < length c"
  then have "merge_rows key (changed b f) c ! i = (case find_row (\<lambda>x. key x = key (c ! i)) (changed b f) of
      None \<Rightarrow> c ! i | Some x \<Rightarrow> x)" by (simp add: merge_rows_def nth_append)
  moreover have "R (c ! i) x" if "find_row (\<lambda>x. key x = key (c ! i)) (changed b f) = Some x" for x
    using merge_rows_replaces [OF assms(1-4)] find_row_SomeD [OF that] i by (metis nth_mem)
  ultimately show "R (c ! i) (merge_rows key (changed b f) c ! i)"
    using refl by (simp split: option.split)
qed (simp add: merge_rows_def)

text \<open>A second unique key, of the rows that satisfy \<open>q\<close>.\<close>

lemma unique_key_iff:
  "distinct (map key t) \<Longrightarrow> distinct (map k2 (filter q t)) \<longleftrightarrow> inj_on k2 {r \<in> set t. q r}"
  by (simp add: distinct_map distinct_filter)

lemma unique_merge_rows:
  assumes rows: "apart_rows key b f c" "distinct (map key f)" "distinct (map key c)" "evolves R b f"
    and R: "\<And>x y. R x y \<Longrightarrow> key y = key x \<and> k2 y = k2 x \<and> q y = q x"
    and f: "distinct (map k2 (filter q f))" and c: "distinct (map k2 (filter q c))"
    and keys: "\<And>x y. x \<in> set (changed b f) \<Longrightarrow> y \<in> set (changed b c) \<Longrightarrow> q x \<Longrightarrow> q y \<Longrightarrow> k2 x \<noteq> k2 y"
  shows "distinct (map k2 (filter q (merge_rows key (changed b f) c)))"
proof -
  let ?w = "changed b f"
  have w: "distinct (map key ?w)" using rows(2) by (rule distinct_changed)
  have same: "r = x" if r: "r \<in> set c" "key r \<notin> key ` set ?w" "q r" and x: "x \<in> set ?w" "q x" "k2 r = k2 x" for r x
  proof (cases "r \<in> set b")
    case True
    with rows(4) obtain r' where r': "r' \<in> set f" "R r r'" by (rule evolves_row)
    with R r x have "r' \<in> set f \<and> q r'" "k2 r' = k2 x" "x \<in> set f \<and> q x" by (auto simp: in_changed)
    with f have "r' = x" unfolding unique_key_iff [OF rows(2)] inj_on_def by blast
    with R [OF r'(2)] have "key r = key x" by simp
    with r(2) x(1) show ?thesis by (metis imageI)
  next
    case False
    with keys [OF x(1), of r] r x show ?thesis by (simp add: in_changed)
  qed
  show ?thesis
    unfolding unique_key_iff [OF distinct_merge_rows [OF w rows(3)]] set_merge_rows [OF w]
  proof (rule inj_onI)
    fix x y
    assume x: "x \<in> {r \<in> {r \<in> set c. key r \<notin> key ` set ?w} \<union> set ?w. q r}"
      and y: "y \<in> {r \<in> {r \<in> set c. key r \<notin> key ` set ?w} \<union> set ?w. q r}" and k: "k2 x = k2 y"
    have "x = y" if "x \<in> set c" "y \<in> set c"
      using c that x y k unfolding unique_key_iff [OF rows(3)] inj_on_def by blast
    moreover have "x = y" if "x \<in> set f" "y \<in> set f"
      using f that x y k unfolding unique_key_iff [OF rows(2)] inj_on_def by blast
    ultimately show "x = y" using x y k same [of x y] same [of y x] by (auto simp: in_changed)
  qed
qed


section \<open>The rows of a database\<close>

lemma disjoint_locks_iff: "disjoint_locks ls ks \<longleftrightarrow> set ls \<inter> set ks = {}"
  by (auto simp: disjoint_locks_def list_all_iff)

lemma locked_rows:
  "r \<in> set (changed (db_tool_calls b) (db_tool_calls f)) \<Longrightarrow> CallRow (tc_id r) \<in> set (locks b f)"
  "r \<in> set (changed (db_tool_calls b) (db_tool_calls f)) \<Longrightarrow> tc_idempotency_key r = Some k \<Longrightarrow>
    CallKey (tc_tenant_id r) (tc_agent_id r) k \<in> set (locks b f)"
  "a \<in> set (changed (db_approvals b) (db_approvals f)) \<Longrightarrow> ApprovalRow (ap_id a) \<in> set (locks b f)"
  "a \<in> set (changed (db_approvals b) (db_approvals f)) \<Longrightarrow> ApprovalCall (ap_tool_call_id a) \<in> set (locks b f)"
  "e \<in> set (changed (db_audit_events b) (db_audit_events f)) \<Longrightarrow> AuditRow (ae_event_id e) \<in> set (locks b f)"
  by (force simp: locks_def call_locks_def approval_locks_def)+

lemma locked_apart:
  assumes "disjoint_locks (locks b f) (locks b c)"
  shows "apart_rows tc_id (db_tool_calls b) (db_tool_calls f) (db_tool_calls c)"
    "apart_rows ap_id (db_approvals b) (db_approvals f) (db_approvals c)"
    "apart_rows ae_event_id (db_audit_events b) (db_audit_events f) (db_audit_events c)"
    "\<lbrakk>x \<in> set (changed (db_tool_calls b) (db_tool_calls f)); y \<in> set (changed (db_tool_calls b) (db_tool_calls c));
      tc_idempotency_key x \<noteq> None; tc_idempotency_key y \<noteq> None\<rbrakk> \<Longrightarrow>
      (tc_tenant_id x, tc_agent_id x, tc_idempotency_key x) \<noteq> (tc_tenant_id y, tc_agent_id y, tc_idempotency_key y)"
    "\<lbrakk>p \<in> set (changed (db_approvals b) (db_approvals f)); q \<in> set (changed (db_approvals b) (db_approvals c))\<rbrakk> \<Longrightarrow>
      ap_tool_call_id p \<noteq> ap_tool_call_id q"
  using assms unfolding disjoint_locks_iff apart_rows_def
  by (auto dest: locked_rows, metis disjoint_iff locked_rows(1), metis disjoint_iff locked_rows(3),
      metis disjoint_iff locked_rows(5), metis disjoint_iff locked_rows(2), metis disjoint_iff locked_rows(4))

lemma prefix_evolves: "prefix t t' \<longleftrightarrow> evolves (=) t t'"
  unfolding evolves_def list.rel_eq by (metis append_eq_conv_conj prefix_def take_is_prefix prefix_length_le)


text \<open>
  Two transactions that began with the sound rows \<open>b\<close>: \<open>f\<close> are the rows of the one that commits,
  which has only written to the three tables, and \<open>c\<close> the rows that are committed by then.
\<close>

definition overlap :: "db \<Rightarrow> db \<Rightarrow> db \<Rightarrow> bool" where
  "overlap b f c \<longleftrightarrow> db_inv f \<and> db_inv c \<and> grown b f \<and> grown b c
     \<and> db_tenants f = db_tenants b \<and> map ag_id (db_agents f) = map ag_id (db_agents b)
     \<and> disjoint_locks (locks b f) (locks b c)"

lemma merge_simps [simp]:
  "db_tenants (merge b f c) = db_tenants c" "db_agents (merge b f c) = db_agents c"
  "db_tool_servers (merge b f c) = db_tool_servers c"
  "db_tool_definitions (merge b f c) = db_tool_definitions c" "db_policies (merge b f c) = db_policies c"
  "db_tool_calls (merge b f c)
    = merge_rows tc_id (changed (db_tool_calls b) (db_tool_calls f)) (db_tool_calls c)"
  "db_approvals (merge b f c)
    = merge_rows ap_id (changed (db_approvals b) (db_approvals f)) (db_approvals c)"
  "db_audit_events (merge b f c)
    = merge_rows ae_event_id (changed (db_audit_events b) (db_audit_events f)) (db_audit_events c)"
  by (simp_all add: merge_def)

lemma overlap_distinct:
  assumes "overlap b f c"
  shows "distinct (map tc_id (db_tool_calls f))" "distinct (map tc_id (db_tool_calls c))"
    "distinct (map ap_id (db_approvals f))" "distinct (map ap_id (db_approvals c))"
    "distinct (map ae_event_id (db_audit_events f))" "distinct (map ae_event_id (db_audit_events c))"
  using assms by (simp_all add: overlap_def inv_defs)

lemma grown_merge:
  assumes "overlap b f c"
  shows "grown c (merge b f c)"
proof -
  from assms have apart: "disjoint_locks (locks b f) (locks b c)" and g: "grown b f" by (simp_all add: overlap_def)
  note rows = locked_apart(1-3) [OF apart] and uniq = overlap_distinct [OF assms]
  have "evolves tool_call_progress (db_tool_calls c) (db_tool_calls (merge b f c))"
    unfolding merge_simps
    by (rule evolves_merge_rows [OF rows(1) uniq(1)]) (use g in \<open>simp_all add: grown_def tool_call_progress_def\<close>)
  moreover have "evolves approval_progress (db_approvals c) (db_approvals (merge b f c))"
    unfolding merge_simps
    by (rule evolves_merge_rows [OF rows(2) uniq(3)]) (use g in \<open>simp_all add: grown_def\<close>, simp add: approval_progress_def)
  moreover have "prefix (db_audit_events c) (db_audit_events (merge b f c))"
    unfolding merge_simps prefix_evolves
    by (rule evolves_merge_rows [OF rows(3) uniq(5)]) (use g in \<open>simp_all add: grown_def prefix_evolves\<close>)
  ultimately show ?thesis by (simp add: grown_def evolves_refl)
qed

lemma set_merge:
  assumes "overlap b f c"
  shows "set (db_tool_calls (merge b f c)) = {r \<in> set (db_tool_calls c).
      tc_id r \<notin> tc_id ` set (changed (db_tool_calls b) (db_tool_calls f))} \<union> set (changed (db_tool_calls b) (db_tool_calls f))"
    "set (db_approvals (merge b f c)) = {r \<in> set (db_approvals c).
      ap_id r \<notin> ap_id ` set (changed (db_approvals b) (db_approvals f))} \<union> set (changed (db_approvals b) (db_approvals f))"
    "set (db_audit_events (merge b f c)) \<subseteq> set (db_audit_events c) \<union> set (db_audit_events f)"
  unfolding merge_simps using overlap_distinct [OF assms]
  by (simp_all add: set_merge_rows distinct_changed) (auto simp: in_changed)

lemma merge_rows_ok:
  assumes "overlap b f c"
  shows "rows_ok (merge b f c)"
proof -
  have ok: "rows_ok f" "rows_ok c" using assms by (simp_all add: overlap_def db_inv_def)
  note s = set_merge [OF assms]
  have "list_all tool_call_ok (db_tool_calls (merge b f c))" "list_all approval_ok (db_approvals (merge b f c))"
    "list_all audit_ok (db_audit_events (merge b f c))"
    unfolding list_all_iff s(1,2) using ok s(3) by (auto simp: rows_ok_def list_all_iff in_changed)
  with ok(2) show ?thesis by (simp add: rows_ok_def)
qed

lemma merge_keys_ok:
  assumes "overlap b f c"
  shows "keys_ok (merge b f c)"
proof -
  from assms have apart: "disjoint_locks (locks b f) (locks b c)" and g: "grown b f"
    and ok: "keys_ok f" "keys_ok c" by (simp_all add: overlap_def db_inv_def)
  note rows = locked_apart [OF apart] and uniq = overlap_distinct [OF assms]
  have "distinct (idempotency_keys (db_tool_calls (merge b f c)))"
    unfolding merge_simps idempotency_keys_def
    by (rule unique_merge_rows [where R = tool_call_progress])
      (use g ok rows(4) uniq in \<open>simp_all add: rows(1) grown_def keys_ok_def idempotency_keys_def tool_call_progress_def\<close>)
  moreover have "distinct (map ap_tool_call_id (filter (\<lambda>_. True) (db_approvals (merge b f c))))"
    unfolding merge_simps
    by (rule unique_merge_rows [where R = approval_progress])
      (use g ok rows(5) uniq in \<open>simp_all add: rows(2) grown_def keys_ok_def approval_progress_def\<close>)
  moreover have "distinct (map tc_id (db_tool_calls (merge b f c)))" "distinct (map ap_id (db_approvals (merge b f c)))"
    "distinct (map ae_event_id (db_audit_events (merge b f c)))"
    unfolding merge_simps using uniq by (simp_all add: distinct_merge_rows distinct_changed)
  ultimately show ?thesis using ok(2) by (simp add: keys_ok_def)
qed


lemma evolves_keys:
  assumes "evolves R t t'" and "\<And>x y. R x y \<Longrightarrow> key y = key x"
  shows "key ` set t \<subseteq> key ` set t'"
  using evolves_row [OF assms(1)] assms(2) by (metis (no_types, lifting) image_iff image_subsetI)

lemma image_within:
  "m \<subseteq> c \<union> f \<Longrightarrow> g ` c \<subseteq> A \<Longrightarrow> g ` f \<subseteq> B \<Longrightarrow> B \<subseteq> A \<Longrightarrow> g ` m \<subseteq> A"
  by blast

lemma merge_refs_ok:
  assumes "overlap b f c"
  shows "refs_ok (merge b f c)"
proof -
  let ?m = "merge b f c"
  from assms have ok: "refs_ok f" "refs_ok c" and g: "grown b f" "grown b c"
    and reg: "db_tenants f = db_tenants b" "map ag_id (db_agents f) = map ag_id (db_agents b)"
    by (simp_all add: overlap_def db_inv_def)
  note s = set_merge [OF assms]
  have tenants: "tn_id ` set (db_tenants f) \<subseteq> tn_id ` set (db_tenants c)"
    using g(2) reg(1) set_mono_prefix by (auto simp: grown_def)
  have "ag_id ` set (db_agents f) = ag_id ` set (db_agents b)"
    using reg(2) by (metis list.set_map)
  also have "\<dots> \<subseteq> ag_id ` set (db_agents c)"
    by (rule evolves_keys [where R = agent_progress]) (use g(2) in \<open>simp_all add: grown_def agent_progress_def\<close>)
  finally have agents: "ag_id ` set (db_agents f) \<subseteq> ag_id ` set (db_agents c)" .
  have calls: "tc_id ` set (db_tool_calls c) \<subseteq> tc_id ` set (db_tool_calls ?m)"
    using grown_merge [OF assms]
    by (intro evolves_keys [where R = tool_call_progress]) (simp_all add: grown_def tool_call_progress_def)
  have old: "tc_id ` set (db_tool_calls f) \<subseteq> tc_id ` set (db_tool_calls ?m)"
  proof
    fix i assume "i \<in> tc_id ` set (db_tool_calls f)"
    then obtain r where r: "r \<in> set (db_tool_calls f)" "tc_id r = i" by auto
    have "tc_id ` set (db_tool_calls b) \<subseteq> tc_id ` set (db_tool_calls c)"
      using g(2) by (intro evolves_keys [where R = tool_call_progress]) (simp_all add: grown_def tool_call_progress_def)
    with calls have "i \<in> tc_id ` set (db_tool_calls ?m)" if "r \<in> set (db_tool_calls b)"
      using r that by blast
    moreover have "r \<in> set (db_tool_calls ?m)" if "r \<notin> set (db_tool_calls b)"
      unfolding s(1) using r that by (simp add: in_changed)
    ultimately show "i \<in> tc_id ` set (db_tool_calls ?m)" using r by blast
  qed
  have sub: "set (db_tool_calls ?m) \<subseteq> set (db_tool_calls c) \<union> set (db_tool_calls f)"
    "set (db_approvals ?m) \<subseteq> set (db_approvals c) \<union> set (db_approvals f)"
    unfolding s(1,2) by (auto simp: in_changed)
  have "tc_tenant_id ` set (db_tool_calls ?m) \<subseteq> tn_id ` set (db_tenants c)"
    by (rule image_within [OF sub(1) _ _ tenants]) (use ok in \<open>simp_all add: refs_ok_def Let_def\<close>)
  moreover have "tc_agent_id ` set (db_tool_calls ?m) \<subseteq> ag_id ` set (db_agents c)"
    by (rule image_within [OF sub(1) _ _ agents]) (use ok in \<open>simp_all add: refs_ok_def Let_def\<close>)
  moreover have "ap_tenant_id ` set (db_approvals ?m) \<subseteq> tn_id ` set (db_tenants c)"
    by (rule image_within [OF sub(2) _ _ tenants]) (use ok in \<open>simp_all add: refs_ok_def Let_def\<close>)
  moreover have "ap_agent_id ` set (db_approvals ?m) \<subseteq> ag_id ` set (db_agents c)"
    by (rule image_within [OF sub(2) _ _ agents]) (use ok in \<open>simp_all add: refs_ok_def Let_def\<close>)
  moreover have "ap_tool_call_id ` set (db_approvals ?m) \<subseteq> tc_id ` set (db_tool_calls ?m)"
    by (rule image_within [OF sub(2) order_trans [OF _ calls] _ old])
      (use ok in \<open>simp_all add: refs_ok_def Let_def\<close>)
  ultimately show ?thesis using ok(2) by (simp add: refs_ok_def Let_def)
qed

lemma db_inv_merge: "overlap b f c \<Longrightarrow> db_inv (merge b f c)"
  by (simp add: db_inv_def merge_rows_ok merge_keys_ok merge_refs_ok)

section \<open>Settled flows\<close>

text \<open>What a returning tool call or review has done to the rows.\<close>

definition flow_effect :: "db \<Rightarrow> db \<Rightarrow> bool" where
  "flow_effect b f \<longleftrightarrow> f = b
   \<or> (\<exists>c e. f = add_audits [e] (add_call c b) \<and> call_finished c)
   \<or> (\<exists>c a e. f = add_audits [e] (add_approval a (add_call c b)) \<and> call_waiting c \<and> approval_of a c
        \<and> ap_status a = ''pending'')
   \<or> (\<exists>a0 a c evs. look_approval (ap_id a) b = Some a0 \<and> ap_status a0 = ''pending''
        \<and> f = add_audits evs (set_approval a (set_call c b)) \<and> pair_settled a c
        \<and> ap_tool_call_id a = ap_tool_call_id a0)"

lemma flow_effect_registry:
  "flow_effect b f \<Longrightarrow> db_tenants f = db_tenants b \<and> map ag_id (db_agents f) = map ag_id (db_agents b)"
  by (auto simp: flow_effect_def row_effect_defs)


lemma flows_ok_sets:
  "set (db_tool_calls d) = set (db_tool_calls d') \<Longrightarrow> set (db_approvals d) = set (db_approvals d') \<Longrightarrow>
    flows_ok d = flows_ok d'"
  by (simp add: flows_ok_def)

text \<open>A new row of the one transaction is a new row for the other one, too.\<close>

lemma fresh_merge_rows:
  assumes "apart_rows key b (b @ [x]) c" and "distinct (map key (b @ [x]))"
  shows "{r \<in> set c. key r \<notin> key ` set (changed b (b @ [x]))} \<union> set (changed b (b @ [x])) = set c \<union> {x}"
proof -
  have "set (changed b (b @ [x])) = {x}" using assms(2) by (auto simp: changed_def)
  moreover have "key r \<noteq> key x" if r: "r \<in> set c" for r
  proof (cases "r \<in> set b")
    case True
    with assms(2) have "key r \<in> key ` set b" "key x \<notin> key ` set b" by simp_all
    then show ?thesis by metis
  next
    case False
    with r have "r \<in> set (changed b c)" by (simp add: in_changed)
    with assms(1) calculation show ?thesis unfolding apart_rows_def by (metis singletonI)
  qed
  ultimately show ?thesis by auto
qed

lemma appended_merge:
  assumes "overlap b f c"
  shows "db_tool_calls f = db_tool_calls b @ [k] \<Longrightarrow>
      set (db_tool_calls (merge b f c)) = set (db_tool_calls c) \<union> {k}"
    "db_approvals f = db_approvals b @ [a] \<Longrightarrow>
      set (db_approvals (merge b f c)) = set (db_approvals c) \<union> {a}"
proof -
  have apart: "disjoint_locks (locks b f) (locks b c)" using assms by (simp add: overlap_def)
  show "set (db_tool_calls (merge b f c)) = set (db_tool_calls c) \<union> {k}" if "db_tool_calls f = db_tool_calls b @ [k]"
    unfolding set_merge(1) [OF assms] that
    by (rule fresh_merge_rows)
      (use locked_apart(1) [OF apart] overlap_distinct(1) [OF assms] that in simp_all)
  show "set (db_approvals (merge b f c)) = set (db_approvals c) \<union> {a}" if "db_approvals f = db_approvals b @ [a]"
    unfolding set_merge(2) [OF assms] that
    by (rule fresh_merge_rows)
      (use locked_apart(2) [OF apart] overlap_distinct(3) [OF assms] that in simp_all)
qed

text \<open>The replacement of a row that the other transaction has not written.\<close>

lemma replaced_merge_rows:
  assumes "x \<notin> set b" and "key x \<in> key ` set b" and "key ` set b \<subseteq> key ` set c"
  shows "{r \<in> set c. key r \<notin> key ` set (changed b (update_rows (\<lambda>r. key r = key x) (\<lambda>_. x) b))}
      \<union> set (changed b (update_rows (\<lambda>r. key r = key x) (\<lambda>_. x) b))
    = set (update_rows (\<lambda>r. key r = key x) (\<lambda>_. x) c)"
proof -
  have in_b: "x \<in> set (update_rows (\<lambda>r. key r = key x) (\<lambda>_. x) t)" if "key x \<in> key ` set t" for t
    using that by (metis imageE mem_set_row(2))
  have "set (changed b (update_rows (\<lambda>r. key r = key x) (\<lambda>_. x) b)) = {x}"
    using assms(1) in_b [OF assms(2)] by (auto simp: in_changed elim: set_rowE)
  moreover have "set (update_rows (\<lambda>r. key r = key x) (\<lambda>_. x) c) = {r \<in> set c. key r \<noteq> key x} \<union> {x}"
    using in_b [of c] assms(2,3) by (auto intro: mem_set_row(1) elim: set_rowE)
  ultimately show ?thesis by auto
qed

lemma flows_merge_settled:
  assumes ov: "overlap b (add_audits evs (set_approval a (set_call k b))) c"
    and b: "db_inv b" "flows_ok b" and c: "flows_ok c"
    and a0: "look_approval (ap_id a) b = Some a0" "ap_status a0 = ''pending''" "ap_tool_call_id a = ap_tool_call_id a0"
    and pair: "pair_settled a k"
  shows "flows_ok (merge b (add_audits evs (set_approval a (set_call k b))) c)"
proof -
  let ?f = "add_audits evs (set_approval a (set_call k b))"
  have inv: "db_inv c" and g: "grown b c" using ov by (simp_all add: overlap_def)
  have g': "evolves approval_progress (db_approvals b) (db_approvals c)"
    "evolves tool_call_progress (db_tool_calls b) (db_tool_calls c)"
    using g by (simp_all add: grown_def)
  have keys: "ap_id ` set (db_approvals b) \<subseteq> ap_id ` set (db_approvals c)"
    "tc_id ` set (db_tool_calls b) \<subseteq> tc_id ` set (db_tool_calls c)"
    by (rule evolves_keys [OF g'(1)], simp add: approval_progress_def)
      (rule evolves_keys [OF g'(2)], simp add: tool_call_progress_def)
  have mem: "a0 \<in> set (db_approvals b)" "ap_id a0 = ap_id a" using look_mem(1) [OF a0(1)] by simp_all
  from pending_awaits [OF b(2,1) a0(1,2)] obtain k0 where "awaiting (ap_id a) a0 k0 b" "call_waiting k0" .
  then have k0: "k0 \<in> set (db_tool_calls b)" "tc_id k0 = tc_id k" "call_waiting k0"
    using look_mem(2) pair a0(3) by (auto simp: awaiting_def pair_settled_def)
  have new: "a \<notin> set (db_approvals b)" "k \<notin> set (db_tool_calls b)"
  proof -
    have "a0 \<noteq> a" using a0(2) pair by (auto simp: pair_settled_def)
    with mem b(1) show "a \<notin> set (db_approvals b)" by (auto simp: inv_defs dest: distinct_map_eq)
    have "k0 \<noteq> k" using k0(3) pair by (auto simp: call_waiting_def pair_settled_def)
    with k0 b(1) show "k \<notin> set (db_tool_calls b)" by (auto simp: inv_defs dest: distinct_map_eq)
  qed
  obtain a1 where a1: "a1 \<in> set (db_approvals c)" "approval_progress a0 a1" by (rule evolves_row [OF g'(1) mem(1)])
  then have look: "look_approval (ap_id a) c = Some a1" "ap_tool_call_id a = ap_tool_call_id a1"
    using inv a0(3) mem(2) distinct_map_find_row [of ap_id "db_approvals c" a1]
    by (simp_all add: approval_progress_def look_approval_def find_id_def inv_defs)
  have "flows_ok (add_audits evs (set_approval a (set_call k c)))"
    by (rule flows_settles [OF c inv look(1) refl look(2) pair])
  moreover have "set (db_tool_calls (merge b ?f c)) = set (db_tool_calls (add_audits evs (set_approval a (set_call k c))))"
    unfolding set_merge(1) [OF ov]
    using replaced_merge_rows [OF new(2), of tc_id "db_tool_calls c"] k0(1,2) keys(2)
    by (simp add: row_effect_defs) (metis imageI)
  moreover have "set (db_approvals (merge b ?f c)) = set (db_approvals (add_audits evs (set_approval a (set_call k c))))"
    unfolding set_merge(2) [OF ov]
    using replaced_merge_rows [OF new(1), of ap_id "db_approvals c"] mem keys(1)
    by (simp add: row_effect_defs) (metis imageI)
  ultimately show ?thesis using flows_ok_sets by blast
qed

lemma flows_merge:
  assumes ov: "overlap b f c" and eff: "flow_effect b f" and b: "db_inv b" "flows_ok b" and c: "flows_ok c"
  shows "flows_ok (merge b f c)"
  using eff [unfolded flow_effect_def]
proof (elim disjE exE conjE)
  assume "f = b"
  then show ?thesis using c by (subst flows_ok_sets [of _ c]) (simp_all add: changed_def merge_rows_def table_simps)
next
  fix k e assume f: "f = add_audits [e] (add_call k b)" and k: "call_finished k"
  have "set (db_tool_calls (merge b f c)) = set (db_tool_calls c) \<union> {k}"
    by (rule appended_merge(1) [OF ov]) (simp add: f row_effect_defs)
  moreover have "set (db_approvals (merge b f c)) = set (db_approvals c)"
    unfolding set_merge(2) [OF ov] by (simp add: f row_effect_defs changed_def)
  ultimately show ?thesis using c k by (simp add: flows_ok_def)
next
  fix k a e assume f: "f = add_audits [e] (add_approval a (add_call k b))"
    and k: "call_waiting k" "approval_of a k" "ap_status a = ''pending''"
  have "set (db_tool_calls (merge b f c)) = set (db_tool_calls c) \<union> {k}"
    by (rule appended_merge(1) [OF ov]) (simp add: f row_effect_defs)
  moreover have "set (db_approvals (merge b f c)) = set (db_approvals c) \<union> {a}"
    by (rule appended_merge(2) [OF ov]) (simp add: f row_effect_defs)
  ultimately show ?thesis using c k by (simp add: flows_ok_def) blast
next
  fix a0 a k evs
  assume "look_approval (ap_id a) b = Some a0" "ap_status a0 = ''pending''"
    and f: "f = add_audits evs (set_approval a (set_call k b))" and "pair_settled a k"
    and "ap_tool_call_id a = ap_tool_call_id a0"
  then show ?thesis using flows_merge_settled [OF ov [unfolded f] b c] by simp
qed

end
