(* ===== verification/Event_Loop.thy ===== *)
theory Event_Loop
  imports Row_Merge Upstream_Safety
begin

text \<open>
  Requests that overlap. The handlers are coroutines on the one thread of an event loop: a handler
  runs until it awaits an upstream call, other requests are served meanwhile, and it goes on when
  the call has come back. Its session is open all the time, so what it has written is neither
  visible to others nor lost. The statements of a session are not awaited: one that meets a row,
  or a value of a unique column, that another open session has written waits in the database for
  that session, and holds the thread.

  This covers the tool calls and the reviews. A discovery of tools awaits before it writes, and
  takes place when it is resumed.
\<close>

section \<open>Tasks\<close>

text \<open>
  A client whose calls do not come back: with it a handler gets as far as its await, and the
  exception, which no handler names, leaves the session as it is there.
\<close>

definition parked :: mcp_client where
  "parked = \<lparr>mc_list_tools = (\<lambda>n server tm. Inl (UncaughtError ''CancelledError'')),
     mc_call_tool = (\<lambda>n server tool arguments tm. Inl (UncaughtError ''CancelledError''))\<rparr>"

definition at_await :: "host \<Rightarrow> settings \<Rightarrow> mcp_client option \<Rightarrow> api_request \<Rightarrow> world \<Rightarrow> world" where
  "at_await h st client req w = snd (handle h st (map_option (\<lambda>_. parked) client) req w)"

definition awaits :: "host \<Rightarrow> settings \<Rightarrow> mcp_client option \<Rightarrow> api_request \<Rightarrow> world \<Rightarrow> bool" where
  "awaits h st client req w \<longleftrightarrow> touches_flows req
     \<and> w_upstream (at_await h st client req w) \<noteq> w_upstream w"

record task =
  tk_request :: api_request
  tk_start :: world
  tk_await :: world

record event_loop =
  lp_world :: world
  lp_tasks :: "task list"
  lp_stopped :: bool

definition task_locks :: "task \<Rightarrow> lock list" where
  "task_locks t = locks (w_committed (tk_start t)) (w_db (tk_await t))"

definition held :: "task list \<Rightarrow> lock list" where
  "held ts = concat (map task_locks ts)"

definition new_session :: "world \<Rightarrow> world" where
  "new_session w = w\<lparr>w_db := w_committed w\<rparr>"

section \<open>Steps\<close>

text \<open>
  A request arrives. It runs to its end, or to its await, unless it meets a lock. The upstream log
  is that of the run with the client itself, whose answer depends on the number of the call.
\<close>

definition arrive :: "host \<Rightarrow> settings \<Rightarrow> mcp_client option \<Rightarrow> api_request \<Rightarrow> event_loop \<Rightarrow> event_loop" where
  "arrive h st client req s =
    (if lp_stopped s then s
     else let w = new_session (lp_world s);
              ended = snd (handle h st client req w);
              w' = (if awaits h st client req w then at_await h st client req w else ended)
       in if \<not> disjoint_locks (locks (w_db w) (w_db w')) (held (lp_tasks s))
          then s\<lparr>lp_stopped := True\<rparr>
          else if awaits h st client req w
            then s\<lparr>lp_world := w'\<lparr>w_db := w_db w, w_committed := w_db w, w_upstream := w_upstream ended\<rparr>,
                   lp_tasks := lp_tasks s @ [\<lparr>tk_request = req, tk_start = w, tk_await = w'\<rparr>]\<rparr>
            else s\<lparr>lp_world := rollback w'\<rparr>)"

text \<open>
  The clock and the random sources after an await go on from where the other requests have left
  them.
\<close>

definition resumed_source :: "(nat \<Rightarrow> 'a) \<Rightarrow> nat \<Rightarrow> nat \<Rightarrow> nat \<Rightarrow> 'a" where
  "resumed_source src await now n = src (if n < await then n else n - await + now)"

definition later_host :: "host \<Rightarrow> world \<Rightarrow> world \<Rightarrow> host" where
  "later_host h await now = h\<lparr>
     h_now := resumed_source (h_now h) (w_clock await) (w_clock now),
     h_uuid4 := resumed_source (h_uuid4 h) (w_uuids await) (w_uuids now),
     h_token_urlsafe := resumed_source (h_token_urlsafe h) (w_tokens await) (w_tokens now),
     h_policy_read_ok := resumed_source (h_policy_read_ok h) (w_policy_reads await) (w_policy_reads now)\<rparr>"

text \<open>
  What a task that has come to its end leaves: its rows over the committed ones when it returns,
  and nothing when it raises, or when a row it has inserted after its await has a key that has been
  committed in the meantime.
\<close>

definition finish_task :: "task \<Rightarrow> exn + api_response \<Rightarrow> world \<Rightarrow> world \<Rightarrow> world" where
  "finish_task t r ended now = (let base = w_committed (tk_start t);
       c = (case r of
              Inl e \<Rightarrow> w_committed now
            | Inr x \<Rightarrow> if disjoint_locks (locks base (w_committed ended)) (locks base (w_committed now))
                then merge base (w_committed ended) (w_committed now) else w_committed now)
     in now\<lparr>w_db := c, w_committed := c,
         w_clock := w_clock now + (w_clock ended - w_clock (tk_await t)),
         w_uuids := w_uuids now + (w_uuids ended - w_uuids (tk_await t)),
         w_tokens := w_tokens now + (w_tokens ended - w_tokens (tk_await t)),
         w_policy_reads := w_policy_reads now + (w_policy_reads ended - w_policy_reads (tk_await t))\<rparr>)"

definition without_nth :: "nat \<Rightarrow> 'a list \<Rightarrow> 'a list" where
  "without_nth n xs = take n xs @ drop (Suc n) xs"

text \<open>The upstream call of the \<open>n\<close>-th task has come back.\<close>

definition resume :: "host \<Rightarrow> settings \<Rightarrow> mcp_client option \<Rightarrow> nat \<Rightarrow> event_loop \<Rightarrow> event_loop" where
  "resume h st client n s =
    (if lp_stopped s \<or> length (lp_tasks s) \<le> n then s
     else let t = lp_tasks s ! n;
              others = without_nth n (lp_tasks s);
              (r, ended) = handle (later_host h (tk_await t) (lp_world s)) st client (tk_request t) (tk_start t)
       in if \<not> disjoint_locks (locks (w_committed (tk_start t)) (w_db ended)) (held others)
          then s\<lparr>lp_stopped := True\<rparr>
          else s\<lparr>lp_tasks := others, lp_world := finish_task t r ended (lp_world s)\<rparr>)"

text \<open>The steps of the process, and the operator's seeding beside it.\<close>

definition store_rows :: "db \<Rightarrow> event_loop \<Rightarrow> event_loop" where
  "store_rows d s = s\<lparr>lp_world := (lp_world s)\<lparr>w_committed := d, w_db := d\<rparr>\<rparr>"

inductive loop_step :: "host \<Rightarrow> settings \<Rightarrow> mcp_client option \<Rightarrow> event_loop \<Rightarrow> event_loop \<Rightarrow> bool"
  for h :: host and st :: settings and client :: "mcp_client option" where
  arrives: "loop_step h st client s (arrive h st client req s)"
| resumes: "loop_step h st client s (resume h st client n s)"
| seeds_tenant: "insert_tenant t (w_committed (lp_world s)) = Inr d \<Longrightarrow> loop_step h st client s (store_rows d s)"
| seeds_policy: "insert_policy p (w_committed (lp_world s)) = Inr d \<Longrightarrow> loop_step h st client s (store_rows d s)"

inductive_cases loop_stepE: "loop_step h st client s s'"

section \<open>What a run leaves in its session\<close>

lemma session_simps [simp]:
  "w_db (new_session w) = w_committed w" "w_committed (new_session w) = w_committed w"
  "w_upstream (new_session w) = w_upstream w"
  by (simp_all add: new_session_def)

lemma wp_then_commit: "wp m (\<lambda>x. wp commit (\<lambda>y w'. w_committed w' = w_db w') anyhow) anyhow w"
  by (rule wp_mono [OF wp_whatever]) (simp_all add: wp_commit)

lemma handle_committed:
  "touches_flows req \<Longrightarrow> wp (handle h st client req) (\<lambda>x w'. w_committed w' = w_db w') anyhow w"
  by (cases req) (auto simp: touches_flows_def route_defs admin_def committing_def wp_simps case_prod_beta
      intro!: wp_authenticate wp_then_commit split: sum.split)

lemma handle_effect:
  assumes "touches_flows req" and ok: "flows_ok (w_db w)" "db_inv (w_db w)"
  shows "wp (handle h st client req)
    (\<lambda>x w'. grown (w_db w) (w_committed w') \<longrightarrow> flow_effect (w_db w) (w_committed w')) anyhow w"
proof -
  from assms(1) consider auth body where "req = PostToolCall auth body"
    | auth i reason where "req = ApproveApproval auth i reason \<or> req = DenyApproval auth i reason"
    by (cases req) (auto simp: touches_flows_def)
  then show ?thesis
  proof cases
    case 1
    have "flow_effect d d'" if "call_answered arguments r d u d' u'" for arguments r d u d' u'
      using that unfolding call_answered_def flow_effect_def call_recorded_def call_suspended_def
        call_finished_def call_waiting_def approval_of_def by fastforce
    then show ?thesis
      unfolding 1 by (intro wp_handle_call) (use ok in \<open>auto simp: db_inv_ids\<close>)
  next
    case 2
    have "flow_effect d d'" if s: "settles i d r d'" and g: "grown d d'"
      and a0: "look_approval i d = Some a0" "ap_status a0 = ''pending''" for r d d' a0
    proof -
      from s obtain a c evs where d': "d' = add_audits evs (set_approval a (set_call c d))"
        and a: "ap_id a = i" "pair_settled a c" by (auto simp: settles_def)
      have "approval_progress a0 a"
        by (rule evolves_set_row [where key = ap_id and i = i and t = "db_approvals d"])
          (use g look_mem(1) [OF a0(1)] in \<open>simp_all add: grown_def d' row_effect_defs a(1)\<close>)
      then have "ap_tool_call_id a = ap_tool_call_id a0" by (simp add: approval_progress_def)
      with d' a a0 show ?thesis unfolding flow_effect_def by blast
    qed
    then show ?thesis
      by (intro wp_handle_review [OF ok 2]) blast
  qed
qed


section \<open>A review writes its approval\<close>

definition moved :: "uuid \<Rightarrow> world \<Rightarrow> bool" where
  "moved i w \<longleftrightarrow> (\<exists>a. look_approval i (w_db w) = Some a \<and> ap_status a \<noteq> ''pending'')"

lemma wp_conj:
  "wp m Q E w \<Longrightarrow> wp m Q' E' w \<Longrightarrow> wp m (\<lambda>x s. Q x s \<and> Q' x s) (\<lambda>e s. E e s \<and> E' e s) w"
  by (simp add: wp_def split: prod.splits sum.splits)

lemma kept_moved:
  assumes "request_inv d u c w" and "look_approval i d = Some a" and "ap_status a \<noteq> ''pending''"
  shows "moved i w"
proof -
  from assms(1) have "evolves approval_progress (db_approvals d) (db_approvals (w_db w))" "db_inv (w_db w)"
    by (simp_all add: request_inv_def grown_def)
  moreover have "a \<in> set (db_approvals d)" "ap_id a = i" using look_mem(1) [OF assms(2)] by simp_all
  ultimately obtain a' where "a' \<in> set (db_approvals (w_db w))" "approval_progress a a'" "db_inv (w_db w)"
    by (meson evolves_row)
  then have "look_approval i (w_db w) = Some a'" "ap_status a' \<noteq> ''pending''"
    using \<open>ap_id a = i\<close> assms(3) distinct_map_find_row [of ap_id "db_approvals (w_db w)" a']
    by (auto simp: look_approval_def find_id_def inv_defs approval_progress_def approval_reaches_def)
  then show ?thesis by (simp add: moved_def)
qed

lemma transition_moves:
  assumes inv: "db_inv (w_db w)" and a: "look_approval i (w_db w) = Some a" "ap_status a = ''pending''"
    and n: "approval_moves AP_PENDING n"
    and rest: "\<And>a' d u c. approval_ok a' \<Longrightarrow> keeps (request_inv d u c) (f (Some a')) (\<lambda>_. True)"
  shows "wp (seq (approval_transition_status h i AP_PENDING n rr) f) (\<lambda>_. moved i) (\<lambda>_. moved i) w"
proof -
  let ?a = "\<lambda>t. transition_values t n rr a"
  let ?inv = "request_inv (w_db w) (w_upstream w) (w_committed w)"
  have moves: "wp (approval_transition_status h i AP_PENDING n rr)
      (\<lambda>x w'. \<exists>t. x = Some (?a t) \<and> w_db w' = set_approval (?a t) (w_db w)) (\<lambda>_ _. False) w"
    by (rule wp_transition [where a = a]) (use a db_inv_ids [OF inv] in auto)
  have "?inv w" using inv by (simp add: request_inv_def grown_refl)
  with keeps_transitions(3) [OF n, of "w_db w" "w_upstream w" "w_committed w" h i rr]
  have inv': "wp (approval_transition_status h i AP_PENDING n rr)
      (\<lambda>x w'. ?inv w' \<and> pred_option approval_ok x) (\<lambda>_. ?inv) w"
    by (simp add: keeps_def)
  show ?thesis
    unfolding wp_seq
  proof (rule wp_mono [OF wp_conj [OF moves inv']]; elim conjE exE)
    fix x w' t
    assume x: "x = Some (?a t)" and db: "w_db w' = set_approval (?a t) (w_db w)"
      and kept: "?inv w'" and ok: "pred_option approval_ok x"
    have start: "request_inv (w_db w') (w_upstream w') (w_committed w') w'"
      using kept by (simp add: request_inv_def grown_refl)
    have id: "ap_id a = i" using look_mem(1) [OF a(1)] by simp
    then have look: "look_approval i (w_db w') = Some (?a t)"
      using a(1) by (simp add: db)
    have status: "ap_status (?a t) \<noteq> ''pending''"
      using n by (cases n) (simp_all add: approval_moves_def)
    have "wp (f x) (\<lambda>y w2. request_inv (w_db w') (w_upstream w') (w_committed w') w2 \<and> True)
        (\<lambda>_. request_inv (w_db w') (w_upstream w') (w_committed w')) w'"
      using rest [of "?a t"] ok start by (simp add: keeps_def x)
    then show "wp (f x) (\<lambda>_. moved i) (\<lambda>_. moved i) w'"
      by (rule wp_mono) (auto intro: kept_moved [OF _ look status])
  qed simp
qed


lemma moved_simps [simp]: "moved i (w\<lparr>w_committed := c\<rparr>) = moved i w"
  by (simp add: moved_def)

lemma review_moves:
  assumes inv: "db_inv (w_db w)" and a: "look_approval i (w_db w) = Some a" "ap_status a = ''pending''"
  shows "wp (approve_approval h srv (execute_approved_tool_call h calls) i reason) (\<lambda>_. moved i) (\<lambda>_. moved i) w"
    "wp (deny_approval h srv i reason) (\<lambda>_. moved i) (\<lambda>_. moved i) w"
proof -
  let ?w = "w\<lparr>w_clock := Suc (w_clock w)\<rparr>"
  have pending: "db_inv (w_db ?w)" "look_approval i (w_db ?w) = Some a" using inv a by simp_all
  note moves = transition_moves [OF pending a(2)]
  have expire: "wp (expire_approval h srv i) (\<lambda>_. moved i) (\<lambda>_. moved i) ?w"
    unfolding expire_approval_def
    by (rule moves) (simp, (rule TrueI keeps_intros | (simp; fail))+)
  have approve: "wp (seq (approval_transition_status h i AP_PENDING AP_APPROVED (Some reason))
        (\<lambda>approved. case approved of
          None \<Rightarrow> raise_p (AppError ApprovalNotPendingError)
        | Some approval' \<Rightarrow>
            seq (append_approval_audit h srv approval' None ''approved'' None) (\<lambda>_.
            execute_approved_tool_call h calls approval'))) (\<lambda>_. moved i) (\<lambda>_. moved i) ?w"
    by (rule moves) (simp, (rule TrueI keeps_intros | (simp; fail))+)
  have deny: "wp (seq (approval_transition_status h i AP_PENDING AP_DENIED (Some reason))
        (\<lambda>denied. case denied of
          None \<Rightarrow> raise_p (AppError ApprovalNotPendingError)
        | Some approval' \<Rightarrow>
            seq (mark_tool_call_denied h srv (ap_tool_call_id approval') ''approval_denied'')
              (\<lambda>tool_call.
            seq (append_approval_audit h srv approval' (Some tool_call) ''denied''
                   (Some ''approval_denied'')) (\<lambda>_.
            seq (member_or_raise (tool_call_status_of (tc_status tool_call))) (\<lambda>st.
            return_p \<lparr>ar_approval_id = ap_id approval', ar_tool_call_id = ap_tool_call_id approval',
              ar_status = AP_DENIED, ar_tool_call_status = st, ar_result = None,
              ar_error = None\<rparr>))))) (\<lambda>_. moved i) (\<lambda>_. moved i) ?w"
    by (rule moves) (simp, (rule TrueI keeps_intros | (simp; fail))+)
  have first: "wp (seq (get_approval_or_raise i) f) Q E w = wp (f a) Q E w" for f :: "approval_row \<Rightarrow> 'a gw" and Q E
    using a(1) by (simp add: wp_simps)
  have clock: "wp (seq (utc_now h) f) Q E w = wp (f (h_now h (w_clock w))) Q E ?w"
    for f :: "datetime \<Rightarrow> 'a gw" and Q E
    by (simp add: wp_simps)
  show "wp (approve_approval h srv (execute_approved_tool_call h calls) i reason) (\<lambda>_. moved i) (\<lambda>_. moved i) w"
    unfolding approve_approval_def first using a(2) expire approve by (simp add: clock)
  show "wp (deny_approval h srv i reason) (\<lambda>_. moved i) (\<lambda>_. moved i) w"
    unfolding deny_approval_def first using a(2) expire deny by (simp add: clock)
qed

definition reviews :: "host \<Rightarrow> settings \<Rightarrow> api_request \<Rightarrow> uuid \<Rightarrow> bool" where
  "reviews h st req i \<longleftrightarrow> (\<exists>auth reason. require_admin h st auth = Inr () \<and>
     (req = ApproveApproval auth i reason \<or> req = DenyApproval auth i reason))"

lemma handled_review_moves:
  assumes "reviews h st req i" and "db_inv (w_db w)"
    and "look_approval i (w_db w) = Some a" "ap_status a = ''pending''"
  shows "moved i (snd (handle h st client req w))"
proof -
  from assms(1) obtain auth reason where admin: "require_admin h st auth = Inr ()"
    and req: "req = ApproveApproval auth i reason \<or> req = DenyApproval auth i reason"
    by (auto simp: reviews_def)
  note moves = review_moves [OF assms(2-4)]
  have "wp (handle h st client req) (\<lambda>_. moved i) (\<lambda>_. moved i) w"
    using req admin
    by (auto simp: route_defs admin_def committing_def wp_simps case_prod_beta
        intro!: wp_mono [OF moves(1)] wp_mono [OF moves(2)])
  then show ?thesis by (simp add: wp_def split: prod.splits sum.splits)
qed

lemma moved_locks:
  assumes "moved i w" and "db_inv d" and "look_approval i d = Some a" "ap_status a = ''pending''"
  shows "ApprovalRow i \<in> set (locks d (w_db w))"
proof -
  from assms(1) obtain a' where a': "look_approval i (w_db w) = Some a'" "ap_status a' \<noteq> ''pending''"
    by (auto simp: moved_def)
  have "a' \<notin> set (db_approvals d)"
  proof
    assume "a' \<in> set (db_approvals d)"
    with assms(2,3) look_mem(1) [OF a'(1)] look_mem(1) [OF assms(3)] have "a' = a"
      by (auto simp: inv_defs dest: distinct_map_eq)
    with a'(2) assms(4) show False by simp
  qed
  with look_mem(1) [OF a'(1)] show ?thesis
    using locked_rows(3) [of a' d "w_db w"] by (auto simp: in_changed)
qed

text \<open>A task that executes an approval was started by an administrator while it was pending.\<close>

lemma awaiting_review:
  assumes "awaits h st client (ApproveApproval auth i reason) w" and "db_inv (w_db w)"
  shows "reviews h st (ApproveApproval auth i reason) i"
    "\<exists>a. look_approval i (w_db w) = Some a \<and> ap_status a = ''pending''"
proof -
  let ?req = "ApproveApproval auth i reason" and ?mc = "map_option (\<lambda>_. parked) client"
  have "sends (entitled h st (w_db w) ?req) (w_upstream w) (handle h st ?mc ?req) w"
    by (rule sends_handle) (use assms(2) in \<open>simp_all add: db_inv_ids\<close>)
  then have "sent (entitled h st (w_db w) ?req) (w_upstream w) (at_await h st client ?req w)"
    by (auto simp: wp_def at_await_def split: prod.splits sum.splits)
  with assms(1) obtain ev where "entitled h st (w_db w) ?req ev"
    by (auto simp: awaits_def sent_def)
  then show "reviews h st ?req i" "\<exists>a. look_approval i (w_db w) = Some a \<and> ap_status a = ''pending''"
    by (auto simp: reviews_def released_call_def)
qed


section \<open>A call writes its idempotency key\<close>

text \<open>The session has a call of the agent under the key that is not among the rows \<open>d\<close>.\<close>

definition identity :: "tool_call_row \<Rightarrow> uuid \<times> uuid \<times> uuid \<times> string option" where
  "identity r = (tc_id r, tc_tenant_id r, tc_agent_id r, tc_idempotency_key r)"

definition keyed :: "db \<Rightarrow> agent_dto \<Rightarrow> string option \<Rightarrow> world \<Rightarrow> bool" where
  "keyed d agent k w \<longleftrightarrow> (\<exists>i. i \<notin> tc_id ` set (db_tool_calls d) \<and>
     (i, dto_tenant_id agent, dto_id agent, k) \<in> set (map identity (db_tool_calls (w_db w))))"

lemma keyed_simps [simp]:
  "keyed d agent k (w\<lparr>w_clock := n\<rparr>) = keyed d agent k w"
  "keyed d agent k (w\<lparr>w_uuids := n\<rparr>) = keyed d agent k w"
  "keyed d agent k (w\<lparr>w_upstream := u\<rparr>) = keyed d agent k w"
  "keyed d agent k (w\<lparr>w_committed := c\<rparr>) = keyed d agent k w"
  by (simp_all add: keyed_def)

lemma keeps_keyed [keeps_intros]:
  "keeps (keyed d agent k) (tool_call_update h c r) (\<lambda>_. True)"
  "keeps (keyed d agent k) (append_tool_call_event h ev) (\<lambda>_. True)"
  "keeps (keyed d agent k) (try_upstream (upstream_call_tool mc server tool arguments tm)) (\<lambda>_. True)"
proof -
  have identity: "map identity (update_rows p (\<lambda>x. x\<lparr>tc_approval_id := a, tc_status := s, tc_error_code := e,
      tc_error_message := m, tc_updated_at := t\<rparr>) rows) = map identity rows" for p a s e m t rows
    by (rule map_update_rows) (simp add: identity_def)
  show "keeps (keyed d agent k) (tool_call_update h c r) (\<lambda>_. True)"
    unfolding keeps_def tool_call_update_def
    by (auto simp: wp_simps write_tool_call_def if_fits_def keyed_def put_defs identity simp del: set_map)
  show "keeps (keyed d agent k) (append_tool_call_event h ev) (\<lambda>_. True)"
    unfolding keeps_def append_tool_call_event_def audit_append_def
    by (auto simp: wp_simps insert_audit_event_def checked_def keyed_def simp del: set_map)
  show "keeps (keyed d agent k) (try_upstream (upstream_call_tool mc server tool arguments tm)) (\<lambda>_. True)"
    by (auto simp: keeps_def wp_try_upstream_call Let_def split: sum.split option.split)
qed

lemma keeps_keyed_outcome [keeps_intros]:
  "keeps (keyed d agent k) (finish_allowed h srv server tool request c) (\<lambda>_. True)"
  unfolding finish_allowed_def mark_upstream_failed_def append_tool_call_audit_def
  by (rule TrueI keeps_keyed keeps_intros)+

text \<open>Nothing was sent, or the call is in the session under its key.\<close>

definition sent_keyed :: "db \<Rightarrow> agent_dto \<Rightarrow> string option \<Rightarrow> upstream_event list \<Rightarrow> world \<Rightarrow> bool" where
  "sent_keyed d agent k u w \<longleftrightarrow> w_upstream w = u \<or> keyed d agent k w"

lemma keyed_if_quiet:
  assumes "\<And>u. keeps (quiet u) m (\<lambda>_. True)" and "w_upstream w = u"
  shows "wp m (\<lambda>_. sent_keyed d agent k u) (\<lambda>_. sent_keyed d agent k u) w"
  using wp_quiet [OF assms(1)] by (rule wp_mono) (simp_all add: sent_keyed_def assms(2))

lemma dispatch_keyed:
  assumes w: "w_upstream w = u" "w_db w = d"
  shows "wp (dispatch_call h srv agent request t server tool) (\<lambda>_. sent_keyed d agent (rq_idempotency_key request) u)
    (\<lambda>_. sent_keyed d agent (rq_idempotency_key request) u) w"
proof -
  let ?P = "sent_keyed d agent (rq_idempotency_key request) u"
  have allowed: "wp (finish_allowed h srv server tool request c) (\<lambda>_. ?P) (\<lambda>_. ?P) w1"
    if "keyed d agent (rq_idempotency_key request) w1" for c w1
  proof -
    have "wp (finish_allowed h srv server tool request c) (\<lambda>_ w'. keyed d agent (rq_idempotency_key request) w' \<and> True)
        (\<lambda>_. keyed d agent (rq_idempotency_key request)) w1"
      using keeps_keyed_outcome that by (simp add: keeps_def)
    then show ?thesis by (rule wp_mono) (simp_all add: sent_keyed_def)
  qed
  have create: "wp (create_tool_call h agent request t ev payload sh)
      (\<lambda>c w'. keyed d agent (rq_idempotency_key request) w' \<and> w_upstream w' = u) (\<lambda>_. ?P) w1"
    if w1: "w_upstream w1 = u" "w_db w1 = d" for ev payload sh w1
  proof (rule wp_with_quiet [where Q = "\<lambda>c. keyed d agent (rq_idempotency_key request)"])
    show "wp (create_tool_call h agent request t ev payload sh)
        (\<lambda>c. keyed d agent (rq_idempotency_key request)) anyhow w1"
      unfolding create_tool_call_def
      by (rule wp_create_call) (auto simp: keyed_def identity_def add_call_def put_defs fresh_call_def w1)
  qed (simp_all add: keeps_quiet_calls sent_keyed_def w1)
  have outcome: "wp (if pr_decision ev = DENY then finish_denied h c ev
      else if pr_decision ev = REQUIRE_APPROVAL then finish_pending h srv agent request c ev
      else finish_allowed h srv server tool request c) (\<lambda>_. ?P) (\<lambda>_. ?P) w1"
    if "keyed d agent (rq_idempotency_key request) w1" "w_upstream w1 = u" for ev c w1
    using that allowed by (auto intro!: keyed_if_quiet keeps_quiet_outcomes)
  have stored: "wp (seq (create_tool_call h agent request t ev payload sh) (\<lambda>c.
      if pr_decision ev = DENY then finish_denied h c ev
      else if pr_decision ev = REQUIRE_APPROVAL then finish_pending h srv agent request c ev
      else finish_allowed h srv server tool request c)) (\<lambda>_. ?P) (\<lambda>_. ?P) w1"
    if "w_upstream w1 = u" "w_db w1 = d" for ev payload sh w1
    unfolding wp_seq by (rule wp_mono [OF create [OF that]], erule conjE, erule (1) outcome, assumption)
  show ?thesis
  proof (cases "risk_level_of (td_risk_level tool)"; cases "action_type_of (td_action_type tool)")
    fix risk action
    assume ra: "risk_level_of (td_risk_level tool) = Some risk" "action_type_of (td_action_type tool) = Some action"
    show ?thesis
      unfolding dispatch_call_def wp_seq [of "member_or_raise m" for m] wp_member_or_raise ra option.case
        wp_seq [of "policy_repository_evaluate h agent request risk action"]
      by (rule wp_policy_repository_evaluate, rule stored) (simp_all add: w sent_keyed_def)
  qed (simp_all add: dispatch_call_def wp_simps sent_keyed_def w)
qed

lemma sent_keyed_quiet: "w_upstream w = u \<Longrightarrow> sent_keyed d agent k u w"
  by (simp add: sent_keyed_def)

lemma call_keyed:
  assumes w: "w_upstream w = u" "w_db w = d" and k: "rq_idempotency_key request = k"
  shows "wp (call_tool h srv agent request) (\<lambda>_. sent_keyed d agent k u) (\<lambda>_. sent_keyed d agent k u) w"
proof -
  let ?P = "sent_keyed d agent k u"
  have quiet: "wp (append_failure_audit h agent request t r kk st code m) (\<lambda>_. ?P) (\<lambda>_. ?P) w'"
    "wp (idempotent_result c request kk t) (\<lambda>_. ?P) (\<lambda>_. ?P) w'" if "w_upstream w' = u" for t r kk st code m c w'
    by (rule keyed_if_quiet, rule keeps_quiet_calls, rule that)+
  have dispatch: "wp (dispatch_call h srv agent request t server tool) (\<lambda>_. ?P) (\<lambda>_. ?P) w'"
    if "w_upstream w' = u" "w_db w' = d" for t server tool w'
    using dispatch_keyed [OF that, of h srv agent request t server tool] by (simp add: k)
  show ?thesis
    unfolding call_tool_def tool_server_get_by_server_id_def tool_definition_get_by_name_def
      tool_call_get_by_idempotency_key_def arguments_match_schema_def Let_def
    by (auto simp: wp_simps w sent_keyed_quiet intro!: quiet dispatch
        split: option.split sum.split validation.split)
qed

lemma keyed_locks:
  assumes "keyed d agent (Some k) w"
  shows "CallKey (dto_tenant_id agent) (dto_id agent) k \<in> set (locks d (w_db w))"
proof -
  from assms obtain r where "r \<in> set (db_tool_calls (w_db w))" "tc_id r \<notin> tc_id ` set (db_tool_calls d)"
    "tc_tenant_id r = dto_tenant_id agent" "tc_agent_id r = dto_id agent" "tc_idempotency_key r = Some k"
    by (auto simp: keyed_def identity_def)
  moreover from this have "r \<in> set (changed (db_tool_calls d) (db_tool_calls (w_db w)))"
    by (auto simp: in_changed)
  ultimately show ?thesis using locked_rows(2) by metis
qed

text \<open>A tool call that awaits its upstream call has written the key, for the agent that calls.\<close>

lemma awaiting_call:
  assumes "awaits h st client (PostToolCall auth body) w" and "rq_idempotency_key body = Some k"
  obtains agent where "caller h st (w_db w) auth agent"
    "CallKey (dto_tenant_id agent) (dto_id agent) k
      \<in> set (locks (w_db w) (w_db (at_await h st client (PostToolCall auth body) w)))"
proof -
  let ?mc = "map_option (\<lambda>_. parked) client" and ?d = "w_db w" and ?u = "w_upstream w"
  let ?P = "\<lambda>w'. w_upstream w' = ?u \<or> (\<exists>agent. caller h st ?d auth agent \<and> keyed ?d agent (Some k) w')"
  have called: "wp (call_tool h srv agent body) (\<lambda>_. ?P) (\<lambda>_. ?P) w" if "caller h st ?d auth agent" for srv agent
    by (rule wp_mono [OF call_keyed [OF refl refl assms(2)]]) (use that in \<open>auto simp: sent_keyed_def\<close>)
  have "wp (handle h st ?mc (PostToolCall auth body)) (\<lambda>_. ?P) (\<lambda>_. ?P) w"
    unfolding handle.simps call_tool_route_def committing_def wp_seq
    by (rule wp_require_agent, rule wp_mono [OF called]) (auto simp: wp_simps)
  then have "?P (at_await h st client (PostToolCall auth body) w)"
    unfolding at_await_def by (auto simp: wp_def split: prod.splits sum.splits)
  with assms(1) that keyed_locks show thesis by (auto simp: awaits_def)
qed

section \<open>The invariant of the loop\<close>

definition task_sound :: "db \<Rightarrow> task \<Rightarrow> bool" where
  "task_sound c t \<longleftrightarrow> (let b = w_committed (tk_start t) in
     touches_flows (tk_request t) \<and> w_db (tk_start t) = b \<and> db_inv b \<and> flows_ok b \<and> grown b c
   \<and> (\<forall>i. ApprovalRow i \<in> set (task_locks t) \<longrightarrow> ApprovalRow i \<notin> set (locks b c))
   \<and> (\<forall>auth i r. tk_request t = ApproveApproval auth i r \<longrightarrow> ApprovalRow i \<in> set (task_locks t)
        \<and> (\<exists>a. look_approval i b = Some a \<and> ap_status a = ''pending'')))"

definition loop_sound :: "event_loop \<Rightarrow> bool" where
  "loop_sound s \<longleftrightarrow> db_inv (w_committed (lp_world s)) \<and> flows_ok (w_committed (lp_world s))
     \<and> (\<forall>t \<in> set (lp_tasks s). task_sound (w_committed (lp_world s)) t)
     \<and> sorted_wrt (\<lambda>t u. disjoint_locks (task_locks t) (task_locks u)) (lp_tasks s)"

lemma approval_lock_iff:
  "ApprovalRow i \<in> set (locks b c) \<longleftrightarrow> (\<exists>a \<in> set (db_approvals c). a \<notin> set (db_approvals b) \<and> ap_id a = i)"
  by (auto simp: locks_def call_locks_def approval_locks_def changed_def split: option.splits)

lemma task_sound_grows:
  assumes "task_sound c t" and "grown c c'"
    and "\<And>i. ApprovalRow i \<in> set (locks c c') \<Longrightarrow> ApprovalRow i \<notin> set (task_locks t)"
  shows "task_sound c' t"
proof -
  have "ApprovalRow i \<in> set (locks b c) \<or> ApprovalRow i \<in> set (locks c c')"
    if "ApprovalRow i \<in> set (locks b c')" for i b
    using that by (auto simp: approval_lock_iff)
  with assms show ?thesis unfolding task_sound_def Let_def by (blast intro: grown_trans)
qed

lemma set_held: "set (held ts) = (\<Union>t \<in> set ts. set (task_locks t))"
  by (simp add: held_def)

lemma not_held:
  "disjoint_locks ls (held ts) \<Longrightarrow> t \<in> set ts \<Longrightarrow> l \<in> set ls \<Longrightarrow> l \<notin> set (task_locks t)"
  by (auto simp: disjoint_locks_iff set_held)

lemma serve_new_session:
  "snd (serve h st client req w) = rollback (snd (handle h st client req (new_session w)))"
  by (simp add: serve_def with_session_def new_session_def case_prod_beta)

text \<open>What a run from a new session has committed, and which approvals it has written.\<close>

lemma run_commits:
  assumes "db_inv (w_committed w)"
  shows "w_committed (snd (handle h st client req (new_session w))) = w_committed w
    \<or> touches_flows req \<and> w_committed (snd (handle h st client req (new_session w)))
          = w_db (snd (handle h st client req (new_session w)))
    \<or> db_approvals (w_committed (snd (handle h st client req (new_session w)))) = db_approvals (w_committed w)"
proof -
  let ?w = "new_session w"
  obtain r w1 where run: "handle h st client req ?w = (r, w1)" by (cases "handle h st client req ?w")
  show ?thesis
  proof (cases "touches_flows req")
    case True
    show ?thesis
    proof (cases r)
      case (Inl e)
      with run serve_atomic [OF assms, of h st client req] show ?thesis
        unfolding serve_def with_session_def new_session_def
        by (metis (no_types, lifting) Inl_Inr_False case_prod_conv fst_conv rollback_def snd_conv
            world.select_convs(2) world.surjective world.update_convs(1))
    next
      case (Inr x)
      with handle_committed [OF True, of h st client ?w] run True show ?thesis by (simp add: wp_def)
    qed
  next
    case False
    from keeps_same_flows_handle [OF this, of "w_committed w" h st client]
    have "wp (handle h st client req) (\<lambda>x w'. same_flows (w_committed w) w' \<and> True)
        (\<lambda>_. same_flows (w_committed w)) ?w"
      by (auto simp: keeps_def same_flows_def)
    with run show ?thesis by (auto simp: wp_def same_flows_def split: sum.splits)
  qed
qed

lemma arrive_sound:
  assumes "loop_sound s"
  shows "loop_sound (arrive h st client req s)
    \<and> grown (w_committed (lp_world s)) (w_committed (lp_world (arrive h st client req s)))"
proof -
  let ?c = "w_committed (lp_world s)" and ?w = "new_session (lp_world s)"
  let ?ended = "snd (handle h st client req ?w)" and ?await = "at_await h st client req ?w"
  from assms have c: "db_inv ?c" "flows_ok ?c" and tasks: "\<And>t. t \<in> set (lp_tasks s) \<Longrightarrow> task_sound ?c t"
    and apart: "sorted_wrt (\<lambda>t u. disjoint_locks (task_locks t) (task_locks u)) (lp_tasks s)"
    by (simp_all add: loop_sound_def)
  show ?thesis
  proof (cases "lp_stopped s \<or> \<not> disjoint_locks (locks ?c (w_db (if awaits h st client req ?w then ?await else ?ended)))
      (held (lp_tasks s))")
    case True
    with assms show ?thesis by (auto simp: arrive_def Let_def loop_sound_def grown_refl)
  next
    case free: False
    show ?thesis
    proof (cases "awaits h st client req ?w")
      case True
      let ?t = "\<lparr>tk_request = req, tk_start = ?w, tk_await = ?await\<rparr>"
      from True have flows: "touches_flows req" by (simp add: awaits_def)
      have none: "locks ?c ?c = []" by (simp add: locks_def changed_def)
      have held: "ApprovalRow i \<in> set (task_locks ?t) \<and> (\<exists>a. look_approval i ?c = Some a \<and> ap_status a = ''pending'')"
        if req: "req = ApproveApproval auth i r" for auth i r
      proof -
        from awaiting_review [of h st client auth i r ?w] True req c(1)
        obtain a where a: "look_approval i ?c = Some a" "ap_status a = ''pending''" "reviews h st req i" by auto
        with handled_review_moves [OF a(3), of ?w a "map_option (\<lambda>_. parked) client"] c(1)
        have "moved i ?await" by (simp add: at_await_def)
        with moved_locks [OF this c(1) a(1,2)] a show ?thesis by (simp add: task_locks_def)
      qed
      have "task_sound ?c ?t"
        unfolding task_sound_def Let_def task.select_convs session_simps none
        by (intro conjI allI impI grown_refl flows c refl; (erule held [THEN conjunct1] held [THEN conjunct2])?) simp_all
      moreover have "disjoint_locks (task_locks t) (task_locks ?t)" if "t \<in> set (lp_tasks s)" for t
        using free True that by (auto simp: disjoint_locks_iff set_held task_locks_def)
      ultimately show ?thesis
        using free True c tasks apart
        by (auto simp: arrive_def Let_def loop_sound_def grown_refl sorted_wrt_append)
    next
      case False
      have serve: "rollback ?ended = snd (serve h st client req (lp_world s))" by (simp add: serve_new_session)
      have ok: "db_inv (w_committed ?ended)" "grown ?c (w_committed ?ended)"
        using serve_atomic [OF c(1), of h st client req] serve c(1) grown_refl
        by (metis rollback_def snd_conv world.select_convs(2) world.surjective world.update_convs(1))+
      have flows: "flows_ok (w_committed ?ended)"
        using serve_flows [OF c, of h st client req] by (simp add: serve [symmetric] rollback_def)
      have "task_sound (w_committed ?ended) t" if t: "t \<in> set (lp_tasks s)" for t
      proof (rule task_sound_grows [OF tasks [OF t] ok(2)])
        fix i assume i: "ApprovalRow i \<in> set (locks ?c (w_committed ?ended))"
        with run_commits [OF c(1), of h st client req] have "w_committed ?ended = w_db ?ended"
          by (auto simp: approval_lock_iff)
        with i free False not_held [OF _ t] show "ApprovalRow i \<notin> set (task_locks t)" by auto
      qed
      with free False ok flows apart show ?thesis
        by (auto simp: arrive_def Let_def loop_sound_def rollback_def)
    qed
  qed
qed


lemma run_outcome:
  assumes flows: "touches_flows req" and w: "w_db w = b" "w_committed w = b" and ok: "db_inv b" "flows_ok b"
    and run: "handle h st client req w = (Inr x, ended)"
  shows "db_inv (w_committed ended)" "grown b (w_committed ended)" "flow_effect b (w_committed ended)"
    "w_committed ended = w_db ended"
proof -
  have "request_inv b (w_upstream w) b w" using w ok by (simp add: request_inv_def grown_refl)
  with handle_atomic [OF ok(1), of "w_upstream w" h st client req] run
  show fin: "db_inv (w_committed ended)" "grown b (w_committed ended)"
    by (auto simp: atomic_on_def wp_def)
  from handle_effect [OF flows, of w h st client] run w ok fin(2) show "flow_effect b (w_committed ended)"
    by (simp add: wp_def)
  from handle_committed [OF flows, of h st client w] run show "w_committed ended = w_db ended"
    by (simp add: wp_def)
qed

lemma finish_task_committed:
  "w_committed (finish_task t r ended now) = (case r of Inl e \<Rightarrow> w_committed now
     | Inr x \<Rightarrow> if disjoint_locks (locks (w_committed (tk_start t)) (w_committed ended))
           (locks (w_committed (tk_start t)) (w_committed now))
         then merge (w_committed (tk_start t)) (w_committed ended) (w_committed now) else w_committed now)"
  by (simp add: finish_task_def Let_def)

lemma finish_sound:
  assumes t: "task_sound (w_committed now) t" and ok: "db_inv (w_committed now)" "flows_ok (w_committed now)"
    and run: "handle h st client (tk_request t) (tk_start t) = (r, ended)"
  shows "db_inv (w_committed (finish_task t r ended now)) \<and> flows_ok (w_committed (finish_task t r ended now))
    \<and> grown (w_committed now) (w_committed (finish_task t r ended now))
    \<and> (\<forall>i. ApprovalRow i \<in> set (locks (w_committed now) (w_committed (finish_task t r ended now))) \<longrightarrow>
        ApprovalRow i \<in> set (locks (w_committed (tk_start t)) (w_db ended)))"
proof (cases "\<exists>x. r = Inr x \<and> disjoint_locks (locks (w_committed (tk_start t)) (w_committed ended))
    (locks (w_committed (tk_start t)) (w_committed now))")
  case False
  then have "w_committed (finish_task t r ended now) = w_committed now"
    by (auto simp: finish_task_committed split: sum.split)
  with ok show ?thesis by (simp add: grown_refl approval_lock_iff)
next
  case True
  let ?b = "w_committed (tk_start t)"
  from True obtain x where r: "r = Inr x" and apart: "disjoint_locks (locks ?b (w_committed ended)) (locks ?b (w_committed now))"
    by blast
  from t have b: "touches_flows (tk_request t)" "w_db (tk_start t) = ?b" "db_inv ?b" "flows_ok ?b"
    "grown ?b (w_committed now)" by (simp_all add: task_sound_def Let_def)
  note out = run_outcome [OF b(1,2) refl b(3,4) run [unfolded r]]
  have ov: "overlap ?b (w_committed ended) (w_committed now)"
    using out ok b apart flow_effect_registry [OF out(3)] by (simp add: overlap_def)
  have eq: "w_committed (finish_task t r ended now) = merge ?b (w_committed ended) (w_committed now)"
    using apart by (simp add: finish_task_committed r)
  have "ApprovalRow i \<in> set (locks ?b (w_db ended))"
    if "ApprovalRow i \<in> set (locks (w_committed now) (merge ?b (w_committed ended) (w_committed now)))" for i
    using that set_merge(2) [OF ov] by (auto simp: approval_lock_iff in_changed out(4) simp del: merge_simps)
  with eq show ?thesis
    using db_inv_merge [OF ov] flows_merge [OF ov out(3) b(3,4) ok(2)] grown_merge [OF ov] by simp
qed

lemma set_without_nth: "set (without_nth n xs) \<subseteq> set xs"
  by (auto simp: without_nth_def dest: in_set_takeD in_set_dropD)

lemma sorted_without_nth:
  assumes "sorted_wrt R xs"
  shows "sorted_wrt R (without_nth n xs)"
proof (cases "n < length xs")
  case True
  with assms have "sorted_wrt R (take n xs @ xs ! n # drop (Suc n) xs)" by (simp add: id_take_nth_drop [symmetric])
  then show ?thesis by (simp add: without_nth_def sorted_wrt_append)
qed (use assms in \<open>simp add: without_nth_def\<close>)

lemma resume_sound:
  assumes "loop_sound s"
  shows "loop_sound (resume h st client n s)
    \<and> grown (w_committed (lp_world s)) (w_committed (lp_world (resume h st client n s)))"
proof -
  let ?c = "w_committed (lp_world s)" and ?t = "lp_tasks s ! n" and ?others = "without_nth n (lp_tasks s)"
  obtain r ended where run: "handle (later_host h (tk_await ?t) (lp_world s)) st client (tk_request ?t) (tk_start ?t)
      = (r, ended)" by fastforce
  let ?w = "finish_task ?t r ended (lp_world s)"
  show ?thesis
  proof (cases "lp_stopped s \<or> length (lp_tasks s) \<le> n
      \<or> \<not> disjoint_locks (locks (w_committed (tk_start ?t)) (w_db ended)) (held ?others)")
    case True
    with assms show ?thesis by (auto simp: resume_def Let_def run loop_sound_def grown_refl)
  next
    case False
    from assms have c: "db_inv ?c" "flows_ok ?c" and tasks: "\<And>t. t \<in> set (lp_tasks s) \<Longrightarrow> task_sound ?c t"
      and apart: "sorted_wrt (\<lambda>t u. disjoint_locks (task_locks t) (task_locks u)) (lp_tasks s)"
      by (simp_all add: loop_sound_def)
    from False have "task_sound ?c ?t" by (intro tasks) simp
    note fin = finish_sound [OF this c run]
    have "task_sound (w_committed ?w) t" if t: "t \<in> set ?others" for t
    proof (rule task_sound_grows [of ?c])
      show "task_sound ?c t" by (rule tasks [OF subsetD [OF set_without_nth t]])
      show "grown ?c (w_committed ?w)" using fin by simp
      fix i assume "ApprovalRow i \<in> set (locks ?c (w_committed ?w))"
      with fin have "ApprovalRow i \<in> set (locks (w_committed (tk_start ?t)) (w_db ended))" by blast
      with not_held [OF _ t] False show "ApprovalRow i \<notin> set (task_locks t)" by blast
    qed
    with False fin sorted_without_nth [OF apart, of n] show ?thesis
      by (simp add: resume_def Let_def run loop_sound_def)
  qed
qed


lemma stored_sound:
  assumes "loop_sound s" and "sound_step (w_committed (lp_world s)) d"
    and "db_tool_calls d = db_tool_calls (w_committed (lp_world s))"
    and "db_approvals d = db_approvals (w_committed (lp_world s))"
  shows "loop_sound (store_rows d s) \<and> grown (w_committed (lp_world s)) d"
proof -
  let ?c = "w_committed (lp_world s)"
  from assms have d: "db_inv d" "grown ?c d" "flows_ok d"
    by (auto simp: loop_sound_def sound_step_def elim: seeded_flows [rotated 2])
  have "task_sound d t" if "t \<in> set (lp_tasks s)" for t
    by (rule task_sound_grows [of ?c]) (use assms that d in \<open>auto simp: loop_sound_def approval_lock_iff\<close>)
  with d assms(1) show ?thesis by (simp add: loop_sound_def store_rows_def)
qed

lemma loop_step_sound:
  assumes "loop_step h st client s s'" and "loop_sound s"
  shows "loop_sound s' \<and> grown (w_committed (lp_world s)) (w_committed (lp_world s'))"
  using assms(1)
proof (cases rule: loop_stepE [consumes 1, case_names arrive resume tenant policy])
  case (tenant t d)
  with stored_sound [OF assms(2) insert_tenant_sound [OF tenant(2)]] show ?thesis
    by (simp add: insert_tenant_def checked_Inr_iff store_rows_def)
next
  case (policy p d)
  with stored_sound [OF assms(2) insert_policy_sound [OF policy(2)]] show ?thesis
    by (simp add: insert_policy_def checked_Inr_iff store_rows_def)
qed (simp_all add: arrive_sound resume_sound assms(2))

text \<open>A loop without tasks on sound rows, and where it gets.\<close>

definition idle_loop :: "event_loop \<Rightarrow> bool" where
  "idle_loop s \<longleftrightarrow> lp_tasks s = [] \<and> \<not> lp_stopped s
     \<and> db_inv (w_committed (lp_world s)) \<and> flows_ok (w_committed (lp_world s))"

lemma loop_steps_sound:
  assumes "(loop_step h st client)\<^sup>*\<^sup>* s0 s" and "idle_loop s0"
  shows "loop_sound s \<and> grown (w_committed (lp_world s0)) (w_committed (lp_world s))"
  using assms(1)
proof (induction rule: rtranclp_induct)
  case base
  with assms(2) show ?case by (simp add: idle_loop_def loop_sound_def grown_refl)
next
  case (step s s')
  with loop_step_sound [OF step(2)] show ?case by (blast intro: grown_trans)
qed

text \<open>Every task has been started with the state of its await.\<close>

definition tasks_started :: "host \<Rightarrow> settings \<Rightarrow> mcp_client option \<Rightarrow> event_loop \<Rightarrow> bool" where
  "tasks_started h st client s \<longleftrightarrow> (\<forall>t \<in> set (lp_tasks s).
     awaits h st client (tk_request t) (tk_start t)
     \<and> tk_await t = at_await h st client (tk_request t) (tk_start t))"

lemma loop_step_started:
  assumes "loop_step h st client s s'" and "tasks_started h st client s"
  shows "tasks_started h st client s'"
  using assms(1)
proof (cases rule: loop_stepE [consumes 1, case_names arrive resume tenant policy])
  case (arrive req)
  with assms(2) show ?thesis by (auto simp: tasks_started_def arrive_def Let_def)
next
  case (resume n)
  with assms(2) show ?thesis
    by (auto simp: tasks_started_def resume_def Let_def split: prod.splits dest: subsetD [OF set_without_nth])
qed (use assms(2) in \<open>simp_all add: tasks_started_def store_rows_def\<close>)

lemma loop_steps_started:
  assumes "(loop_step h st client)\<^sup>*\<^sup>* s0 s" and "idle_loop s0"
  shows "tasks_started h st client s"
  using assms(1)
proof (induction rule: rtranclp_induct)
  case base
  with assms(2) show ?case by (simp add: idle_loop_def tasks_started_def)
qed (rule loop_step_started)

text \<open>A thread that waits for the database does nothing any more.\<close>

lemma stopped_step:
  "loop_step h st client s s' \<Longrightarrow> lp_stopped s \<Longrightarrow> lp_stopped s' \<and> lp_tasks s' = lp_tasks s
    \<and> db_tool_calls (w_committed (lp_world s')) = db_tool_calls (w_committed (lp_world s))
    \<and> db_approvals (w_committed (lp_world s')) = db_approvals (w_committed (lp_world s))"
  by (erule loop_stepE)
    (auto simp: arrive_def resume_def store_rows_def insert_tenant_def insert_policy_def checked_Inr_iff)

lemma stopped_steps:
  assumes "(loop_step h st client)\<^sup>*\<^sup>* s s'" and "lp_stopped s"
  shows "lp_stopped s' \<and> lp_tasks s' = lp_tasks s
    \<and> db_tool_calls (w_committed (lp_world s')) = db_tool_calls (w_committed (lp_world s))
    \<and> db_approvals (w_committed (lp_world s')) = db_approvals (w_committed (lp_world s))"
  using assms(1)
proof (induction rule: rtranclp_induct)
  case (step s1 s2)
  with stopped_step [OF step(2)] show ?case by simp
qed (use assms(2) in simp)

section \<open>A task that nothing disturbs\<close>

lemma merge_rows_alone:
  assumes R: "evolves R b f" "\<And>x y. R x y \<Longrightarrow> key y = key x"
    and b: "distinct (map key b)" and f: "distinct (map key f)"
  shows "merge_rows key (changed b f) b = f"
proof -
  let ?w = "changed b f" and ?n = "length b"
  have len: "?n \<le> length f" and same: "key (f ! j) = key (b ! j)" if "j < ?n" for j
    using R that by (simp_all add: evolves_iff)
  have n: "?n \<le> length f" using R(1) by (simp add: evolves_iff)
  have w: "distinct (map key ?w)" using f by (rule distinct_changed)
  have row: "(case find_row (\<lambda>x. key x = key (b ! j)) ?w of None \<Rightarrow> b ! j | Some x \<Rightarrow> x) = f ! j" if j: "j < ?n" for j
  proof (cases "f ! j \<in> set b")
    case True
    with b j same [OF j] have eq: "f ! j = b ! j" by (metis distinct_map_eq nth_mem)
    have "key x \<noteq> key (b ! j)" if "x \<in> set ?w" for x
      using that True f j n same [OF j]
      by (metis distinct_map_eq in_changed less_le_trans nth_mem)
    then have "find_row (\<lambda>x. key x = key (b ! j)) ?w = None" by (simp add: find_row_None_iff)
    with eq show ?thesis by simp
  next
    case False
    with j n have "f ! j \<in> set ?w" by (simp add: in_changed)
    from find_key [OF w this] same [OF j] show ?thesis by simp
  qed
  have old: "map (\<lambda>r. case find_row (\<lambda>x. key x = key r) ?w of None \<Rightarrow> r | Some x \<Rightarrow> x) b = take ?n f"
    by (rule nth_equalityI) (use n row in simp_all)
  have keys: "map key (take ?n f) = map key b"
    by (rule nth_equalityI) (use n same in simp_all)
  have split: "f = take ?n f @ drop ?n f" by simp
  have new: "key x \<notin> key ` set b" if "x \<in> set (drop ?n f)" for x
  proof -
    have "distinct (map key (take ?n f) @ map key (drop ?n f))"
      using f by (simp flip: map_append)
    with keys have "set (map key b) \<inter> set (map key (drop ?n f)) = {}" by (metis distinct_append)
    moreover have "key x \<in> set (map key (drop ?n f))" using that by simp
    ultimately show ?thesis by (metis disjoint_iff list.set_map)
  qed
  have "filter (\<lambda>x. key x \<notin> key ` set b) ?w = filter (\<lambda>x. key x \<notin> key ` set b) f"
    unfolding changed_def filter_filter by (rule filter_cong) auto
  also have "\<dots> = filter (\<lambda>x. key x \<notin> key ` set b) (take ?n f) @ filter (\<lambda>x. key x \<notin> key ` set b) (drop ?n f)"
    by (metis split filter_append)
  also have "filter (\<lambda>x. key x \<notin> key ` set b) (take ?n f) = []"
    using keys by (auto simp: filter_empty_conv simp flip: set_map) (metis imageI list.set_map)
  also have "filter (\<lambda>x. key x \<notin> key ` set b) (drop ?n f) = drop ?n f"
    using new by (simp add: filter_id_conv)
  finally show ?thesis unfolding merge_rows_def old by simp
qed

lemma merge_alone:
  assumes "db_inv b" "db_inv f" "grown b f" "flow_effect b f"
  shows "merge b f b = f"
proof -
  have "db_tool_calls (merge b f b) = db_tool_calls f" "db_approvals (merge b f b) = db_approvals f"
    "db_audit_events (merge b f b) = db_audit_events f"
    unfolding merge_simps
      apply (rule merge_rows_alone [where R = tool_call_progress];
        use assms in \<open>simp add: grown_def inv_defs tool_call_progress_def\<close>)
     apply (rule merge_rows_alone [where R = approval_progress];
        use assms in \<open>simp add: grown_def inv_defs approval_progress_def\<close>)
    apply (rule merge_rows_alone [where R = "(=)"]; use assms in \<open>simp add: grown_def inv_defs prefix_evolves\<close>)
    done
  moreover have "db_tenants f = db_tenants b" "db_agents f = db_agents b" "db_tool_servers f = db_tool_servers b"
    "db_tool_definitions f = db_tool_definitions b" "db_policies f = db_policies b"
    using assms(4) by (auto simp: flow_effect_def row_effect_defs)
  ultimately show ?thesis by (intro db.equality) simp_all
qed

end
