(* ===== verification/Loop_Properties.thy ===== *)
theory Loop_Properties
  imports Event_Loop Gateway_Sample
begin

text \<open>
  The properties of requests that overlap at their awaits: the invariant and the growth of the
  committed rows, the exclusive execution of approvals, the agreement with one request after the
  other, and the wait of the whole process that a second review of an approval in execution or a
  retry of an open call causes.
\<close>

section \<open>Overlapping requests\<close>

text \<open>
  C5: However tool calls, reviews and other requests overlap at their awaits, the committed rows stay
  sound: keys, references and statuses hold, every tool call is finished without payload or waits
  for a pending approval, and rows only grow, so that audit events are never lost or rewritten.
\<close>

theorem overlapping_requests_sound:
  assumes "idle_loop s0" and "(loop_step h st client)\<^sup>*\<^sup>* s0 s" and "loop_step h st client s s'"
  shows "db_inv (w_committed (lp_world s')) \<and> flows_ok (w_committed (lp_world s'))
    \<and> grown (w_committed (lp_world s)) (w_committed (lp_world s'))"
  using loop_steps_sound [OF assms(2,1)] loop_step_sound [OF assms(3)] by (simp add: loop_sound_def)

lemma task_approval_pending:
  assumes "loop_sound s" and t: "t \<in> set (lp_tasks s)" "tk_request t = ApproveApproval auth i reason"
  obtains a where "look_approval i (w_committed (lp_world s)) = Some a" "ap_status a = ''pending''"
    "ApprovalRow i \<in> set (task_locks t)"
proof -
  let ?b = "w_committed (tk_start t)" and ?c = "w_committed (lp_world s)"
  from assms have sound: "task_sound ?c t" "db_inv ?c" by (simp_all add: loop_sound_def)
  with t(2) obtain a where a: "look_approval i ?b = Some a" "ap_status a = ''pending''"
    and lock: "ApprovalRow i \<in> set (task_locks t)" "ApprovalRow i \<notin> set (locks ?b ?c)"
    and g: "grown ?b ?c"
    by (auto simp: task_sound_def Let_def)
  from look_mem(1) [OF a(1)] have mem: "a \<in> set (db_approvals ?b)" "ap_id a = i" by simp_all
  with g obtain a' where a': "a' \<in> set (db_approvals ?c)" "approval_progress a a'"
    by (auto simp: grown_def elim: evolves_row)
  then have id: "ap_id a' = i" using mem(2) by (simp add: approval_progress_def)
  from lock(2) a'(1) id have old: "a' \<in> set (db_approvals ?b)" by (auto simp: approval_lock_iff)
  have "db_inv ?b" using sound(1) by (simp add: task_sound_def Let_def)
  then have "a' = a" using old mem id by (auto simp: inv_defs dest: distinct_map_eq)
  with a' id sound(2) have "look_approval i ?c = Some a"
    using distinct_map_find_row [of ap_id "db_approvals ?c" a'] by (simp add: look_approval_def find_id_def inv_defs)
  from this a(2) lock(1) show thesis by (rule that)
qed

definition executes :: "uuid \<Rightarrow> task \<Rightarrow> bool" where
  "executes i t = (case tk_request t of ApproveApproval auth j reason \<Rightarrow> j = i | _ \<Rightarrow> False)"

text \<open>
  C14: No approval is executed twice at the same time: of the requests that await an upstream call,
  only one executes a given approval, and this approval is still pending in the committed rows.
\<close>

theorem overlapping_reviews_exclusive:
  assumes "idle_loop s0" and "(loop_step h st client)\<^sup>*\<^sup>* s0 s"
    and "t \<in> set (lp_tasks s)" and "executes i t"
  shows "filter (executes i) (lp_tasks s) = [t]
    \<and> (\<exists>a. look_approval i (w_committed (lp_world s)) = Some a \<and> ap_status a = ''pending'')"
proof -
  let ?ts = "filter (executes i) (lp_tasks s)"
  have sound: "loop_sound s" using loop_steps_sound [OF assms(2,1)] by simp
  have held: "ApprovalRow i \<in> set (task_locks u)" if "u \<in> set ?ts" for u
  proof -
    from that obtain auth reason where "tk_request u = ApproveApproval auth i reason" "u \<in> set (lp_tasks s)"
      by (auto simp: executes_def split: api_request.splits)
    then show ?thesis using task_approval_pending [OF sound] by blast
  qed
  have "sorted_wrt (\<lambda>t u. disjoint_locks (task_locks t) (task_locks u)) ?ts"
    using sound by (simp add: loop_sound_def sorted_wrt_filter)
  then have "length ?ts \<le> 1"
    using held by (cases ?ts; cases "tl ?ts") (auto simp: disjoint_locks_iff, metis disjoint_iff)
  moreover have "t \<in> set ?ts" using assms(3,4) by simp
  ultimately have "?ts = [t]" by (cases ?ts) auto
  moreover from assms(4) obtain auth reason where "tk_request t = ApproveApproval auth i reason"
    by (auto simp: executes_def split: api_request.splits)
  ultimately show ?thesis using task_approval_pending [OF sound assms(3)] by blast
qed

lemma blocked_arrival:
  assumes "t \<in> set (lp_tasks s)" and "l \<in> set (task_locks t)"
    and "l \<in> set (locks (w_committed (lp_world s)) (w_db (if awaits h st client req (new_session (lp_world s))
      then at_await h st client req (new_session (lp_world s))
      else snd (handle h st client req (new_session (lp_world s))))))"
  shows "lp_stopped s \<or> arrive h st client req s = s\<lparr>lp_stopped := True\<rparr>"
  using assms by (auto simp: arrive_def Let_def disjoint_locks_iff set_held)

text \<open>
  C15: A second review stops the process: while an approval is being executed, an administrator's
  approval or denial of it waits in the database for the session of the first one, on the thread
  that the first one needs to go on. No task ends from then on.
\<close>

theorem second_review_stops_the_loop:
  assumes "idle_loop s0" and "(loop_step h st client)\<^sup>*\<^sup>* s0 s"
    and "n < length (lp_tasks s)" and "tk_request (lp_tasks s ! n) = ApproveApproval auth i reason"
    and "require_admin h st auth' = Inr ()"
    and "req \<in> {ApproveApproval auth' i reason', DenyApproval auth' i reason'}"
    and "(loop_step h st client)\<^sup>*\<^sup>* (arrive h st client req s) s'"
  shows "lp_stopped s' \<and> lp_tasks s' = lp_tasks s
    \<and> db_approvals (w_committed (lp_world s')) = db_approvals (w_committed (lp_world s))"
proof -
  have sound: "loop_sound s" using loop_steps_sound [OF assms(2,1)] by simp
  let ?c = "w_committed (lp_world s)" and ?w = "new_session (lp_world s)"
  let ?t = "lp_tasks s ! n"
  have mem: "?t \<in> set (lp_tasks s)" using assms(3) by simp
  from task_approval_pending [OF sound mem assms(4)] obtain a
    where a: "look_approval i ?c = Some a" "ap_status a = ''pending''" and lock: "ApprovalRow i \<in> set (task_locks ?t)" .
  have inv: "db_inv ?c" using sound by (simp add: loop_sound_def)
  have review: "reviews h st req i" using assms(5,6) by (auto simp: reviews_def)
  have "moved i (snd (handle h st mc req ?w))" for mc
    by (rule handled_review_moves [OF review]) (use inv a in simp_all)
  then have "moved i (if awaits h st client req ?w then at_await h st client req ?w
      else snd (handle h st client req ?w))" by (simp add: at_await_def)
  from blocked_arrival [OF mem lock moved_locks [OF this inv a]]
  have "lp_stopped (arrive h st client req s) \<and> lp_tasks (arrive h st client req s) = lp_tasks s
      \<and> lp_world (arrive h st client req s) = lp_world s"
    by (auto simp: arrive_def)
  with stopped_steps [OF assms(7)] show ?thesis by simp
qed

lemma caller_same:
  assumes "caller h st b auth a1" "caller h st c auth a2" and "grown b c" "db_inv c"
  shows "dto_id a1 = dto_id a2 \<and> dto_tenant_id a1 = dto_tenant_id a2"
proof -
  from assms(1,2) obtain token r1 r2 where token: "extract_bearer_token auth = Inr token"
    and r1: "r1 \<in> set (db_agents b)" "ag_api_key_hash r1 = hash_api_key h token (api_key_pepper st)" "to_dto r1 = Inr a1"
    and r2: "r2 \<in> set (db_agents c)" "ag_api_key_hash r2 = hash_api_key h token (api_key_pepper st)" "to_dto r2 = Inr a2"
    by (auto simp: caller_def)
  from assms(3) r1(1) obtain r where r: "r \<in> set (db_agents c)" "agent_progress r1 r"
    by (auto simp: grown_def elim: evolves_row)
  with r1(2) r2 assms(4) have "r = r2"
    by (auto simp: agent_progress_def inv_defs intro: distinct_map_eq [where f = ag_api_key_hash])
  with r r1(3) r2(3) show ?thesis
    by (auto simp: agent_progress_def to_dto_def split: option.splits)
qed

text \<open>The programs of a call before and after it is stored: the calls are those of \<open>d\<close>, or one more.\<close>

lemma keeps_keyed_outcomes [keeps_intros]:
  "keeps (keyed d agent k) (approval_create h mk) (\<lambda>_. True)"
  "keeps (keyed d agent k) (finish_denied h c ev) (\<lambda>_. True)"
  "keeps (keyed d agent k) (finish_pending h srv agent' request c ev) (\<lambda>_. True)"
proof -
  show create: "keeps (keyed d agent k) (approval_create h mk) (\<lambda>_. True)" for mk
    by (auto simp: keeps_def approval_create_def wp_simps Let_def insert_approval_def checked_def keyed_def)
  have clock: "keeps (keyed d agent k) (utc_now h) (\<lambda>_. True)" by (simp add: keeps_def wp_simps)
  show "keeps (keyed d agent k) (finish_denied h c ev) (\<lambda>_. True)"
    unfolding finish_denied_def append_tool_call_audit_def by (rule TrueI keeps_keyed keeps_intros)+
  show "keeps (keyed d agent k) (finish_pending h srv agent' request c ev) (\<lambda>_. True)"
    unfolding finish_pending_def create_pending_approval_def append_tool_call_audit_def
    by (rule TrueI create clock keeps_lift_any keeps_keyed keeps_intros)+
qed

definition stored_keyed :: "db \<Rightarrow> agent_dto \<Rightarrow> string option \<Rightarrow> world \<Rightarrow> bool" where
  "stored_keyed d agent k w \<longleftrightarrow> db_tool_calls (w_db w) = db_tool_calls d \<or> keyed d agent k w"

lemma stored_keyed_same: "w_db w = d \<Longrightarrow> stored_keyed d agent k w"
  by (simp add: stored_keyed_def)

lemma stored_keyed_failure:
  assumes "w_db w = d"
  shows "wp (append_failure_audit h agent' request t r kk st code m) (\<lambda>_. stored_keyed d agent k) (\<lambda>_. stored_keyed d agent k) w"
  using assms by (auto simp: append_failure_audit_def append_tool_call_event_def audit_append_def wp_simps
      insert_audit_event_def checked_def stored_keyed_def)

lemma stored_keyed_kept:
  assumes "keyed d agent k w" and "keeps (keyed d agent k) m (\<lambda>_. True)"
  shows "wp m (\<lambda>_. stored_keyed d agent k) (\<lambda>_. stored_keyed d agent k) w"
proof -
  have "wp m (\<lambda>_ w'. keyed d agent k w' \<and> True) (\<lambda>_. keyed d agent k) w"
    using assms by (simp add: keeps_def)
  then show ?thesis by (rule wp_mono) (simp_all add: stored_keyed_def)
qed

lemma dispatch_stored:
  assumes d: "w_db w = d" and k: "rq_idempotency_key request = k"
  shows "wp (dispatch_call h srv agent request t server tool) (\<lambda>_. stored_keyed d agent k) (\<lambda>_. stored_keyed d agent k) w"
proof -
  let ?P = "stored_keyed d agent k"
  have create: "wp (create_tool_call h agent request t ev payload sh) (\<lambda>c. keyed d agent k) (\<lambda>_. ?P) w1"
    if "w_db w1 = d" for ev payload sh w1
    using that by (auto simp: create_tool_call_def tool_call_create_def wp_simps Let_def insert_tool_call_def checked_def
        keyed_def identity_def stored_keyed_def k)
  have outcome: "wp (if pr_decision ev = DENY then finish_denied h c ev
      else if pr_decision ev = REQUIRE_APPROVAL then finish_pending h srv agent request c ev
      else finish_allowed h srv server tool request c) (\<lambda>_. ?P) (\<lambda>_. ?P) w1"
    if "keyed d agent k w1" for ev c w1
    by (rule stored_keyed_kept [OF that]) (rule keeps_intros)+
  have stored: "wp (seq (create_tool_call h agent request t ev payload sh) (\<lambda>c.
      if pr_decision ev = DENY then finish_denied h c ev
      else if pr_decision ev = REQUIRE_APPROVAL then finish_pending h srv agent request c ev
      else finish_allowed h srv server tool request c)) (\<lambda>_. ?P) (\<lambda>_. ?P) w1"
    if "w_db w1 = d" for ev payload sh w1
    unfolding wp_seq by (rule wp_mono [OF create [OF that]], erule outcome, assumption)
  show ?thesis
  proof (cases "risk_level_of (td_risk_level tool)"; cases "action_type_of (td_action_type tool)")
    fix risk action
    assume ra: "risk_level_of (td_risk_level tool) = Some risk" "action_type_of (td_action_type tool) = Some action"
    show ?thesis
      unfolding dispatch_call_def wp_seq [of "member_or_raise m" for m] wp_member_or_raise ra option.case
        wp_seq [of "policy_repository_evaluate h agent request risk action"]
      by (rule wp_policy_repository_evaluate, rule stored) (simp_all add: d stored_keyed_same)
  qed (simp_all add: dispatch_call_def wp_simps d stored_keyed_same)
qed

lemma call_stored:
  assumes d: "w_db w = d" and k: "rq_idempotency_key request = k"
  shows "wp (call_tool h srv agent request) (\<lambda>_. stored_keyed d agent k) (\<lambda>_. stored_keyed d agent k) w"
proof -
  let ?P = "stored_keyed d agent k"
  have replay: "wp (idempotent_result c request kk t) (\<lambda>_. ?P) (\<lambda>_. ?P) w'" if "w_db w' = d" for c kk t w'
    using that unfolding idempotent_result_def approval_get_by_tool_call_id_def
    by (auto simp: wp_simps stored_keyed_same split: option.split)
  show ?thesis
    unfolding call_tool_def tool_server_get_by_server_id_def tool_definition_get_by_name_def
      tool_call_get_by_idempotency_key_def arguments_match_schema_def Let_def
    by (auto simp: wp_simps d stored_keyed_same intro!: replay dispatch_stored [OF _ k] stored_keyed_failure
        split: option.split sum.split validation.split)
qed

lemma storing_call:
  assumes "rq_idempotency_key body = Some k"
    and "db_tool_calls (w_db (snd (handle h st mc (PostToolCall auth body) w))) \<noteq> db_tool_calls (w_db w)"
  obtains agent where "caller h st (w_db w) auth agent"
    "CallKey (dto_tenant_id agent) (dto_id agent) k
      \<in> set (locks (w_db w) (w_db (snd (handle h st mc (PostToolCall auth body) w))))"
proof -
  let ?d = "w_db w"
  let ?P = "\<lambda>w'. db_tool_calls (w_db w') = db_tool_calls ?d \<or> (\<exists>agent. caller h st ?d auth agent \<and> keyed ?d agent (Some k) w')"
  have called: "wp (call_tool h srv agent body) (\<lambda>_. ?P) (\<lambda>_. ?P) w" if "caller h st ?d auth agent" for srv agent
    by (rule wp_mono [OF call_stored [OF refl assms(1)]]) (use that in \<open>auto simp: stored_keyed_def\<close>)
  have "wp (handle h st mc (PostToolCall auth body)) (\<lambda>_. ?P) (\<lambda>_. ?P) w"
    unfolding handle.simps call_tool_route_def committing_def wp_seq
    by (rule wp_require_agent, rule wp_mono [OF called]) (auto simp: wp_simps)
  then have "?P (snd (handle h st mc (PostToolCall auth body) w))"
    by (auto simp: wp_def split: prod.splits sum.splits)
  with assms(2) that keyed_locks show thesis by blast
qed

text \<open>The rows of a session when its handler first gives the thread away: at its await, or at its end.\<close>

definition session_rows :: "host \<Rightarrow> settings \<Rightarrow> mcp_client option \<Rightarrow> api_request \<Rightarrow> world \<Rightarrow> db" where
  "session_rows h st client req w =
    w_db (if awaits h st client req w then at_await h st client req w else snd (handle h st client req w))"

text \<open>
  C16: A retry stops the process: while a tool call with an idempotency key awaits its upstream call,
  the agent's next call under the same key that gets as far as storing its call (its hash, its lookup
  and its schema check let it through on the committed rows, whatever the policy then decides) waits
  in the database for the first one's session, on the thread that the first one needs to go on. A
  retry that raises before it stores a call is not meant.
\<close>

theorem retried_call_stops_the_loop:
  assumes "idle_loop s0" and "(loop_step h st client)\<^sup>*\<^sup>* s0 s"
    and "t \<in> set (lp_tasks s)" and "tk_request t = PostToolCall auth body"
    and "rq_idempotency_key body = Some k" and "rq_idempotency_key retry = Some k"
    and "db_tool_calls (session_rows h st client (PostToolCall auth retry) (new_session (lp_world s)))
      \<noteq> db_tool_calls (w_committed (lp_world s))"
    and "(loop_step h st client)\<^sup>*\<^sup>* (arrive h st client (PostToolCall auth retry) s) s'"
  shows "lp_stopped s' \<and> lp_tasks s' = lp_tasks s
    \<and> db_tool_calls (w_committed (lp_world s')) = db_tool_calls (w_committed (lp_world s))"
proof -
  let ?c = "w_committed (lp_world s)" and ?w = "new_session (lp_world s)" and ?b = "w_committed (tk_start t)"
  let ?retry = "PostToolCall auth retry"
  have sound: "task_sound ?c t" "db_inv ?c"
    using loop_steps_sound [OF assms(2,1)] assms(3) by (simp_all add: loop_sound_def)
  then have b: "w_db (tk_start t) = ?b" "grown ?b ?c" by (simp_all add: task_sound_def Let_def)
  have started: "awaits h st client (PostToolCall auth body) (tk_start t)"
    "tk_await t = at_await h st client (PostToolCall auth body) (tk_start t)"
    using loop_steps_started [OF assms(2,1)] assms(3,4) by (auto simp: tasks_started_def)
  obtain a1 where a1: "caller h st ?b auth a1"
    "CallKey (dto_tenant_id a1) (dto_id a1) k \<in> set (task_locks t)"
    using awaiting_call [OF started(1) assms(5)] unfolding started(2) [symmetric] b(1) task_locks_def by blast
  obtain a2 where a2: "caller h st ?c auth a2" "CallKey (dto_tenant_id a2) (dto_id a2) k
      \<in> set (locks ?c (session_rows h st client ?retry ?w))"
  proof (cases "awaits h st client ?retry ?w")
    case True
    from awaiting_call [OF this assms(6)] that True show thesis by (auto simp: session_rows_def)
  next
    case False
    from storing_call [OF assms(6), of h st client auth ?w] assms(7) that False show thesis
      by (auto simp: session_rows_def)
  qed
  have "dto_id a1 = dto_id a2 \<and> dto_tenant_id a1 = dto_tenant_id a2"
    by (rule caller_same [OF a1(1) a2(1) b(2) sound(2)])
  with a1(2) a2(2) have "lp_stopped s \<or> arrive h st client ?retry s = s\<lparr>lp_stopped := True\<rparr>"
    by (intro blocked_arrival [OF assms(3)]) (simp_all add: session_rows_def)
  then have "lp_stopped (arrive h st client ?retry s) \<and> lp_tasks (arrive h st client ?retry s) = lp_tasks s
      \<and> lp_world (arrive h st client ?retry s) = lp_world s"
    by (auto simp: arrive_def)
  with stopped_steps [OF assms(8)] show ?thesis by simp
qed

section \<open>One request at a time\<close>

lemma resumed_source_same [simp]: "resumed_source src k k = src"
  by (rule ext) (simp add: resumed_source_def)

lemma later_host_same:
  "w_clock now = w_clock await \<Longrightarrow> w_uuids now = w_uuids await \<Longrightarrow> w_tokens now = w_tokens await \<Longrightarrow>
    w_policy_reads now = w_policy_reads await \<Longrightarrow> later_host h await now = h"
  by (simp add: later_host_def)

text \<open>
  A request that no other one overlaps is served as in the gateway without an event loop: after
  its arrival, and the return of its upstream call if it awaits one, no task is left, and the
  committed rows and the calls sent are those of \<open>serve\<close>.
\<close>

lemma undisturbed_request_is_served:
  assumes "idle_loop s"
  shows "lp_tasks (resume h st client 0 (arrive h st client req s)) = []
    \<and> \<not> lp_stopped (resume h st client 0 (arrive h st client req s))
    \<and> w_committed (lp_world (resume h st client 0 (arrive h st client req s)))
        = w_committed (snd (serve h st client req (lp_world s)))
    \<and> w_upstream (lp_world (resume h st client 0 (arrive h st client req s)))
        = w_upstream (snd (serve h st client req (lp_world s)))"
proof (cases "awaits h st client req (new_session (lp_world s))")
  case False
  with assms have "arrive h st client req s = s\<lparr>lp_world := snd (serve h st client req (lp_world s))\<rparr>"
    by (simp add: arrive_def idle_loop_def Let_def held_def disjoint_locks_def list_all_iff serve_new_session)
  with assms show ?thesis by (simp add: resume_def idle_loop_def)
next
  case True
  let ?w = "new_session (lp_world s)" and ?c = "w_committed (lp_world s)"
  let ?a = "at_await h st client req ?w" and ?u = "w_upstream (snd (handle h st client req ?w))"
  let ?t = "\<lparr>tk_request = req, tk_start = ?w, tk_await = ?a\<rparr>"
  let ?now = "?a\<lparr>w_db := ?c, w_committed := ?c, w_upstream := ?u\<rparr>"
  obtain r e where run: "handle h st client req ?w = (r, e)" by (cases "handle h st client req ?w")
  have arrived: "arrive h st client req s = s\<lparr>lp_world := ?now, lp_tasks := [?t]\<rparr>"
    using assms True by (simp add: arrive_def idle_loop_def Let_def held_def disjoint_locks_def list_all_iff)
  have resumed: "resume h st client 0 (arrive h st client req s)
      = s\<lparr>lp_world := finish_task ?t r e ?now, lp_tasks := []\<rparr>"
    using assms run
    by (simp add: arrived resume_def idle_loop_def Let_def later_host_same without_nth_def held_def
        disjoint_locks_def list_all_iff)
  have ok: "db_inv ?c" "flows_ok ?c" using assms by (simp_all add: idle_loop_def)
  have served: "snd (serve h st client req (lp_world s)) = rollback e" by (simp add: serve_new_session run)
  have "w_committed (finish_task ?t r e ?now) = w_committed e"
  proof (cases r)
    case (Inl x)
    have "serve h st client req (lp_world s) = (Inl x, rollback e)"
      using run Inl by (simp add: serve_def with_session_def new_session_def)
    then have "w_committed (rollback e) = ?c"
      by (cases rule: serve_atomic [OF ok(1), of h st client req]) simp_all
    with Inl show ?thesis by (simp add: finish_task_committed rollback_def)
  next
    case (Inr x)
    have flows: "touches_flows req" using True by (simp add: awaits_def)
    note out = run_outcome [OF flows _ _ ok run [unfolded Inr], simplified]
    have none: "locks ?c ?c = []" by (simp add: locks_def changed_def)
    show ?thesis
      using merge_alone [OF ok(1) out(1-3)] by (simp add: finish_task_committed Inr none disjoint_locks_def list_all_iff)
  qed
  moreover have "w_upstream (finish_task ?t r e ?now) = w_upstream e"
    by (simp add: finish_task_def Let_def run)
  ultimately show ?thesis
    using assms by (simp add: resumed served rollback_def idle_loop_def)
qed


section \<open>Two reviews of one approval\<close>

definition sample_loop :: event_loop where
  "sample_loop = \<lparr>lp_world = settled_world waiting_db, lp_tasks = [], lp_stopped = False\<rparr>"

abbreviation sample_arrive :: "api_request \<Rightarrow> event_loop \<Rightarrow> event_loop" where
  "sample_arrive \<equiv> arrive sample_host sample_settings (Some sample_client)"

lemma sample_idle: "idle_loop sample_loop"
  by (simp add: idle_loop_def sample_loop_def sample_rows_ok)

lemma wp_parked_review:
  "wp (handle sample_host sample_settings (Some parked) (ApproveApproval root 6 ''fine''))
    (\<lambda>x w'. False) (\<lambda>e w'. w_upstream w' = [ToolCalled calc_row (add_row HIGH) add_arguments])
    (settled_world waiting_db)"
  by (simp add: review_route_defs Let_def wp_seq wp_lift wp_commit wp_return)
    (simp add: review_defs wp_simps sample_looks settled_world_def sample_start_def host_simps
      statement_defs waiting_rows wp_try_upstream_call parked_def Let_def)

lemma executing_sample:
  obtains a where "lp_tasks (sample_arrive (ApproveApproval root 6 ''fine'') sample_loop)
    = [\<lparr>tk_request = ApproveApproval root 6 ''fine'', tk_start = settled_world waiting_db, tk_await = a\<rparr>]"
proof -
  have "new_session (settled_world waiting_db) = settled_world waiting_db"
    by (simp add: new_session_def)
  moreover have "awaits sample_host sample_settings (Some sample_client) (ApproveApproval root 6 ''fine'')
      (settled_world waiting_db)"
    using wp_parked_review
    by (auto simp: awaits_def touches_flows_def at_await_def wp_def split: prod.splits sum.splits)
  ultimately show thesis
    using that by (simp add: arrive_def sample_loop_def Let_def held_def disjoint_locks_def list_all_iff)
qed

lemma arrives_sample: "(loop_step sample_host sample_settings (Some sample_client))\<^sup>*\<^sup>* sample_loop
    (sample_arrive req sample_loop)"
  by (rule r_into_rtranclp) (rule loop_step.arrives)

lemma overlapping_requests_sound_witness:
  "db_inv (w_committed (lp_world (sample_arrive (DenyApproval root 6 ''no'')
      (sample_arrive (ApproveApproval root 6 ''fine'') sample_loop))))"
  using overlapping_requests_sound [OF sample_idle arrives_sample loop_step.arrives] by blast

lemma overlapping_reviews_exclusive_witness:
  "length (filter (executes 6) (lp_tasks (sample_arrive (ApproveApproval root 6 ''fine'') sample_loop))) = 1"
proof (rule executing_sample)
  fix a
  let ?t = "\<lparr>tk_request = ApproveApproval root 6 ''fine'', tk_start = settled_world waiting_db, tk_await = a\<rparr>"
  assume "lp_tasks (sample_arrive (ApproveApproval root 6 ''fine'') sample_loop) = [?t]"
  then have "?t \<in> set (lp_tasks (sample_arrive (ApproveApproval root 6 ''fine'') sample_loop))" by simp
  from overlapping_reviews_exclusive [OF sample_idle arrives_sample this, of 6] show ?thesis
    by (simp add: executes_def)
qed

lemma second_review_stops_the_loop_witness:
  "lp_stopped (sample_arrive (DenyApproval root 6 ''no'') (sample_arrive (ApproveApproval root 6 ''fine'') sample_loop))"
proof (rule executing_sample)
  fix a
  assume "lp_tasks (sample_arrive (ApproveApproval root 6 ''fine'') sample_loop)
    = [\<lparr>tk_request = ApproveApproval root 6 ''fine'', tk_start = settled_world waiting_db, tk_await = a\<rparr>]"
  then have "0 < length (lp_tasks (sample_arrive (ApproveApproval root 6 ''fine'') sample_loop))"
    "tk_request (lp_tasks (sample_arrive (ApproveApproval root 6 ''fine'') sample_loop) ! 0)
      = ApproveApproval root 6 ''fine''" by simp_all
  from second_review_stops_the_loop [OF sample_idle arrives_sample this root_admin _ rtranclp.rtrancl_refl,
      of "DenyApproval root 6 ''no''" "''no''"]
  show ?thesis by simp
qed

section \<open>A retried call\<close>

definition low_loop :: event_loop where
  "low_loop = \<lparr>lp_world = settled_world (idle_db LOW), lp_tasks = [], lp_stopped = False\<rparr>"

lemma evaluate_add_at:
  "fst (policy_repository_evaluate sample_host bot_dto add_request LOW READ
    ((settled_world (idle_db LOW))\<lparr>w_clock := n, w_policy_reads := m\<rparr>)) = Inr add_evaluation"
  by code_simp

lemma wp_evaluate_at:
  assumes "w_db w = idle_db LOW"
  shows "wp (policy_repository_evaluate sample_host bot_dto add_request LOW READ) Q E w
    = Q add_evaluation (w\<lparr>w_clock := Suc (w_clock w), w_policy_reads := Suc (w_policy_reads w)\<rparr>)"
  using evaluate_add_at [where n = "w_clock w" and m = "w_policy_reads w"] assms
  by (simp add: policy_repository_evaluate_def wp_simps prog_defs utc_now_def policy_repository_def
      settled_world_def sample_start_def)

lemma bot_authenticated:
  "extract_bearer_token agent_key = Inr ''msgw_key0000''"
  "hash_api_key sample_host ''msgw_key0000'' (api_key_pepper sample_settings) = ''pepper/msgw_key0000''"
  "find_row (\<lambda>r. ag_api_key_hash r = ''pepper/msgw_key0000'') (db_agents (idle_db LOW)) = Some bot_row"
  "to_dto bot_row = Inr bot_dto" "ag_status bot_row = ''active''"
  by code_simp+

lemma wp_authenticate_bot:
  "w_db w = idle_db LOW \<Longrightarrow> wp (require_agent sample_host sample_settings agent_key) Q E w = Q bot_dto w"
  by (simp add: require_agent_def authenticate_agent_by_api_key_def agent_get_by_api_key_hash_def wp_simps
      bot_authenticated)

lemma wp_parked_call:
  assumes w: "w_db w = idle_db LOW"
  shows "wp (handle sample_host sample_settings (Some parked) call_add) (\<lambda>x w'. False)
    (\<lambda>e w'. w_upstream w' = w_upstream w @ [ToolCalled calc_row (add_row LOW) add_arguments]) w"
proof -
  have "dto_tenant_id bot_dto = 100" "dto_id bot_dto = 2" by (simp_all add: bot_dto_def)
  moreover have "risk_level_of ''low'' = Some LOW" by code_simp
  moreover have "pr_decision add_evaluation = ALLOW" by (simp add: add_evaluation_def)
  moreover have "wp (create_tool_call sample_host bot_dto add_request ''t1'' add_evaluation None
        (Some (td_schema_hash (add_row LOW))))
      (\<lambda>c. wp (finish_allowed sample_host (build_tool_call_service sample_settings (Some parked))
        calc_row (add_row LOW) add_request c) Q E) E w1"
    if "w_db w1 = idle_db LOW" "\<And>e w'. w_upstream w' = w_upstream w1 @ [ToolCalled calc_row (add_row LOW) add_arguments] \<Longrightarrow> E e w'"
    for Q E w1
    using that
    by (simp add: statement_defs wp_simps finish_allowed_def build_tool_call_service_def
        wp_try_upstream_call Let_def parked_def idle_db_def bot_dto_def sample_tenant_def
        bot_row_def add_evaluation_def add_hash_def add_row_def)
  ultimately show ?thesis
    using hash_add w
    by (simp add: call_add_def call_tool_route_def wp_simps committing_def call_tool_def Let_def
        redacted_add tool_server_get_by_server_id_def tool_definition_get_by_name_def
        tool_call_get_by_idempotency_key_def lookup_add find_row_Nil arguments_match_schema_def
        dispatch_call_def wp_member_or_raise wp_evaluate_at wp_authenticate_bot)
qed

lemma call_awaits:
  assumes "w_db w = idle_db LOW"
  shows "awaits sample_host sample_settings (Some sample_client) call_add w"
  using wp_parked_call [OF assms]
  by (auto simp: awaits_def touches_flows_def at_await_def call_add_def wp_def split: prod.splits sum.splits)

lemma calling_sample:
  obtains a where "lp_tasks (sample_arrive call_add low_loop)
      = [\<lparr>tk_request = call_add, tk_start = settled_world (idle_db LOW), tk_await = a\<rparr>]"
    "w_committed (lp_world (sample_arrive call_add low_loop)) = idle_db LOW"
proof -
  have "new_session (settled_world (idle_db LOW)) = settled_world (idle_db LOW)" by (simp add: new_session_def)
  with call_awaits [of "settled_world (idle_db LOW)"] that show thesis
    by (simp add: arrive_def low_loop_def Let_def held_def disjoint_locks_def list_all_iff)
qed

lemma call_key_stored: "CallKey i j k \<in> set (locks d d') \<Longrightarrow> db_tool_calls d' \<noteq> db_tool_calls d"
  by (auto simp: locks_def call_locks_def approval_locks_def changed_def)

lemma retried_call_stops_the_loop_witness:
  "lp_stopped (sample_arrive call_add (sample_arrive call_add low_loop))"
proof (rule calling_sample)
  fix a
  let ?s = "sample_arrive call_add low_loop"
  let ?t = "\<lparr>tk_request = call_add, tk_start = settled_world (idle_db LOW), tk_await = a\<rparr>"
  assume s: "lp_tasks ?s = [?t]" "w_committed (lp_world ?s) = idle_db LOW"
  have idle: "idle_loop low_loop" by (simp add: idle_loop_def low_loop_def sample_rows_ok)
  have steps: "(loop_step sample_host sample_settings (Some sample_client))\<^sup>*\<^sup>* low_loop ?s"
    by (rule r_into_rtranclp) (rule loop_step.arrives)
  have t: "?t \<in> set (lp_tasks ?s)" "tk_request ?t = PostToolCall agent_key add_request"
    using s by (simp_all add: call_add_def)
  have awaiting: "awaits sample_host sample_settings (Some sample_client) (PostToolCall agent_key add_request)
      (new_session (lp_world ?s))"
    using call_awaits [of "new_session (lp_world ?s)"] s(2) by (simp add: call_add_def)
  have retry: "db_tool_calls (session_rows sample_host sample_settings (Some sample_client)
      (PostToolCall agent_key add_request) (new_session (lp_world ?s))) \<noteq> db_tool_calls (w_committed (lp_world ?s))"
  proof (rule awaiting_call [OF awaiting request_simps(5)])
    fix agent
    assume "CallKey (dto_tenant_id agent) (dto_id agent) ''k1'' \<in> set (locks (w_db (new_session (lp_world ?s)))
      (w_db (at_await sample_host sample_settings (Some sample_client) (PostToolCall agent_key add_request)
        (new_session (lp_world ?s)))))"
    from call_key_stored [OF this] awaiting show ?thesis by (simp add: session_rows_def)
  qed
  from retried_call_stops_the_loop [OF idle steps t request_simps(5) request_simps(5) retry rtranclp.rtrancl_refl]
  show ?thesis by (simp add: call_add_def)
qed

end
