(* ===== verification/Api_Schemas.thy ===== *)
theory Api_Schemas
  imports Api_Layer
begin

text \<open>
  The JSON bodies of the answers: the response models of \<open>api/schemas.py\<close> as descriptions of
  their fields (\<open>field_type\<close>), the model each route declares (\<open>response_model\<close>), and the body a
  handler's answer is rendered to (\<open>render\<close>). Enumerations and UUIDs are rendered as their texts;
  the text of a time is the parameter \<open>isoformat\<close>.
\<close>

section \<open>Descriptions of JSON values\<close>

datatype field_type = FStr | FInt | FUuid | FDatetime | FObject
  | FEnum "string list"
  | FOptional field_type
  | FList field_type
  | FModel "(string \<times> field_type) list"

fun conforms :: "field_type \<Rightarrow> pyval \<Rightarrow> bool"
  and conforms_items :: "field_type \<Rightarrow> pyval list \<Rightarrow> bool"
  and conforms_fields :: "(string \<times> field_type) list \<Rightarrow> json_object \<Rightarrow> bool" where
  "conforms FStr v = (case v of PStr s \<Rightarrow> True | _ \<Rightarrow> False)"
| "conforms FInt v = (case v of PInt i \<Rightarrow> True | _ \<Rightarrow> False)"
| "conforms FUuid v = (case v of PStr s \<Rightarrow> map_option uuid_str (uuid_parse s) = Some s | _ \<Rightarrow> False)"
| "conforms FDatetime v = (case v of PStr s \<Rightarrow> True | _ \<Rightarrow> False)"
| "conforms FObject v = (case v of PDict kvs \<Rightarrow> True | _ \<Rightarrow> False)"
| "conforms (FEnum members) v = (case v of PStr s \<Rightarrow> s \<in> set members | _ \<Rightarrow> False)"
| "conforms (FOptional t) v = (v = PNone \<or> conforms t v)"
| "conforms (FList t) v = (case v of PList xs \<Rightarrow> conforms_items t xs | _ \<Rightarrow> False)"
| "conforms (FModel fs) v = (case v of PDict kvs \<Rightarrow> conforms_fields fs kvs | _ \<Rightarrow> False)"
| "conforms_items t [] = True"
| "conforms_items t (v # vs) = (conforms t v \<and> conforms_items t vs)"
| "conforms_fields [] kvs = (kvs = [])"
| "conforms_fields ((n, t) # fs) kvs =
    (case kvs of [] \<Rightarrow> False | (k, v) # rest \<Rightarrow> k = n \<and> conforms t v \<and> conforms_fields fs rest)"

section \<open>The response models\<close>

definition EntityStatus :: field_type where
  "EntityStatus = FEnum (map entity_status_value [ACTIVE, DISABLED])"

definition AgentRole :: field_type where
  "AgentRole = FEnum (map agent_role_value [AGENT, ADMIN])"

definition TransportType :: field_type where
  "TransportType = FEnum (map transport_type_value [STDIO, STREAMABLE_HTTP])"

definition RiskLevel :: field_type where
  "RiskLevel = FEnum (map risk_level_value [LOW, MEDIUM, HIGH, CRITICAL])"

definition ActionType :: field_type where
  "ActionType = FEnum (map action_type_value [READ, WRITE, DESTRUCTIVE, EXTERNAL_SEND, PRIVILEGED])"

definition PolicyEffect :: field_type where
  "PolicyEffect = FEnum (map policy_effect_value [DENY, REQUIRE_APPROVAL, ALLOW])"

definition ToolCallStatus :: field_type where
  "ToolCallStatus = FEnum (map tool_call_status_value
     [TC_DENIED, TC_PENDING_APPROVAL, TC_EXECUTING, TC_SUCCEEDED, TC_FAILED])"

definition ApprovalStatus :: field_type where
  "ApprovalStatus = FEnum (map approval_status_value
     [AP_PENDING, AP_APPROVED, AP_DENIED, AP_EXPIRED, AP_EXECUTED, AP_FAILED])"

definition AgentResponse :: "(string \<times> field_type) list" where
  "AgentResponse = [(''id'', FUuid), (''tenant_id'', FUuid), (''name'', FStr), (''role'', AgentRole),
     (''status'', EntityStatus)]"

definition AgentCreateResponse :: "(string \<times> field_type) list" where
  "AgentCreateResponse = AgentResponse @ [(''api_key'', FStr)]"

definition ToolCallErrorBody :: "(string \<times> field_type) list" where
  "ToolCallErrorBody = [(''code'', FStr), (''message'', FStr)]"

definition ToolCallResponse :: "(string \<times> field_type) list" where
  "ToolCallResponse = [(''tool_call_id'', FUuid), (''status'', ToolCallStatus),
     (''policy_decision'', FOptional PolicyEffect), (''reason'', FOptional FStr),
     (''approval_id'', FOptional FUuid), (''result'', FOptional FObject),
     (''error'', FOptional (FModel ToolCallErrorBody))]"

definition ApprovalListItem :: "(string \<times> field_type) list" where
  "ApprovalListItem = [(''id'', FUuid), (''tenant_id'', FUuid), (''agent_id'', FUuid),
     (''tool_call_id'', FUuid), (''target_server'', FStr), (''target_tool'', FStr),
     (''arguments_redacted'', FObject), (''arguments_hash'', FStr), (''status'', ApprovalStatus),
     (''requested_reason'', FOptional FStr), (''expires_at'', FDatetime), (''created_at'', FDatetime)]"

definition ApprovalListResponse :: "(string \<times> field_type) list" where
  "ApprovalListResponse = [(''items'', FList (FModel ApprovalListItem))]"

definition ApprovalActionErrorBody :: "(string \<times> field_type) list" where
  "ApprovalActionErrorBody = [(''code'', FStr), (''message'', FStr)]"

definition ApprovalActionResponse :: "(string \<times> field_type) list" where
  "ApprovalActionResponse = [(''approval_id'', FUuid), (''tool_call_id'', FUuid),
     (''status'', ApprovalStatus), (''tool_call_status'', ToolCallStatus),
     (''result'', FOptional FObject), (''error'', FOptional (FModel ApprovalActionErrorBody))]"

definition ToolServerResponse :: "(string \<times> field_type) list" where
  "ToolServerResponse = [(''id'', FUuid), (''tenant_id'', FUuid), (''server_id'', FStr), (''name'', FStr),
     (''transport_type'', TransportType), (''endpoint_url'', FOptional FStr),
     (''command'', FOptional FStr), (''args'', FOptional (FList FStr)), (''status'', EntityStatus)]"

definition ToolServerListResponse :: "(string \<times> field_type) list" where
  "ToolServerListResponse = [(''items'', FList (FModel ToolServerResponse))]"

definition ToolDefinitionResponse :: "(string \<times> field_type) list" where
  "ToolDefinitionResponse = [(''id'', FUuid), (''tenant_id'', FUuid), (''server_id'', FUuid),
     (''tool_name'', FStr), (''description'', FOptional FStr), (''input_schema'', FObject),
     (''risk_level'', RiskLevel), (''action_type'', ActionType), (''status'', EntityStatus),
     (''schema_hash'', FStr)]"

definition ToolDefinitionListResponse :: "(string \<times> field_type) list" where
  "ToolDefinitionListResponse = [(''items'', FList (FModel ToolDefinitionResponse))]"

text \<open>The \<open>response_model\<close> argument of each route.\<close>

fun response_model :: "api_request \<Rightarrow> field_type" where
  "response_model (PostAgent auth t n r) = FModel AgentCreateResponse"
| "response_model (ListAgents auth t) = FList (FModel AgentResponse)"
| "response_model (GetAgent auth i) = FModel AgentResponse"
| "response_model (DisableAgent auth i) = FModel AgentResponse"
| "response_model (GetCurrentAgent auth) = FModel AgentResponse"
| "response_model (PostToolServer auth body) = FModel ToolServerResponse"
| "response_model (ListToolServers auth t) = FModel ToolServerListResponse"
| "response_model (RefreshTools auth s t) = FModel ToolDefinitionListResponse"
| "response_model (ListToolDefinitions auth t s) = FModel ToolDefinitionListResponse"
| "response_model (PatchToolDefinition auth i body) = FModel ToolDefinitionResponse"
| "response_model (ListApprovals auth s t n) = FModel ApprovalListResponse"
| "response_model (ApproveApproval auth i r) = FModel ApprovalActionResponse"
| "response_model (DenyApproval auth i r) = FModel ApprovalActionResponse"
| "response_model (PostToolCall auth body) = FModel ToolCallResponse"

section \<open>Rendering\<close>

definition json_opt :: "('a \<Rightarrow> pyval) \<Rightarrow> 'a option \<Rightarrow> pyval" where
  "json_opt f v = (case v of None \<Rightarrow> PNone | Some x \<Rightarrow> f x)"

definition json_uuid :: "uuid \<Rightarrow> pyval" where
  "json_uuid u = PStr (uuid_str u)"

definition render_agent :: "agent_dto \<Rightarrow> json_object" where
  "render_agent a = [(''id'', json_uuid (dto_id a)), (''tenant_id'', json_uuid (dto_tenant_id a)),
     (''name'', PStr (dto_name a)), (''role'', PStr (agent_role_value (dto_role a))),
     (''status'', PStr (entity_status_value (dto_status a)))]"

definition render_tool_server :: "tool_server_response \<Rightarrow> pyval" where
  "render_tool_server s = PDict [(''id'', json_uuid (rs_id s)),
     (''tenant_id'', json_uuid (rs_tenant_id s)), (''server_id'', PStr (rs_server_id s)),
     (''name'', PStr (rs_name s)), (''transport_type'', PStr (transport_type_value (rs_transport_type s))),
     (''endpoint_url'', json_opt PStr (rs_endpoint_url s)), (''command'', json_opt PStr (rs_command s)),
     (''args'', json_opt (\<lambda>args. PList (map PStr args)) (rs_args s)),
     (''status'', PStr (entity_status_value (rs_status s)))]"

definition render_tool_definition :: "tool_definition_response \<Rightarrow> pyval" where
  "render_tool_definition d = PDict [(''id'', json_uuid (rd_id d)),
     (''tenant_id'', json_uuid (rd_tenant_id d)), (''server_id'', json_uuid (rd_server_id d)),
     (''tool_name'', PStr (rd_tool_name d)), (''description'', json_opt PStr (rd_description d)),
     (''input_schema'', PDict (rd_input_schema d)),
     (''risk_level'', PStr (risk_level_value (rd_risk_level d))),
     (''action_type'', PStr (action_type_value (rd_action_type d))),
     (''status'', PStr (entity_status_value (rd_status d))), (''schema_hash'', PStr (rd_schema_hash d))]"

definition render_approval :: "(datetime \<Rightarrow> string) \<Rightarrow> approval_list_item \<Rightarrow> pyval" where
  "render_approval isoformat r = PDict [(''id'', json_uuid (ri_id r)),
     (''tenant_id'', json_uuid (ri_tenant_id r)), (''agent_id'', json_uuid (ri_agent_id r)),
     (''tool_call_id'', json_uuid (ri_tool_call_id r)), (''target_server'', PStr (ri_target_server r)),
     (''target_tool'', PStr (ri_target_tool r)), (''arguments_redacted'', PDict (ri_arguments_redacted r)),
     (''arguments_hash'', PStr (ri_arguments_hash r)),
     (''status'', PStr (approval_status_value (ri_status r))),
     (''requested_reason'', json_opt PStr (ri_requested_reason r)),
     (''expires_at'', PStr (isoformat (ri_expires_at r))), (''created_at'', PStr (isoformat (ri_created_at r)))]"

definition render_approval_action :: "approval_action_result \<Rightarrow> pyval" where
  "render_approval_action r = PDict [(''approval_id'', json_uuid (ar_approval_id r)),
     (''tool_call_id'', json_uuid (ar_tool_call_id r)),
     (''status'', PStr (approval_status_value (ar_status r))),
     (''tool_call_status'', PStr (tool_call_status_value (ar_tool_call_status r))),
     (''result'', json_opt PDict (ar_result r)),
     (''error'', json_opt (\<lambda>e. PDict [(''code'', PStr (ax_code e)), (''message'', PStr (ax_message e))])
       (ar_error r))]"

definition render_tool_call :: "tool_call_result \<Rightarrow> pyval" where
  "render_tool_call r = PDict [(''tool_call_id'', json_uuid (tr_tool_call_id r)),
     (''status'', PStr (tool_call_status_value (tr_status r))),
     (''policy_decision'', json_opt (\<lambda>p. PStr (policy_effect_value p)) (tr_policy_decision r)),
     (''reason'', json_opt PStr (tr_reason r)), (''approval_id'', json_opt json_uuid (tr_approval_id r)),
     (''result'', json_opt PDict (tr_result r)),
     (''error'', json_opt (\<lambda>e. PDict [(''code'', PStr (tx_code e)), (''message'', PStr (tx_message e))])
       (tr_error r))]"

fun render :: "(datetime \<Rightarrow> string) \<Rightarrow> api_response \<Rightarrow> pyval" where
  "render isoformat (AgentCreated a k) = PDict (render_agent a @ [(''api_key'', PStr k)])"
| "render isoformat (AgentIs a) = PDict (render_agent a)"
| "render isoformat (AgentsAre as) = PList (map (\<lambda>a. PDict (render_agent a)) as)"
| "render isoformat (ToolServerCreated s) = render_tool_server s"
| "render isoformat (ToolServersAre ss) = PDict [(''items'', PList (map render_tool_server ss))]"
| "render isoformat (ToolDefinitionIs d) = render_tool_definition d"
| "render isoformat (ToolDefinitionsAre ds) = PDict [(''items'', PList (map render_tool_definition ds))]"
| "render isoformat (ApprovalsAre rs) = PDict [(''items'', PList (map (render_approval isoformat) rs))]"
| "render isoformat (ApprovalAction r) = render_approval_action r"
| "render isoformat (ToolCallAnswer r) = render_tool_call r"

text \<open>
  \<open>/health\<close> and \<open>/version\<close>: answered without a session, from the settings and the version that
  the package metadata gives.
\<close>

definition health :: pyval where
  "health = PDict [(''status'', PStr ''ok'')]"

definition version :: "string \<Rightarrow> string \<Rightarrow> pyval" where
  "version app_name package_version =
     PDict [(''app_name'', PStr app_name), (''version'', PStr package_version)]"

section \<open>Every answer conforms to the model of its route\<close>

lemmas model_defs = AgentResponse_def AgentCreateResponse_def ToolCallErrorBody_def ToolCallResponse_def
  ApprovalListItem_def ApprovalListResponse_def ApprovalActionErrorBody_def ApprovalActionResponse_def
  ToolServerResponse_def ToolServerListResponse_def ToolDefinitionResponse_def
  ToolDefinitionListResponse_def

lemmas enum_defs = EntityStatus_def AgentRole_def TransportType_def RiskLevel_def ActionType_def
  PolicyEffect_def ToolCallStatus_def ApprovalStatus_def

lemma enum_conforms [simp]:
  "conforms EntityStatus (PStr (entity_status_value a))"
  "conforms AgentRole (PStr (agent_role_value b))"
  "conforms TransportType (PStr (transport_type_value c))"
  "conforms RiskLevel (PStr (risk_level_value d))"
  "conforms ActionType (PStr (action_type_value e))"
  "conforms PolicyEffect (PStr (policy_effect_value f))"
  "conforms ToolCallStatus (PStr (tool_call_status_value g))"
  "conforms ApprovalStatus (PStr (approval_status_value i))"
proof -
  show "conforms EntityStatus (PStr (entity_status_value a))" by (cases a) (simp_all add: EntityStatus_def)
  show "conforms AgentRole (PStr (agent_role_value b))" by (cases b) (simp_all add: AgentRole_def)
  show "conforms TransportType (PStr (transport_type_value c))" by (cases c) (simp_all add: TransportType_def)
  show "conforms RiskLevel (PStr (risk_level_value d))" by (cases d) (simp_all add: RiskLevel_def)
  show "conforms ActionType (PStr (action_type_value e))" by (cases e) (simp_all add: ActionType_def)
  show "conforms PolicyEffect (PStr (policy_effect_value f))" by (cases f) (simp_all add: PolicyEffect_def)
  show "conforms ToolCallStatus (PStr (tool_call_status_value g))" by (cases g) (simp_all add: ToolCallStatus_def)
  show "conforms ApprovalStatus (PStr (approval_status_value i))" by (cases i) (simp_all add: ApprovalStatus_def)
qed

lemma value_conforms [simp]:
  "conforms FUuid (json_uuid u)"
  "conforms (FOptional t) (json_opt f v) \<longleftrightarrow> f (the v) = PNone \<or> v = None \<or> conforms t (f (the v))"
  by (auto simp: json_uuid_def json_opt_def split: option.split)

lemma conforms_items_map: "(\<And>x. conforms t (f x)) \<Longrightarrow> conforms_items t (map f xs)"
  by (induction xs) simp_all

lemma model_conforms:
  "conforms (FModel AgentResponse) (PDict (render_agent a))"
  "conforms (FModel AgentCreateResponse) (PDict (render_agent a @ [(''api_key'', PStr k)]))"
  "conforms (FModel ToolServerResponse) (render_tool_server s)"
  "conforms (FModel ToolDefinitionResponse) (render_tool_definition d)"
  "conforms (FModel ApprovalListItem) (render_approval isoformat r)"
  "conforms (FModel ApprovalActionResponse) (render_approval_action x)"
  "conforms (FModel ToolCallResponse) (render_tool_call c)"
  by (simp_all add: model_defs render_agent_def render_tool_server_def render_tool_definition_def
      render_approval_def render_approval_action_def render_tool_call_def conforms_items_map
      json_uuid_def json_opt_def split: option.split)

text \<open>The kind of answer a route gives.\<close>

definition answers :: "api_request \<Rightarrow> api_response \<Rightarrow> bool" where
  "answers req x = (case req of
       PostAgent v0 v1 v2 v3 \<Rightarrow> (case x of AgentCreated u0 u1 \<Rightarrow> True | _ \<Rightarrow> False)
     | ListAgents v0 v1 \<Rightarrow> (case x of AgentsAre u0 \<Rightarrow> True | _ \<Rightarrow> False)
     | GetAgent v0 v1 \<Rightarrow> (case x of AgentIs u0 \<Rightarrow> True | _ \<Rightarrow> False)
     | DisableAgent v0 v1 \<Rightarrow> (case x of AgentIs u0 \<Rightarrow> True | _ \<Rightarrow> False)
     | GetCurrentAgent v0 \<Rightarrow> (case x of AgentIs u0 \<Rightarrow> True | _ \<Rightarrow> False)
     | PostToolServer v0 v1 \<Rightarrow> (case x of ToolServerCreated u0 \<Rightarrow> True | _ \<Rightarrow> False)
     | ListToolServers v0 v1 \<Rightarrow> (case x of ToolServersAre u0 \<Rightarrow> True | _ \<Rightarrow> False)
     | RefreshTools v0 v1 v2 \<Rightarrow> (case x of ToolDefinitionsAre u0 \<Rightarrow> True | _ \<Rightarrow> False)
     | ListToolDefinitions v0 v1 v2 \<Rightarrow> (case x of ToolDefinitionsAre u0 \<Rightarrow> True | _ \<Rightarrow> False)
     | PatchToolDefinition v0 v1 v2 \<Rightarrow> (case x of ToolDefinitionIs u0 \<Rightarrow> True | _ \<Rightarrow> False)
     | ListApprovals v0 v1 v2 v3 \<Rightarrow> (case x of ApprovalsAre u0 \<Rightarrow> True | _ \<Rightarrow> False)
     | ApproveApproval v0 v1 v2 \<Rightarrow> (case x of ApprovalAction u0 \<Rightarrow> True | _ \<Rightarrow> False)
     | DenyApproval v0 v1 v2 \<Rightarrow> (case x of ApprovalAction u0 \<Rightarrow> True | _ \<Rightarrow> False)
     | PostToolCall v0 v1 \<Rightarrow> (case x of ToolCallAnswer u0 \<Rightarrow> True | _ \<Rightarrow> False))"

lemma keeps_anything: "keeps (\<lambda>_. True) m (\<lambda>_. True)"
  by (simp add: keeps_def wp_def split: prod.split sum.split)

lemma handle_answers: "keeps (\<lambda>_. True) (handle h st client req) (answers req)"
  by (cases req; simp add: route_defs admin_def split: prod.split;
      (intro allI impI)?; (rule keeps_anything keeps_seq [OF keeps_anything] keeps_return)+; simp add: answers_def)


lemma items_conform:
  "conforms (FModel [(''items'', FList t)]) (PDict [(''items'', PList xs)]) = conforms_items t xs"
  by simp

lemma answers_conforming:
  assumes "answers req r"
  shows "conforms (response_model req) (render isoformat r)"
  using assms
  by (cases req; cases r)
    (simp_all add: answers_def model_conforms items_conform conforms_items_map ToolServerListResponse_def
      ToolDefinitionListResponse_def ApprovalListResponse_def del: conforms.simps(9))

section \<open>Credentials stay inside\<close>

text \<open>The rows without the keyed hashes of API keys and without the environments of servers.\<close>

definition without_credentials :: "db \<Rightarrow> db" where
  "without_credentials d = d\<lparr>db_agents := map (\<lambda>a. a\<lparr>ag_api_key_hash := []\<rparr>) (db_agents d),
     db_tool_servers := map (\<lambda>s. s\<lparr>ts_env := PNone\<rparr>) (db_tool_servers d)\<rparr>"

text \<open>The requests of an administrator that only read.\<close>

fun admin_reads :: "api_request \<Rightarrow> bool" where
  "admin_reads (ListAgents auth t) = True"
| "admin_reads (GetAgent auth i) = True"
| "admin_reads (ListToolServers auth t) = True"
| "admin_reads (ListToolDefinitions auth t s) = True"
| "admin_reads (ListApprovals auth s t n) = True"
| "admin_reads _ = False"

definition same_agent :: "agent_row \<Rightarrow> agent_row \<Rightarrow> bool" where
  "same_agent a b \<longleftrightarrow> a\<lparr>ag_api_key_hash := []\<rparr> = b\<lparr>ag_api_key_hash := []\<rparr>"

definition same_server :: "tool_server_row \<Rightarrow> tool_server_row \<Rightarrow> bool" where
  "same_server s t \<longleftrightarrow> s\<lparr>ts_env := PNone\<rparr> = t\<lparr>ts_env := PNone\<rparr>"

lemma same_agent_fields:
  assumes "same_agent a b"
  shows "ag_id a = ag_id b" "ag_tenant_id a = ag_tenant_id b" "to_dto a = to_dto b"
proof -
  have f: "g (a\<lparr>ag_api_key_hash := []\<rparr>) = g (b\<lparr>ag_api_key_hash := []\<rparr>)" for g :: "agent_row \<Rightarrow> 'a"
    using assms by (simp add: same_agent_def)
  show "ag_id a = ag_id b" "ag_tenant_id a = ag_tenant_id b" "to_dto a = to_dto b"
    using f [of ag_id] f [of ag_tenant_id] f [of ag_name] f [of ag_role] f [of ag_status]
    by (simp_all add: to_dto_def split: option.split)
qed

lemma same_server_fields:
  assumes "same_server s t"
  shows "ts_id s = ts_id t" "ts_tenant_id s = ts_tenant_id t" "ts_server_id s = ts_server_id t"
    "tool_server_response_of s = tool_server_response_of t"
proof -
  have f: "g (s\<lparr>ts_env := PNone\<rparr>) = g (t\<lparr>ts_env := PNone\<rparr>)" for g :: "tool_server_row \<Rightarrow> 'a"
    using assms by (simp add: same_server_def)
  show "ts_id s = ts_id t" "ts_tenant_id s = ts_tenant_id t" "ts_server_id s = ts_server_id t"
    "tool_server_response_of s = tool_server_response_of t"
    using f [of ts_id] f [of ts_tenant_id] f [of ts_server_id] f [of tool_server_response_of]
    by (simp_all add: tool_server_response_of_def)
qed

lemma map_eq_all2: "map f xs = map f ys \<longleftrightarrow> list_all2 (\<lambda>x y. f x = f y) xs ys"
  by (simp only: list_all2_eq [of "map f xs"] list_all2_map1 list_all2_map2)

lemma filtered_answers:
  assumes "list_all2 E xs ys" and "\<And>x y. E x y \<Longrightarrow> p x = p y" and "\<And>x y. E x y \<Longrightarrow> f x = f y"
  shows "map_sum_list f (filter p xs) = map_sum_list f (filter p ys)"
  using assms(1)
proof induction
  case (Cons x xs y ys)
  moreover from Cons.hyps(1) have "p x = p y" "f x = f y" by (simp_all add: assms(2,3))
  ultimately show ?case by (simp split: sum.split)
qed simp

lemma found_rows:
  assumes "list_all2 E xs ys" and "\<And>x y. E x y \<Longrightarrow> p x = p y"
  shows "rel_option E (find_row p xs) (find_row p ys)"
  using assms(1) by induction (simp_all add: assms(2) find_row_def)

lemma without_credentials_eq:
  assumes "without_credentials d = without_credentials d'"
  shows "list_all2 same_agent (db_agents d) (db_agents d')"
    "list_all2 same_server (db_tool_servers d) (db_tool_servers d')"
    "db_tenants d = db_tenants d'" "db_tool_definitions d = db_tool_definitions d'"
    "db_approvals d = db_approvals d'"
proof -
  have f: "g (without_credentials d) = g (without_credentials d')" for g :: "db \<Rightarrow> 'a"
    using assms by simp
  show "list_all2 same_agent (db_agents d) (db_agents d')"
    using f [of db_agents] by (simp add: without_credentials_def map_eq_all2 same_agent_def [abs_def])
  show "list_all2 same_server (db_tool_servers d) (db_tool_servers d')"
    using f [of db_tool_servers] by (simp add: without_credentials_def map_eq_all2 same_server_def [abs_def])
  show "db_tenants d = db_tenants d'" "db_tool_definitions d = db_tool_definitions d'"
    "db_approvals d = db_approvals d'"
    using f [of db_tenants] f [of db_tool_definitions] f [of db_approvals]
    by (simp_all add: without_credentials_def)
qed

lemma same_rows:
  assumes "without_credentials d = without_credentials d'"
  shows "map_sum_list to_dto (filter (\<lambda>a. ag_tenant_id a = i) (db_agents d))
      = map_sum_list to_dto (filter (\<lambda>a. ag_tenant_id a = i) (db_agents d'))"
    "map_sum_list tool_server_response_of (filter (\<lambda>s. ts_tenant_id s = i) (db_tool_servers d))
      = map_sum_list tool_server_response_of (filter (\<lambda>s. ts_tenant_id s = i) (db_tool_servers d'))"
    "rel_option same_agent (find_row (\<lambda>a. ag_id a = i) (db_agents d)) (find_row (\<lambda>a. ag_id a = i) (db_agents d'))"
    "rel_option same_server (find_row (\<lambda>s. ts_tenant_id s = i \<and> ts_server_id s = k) (db_tool_servers d))
      (find_row (\<lambda>s. ts_tenant_id s = i \<and> ts_server_id s = k) (db_tool_servers d'))"
  using without_credentials_eq(1,2) [OF assms]
  by (auto intro!: filtered_answers found_rows simp: same_agent_fields same_server_fields)

lemma handle_reads:
  assumes "admin_reads req" and "without_credentials (w_db w) = without_credentials (w_db w')"
  shows "fst (handle h st client req w) = fst (handle h st client req w')"
proof (cases "require_admin h st (case req of ListAgents a t \<Rightarrow> a | GetAgent a i \<Rightarrow> a
    | ListToolServers a t \<Rightarrow> a | ListToolDefinitions a t s \<Rightarrow> a | ListApprovals a s t n \<Rightarrow> a)")
  case (Inl e)
  with assms(1) show ?thesis
    by (cases req) (simp_all add: route_defs admin_def prog_defs)
next
  case (Inr u)
  note same = same_rows [OF assms(2)] without_credentials_eq(3-5) [OF assms(2)]
  note reading = route_defs admin_def query_defs prog_defs Inr
  show ?thesis
    using assms(1)
  proof (cases req rule: admin_reads.cases)
    case (1 auth t)
    with Inr show ?thesis
      by (simp add: reading list_agents_def same split: sum.split option.split)
  next
    case (2 auth i)
    with Inr same(3) [of i] show ?thesis
      by (auto simp: reading get_agent_def same_agent_fields rel_option_iff split: sum.split option.splits)
  next
    case (3 auth t)
    with Inr show ?thesis
      by (simp add: reading list_tool_servers_def same split: sum.split option.split)
  next
    case (4 auth t s)
    with Inr same(4) [of t s] show ?thesis
      by (auto simp: reading list_tool_definitions_def same same_server_fields rel_option_iff
          split: sum.split option.splits)
  next
    case (5 auth s t n)
    have "fst (list_approvals (Some s) t n w) = fst (list_approvals (Some s) t n w')"
      by (cases n) (simp_all add: list_approvals_def approval_list_filtered_def same Let_def)
    with 5 Inr show ?thesis
      by (cases "list_approvals (Some s) t n w"; cases "list_approvals (Some s) t n w'")
        (simp add: reading split: sum.split)
  qed simp_all
qed


end
