(* ===== verification/Api_Routes.thy ===== *)
theory Api_Routes
  imports Api_Schemas
begin

text \<open>
  From an HTTP request to a handler: the routes that \<open>create_app\<close> includes, with their methods, path
  templates, dependencies and status codes (\<open>api/routes\<close>), the choice of the route for a method and
  a path, and what the handlers read from the validated inputs (the request models of
  \<open>api/schemas.py\<close> and the parameters of the handlers).
\<close>

section \<open>The routes\<close>

datatype http_method = GET | POST | PATCH

text \<open>The handler functions by their names.\<close>

datatype endpoint = E_health | E_version | E_create_agent | E_list_agents | E_get_agent
  | E_disable_agent | E_list_approvals | E_approve_approval | E_deny_approval | E_create_tool_server
  | E_list_tool_servers | E_refresh_tools | E_list_tool_definitions | E_update_tool_definition
  | E_get_current_agent | E_call_tool

text \<open>What a route asks of its caller: nothing, \<open>Depends(require_admin)\<close>, \<open>Depends(require_agent)\<close>.\<close>

datatype caller_check = Anyone | RequireAdmin | RequireAgent

record route =
  rt_method :: http_method
  rt_path :: string
  rt_endpoint :: endpoint
  rt_status :: nat
  rt_check :: caller_check

text \<open>\<open>APIRouter(prefix=..., dependencies=...)\<close> with its decorated functions, in their order.\<close>

definition router :: "string \<Rightarrow> caller_check \<Rightarrow> (http_method \<times> string \<times> endpoint \<times> nat) list \<Rightarrow> route list" where
  "router path_prefix check = map (\<lambda>(m, path, e, st). \<lparr>rt_method = m, rt_path = path_prefix @ path,
     rt_endpoint = e, rt_status = st, rt_check = check\<rparr>)"

definition health_router :: "route list" where
  "health_router = router [] Anyone
    [(GET, ''/health'', E_health, 200), (GET, ''/version'', E_version, 200)]"

definition admin_agents_router :: "route list" where
  "admin_agents_router = router ''/v1/admin/agents'' RequireAdmin
    [(POST, [], E_create_agent, 201), (GET, [], E_list_agents, 200),
     (GET, ''/{agent_id}'', E_get_agent, 200), (POST, ''/{agent_id}/disable'', E_disable_agent, 200)]"

definition admin_approvals_router :: "route list" where
  "admin_approvals_router = router ''/v1/admin/approvals'' RequireAdmin
    [(GET, [], E_list_approvals, 200), (POST, ''/{approval_id}/approve'', E_approve_approval, 200),
     (POST, ''/{approval_id}/deny'', E_deny_approval, 200)]"

definition admin_tools_router :: "route list" where
  "admin_tools_router = router ''/v1/admin'' RequireAdmin
    [(POST, ''/tool-servers'', E_create_tool_server, 201),
     (GET, ''/tool-servers'', E_list_tool_servers, 200),
     (POST, ''/tool-servers/{server_id}/refresh-tools'', E_refresh_tools, 200),
     (GET, ''/tool-definitions'', E_list_tool_definitions, 200),
     (PATCH, ''/tool-definitions/{tool_definition_id}'', E_update_tool_definition, 200)]"

definition agent_self_router :: "route list" where
  "agent_self_router = router ''/v1/agents'' RequireAgent [(GET, ''/me'', E_get_current_agent, 200)]"

definition tool_calls_router :: "route list" where
  "tool_calls_router = router ''/v1/tool-calls'' RequireAgent [(POST, [], E_call_tool, 200)]"

definition app_routes :: "route list" where
  "app_routes = health_router @ admin_agents_router @ admin_approvals_router @ admin_tools_router
     @ agent_self_router @ tool_calls_router"

section \<open>The choice of a route\<close>

text \<open>
  A path parameter stands for one segment of the path that is not empty. The first route whose path
  and method match serves the request; when paths match and no method does, the answer is 405. The
  redirect that adds or drops a slash at the end of an unknown path is left out.
\<close>

definition is_parameter :: "string \<Rightarrow> bool" where
  "is_parameter t \<longleftrightarrow> (case t of [] \<Rightarrow> False | c # cs \<Rightarrow> c = CHR ''{'')"

fun match_segments :: "string list \<Rightarrow> string list \<Rightarrow> string list option" where
  "match_segments [] [] = Some []"
| "match_segments (t # ts) (s # ss) =
    (if is_parameter t then (if s = [] then None else map_option (Cons s) (match_segments ts ss))
     else if t = s then match_segments ts ss else None)"
| "match_segments _ _ = None"

definition match_path :: "string \<Rightarrow> string \<Rightarrow> string list option" where
  "match_path template path = match_segments (py_split (CHR ''/'') template) (py_split (CHR ''/'') path)"

datatype routing = Routed route "string list" | MethodNotAllowed | NotFound

fun resolve :: "http_method \<Rightarrow> string \<Rightarrow> route list \<Rightarrow> routing" where
  "resolve m path [] = NotFound"
| "resolve m path (r # rs) = (case match_path (rt_path r) path of
     Some ps \<Rightarrow> if rt_method r = m then Routed r ps
       else (case resolve m path rs of NotFound \<Rightarrow> MethodNotAllowed | x \<Rightarrow> x)
   | None \<Rightarrow> resolve m path rs)"

section \<open>The request models\<close>

definition AgentCreateRequest :: "(string \<times> field_type) list" where
  "AgentCreateRequest = [(''tenant_id'', FUuid), (''name'', FStr), (''role'', AgentRole)]"

definition ToolCallRequestBody :: "(string \<times> field_type) list" where
  "ToolCallRequestBody = [(''target_server'', FStr), (''target_tool'', FStr), (''arguments'', FObject),
     (''trace_id'', FOptional FStr), (''idempotency_key'', FOptional FStr)]"

definition ApprovalReviewRequest :: "(string \<times> field_type) list" where
  "ApprovalReviewRequest = [(''review_reason'', FStr)]"

definition ToolServerCreateRequest :: "(string \<times> field_type) list" where
  "ToolServerCreateRequest = [(''tenant_id'', FUuid), (''server_id'', FStr), (''name'', FStr),
     (''transport_type'', TransportType), (''endpoint_url'', FOptional FStr),
     (''command'', FOptional FStr), (''args'', FOptional (FList FStr)), (''env'', FOptional FObject)]"

definition ToolServerRefreshRequest :: "(string \<times> field_type) list" where
  "ToolServerRefreshRequest = [(''tenant_id'', FUuid)]"

definition ToolDefinitionUpdateRequest :: "(string \<times> field_type) list" where
  "ToolDefinitionUpdateRequest = [(''risk_level'', FOptional RiskLevel),
     (''action_type'', FOptional ActionType), (''status'', FOptional EntityStatus),
     (''description'', FOptional FStr)]"

text \<open>The body and the path and query parameters each handler declares.\<close>

fun body_model :: "endpoint \<Rightarrow> (string \<times> field_type) list" where
  "body_model E_create_agent = AgentCreateRequest"
| "body_model E_approve_approval = ApprovalReviewRequest"
| "body_model E_deny_approval = ApprovalReviewRequest"
| "body_model E_create_tool_server = ToolServerCreateRequest"
| "body_model E_refresh_tools = ToolServerRefreshRequest"
| "body_model E_update_tool_definition = ToolDefinitionUpdateRequest"
| "body_model E_call_tool = ToolCallRequestBody"
| "body_model _ = []"

fun path_parameters :: "endpoint \<Rightarrow> (string \<times> field_type) list" where
  "path_parameters E_get_agent = [(''agent_id'', FUuid)]"
| "path_parameters E_disable_agent = [(''agent_id'', FUuid)]"
| "path_parameters E_approve_approval = [(''approval_id'', FUuid)]"
| "path_parameters E_deny_approval = [(''approval_id'', FUuid)]"
| "path_parameters E_refresh_tools = [(''server_id'', FStr)]"
| "path_parameters E_update_tool_definition = [(''tool_definition_id'', FUuid)]"
| "path_parameters _ = []"

fun query_parameters :: "endpoint \<Rightarrow> (string \<times> field_type) list" where
  "query_parameters E_list_agents = [(''tenant_id'', FUuid)]"
| "query_parameters E_list_tool_servers = [(''tenant_id'', FUuid)]"
| "query_parameters E_list_tool_definitions = [(''tenant_id'', FUuid), (''server_id'', FStr)]"
| "query_parameters E_list_approvals = [(''status'', ApprovalStatus), (''tenant_id'', FOptional FUuid),
     (''limit'', FOptional FInt)]"
| "query_parameters _ = []"

section \<open>Requests\<close>

text \<open>The header of a request, and the routes that ask for an administrator.\<close>

fun auth_header :: "api_request \<Rightarrow> string option" where
  "auth_header (PostAgent a _ _ _) = a" | "auth_header (ListAgents a _) = a"
| "auth_header (GetAgent a _) = a" | "auth_header (DisableAgent a _) = a"
| "auth_header (GetCurrentAgent a) = a" | "auth_header (PostToolServer a _) = a"
| "auth_header (ListToolServers a _) = a" | "auth_header (RefreshTools a _ _) = a"
| "auth_header (ListToolDefinitions a _ _) = a" | "auth_header (PatchToolDefinition a _ _) = a"
| "auth_header (ListApprovals a _ _ _) = a" | "auth_header (ApproveApproval a _ _) = a"
| "auth_header (DenyApproval a _ _) = a" | "auth_header (PostToolCall a _) = a"

fun for_agents :: "api_request \<Rightarrow> bool" where
  "for_agents (GetCurrentAgent _) = True"
| "for_agents (PostToolCall _ _) = True"
| "for_agents _ = False"

section \<open>What the handlers read\<close>

text \<open>
  The validated inputs of a request, with the defaults of absent fields filled in: the path and
  query parameters and the body, as objects in the order of their declarations.
\<close>

record http_inputs =
  hi_authorization :: "string option"
  hi_path :: json_object
  hi_query :: json_object
  hi_body :: json_object

definition valid_inputs :: "endpoint \<Rightarrow> http_inputs \<Rightarrow> bool" where
  "valid_inputs e i \<longleftrightarrow> conforms_fields (path_parameters e) (hi_path i)
     \<and> conforms_fields (query_parameters e) (hi_query i) \<and> conforms_fields (body_model e) (hi_body i)"

definition read_str :: "pyval \<Rightarrow> string option" where
  "read_str v = (case v of PStr s \<Rightarrow> Some s | _ \<Rightarrow> None)"

definition read_int :: "pyval \<Rightarrow> int option" where
  "read_int v = (case v of PInt i \<Rightarrow> Some i | _ \<Rightarrow> None)"

definition read_object :: "pyval \<Rightarrow> json_object option" where
  "read_object v = (case v of PDict kvs \<Rightarrow> Some kvs | _ \<Rightarrow> None)"

definition read_uuid :: "pyval \<Rightarrow> uuid option" where
  "read_uuid v = Option.bind (read_str v) uuid_parse"

definition read_enum :: "(string \<Rightarrow> 'e option) \<Rightarrow> pyval \<Rightarrow> 'e option" where
  "read_enum member v = Option.bind (read_str v) member"

fun read_strs :: "pyval list \<Rightarrow> string list option" where
  "read_strs [] = Some []"
| "read_strs (v # vs) = Option.bind (read_str v) (\<lambda>s. map_option (Cons s) (read_strs vs))"

definition read_str_list :: "pyval \<Rightarrow> string list option" where
  "read_str_list v = (case v of PList vs \<Rightarrow> read_strs vs | _ \<Rightarrow> None)"

definition read_optional :: "(pyval \<Rightarrow> 'a option) \<Rightarrow> pyval \<Rightarrow> 'a option option" where
  "read_optional f v = (if v = PNone then Some None else map_option Some (f v))"

definition read_field :: "(pyval \<Rightarrow> 'a option) \<Rightarrow> json_object \<Rightarrow> string \<Rightarrow> 'a option" where
  "read_field f kvs n = f (get_or_none kvs n)"

definition read_tool_call :: "json_object \<Rightarrow> tool_call_request option" where
  "read_tool_call payload =
    Option.bind (read_field read_str payload ''target_server'') (\<lambda>target_server.
    Option.bind (read_field read_str payload ''target_tool'') (\<lambda>target_tool.
    Option.bind (read_field read_object payload ''arguments'') (\<lambda>arguments.
    Option.bind (read_field (read_optional read_str) payload ''trace_id'') (\<lambda>trace_id.
    Option.bind (read_field (read_optional read_str) payload ''idempotency_key'') (\<lambda>idempotency_key.
    Some \<lparr>rq_target_server = target_server, rq_target_tool = target_tool, rq_arguments = arguments,
      rq_trace_id = trace_id, rq_idempotency_key = idempotency_key\<rparr>)))))"

definition read_tool_server :: "json_object \<Rightarrow> tool_server_create_request option" where
  "read_tool_server payload =
    Option.bind (read_field read_uuid payload ''tenant_id'') (\<lambda>tenant_id.
    Option.bind (read_field read_str payload ''server_id'') (\<lambda>server_id.
    Option.bind (read_field read_str payload ''name'') (\<lambda>name.
    Option.bind (read_field (read_enum transport_type_of) payload ''transport_type'') (\<lambda>transport_type.
    Option.bind (read_field (read_optional read_str) payload ''endpoint_url'') (\<lambda>endpoint_url.
    Option.bind (read_field (read_optional read_str) payload ''command'') (\<lambda>command.
    Option.bind (read_field (read_optional read_str_list) payload ''args'') (\<lambda>args.
    Option.bind (read_field (read_optional read_object) payload ''env'') (\<lambda>env.
    Some \<lparr>sc_tenant_id = tenant_id, sc_server_id = server_id, sc_name = name,
      sc_transport_type = transport_type, sc_endpoint_url = endpoint_url, sc_command = command,
      sc_args = args, sc_env = env\<rparr>))))))))"

definition read_tool_update :: "json_object \<Rightarrow> tool_definition_update_request option" where
  "read_tool_update payload =
    Option.bind (read_field (read_optional (read_enum risk_level_of)) payload ''risk_level'') (\<lambda>risk_level.
    Option.bind (read_field (read_optional (read_enum action_type_of)) payload ''action_type'') (\<lambda>action_type.
    Option.bind (read_field (read_optional (read_enum entity_status_of)) payload ''status'') (\<lambda>status.
    Option.bind (read_field (read_optional read_str) payload ''description'') (\<lambda>description.
    Some \<lparr>du_risk_level = risk_level, du_action_type = action_type, du_status = status,
      du_description = description\<rparr>))))"

text \<open>The call of a handler with its inputs; \<open>health\<close> and \<open>version\<close> need none.\<close>

fun request_of :: "endpoint \<Rightarrow> http_inputs \<Rightarrow> api_request option" where
  "request_of E_create_agent i =
    Option.bind (read_field read_uuid (hi_body i) ''tenant_id'') (\<lambda>tenant_id.
    Option.bind (read_field read_str (hi_body i) ''name'') (\<lambda>name.
    Option.bind (read_field (read_enum agent_role_of) (hi_body i) ''role'') (\<lambda>role.
    Some (PostAgent (hi_authorization i) tenant_id name role))))"
| "request_of E_list_agents i =
    map_option (ListAgents (hi_authorization i)) (read_field read_uuid (hi_query i) ''tenant_id'')"
| "request_of E_get_agent i =
    map_option (GetAgent (hi_authorization i)) (read_field read_uuid (hi_path i) ''agent_id'')"
| "request_of E_disable_agent i =
    map_option (DisableAgent (hi_authorization i)) (read_field read_uuid (hi_path i) ''agent_id'')"
| "request_of E_get_current_agent i = Some (GetCurrentAgent (hi_authorization i))"
| "request_of E_create_tool_server i =
    map_option (PostToolServer (hi_authorization i)) (read_tool_server (hi_body i))"
| "request_of E_list_tool_servers i =
    map_option (ListToolServers (hi_authorization i)) (read_field read_uuid (hi_query i) ''tenant_id'')"
| "request_of E_refresh_tools i =
    Option.bind (read_field read_str (hi_path i) ''server_id'') (\<lambda>server_id.
    map_option (RefreshTools (hi_authorization i) server_id) (read_field read_uuid (hi_body i) ''tenant_id''))"
| "request_of E_list_tool_definitions i =
    Option.bind (read_field read_uuid (hi_query i) ''tenant_id'') (\<lambda>tenant_id.
    map_option (ListToolDefinitions (hi_authorization i) tenant_id)
      (read_field read_str (hi_query i) ''server_id''))"
| "request_of E_update_tool_definition i =
    Option.bind (read_field read_uuid (hi_path i) ''tool_definition_id'') (\<lambda>tool_definition_id.
    map_option (PatchToolDefinition (hi_authorization i) tool_definition_id) (read_tool_update (hi_body i)))"
| "request_of E_list_approvals i =
    Option.bind (read_field (read_enum approval_status_of) (hi_query i) ''status'') (\<lambda>status.
    Option.bind (read_field (read_optional read_uuid) (hi_query i) ''tenant_id'') (\<lambda>tenant_id.
    map_option (ListApprovals (hi_authorization i) status tenant_id)
      (read_field (read_optional read_int) (hi_query i) ''limit'')))"
| "request_of E_approve_approval i =
    Option.bind (read_field read_uuid (hi_path i) ''approval_id'') (\<lambda>approval_id.
    map_option (ApproveApproval (hi_authorization i) approval_id)
      (read_field read_str (hi_body i) ''review_reason''))"
| "request_of E_deny_approval i =
    Option.bind (read_field read_uuid (hi_path i) ''approval_id'') (\<lambda>approval_id.
    map_option (DenyApproval (hi_authorization i) approval_id)
      (read_field read_str (hi_body i) ''review_reason''))"
| "request_of E_call_tool i = map_option (PostToolCall (hi_authorization i)) (read_tool_call (hi_body i))"
| "request_of E_health i = None"
| "request_of E_version i = None"

section \<open>The request a client sends\<close>

fun endpoint_of :: "api_request \<Rightarrow> endpoint" where
  "endpoint_of (PostAgent _ _ _ _) = E_create_agent"
| "endpoint_of (ListAgents _ _) = E_list_agents"
| "endpoint_of (GetAgent _ _) = E_get_agent"
| "endpoint_of (DisableAgent _ _) = E_disable_agent"
| "endpoint_of (GetCurrentAgent _) = E_get_current_agent"
| "endpoint_of (PostToolServer _ _) = E_create_tool_server"
| "endpoint_of (ListToolServers _ _) = E_list_tool_servers"
| "endpoint_of (RefreshTools _ _ _) = E_refresh_tools"
| "endpoint_of (ListToolDefinitions _ _ _) = E_list_tool_definitions"
| "endpoint_of (PatchToolDefinition _ _ _) = E_update_tool_definition"
| "endpoint_of (ListApprovals _ _ _ _) = E_list_approvals"
| "endpoint_of (ApproveApproval _ _ _) = E_approve_approval"
| "endpoint_of (DenyApproval _ _ _) = E_deny_approval"
| "endpoint_of (PostToolCall _ _) = E_call_tool"

fun method_of :: "api_request \<Rightarrow> http_method" where
  "method_of (ListAgents _ _) = GET"
| "method_of (GetAgent _ _) = GET"
| "method_of (GetCurrentAgent _) = GET"
| "method_of (ListToolServers _ _) = GET"
| "method_of (ListToolDefinitions _ _ _) = GET"
| "method_of (ListApprovals _ _ _ _) = GET"
| "method_of (PatchToolDefinition _ _ _) = PATCH"
| "method_of _ = POST"

fun path_of :: "api_request \<Rightarrow> string" where
  "path_of (PostAgent _ _ _ _) = ''/v1/admin/agents''"
| "path_of (ListAgents _ _) = ''/v1/admin/agents''"
| "path_of (GetAgent _ i) = ''/v1/admin/agents/'' @ uuid_str i"
| "path_of (DisableAgent _ i) = ''/v1/admin/agents/'' @ uuid_str i @ ''/disable''"
| "path_of (GetCurrentAgent _) = ''/v1/agents/me''"
| "path_of (PostToolServer _ _) = ''/v1/admin/tool-servers''"
| "path_of (ListToolServers _ _) = ''/v1/admin/tool-servers''"
| "path_of (RefreshTools _ s _) = ''/v1/admin/tool-servers/'' @ s @ ''/refresh-tools''"
| "path_of (ListToolDefinitions _ _ _) = ''/v1/admin/tool-definitions''"
| "path_of (PatchToolDefinition _ i _) = ''/v1/admin/tool-definitions/'' @ uuid_str i"
| "path_of (ListApprovals _ _ _ _) = ''/v1/admin/approvals''"
| "path_of (ApproveApproval _ i _) = ''/v1/admin/approvals/'' @ uuid_str i @ ''/approve''"
| "path_of (DenyApproval _ i _) = ''/v1/admin/approvals/'' @ uuid_str i @ ''/deny''"
| "path_of (PostToolCall _ _) = ''/v1/tool-calls''"

fun path_inputs :: "api_request \<Rightarrow> json_object" where
  "path_inputs (GetAgent _ i) = [(''agent_id'', json_uuid i)]"
| "path_inputs (DisableAgent _ i) = [(''agent_id'', json_uuid i)]"
| "path_inputs (RefreshTools _ s _) = [(''server_id'', PStr s)]"
| "path_inputs (PatchToolDefinition _ i _) = [(''tool_definition_id'', json_uuid i)]"
| "path_inputs (ApproveApproval _ i _) = [(''approval_id'', json_uuid i)]"
| "path_inputs (DenyApproval _ i _) = [(''approval_id'', json_uuid i)]"
| "path_inputs _ = []"

fun query_inputs :: "api_request \<Rightarrow> json_object" where
  "query_inputs (ListAgents _ t) = [(''tenant_id'', json_uuid t)]"
| "query_inputs (ListToolServers _ t) = [(''tenant_id'', json_uuid t)]"
| "query_inputs (ListToolDefinitions _ t s) = [(''tenant_id'', json_uuid t), (''server_id'', PStr s)]"
| "query_inputs (ListApprovals _ st t n) = [(''status'', PStr (approval_status_value st)),
     (''tenant_id'', json_opt json_uuid t), (''limit'', json_opt PInt n)]"
| "query_inputs _ = []"

fun body_inputs :: "api_request \<Rightarrow> json_object" where
  "body_inputs (PostAgent _ t n r) =
     [(''tenant_id'', json_uuid t), (''name'', PStr n), (''role'', PStr (agent_role_value r))]"
| "body_inputs (PostToolServer _ c) = [(''tenant_id'', json_uuid (sc_tenant_id c)),
     (''server_id'', PStr (sc_server_id c)), (''name'', PStr (sc_name c)),
     (''transport_type'', PStr (transport_type_value (sc_transport_type c))),
     (''endpoint_url'', json_opt PStr (sc_endpoint_url c)), (''command'', json_opt PStr (sc_command c)),
     (''args'', json_opt (\<lambda>xs. PList (map PStr xs)) (sc_args c)), (''env'', json_opt PDict (sc_env c))]"
| "body_inputs (RefreshTools _ s t) = [(''tenant_id'', json_uuid t)]"
| "body_inputs (PatchToolDefinition _ i u) =
     [(''risk_level'', json_opt (\<lambda>x. PStr (risk_level_value x)) (du_risk_level u)),
      (''action_type'', json_opt (\<lambda>x. PStr (action_type_value x)) (du_action_type u)),
      (''status'', json_opt (\<lambda>x. PStr (entity_status_value x)) (du_status u)),
      (''description'', json_opt PStr (du_description u))]"
| "body_inputs (ApproveApproval _ i r) = [(''review_reason'', PStr r)]"
| "body_inputs (DenyApproval _ i r) = [(''review_reason'', PStr r)]"
| "body_inputs (PostToolCall _ b) = [(''target_server'', PStr (rq_target_server b)),
     (''target_tool'', PStr (rq_target_tool b)), (''arguments'', PDict (rq_arguments b)),
     (''trace_id'', json_opt PStr (rq_trace_id b)),
     (''idempotency_key'', json_opt PStr (rq_idempotency_key b))]"
| "body_inputs _ = []"

definition inputs_of :: "api_request \<Rightarrow> http_inputs" where
  "inputs_of req = \<lparr>hi_authorization = auth_header req, hi_path = path_inputs req,
     hi_query = query_inputs req, hi_body = body_inputs req\<rparr>"

section \<open>Reading gives back what was sent\<close>

lemma read_values [simp]:
  "read_str (PStr s) = Some s" "read_int (PInt n) = Some n" "read_object (PDict kvs) = Some kvs"
  "read_uuid (json_uuid u) = Some u" "read_enum member (PStr s) = member s"
  by (simp_all add: read_str_def read_int_def read_object_def read_uuid_def read_enum_def json_uuid_def)

lemma read_strs_map [simp]: "read_strs (map PStr ss) = Some ss"
  by (induction ss) simp_all

lemma read_optional_json [simp]:
  "(\<And>x. f (g x) = Some x) \<Longrightarrow> (\<And>x. g x \<noteq> PNone) \<Longrightarrow> read_optional f (json_opt g v) = Some v"
  by (cases v) (simp_all add: read_optional_def json_opt_def)

lemmas read_defs = read_field_def get_or_none_def dict_get_def read_tool_call_def read_tool_server_def
  read_tool_update_def read_str_list_def

lemma json_uuid_not_None [simp]: "json_uuid u \<noteq> PNone"
  by (simp add: json_uuid_def)

lemma request_of_inputs: "request_of (endpoint_of req) (inputs_of req) = Some req"
  by (cases req) (simp_all add: inputs_of_def read_defs)

section \<open>What is valid is read\<close>

lemma conforms_fields_Cons: "conforms_fields ((n, t) # fs) kvs \<longleftrightarrow>
    (\<exists>v rest. kvs = (n, v) # rest \<and> conforms t v \<and> conforms_fields fs rest)"
  by (cases kvs) (auto split: prod.split)

lemma conforms_optional: "(\<And>v. conforms t v \<longleftrightarrow> (\<exists>x. v = g x)) \<Longrightarrow>
    conforms (FOptional t) v \<longleftrightarrow> (\<exists>x. v = json_opt g x)"
  by (auto simp: json_opt_def split: option.split intro: exI [of _ None] exI [of _ "Some y" for y])

lemma conforms_simple:
  "conforms FStr v \<longleftrightarrow> (\<exists>s. v = PStr s)" "conforms FInt v \<longleftrightarrow> (\<exists>n. v = PInt n)"
  "conforms FObject v \<longleftrightarrow> (\<exists>kvs. v = PDict kvs)" "conforms FUuid v \<longleftrightarrow> (\<exists>u. v = json_uuid u)"
  by (auto simp: json_uuid_def split: pyval.splits)

lemma conforms_members:
  assumes "\<And>x. x \<in> set xs"
  shows "conforms (FEnum (map f xs)) v \<longleftrightarrow> (\<exists>x. v = PStr (f x))"
  using assms by (auto simp: image_iff split: pyval.splits)

lemma conforms_enums:
  "conforms AgentRole v \<longleftrightarrow> (\<exists>x. v = PStr (agent_role_value x))"
  "conforms TransportType v \<longleftrightarrow> (\<exists>x. v = PStr (transport_type_value x))"
  "conforms RiskLevel v \<longleftrightarrow> (\<exists>x. v = PStr (risk_level_value x))"
  "conforms ActionType v \<longleftrightarrow> (\<exists>x. v = PStr (action_type_value x))"
  "conforms EntityStatus v \<longleftrightarrow> (\<exists>x. v = PStr (entity_status_value x))"
  "conforms ApprovalStatus v \<longleftrightarrow> (\<exists>x. v = PStr (approval_status_value x))"
  unfolding enum_defs by (rule conforms_members; rename_tac x; case_tac x; simp)+

lemma conforms_strings: "conforms (FList FStr) v \<longleftrightarrow> (\<exists>ss. v = PList (map PStr ss))"
proof -
  have items: "conforms_items FStr vs \<longleftrightarrow> (\<exists>ss. vs = map PStr ss)" for vs
  proof (induction vs)
    case (Cons v vs)
    show ?case
      using Cons.IH by (auto simp: conforms_simple Cons_eq_map_conv simp del: conforms.simps)
  qed simp
  show ?thesis by (cases v) (simp_all add: items)
qed

lemmas input_shapes = conforms_fields_Cons conforms_simple conforms_enums conforms_strings
  conforms_optional [OF conforms_simple(1)] conforms_optional [OF conforms_simple(2)]
  conforms_optional [OF conforms_simple(3)] conforms_optional [OF conforms_simple(4)]
  conforms_optional [OF conforms_strings] conforms_optional [OF conforms_enums(3)]
  conforms_optional [OF conforms_enums(4)] conforms_optional [OF conforms_enums(5)]

lemmas request_model_defs = AgentCreateRequest_def ToolCallRequestBody_def ApprovalReviewRequest_def
  ToolServerCreateRequest_def ToolServerRefreshRequest_def ToolDefinitionUpdateRequest_def

lemma inputs_of_valid: "valid_inputs (endpoint_of req) (inputs_of req)"
  by (cases req) (auto simp: valid_inputs_def inputs_of_def request_model_defs input_shapes
      simp del: conforms.simps)

lemma valid_inputs_read:
  assumes "valid_inputs e i" and "e \<noteq> E_health" "e \<noteq> E_version"
  shows "\<exists>req. request_of e i = Some req \<and> endpoint_of req = e \<and> inputs_of req = i"
  using assms
  by (cases i; cases e) (auto simp: valid_inputs_def inputs_of_def request_model_defs input_shapes
      read_defs simp del: conforms.simps conforms_fields.simps(2))

section \<open>The route of a request\<close>

lemma py_split_append:
  "sep \<notin> set x \<Longrightarrow> py_split sep (x @ sep # y) = x # py_split sep y"
  by (induction x) (auto simp: py_split_Cons simp del: py_split.simps(2))

lemma py_split_none: "sep \<notin> set x \<Longrightarrow> py_split sep x = [x]"
  by (simp add: py_split_one)

lemma uuid_str_segment: "CHR ''/'' \<notin> set (uuid_str u)" "uuid_str u \<noteq> []"
proof -
  have "\<not> is_hex_lower (CHR ''/'')" by (simp add: is_hex_lower_def)
  then show "CHR ''/'' \<notin> set (uuid_str u)"
    by (auto simp: uuid_str_def Let_def dest!: in_set_takeD in_set_dropD set_hex_str)
qed (simp add: uuid_str_def Let_def)

lemma route_segments:
  "map (\<lambda>r. (rt_method r, py_split (CHR ''/'') (rt_path r), rt_endpoint r)) app_routes =
    [(GET, [[], ''health''], E_health), (GET, [[], ''version''], E_version),
     (POST, [[], ''v1'', ''admin'', ''agents''], E_create_agent),
     (GET, [[], ''v1'', ''admin'', ''agents''], E_list_agents),
     (GET, [[], ''v1'', ''admin'', ''agents'', ''{agent_id}''], E_get_agent),
     (POST, [[], ''v1'', ''admin'', ''agents'', ''{agent_id}'', ''disable''], E_disable_agent),
     (GET, [[], ''v1'', ''admin'', ''approvals''], E_list_approvals),
     (POST, [[], ''v1'', ''admin'', ''approvals'', ''{approval_id}'', ''approve''], E_approve_approval),
     (POST, [[], ''v1'', ''admin'', ''approvals'', ''{approval_id}'', ''deny''], E_deny_approval),
     (POST, [[], ''v1'', ''admin'', ''tool-servers''], E_create_tool_server),
     (GET, [[], ''v1'', ''admin'', ''tool-servers''], E_list_tool_servers),
     (POST, [[], ''v1'', ''admin'', ''tool-servers'', ''{server_id}'', ''refresh-tools''], E_refresh_tools),
     (GET, [[], ''v1'', ''admin'', ''tool-definitions''], E_list_tool_definitions),
     (PATCH, [[], ''v1'', ''admin'', ''tool-definitions'', ''{tool_definition_id}''], E_update_tool_definition),
     (GET, [[], ''v1'', ''agents'', ''me''], E_get_current_agent),
     (POST, [[], ''v1'', ''tool-calls''], E_call_tool)]"
  by code_simp

text \<open>The choice depends on the segments only.\<close>

fun resolve_segments :: "http_method \<Rightarrow> string list \<Rightarrow> (http_method \<times> string list \<times> endpoint) list
    \<Rightarrow> (endpoint \<times> string list) option" where
  "resolve_segments m path [] = None"
| "resolve_segments m path ((rm, template, e) # rs) = (case match_segments template path of
     Some ps \<Rightarrow> if rm = m then Some (e, ps) else resolve_segments m path rs
   | None \<Rightarrow> resolve_segments m path rs)"

lemma resolve_by_segments:
  "resolve_segments m (py_split (CHR ''/'') path)
      (map (\<lambda>r. (rt_method r, py_split (CHR ''/'') (rt_path r), rt_endpoint r)) rs) =
    (case resolve m path rs of Routed r ps \<Rightarrow> Some (rt_endpoint r, ps) | _ \<Rightarrow> None)"
  by (induction rs) (auto simp: match_path_def split: option.split routing.split)

lemma resolve_in: "resolve m path rs = Routed r ps \<Longrightarrow> r \<in> set rs \<and> rt_method r = m"
  by (induction rs) (auto split: option.splits if_splits routing.splits)

definition parameter_texts :: "api_request \<Rightarrow> string list" where
  "parameter_texts req = map (\<lambda>(n, v). case v of PStr s \<Rightarrow> s | _ \<Rightarrow> []) (path_inputs req)"

text \<open>Server names without a slash, which would be two segments of the path.\<close>

definition path_safe :: "api_request \<Rightarrow> bool" where
  "path_safe req \<longleftrightarrow> (case req of RefreshTools a s t \<Rightarrow> s \<noteq> [] \<and> CHR ''/'' \<notin> set s | _ \<Rightarrow> True)"

lemma resolve_request:
  assumes "path_safe req"
  shows "resolve_segments (method_of req) (py_split (CHR ''/'') (path_of req))
      (map (\<lambda>r. (rt_method r, py_split (CHR ''/'') (rt_path r), rt_endpoint r)) app_routes)
    = Some (endpoint_of req, parameter_texts req)"
  using assms unfolding route_segments
  by (cases req) (simp_all add: path_safe_def is_parameter_def parameter_texts_def json_uuid_def
      py_split_append py_split_none uuid_str_segment)


text \<open>
  The other refreshes have no address: an empty name is no segment, and a slash makes two, so that
  the path has more segments than any template.
\<close>

lemma length_py_split: "length (py_split sep s) = Suc (length (filter ((=) sep) s))"
  by (induction s) (auto simp: py_split_Cons py_split_nonempty simp del: py_split.simps(2))

lemma match_segments_length: "match_segments ts ss = Some ps \<Longrightarrow> length ts = length ss"
  by (induction ts ss arbitrary: ps rule: match_segments.induct) (auto split: if_splits)

lemma resolve_none: "(\<And>r. r \<in> set rs \<Longrightarrow> match_path (rt_path r) path = None) \<Longrightarrow> resolve m path rs = NotFound"
  by (induction rs) simp_all

lemma template_length: "r \<in> set app_routes \<Longrightarrow> length (py_split (CHR ''/'') (rt_path r)) \<le> 6"
proof -
  have "list_all (\<lambda>r. length (py_split (CHR ''/'') (rt_path r)) \<le> 6) app_routes" by code_simp
  then show "r \<in> set app_routes \<Longrightarrow> length (py_split (CHR ''/'') (rt_path r)) \<le> 6" by (simp add: list_all_iff)
qed

lemma unsafe_path_unrouted:
  assumes "\<not> path_safe req"
  shows "resolve (method_of req) (path_of req) app_routes = NotFound"
proof -
  from assms obtain a s t where req: "req = RefreshTools a s t" and s: "s = [] \<or> CHR ''/'' \<in> set s"
    by (cases req) (auto simp: path_safe_def)
  show ?thesis
  proof (cases "s = []")
    case True
    have "resolve POST ''/v1/admin/tool-servers//refresh-tools'' app_routes = NotFound" by code_simp
    with True req show ?thesis by simp
  next
    case False
    with s have "filter ((=) (CHR ''/'')) s \<noteq> []" by (simp add: filter_empty_conv)
    then have "6 < length (py_split (CHR ''/'') (path_of req))" by (simp add: req length_py_split)
    then have "match_path (rt_path r) (path_of req) = None" if "r \<in> set app_routes" for r
      using template_length [OF that]
      by (cases "match_path (rt_path r) (path_of req)") (auto simp: match_path_def dest: match_segments_length)
    then show ?thesis by (rule resolve_none)
  qed
qed

end
