(* ===== verification/Service_Properties.thy ===== *)
theory Service_Properties
  imports Gateway_Sample Api_Routes
begin

text \<open>
  The properties of the single services: the compare-and-set of the approval repository, agents
  and their API keys, authentication and error answers, the tool registry, idempotent replay,
  listing of approvals and the stdio client.
\<close>

section \<open>The compare-and-set of approvals\<close>

text \<open>Of any number of transitions of one approval that expect the same status and lead
  away from it, at most one succeeds: two reviewers, or two executions, cannot both win.\<close>

theorem competing_transitions_one_winner:
  assumes "approval_ids_ok (w_db w)" and "\<forall>n \<in> set ns. n \<noteq> e"
  shows "cas_wins (\<lambda>n. approval_transition_status h i e n rr) ns w \<le> 1"
  by (rule approvals_cas.at_most_one_win) (use assms in auto)

lemma competing_transitions_one_winner_witness:
  "cas_wins (\<lambda>n. approval_transition_status sample_host 6 AP_PENDING n None) [AP_APPROVED, AP_DENIED]
    (settled_world waiting_db) \<le> 1"
  by (rule competing_transitions_one_winner) (simp_all add: waiting_ids)

text \<open>A transition succeeds exactly when the approval has the expected status and that
  status is not terminal. It then sets the status, the time, the version and the review
  reason, and the one timestamp that belongs to the new status, and nothing else; otherwise no
  row changes. Other approvals never change.\<close>

theorem approval_transition_behaviour:
  assumes "approval_ids_ok (w_db w)" and "look_approval i (w_db w) = Some a"
  shows "case approval_transition_status h i e n rr w of (r, w') \<Rightarrow>
    (if ap_status a = approval_status_value e \<and> e \<in> {AP_PENDING, AP_APPROVED}
     then (\<exists>now. r = Inr (look_approval i (w_db w')) \<and> look_approval i (w_db w') = Some
        (a\<lparr>ap_status := approval_status_value n, ap_updated_at := now, ap_version := ap_version a + 1,
           ap_approved_at := (if n = AP_APPROVED then Some now else ap_approved_at a),
           ap_denied_at := (if n = AP_DENIED then Some now else ap_denied_at a),
           ap_executed_at := (if n = AP_EXECUTED then Some now else ap_executed_at a),
           ap_review_reason := (case rr of None \<Rightarrow> ap_review_reason a | Some t \<Rightarrow> Some t)\<rparr>))
     else r = Inr None \<and> w_db w' = w_db w)
    \<and> (\<forall>j. j = i \<or> look_approval j (w_db w') = look_approval j (w_db w))"
proof (cases "approval_transition_status h i e n rr w")
  case (Pair r w')
  have frame: "\<forall>j. j = i \<or> look_approval j (w_db w') = look_approval j (w_db w)"
    using approvals_cas.frame [OF assms(1), where i = i and e = e and n = n and h = h and rr = rr] Pair by auto
  show ?thesis
  proof (cases "ap_status a = approval_status_value e \<and> e \<in> {AP_PENDING, AP_APPROVED}")
    case True
    then have open_e: "\<not> terminal_approval_status e" by auto
    let ?row = "\<lambda>now. a\<lparr>ap_status := approval_status_value n, ap_updated_at := now,
        ap_version := ap_version a + 1,
        ap_approved_at := (if n = AP_APPROVED then Some now else ap_approved_at a),
        ap_denied_at := (if n = AP_DENIED then Some now else ap_denied_at a),
        ap_executed_at := (if n = AP_EXECUTED then Some now else ap_executed_at a),
        ap_review_reason := (case rr of None \<Rightarrow> ap_review_reason a | Some t \<Rightarrow> Some t)\<rparr>"
    have row: "transition_values now n rr a = ?row now" for now
      by (simp add: transition_values_def Let_def split: option.split)
    let ?now = "h_now h (w_clock w)"
    have "r = Inr (Some (transition_values ?now n rr a))"
      using Pair True open_e by (simp add: approval_transition_eq [OF assms(1)] assms(2) Let_def)
    moreover have "look_approval i (w_db w') = Some (transition_values ?now n rr a)"
      using Pair True open_e assms(2)
      by (auto simp: approval_transition_eq [OF assms(1)] Let_def look_approval_def put_approvals_def
          find_id_update_cond)
    ultimately have "r = Inr (look_approval i (w_db w'))" "look_approval i (w_db w') = Some (?row ?now)"
      unfolding row by simp_all
    with frame show ?thesis unfolding Pair prod.case if_P [OF True] by (intro conjI exI)
  next
    case False
    then have "terminal_approval_status e \<or> ap_status a \<noteq> approval_status_value e"
      by (cases e) auto
    with approvals_cas.miss [OF assms(1), where i = i and e = e and n = n and h = h and rr = rr] assms(2) Pair
    have "r = Inr None" "w_db w' = w_db w" by auto
    with frame show ?thesis unfolding Pair prod.case if_not_P [OF False] by blast
  qed
qed

lemma approval_transition_behaviour_witness:
  "look_approval 6 (w_db (snd (approval_transition_status sample_host 6 AP_DENIED AP_APPROVED None
    (settled_world waiting_db)))) = Some waiting_approval"
  using approval_transition_behaviour [where w = "settled_world waiting_db" and i = 6 and
      a = waiting_approval and h = sample_host and e = AP_DENIED and n = AP_APPROVED and rr = None]
  by (auto simp: sample_looks waiting_ids split: prod.splits)

section \<open>Agents and API keys\<close>

text \<open>Creating an agent returns a key that authenticates it: the agent found by the key is
  the one created, active, with the requested tenant, name and role. Only the keyed hash of
  the key is in the table.\<close>

theorem created_agent_authenticates:
  assumes "create_agent h pepper tenant_id name role w = (Inr created, w')"
  shows "authenticate_agent_by_api_key h pepper (ca_api_key created) w' = (Inr (ca_agent created), w')
    \<and> dto_tenant_id (ca_agent created) = tenant_id \<and> dto_name (ca_agent created) = name
    \<and> dto_role (ca_agent created) = role \<and> dto_status (ca_agent created) = ACTIVE
    \<and> (\<exists>row. db_agents (w_db w') = db_agents (w_db w) @ [row]
        \<and> ag_api_key_hash row = hash_api_key h (ca_api_key created) pepper)"
proof -
  from wp_created_agent [of h pepper tenant_id name role w] assms obtain row where
    row: "agent_added h pepper tenant_id name role w created w' row" by (auto simp: wp_def)
  from added_agent_authenticates [OF row refl] row show ?thesis by (auto simp: agent_added_def)
qed

lemma created_agent_authenticates_witness:
  "\<exists>(created :: created_agent_dto) w'. authenticate_agent_by_api_key sample_host ''pepper'' (ca_api_key created) w' = (Inr (ca_agent created), w')
    \<and> dto_name (ca_agent created) = ''eve''"
proof -
  have "hash_api_key sample_host (''msgw_'' @ h_token_urlsafe sample_host 20) ''pepper'' = ''pepper/msgw_key0014''"
    "agent_role_of ''admin'' = Some ADMIN"
    by code_simp+
  then have "wp (create_agent sample_host ''pepper'' 100 ''eve'' ADMIN) (\<lambda>_ _. True) (\<lambda>_ _. False)
      (settled_world waiting_db)"
    by (simp add: create_agent_def generate_api_key_def tenant_get_by_id_def wp_simps Let_def
        agent_create_def insert_agent_def checked_def to_dto_def find_row_def waiting_db_def idle_db_def
        sample_tenant_def bot_row_def agent_widths_def fits_def tenant_exists_def
        host_simps settled_world_def sample_start_def)
  then obtain created w' where "create_agent sample_host ''pepper'' 100 ''eve'' ADMIN (settled_world waiting_db)
      = (Inr created, w')" by (auto simp: wp_def split: prod.splits sum.splits)
  from created_agent_authenticates [OF this] show ?thesis by blast
qed

lemma find_by_hash:
  assumes "db_inv d" and "row \<in> set (db_agents d)"
  shows "find_row (\<lambda>r. ag_api_key_hash r = ag_api_key_hash row) (db_agents d) = Some row"
    "find_row (\<lambda>r. ag_id r = ag_id row) (db_agents d) = Some row"
  using assms distinct_map_find_row [of ag_api_key_hash "db_agents d" row]
    distinct_map_find_row [of ag_id "db_agents d" row] by (simp_all add: inv_defs)

lemma agent_status_same: "r\<lparr>ag_status := s\<rparr> = r \<longleftrightarrow> ag_status r = s"
  by (cases r) auto

text \<open>After an agent is disabled its key is refused, and with the reason that it is disabled.\<close>

theorem disabled_agent_locked_out:
  assumes "db_inv (w_db w)" and "row \<in> set (db_agents (w_db w))"
    and "ag_api_key_hash row = hash_api_key h key pepper"
    and "disable_agent h (ag_id row) w = (Inr dto, w')"
  shows "authenticate_agent_by_api_key h pepper key w' = (Inl (AppError AgentDisabledError), w')
    \<and> dto_id dto = ag_id row \<and> dto_status dto = DISABLED"
proof -
  let ?put = "\<lambda>t. update_rows (\<lambda>x. ag_id x = ag_id row)
    (\<lambda>x. x\<lparr>ag_status := ''disabled'', ag_updated_at := t\<rparr>) (db_agents (w_db w))"
  note found = find_by_hash [OF assms(1,2)]
  have "find_row (\<lambda>r. ag_api_key_hash r = ag_api_key_hash row) (?put t)
      = Some (row\<lparr>ag_status := ''disabled'', ag_updated_at := t\<rparr>)" for t
    by (subst find_row_update) (simp_all add: found)
  then have "wp (disable_agent h (ag_id row)) (\<lambda>dto w'.
      authenticate_agent_by_api_key h pepper key w' = (Inl (AppError AgentDisabledError), w')
      \<and> dto_id dto = ag_id row \<and> dto_status dto = DISABLED) anyhow w"
    unfolding disable_agent_def agent_disable_def agent_get_by_id_def
    using found assms(3)
    by (auto simp: wp_simps Let_def write_agent_def if_fits_def to_dto_def prog_defs put_agents_def
        authenticate_agent_by_api_key_def agent_get_by_api_key_hash_def agent_status_same
        split: option.split)
  with assms(4) show ?thesis by (simp add: wp_def)
qed

lemma disabled_agent_locked_out_witness:
  "\<exists>w'. authenticate_agent_by_api_key sample_host ''pepper'' ''msgw_key0000'' w' = (Inl (AppError AgentDisabledError), w')"
proof -
  have "wp (disable_agent sample_host 2) (\<lambda>_ _. True) (\<lambda>_ _. False) (settled_world waiting_db)"
    by (simp add: disable_agent_def agent_disable_def agent_get_by_id_def wp_simps Let_def write_agent_def
        if_fits_def to_dto_def find_row_def waiting_db_def idle_db_def bot_row_def agent_widths_def fits_def)
  then obtain dto w' where "disable_agent sample_host (ag_id bot_row) (settled_world waiting_db) = (Inr dto, w')"
    by (auto simp: wp_def bot_row_def split: prod.splits sum.splits)
  moreover have "ag_api_key_hash bot_row = hash_api_key sample_host ''msgw_key0000'' ''pepper''" by code_simp
  ultimately show ?thesis
    using disabled_agent_locked_out [of "settled_world waiting_db" bot_row sample_host "''msgw_key0000''" "''pepper''"]
    by (auto simp: sample_rows_ok) (auto simp: waiting_db_def idle_db_def)
qed

section \<open>Authentication\<close>

text \<open>A request is an administrator's exactly when its header is \<open>Bearer\<close>, one space and
  a nonempty token without spaces whose keyed hash is the configured one; everything else is
  answered with \<open>unauthenticated\<close>, or with an uncaught \<open>TypeError\<close> when one of the two
  hashes is not ASCII.\<close>

theorem require_admin_accepts:
  "(require_admin h st auth = Inr () \<longleftrightarrow> (\<exists>t. auth = Some (''Bearer '' @ t) \<and> t \<noteq> [] \<and> CHR '' '' \<notin> set t
      \<and> hash_api_key h t (api_key_pepper st) = admin_api_key_hash st
      \<and> list_all (\<lambda>c. char_code c < 128) (admin_api_key_hash st)))
   \<and> require_admin h st auth \<in> {Inr (), Inl unauthenticated, Inl (UncaughtError ''TypeError'')}"
proof (cases "extract_bearer_token auth")
  case (Inl e)
  then have "e = unauthenticated"
    by (auto simp: extract_bearer_token_def Let_def split: option.splits if_splits)
  moreover have "\<not> (\<exists>t. auth = Some (''Bearer '' @ t) \<and> t \<noteq> [] \<and> CHR '' '' \<notin> set t)"
    using Inl bearer_token [of auth] by auto
  ultimately show ?thesis using Inl by (auto simp: require_admin_def)
next
  case (Inr t)
  then have "auth = Some (''Bearer '' @ t)" "t \<noteq> []" "CHR '' '' \<notin> set t" by (simp_all add: bearer_token)
  with Inr show ?thesis
    by (auto simp: require_admin_def verify_api_key_hash_def compare_digest_def sum_bind_def)
qed

text \<open>The token \<open>t\<close> that a header carries: \<open>Bearer\<close>, one space, and a nonempty text without spaces.\<close>

definition carries_token :: "string option \<Rightarrow> string \<Rightarrow> bool" where
  "carries_token auth t \<longleftrightarrow> auth = Some (''Bearer '' @ t) \<and> t \<noteq> [] \<and> CHR '' '' \<notin> set t"

definition ascii :: "string \<Rightarrow> bool" where
  "ascii s \<longleftrightarrow> list_all (\<lambda>c. char_code c < 128) s"

lemma token_carried: "extract_bearer_token auth = Inr t \<longleftrightarrow> carries_token auth t"
  by (auto simp: bearer_token carries_token_def)

lemma extract_error: "extract_bearer_token auth = Inl e \<Longrightarrow> e = unauthenticated"
  by (auto simp: extract_bearer_token_def Let_def split: option.splits if_splits)

lemma unknown_key_refused:
  assumes "\<And>t. carries_token auth t \<Longrightarrow>
    hash_api_key h t (api_key_pepper st) \<notin> ag_api_key_hash ` set (db_agents (w_db w))"
  shows "\<exists>e. require_agent h st auth w = (Inl e, w) \<and> e \<in> {unauthenticated, AppError UnauthenticatedError}"
proof (cases "extract_bearer_token auth")
  case (Inl e)
  with extract_error [OF Inl] show ?thesis by (simp add: require_agent_def prog_defs)
next
  case (Inr t)
  then have "carries_token auth t" by (simp add: token_carried)
  from assms [OF this]
  have "find_row (\<lambda>r. ag_api_key_hash r = hash_api_key h t (api_key_pepper st)) (db_agents (w_db w)) = None"
    by (auto simp: find_row_None_iff image_iff)
  with Inr show ?thesis
    by (simp add: require_agent_def authenticate_agent_by_api_key_def agent_get_by_api_key_hash_def prog_defs)
qed

lemma unknown_admin_refused:
  assumes "\<And>t. carries_token auth t \<Longrightarrow> hash_api_key h t (api_key_pepper st) \<noteq> admin_api_key_hash st
      \<and> ascii (hash_api_key h t (api_key_pepper st))" and "ascii (admin_api_key_hash st)"
  shows "require_admin h st auth = Inl unauthenticated"
proof (cases "extract_bearer_token auth")
  case (Inl e)
  with extract_error [OF Inl] show ?thesis by (simp add: require_admin_def)
next
  case (Inr t)
  then have "carries_token auth t" by (simp add: token_carried)
  from assms(1) [OF this] assms(2) Inr show ?thesis
    by (auto simp: require_admin_def verify_api_key_hash_def compare_digest_def sum_bind_def ascii_def)
qed

text \<open>C29: Without valid credentials nothing happens. A request of an administrator whose header
  carries no token, or one whose keyed hash is not the configured one, and a request of an agent
  whose header carries no token, or one that is no agent's key, is answered 401 and changes and
  sends nothing. (Keyed hashes are ASCII, being hexadecimal.)\<close>

theorem unauthenticated_requests_refused:
  assumes "\<And>t. carries_token (auth_header req) t \<Longrightarrow>
      (if for_agents req
       then hash_api_key h t (api_key_pepper st) \<notin> ag_api_key_hash ` set (db_agents (w_committed w))
       else hash_api_key h t (api_key_pepper st) \<noteq> admin_api_key_hash st
         \<and> ascii (hash_api_key h t (api_key_pepper st)))"
    and "ascii (admin_api_key_hash st)"
  shows "snd (serve h st client req w) = w\<lparr>w_db := w_committed w\<rparr>
    \<and> answer_status req (fst (serve h st client req w)) = 401"
proof (cases "for_agents req")
  case True
  then have "\<exists>e. require_agent h st (auth_header req) (w\<lparr>w_db := w_committed w\<rparr>) = (Inl e, w\<lparr>w_db := w_committed w\<rparr>)
      \<and> e \<in> {unauthenticated, AppError UnauthenticatedError}"
    using assms(1) by (intro unknown_key_refused) simp_all
  with True show ?thesis
    by (cases req) (auto simp: serve_def with_session_def route_defs prog_defs rollback_def answer_status_def
        error_handler_def unauthenticated_def error_response_def)
next
  case False
  then have "require_admin h st (auth_header req) = Inl unauthenticated"
    using assms by (intro unknown_admin_refused) simp_all
  with False show ?thesis
    by (cases req) (simp_all add: serve_def with_session_def route_defs admin_def
      prog_defs rollback_def answer_status_def error_handler_def unauthenticated_def error_response_def)
qed

lemma unauthenticated_requests_refused_witness:
  "answer_status (ApproveApproval (Some ''Bearer guess'') 6 ''x'') (fst (serve sample_host sample_settings None
    (ApproveApproval (Some ''Bearer guess'') 6 ''x'') (settled_world waiting_db))) = 401"
proof -
  have "hash_api_key sample_host ''guess'' (api_key_pepper sample_settings) \<noteq> admin_api_key_hash sample_settings
      \<and> ascii (hash_api_key sample_host ''guess'' (api_key_pepper sample_settings))"
    and ascii: "ascii (admin_api_key_hash sample_settings)"
    by code_simp+
  then have "(if for_agents (ApproveApproval (Some ''Bearer guess'') 6 ''x'')
       then hash_api_key sample_host t (api_key_pepper sample_settings)
         \<notin> ag_api_key_hash ` set (db_agents (w_committed (settled_world waiting_db)))
       else hash_api_key sample_host t (api_key_pepper sample_settings) \<noteq> admin_api_key_hash sample_settings
         \<and> ascii (hash_api_key sample_host t (api_key_pepper sample_settings)))"
    if "carries_token (auth_header (ApproveApproval (Some ''Bearer guess'') 6 ''x'')) t" for t
    using that by (auto simp: carries_token_def)
  from unauthenticated_requests_refused [OF this ascii] show ?thesis by blast
qed

text \<open>Every application error has an answer with its own code and message; it is a client
  error (401, 403, 404, 409 or 422) unless the MCP client is missing, a listing failed or an
  approved execution failed. No other exception shows more than a bare internal error.\<close>

theorem errors_are_answered:
  "(case error_handler (AppError e) of
      None \<Rightarrow> False
    | Some r \<Rightarrow> hr_status_code r = status_code_for_error e
      \<and> (hr_status_code r \<in> {401, 403, 404, 409, 422}
        \<or> e = McpClientNotConfiguredError \<or> e \<in> range McpToolListFailedError
        \<or> e \<in> range ApprovalExecutionFailedError)
      \<and> hr_body r = PDict [(''error'', PDict [(''code'', PStr (app_error_code e)),
          (''message'', PStr (app_error_message e)),
          (''details'', PDict (filter (\<lambda>kv. fst kv \<noteq> ''trace_id'') (app_error_details e))),
          (''trace_id'', get_or_none (app_error_details e) ''trace_id'')])])
   \<and> (x \<in> range AppError \<or> (\<exists>c m s. x = ApiError c m s)
      \<or> error_handler x \<in> {None, Some (error_response 500 ''internal_error'' ''Internal server error'' [])})"
proof -
  have "error_handler (AppError e) = Some (error_response (status_code_for_error e) (app_error_code e)
      (app_error_message e) (app_error_details e))"
    by (simp add: error_handler_def)
  moreover have "status_code_for_error e \<in> {401, 403, 404, 409, 422}
      \<or> e = McpClientNotConfiguredError \<or> e \<in> range McpToolListFailedError
      \<or> e \<in> range ApprovalExecutionFailedError"
    by (cases e) simp_all
  moreover have "x \<in> range AppError \<or> (\<exists>c m s. x = ApiError c m s)
      \<or> error_handler x \<in> {None, Some (error_response 500 ''internal_error'' ''Internal server error'' [])}"
    by (cases x) (simp_all add: error_handler_def)
  ultimately show ?thesis
    by (simp add: error_response_def case_prod_unfold del: status_code_for_error.simps)
qed

section \<open>The tool registry\<close>

lemma stamped: "\<exists>t. d = d\<lparr>td_updated_at := t\<rparr>"
  by (rule exI [of _ "td_updated_at d"]) simp

lemma rediscovered_same: "d\<lparr>td_description := a, td_input_schema := b, td_schema_hash := k\<rparr> = d \<longleftrightarrow>
    td_description d = a \<and> td_input_schema d = b \<and> td_schema_hash d = k"
  by (cases d) auto

text \<open>C35: A tool that is discovered for the first time is registered disabled, critical and
  privileged, so that no agent can call it; discovering a known tool again updates what the
  server says of it and keeps the administrator's classification.\<close>

theorem discovered_tools_start_closed:
  assumes "register_tool h t server m w = (Inr d, w')"
  shows "case find_row (\<lambda>r. td_tenant_id r = t \<and> td_server_id r = ts_id server \<and> td_tool_name r = mt_name m)
      (db_tool_definitions (w_db w)) of
      None \<Rightarrow> td_status d = ''disabled'' \<and> td_risk_level d = ''critical'' \<and> td_action_type d = ''privileged''
        \<and> td_tool_name d = mt_name m \<and> db_tool_definitions (w_db w') = db_tool_definitions (w_db w) @ [d]
    | Some d0 \<Rightarrow> td_status d = td_status d0 \<and> td_risk_level d = td_risk_level d0
        \<and> td_action_type d = td_action_type d0 \<and> td_id d = td_id d0
        \<and> td_description d = mt_description m \<and> td_input_schema d = mt_input_schema m
        \<and> schema_hash_for h (mt_input_schema m) = Inr (td_schema_hash d)"
proof -
  have "wp (register_tool h t server m) (\<lambda>d w'. case find_row (\<lambda>r. td_tenant_id r = t
      \<and> td_server_id r = ts_id server \<and> td_tool_name r = mt_name m) (db_tool_definitions (w_db w)) of
      None \<Rightarrow> td_status d = ''disabled'' \<and> td_risk_level d = ''critical'' \<and> td_action_type d = ''privileged''
        \<and> td_tool_name d = mt_name m \<and> db_tool_definitions (w_db w') = db_tool_definitions (w_db w) @ [d]
    | Some d0 \<Rightarrow> td_status d = td_status d0 \<and> td_risk_level d = td_risk_level d0
        \<and> td_action_type d = td_action_type d0 \<and> td_id d = td_id d0
        \<and> td_description d = mt_description m \<and> td_input_schema d = mt_input_schema m
        \<and> schema_hash_for h (mt_input_schema m) = Inr (td_schema_hash d)) anyhow w"
    by (cases "schema_hash_for h (mt_input_schema m)"; cases "find_row (\<lambda>r. td_tenant_id r = t
        \<and> td_server_id r = ts_id server \<and> td_tool_name r = mt_name m) (db_tool_definitions (w_db w))")
      (simp_all add: register_tool_def tool_definition_get_by_name_def tool_definition_create_def
        tool_definition_update_def insert_tool_definition_def checked_def write_tool_definition_def
        if_fits_def put_tool_definitions_def wp_simps Let_def rediscovered_same)
  with assms show ?thesis by (simp add: wp_def)
qed

definition sub_tool :: mcp_tool_metadata where
  "sub_tool = \<lparr>mt_name = ''sub'', mt_description = None, mt_input_schema = []\<rparr>"

lemma discovered_tools_start_closed_witness:
  "\<exists>d :: tool_definition_row. td_status d = ''disabled'' \<and> td_tool_name d = ''sub''"
proof -
  have "schema_hash_for sample_host [] = Inr ''{}''" by code_simp
  then have "wp (register_tool sample_host 100 calc_row sub_tool) (\<lambda>_ _. True) (\<lambda>_ _. False)
      (settled_world waiting_db)"
    by (simp add: register_tool_def tool_definition_get_by_name_def tool_definition_create_def
        insert_tool_definition_def checked_def wp_simps Let_def find_row_def waiting_db_def idle_db_def
        add_row_def sub_tool_def host_simps calc_row_def tool_definition_widths_def fits_def
        tenant_exists_def sample_tenant_def settled_world_def sample_start_def)
  then obtain d w' where "register_tool sample_host 100 calc_row sub_tool (settled_world waiting_db) = (Inr d, w')"
    by (auto simp: wp_def split: prod.splits sum.splits)
  from discovered_tools_start_closed [OF this] show ?thesis
    by (auto simp: find_row_def waiting_db_def idle_db_def add_row_def sub_tool_def)
qed

text \<open>Classifying a tool changes exactly the columns the request names; the schema, its
  hash and the tool's identity stay.\<close>

theorem classification_changes_named_columns:
  assumes "update_tool_definition h i request w = (Inr d, w')"
  shows "\<exists>d0 t. find_row (\<lambda>r. td_id r = i) (db_tool_definitions (w_db w)) = Some d0
    \<and> d = d0\<lparr>
        td_risk_level := (case du_risk_level request of None \<Rightarrow> td_risk_level d0 | Some r \<Rightarrow> risk_level_value r),
        td_action_type := (case du_action_type request of None \<Rightarrow> td_action_type d0 | Some a \<Rightarrow> action_type_value a),
        td_status := (case du_status request of None \<Rightarrow> td_status d0 | Some s \<Rightarrow> entity_status_value s),
        td_description := (case du_description request of None \<Rightarrow> td_description d0 | Some m \<Rightarrow> Some m),
        td_updated_at := t\<rparr>"
proof -
  let ?d = "\<lambda>d0. d0\<lparr>
        td_risk_level := (case du_risk_level request of None \<Rightarrow> td_risk_level d0 | Some r \<Rightarrow> risk_level_value r),
        td_action_type := (case du_action_type request of None \<Rightarrow> td_action_type d0 | Some a \<Rightarrow> action_type_value a),
        td_status := (case du_status request of None \<Rightarrow> td_status d0 | Some s \<Rightarrow> entity_status_value s),
        td_description := (case du_description request of None \<Rightarrow> td_description d0 | Some m \<Rightarrow> Some m)\<rparr>"
  have update: "apply_tool_update request d0 = ?d d0" for d0
    by (simp add: apply_tool_update_def Let_def split: option.split)
  have "wp (update_tool_definition h i request) (\<lambda>d w'. \<exists>d0 t.
      find_row (\<lambda>r. td_id r = i) (db_tool_definitions (w_db w)) = Some d0
      \<and> d = (apply_tool_update request d0)\<lparr>td_updated_at := t\<rparr>) anyhow w"
    unfolding update_tool_definition_def tool_definition_get_by_id_def tool_definition_update_def
    by (auto simp: wp_simps Let_def write_tool_definition_def if_fits_def intro!: stamped split: option.split)
  with assms show ?thesis by (simp add: wp_def update)
qed

lemma classification_changes_named_columns_witness:
  "\<exists>d :: tool_definition_row. td_status d = ''disabled'' \<and> td_risk_level d = ''high''"
proof -
  let ?request = "\<lparr>du_risk_level = None, du_action_type = None, du_status = Some DISABLED, du_description = None\<rparr>"
  have "wp (update_tool_definition sample_host 4 ?request) (\<lambda>_ _. True) (\<lambda>_ _. False) (settled_world waiting_db)"
    by (simp add: update_tool_definition_def tool_definition_get_by_id_def tool_definition_update_def
        wp_simps Let_def write_tool_definition_def if_fits_def find_row_def waiting_db_def idle_db_def
        add_row_def apply_tool_update_def tool_definition_widths_def fits_def)
  then obtain d w' where "update_tool_definition sample_host 4 ?request (settled_world waiting_db) = (Inr d, w')"
    by (auto simp: wp_def split: prod.splits sum.splits)
  from classification_changes_named_columns [OF this] show ?thesis
    by (auto simp: find_row_def waiting_db_def idle_db_def add_row_def intro!: exI [of _ d])
qed

section \<open>Idempotent calls\<close>

text \<open>The trace of a call: the one the request names, or a new one when it names none.\<close>

definition request_trace :: "host \<Rightarrow> tool_call_request \<Rightarrow> world \<Rightarrow> string \<times> world" where
  "request_trace h request w =
    (if rq_trace_id request = None \<or> rq_trace_id request = Some []
     then (''trace_'' @ hex_str 32 (unat (h_uuid4 h (w_uuids w))), w\<lparr>w_uuids := Suc (w_uuids w)\<rparr>)
     else (the (rq_trace_id request), w))"

lemma request_trace_quiet: "snd (request_trace h request w) = w\<lparr>w_uuids := w_uuids (snd (request_trace h request w))\<rparr>"
  by (simp add: request_trace_def)

lemma keyed_call:
  assumes "rq_idempotency_key request = Some key"
    and "find_row (\<lambda>r. tc_tenant_id r = dto_tenant_id agent \<and> tc_agent_id r = dto_id agent
      \<and> tc_idempotency_key r = Some key) (db_tool_calls (w_db w)) = Some c"
  shows "call_tool h srv agent request w = (case request_trace h request w of (trace, w1) \<Rightarrow>
    (case canonical_arguments_hash (h_encodable h) (h_sha256 h) (h_float_repr h) (rq_arguments request) of
      Inl e \<Rightarrow> (Inl e, w1) | Inr k \<Rightarrow> idempotent_result c request k trace w1))"
  using assms
  by (cases "rq_trace_id request"; cases "the (rq_trace_id request) = []")
    (simp_all add: call_tool_def request_trace_def prog_defs Let_def uuid4_def
      tool_call_get_by_idempotency_key_def split: sum.split)

text \<open>C27: A call whose idempotency key the agent has used before never runs again, whether or not
  it names a trace. If it is the same call it gets the stored outcome, without the upstream result;
  if it goes to another tool, has other arguments or the first one is still executing, it is a
  conflict; if its arguments have no hash, it raises as without a key. In every case nothing is
  read from a clock, written, or sent, and at most the trace's identifier is drawn.\<close>

theorem idempotent_call_replays:
  assumes "db_inv (w_db w)" and "rq_idempotency_key request = Some key"
    and "find_row (\<lambda>r. tc_tenant_id r = dto_tenant_id agent \<and> tc_agent_id r = dto_id agent
      \<and> tc_idempotency_key r = Some key) (db_tool_calls (w_db w)) = Some c"
  shows "case request_trace h request w of (trace, w1) \<Rightarrow> w1 = w\<lparr>w_uuids := w_uuids w1\<rparr>
    \<and> (case canonical_arguments_hash (h_encodable h) (h_sha256 h) (h_float_repr h) (rq_arguments request) of
        Inl e \<Rightarrow> call_tool h srv agent request w = (Inl e, w1)
      | Inr k \<Rightarrow>
          if tc_target_server c = rq_target_server request \<and> tc_target_tool c = rq_target_tool request
            \<and> tc_arguments_hash c = k \<and> tc_status c \<noteq> ''executing''
          then (\<exists>r. call_tool h srv agent request w = (Inr r, w1) \<and> tr_tool_call_id r = tc_id c
              \<and> tool_call_status_value (tr_status r) = tc_status c
              \<and> map_option policy_effect_value (tr_policy_decision r) = tc_policy_decision c
              \<and> tr_result r = None \<and> map_option tx_code (tr_error r) = tc_error_code c)
          else call_tool h srv agent request w
            = (Inl (AppError (IdempotencyConflictError (Some trace))), w1))"
proof (cases "request_trace h request w")
  case (Pair trace w1)
  then have w1: "w1 = w\<lparr>w_uuids := w_uuids w1\<rparr>" "w_db w1 = w_db w"
    using request_trace_quiet [of h request w] by (auto simp: request_trace_def split: if_splits)
  have "tool_call_ok c"
    using assms(1,3) by (auto simp: inv_defs list_all_iff dest!: find_row_SomeD)
  then obtain s where s: "tool_call_status_of (tc_status c) = Some s" "decision_ok (tc_policy_decision c)"
    by (auto simp: tool_call_ok_def)
  note run = keyed_call [OF assms(2,3), of h srv, unfolded Pair prod.case]
  show ?thesis
  proof (cases "canonical_arguments_hash (h_encodable h) (h_sha256 h) (h_float_repr h) (rq_arguments request)")
    case (Inl e)
    with w1 show ?thesis unfolding Pair prod.case run by simp
  next
    case (Inr k)
    show ?thesis
      unfolding Pair prod.case run Inr sum.case
      using s enum_value_of(7) [OF s(1)] w1
      by (cases "tc_policy_decision c")
        (auto simp: idempotent_result_def prog_defs approval_get_by_tool_call_id_def member_or_raise_def
          decision_ok_def enum_value_of(6) split: option.split)
  qed
qed

lemma idempotent_call_replays_witness:
  "\<exists>r w1. call_tool sample_host (build_tool_call_service sample_settings None) bot_dto (add_request\<lparr>rq_trace_id := None\<rparr>)
    (settled_world (waiting_db\<lparr>db_tool_calls := [waiting_call\<lparr>tc_arguments_hash := add_hash\<rparr>]\<rparr>)) = (Inr r, w1)
    \<and> tr_tool_call_id r = 5"
proof -
  let ?c = "waiting_call\<lparr>tc_arguments_hash := add_hash\<rparr>"
  have "db_inv (waiting_db\<lparr>db_tool_calls := [?c]\<rparr>)"
    by (simp add: inv_defs idempotency_keys_def sample_rows agent_ok_def tool_server_ok_def
        args_ok_def tool_definition_ok_def tool_call_ok_def approval_ok_def decision_ok_def)
  with idempotent_call_replays [of "settled_world (waiting_db\<lparr>db_tool_calls := [?c]\<rparr>)"
      "add_request\<lparr>rq_trace_id := None\<rparr>" "''k1''" bot_dto ?c sample_host
      "build_tool_call_service sample_settings None"] hash_add
  show ?thesis by (auto simp: find_row_def bot_dto_def waiting_call_def split: prod.splits)
qed

section \<open>Listing approvals\<close>

text \<open>A listing returns, oldest first, the approvals with the requested status and tenant,
  all of them or the first \<open>limit\<close>; a negative limit is an error. It changes nothing.\<close>

theorem approvals_listed_in_order:
  "case list_approvals status tenant_id limit w of (r, w') \<Rightarrow> w' = w \<and>
    (\<exists>rows. mset rows = filter_mset (\<lambda>a. (case status of None \<Rightarrow> True | Some s \<Rightarrow> ap_status a = approval_status_value s)
          \<and> (case tenant_id of None \<Rightarrow> True | Some t \<Rightarrow> ap_tenant_id a = t)) (mset (db_approvals (w_db w)))
      \<and> sorted (map ap_created_at rows)
      \<and> r = (case limit of None \<Rightarrow> Inr rows | Some n \<Rightarrow> if n < 0 then Inl DataError else Inr (take (nat n) rows)))"
proof -
  let ?rows = "sort_key ap_created_at
          (filter (\<lambda>r. case tenant_id of None \<Rightarrow> True | Some t \<Rightarrow> ap_tenant_id r = t)
          (filter (\<lambda>r. case status of None \<Rightarrow> True | Some s \<Rightarrow> ap_status r = approval_status_value s)
            (db_approvals (w_db w))))"
  have "mset ?rows = filter_mset (\<lambda>a. (case status of None \<Rightarrow> True | Some s \<Rightarrow> ap_status a = approval_status_value s)
          \<and> (case tenant_id of None \<Rightarrow> True | Some t \<Rightarrow> ap_tenant_id a = t)) (mset (db_approvals (w_db w)))"
    by (simp add: conj_commute flip: mset_filter)
  moreover have "sorted (map ap_created_at ?rows)" by simp
  moreover have run: "list_approvals status tenant_id limit w = (case limit of None \<Rightarrow> Inr ?rows
      | Some n \<Rightarrow> if n < 0 then Inl DataError else Inr (take (nat n) ?rows), w)"
    by (simp only: list_approvals_def approval_list_filtered_def Let_def)
  ultimately show ?thesis
    unfolding run prod.case by (intro conjI refl exI [of _ ?rows])
qed

section \<open>The stdio client\<close>

text \<open>C37: What the stdio client returns from a call is JSON, whatever objects the SDK hands
  over: the structured content if there is any, else the content list. Everything it raises
  is an error of the port, unless the SDK raises an exception of a class the client does not
  name; a tool's own error and an HTTP transport are errors.\<close>

theorem stdio_calls_answer_json:
  "case stdio_call_tool fr sdk n server tool arguments tm of
     Inr kvs \<Rightarrow> json_like (PDict kvs) \<and> (\<exists>v. kvs = [(''structured'', v)] \<or> (\<exists>xs. kvs = [(''content'', PList xs)]))
       \<and> ts_transport_type server \<noteq> ''streamable_http''
       \<and> (\<exists>p result. connect_parameters fr server = Inr p \<and> \<not> cr_isError result
          \<and> sdk_call_tool sdk n p (td_tool_name tool) arguments tm = SdkResult result)
   | Inl e \<Rightarrow> (case upstream_error e of
         Some cm \<Rightarrow> True
       | None \<Rightarrow> (\<exists>p m. connect_parameters fr server = Inr p
           \<and> sdk_call_tool sdk n p (td_tool_name tool) arguments tm = SdkRaises m \<and> e = UncaughtError m))"
proof (cases "connect_parameters fr server")
  case (Inl e)
  from connect_parameters_error [OF Inl] Inl show ?thesis by (auto simp: stdio_call_tool_def)
next
  case (Inr p)
  have "\<exists>v. mcp_result_to_json_safe fr result = [(''structured'', v)]
      \<or> (\<exists>xs. mcp_result_to_json_safe fr result = [(''content'', PList xs)])" for result
    by (auto simp: mcp_result_to_json_safe_def Let_def split: option.split)
  with Inr result_json_like [of fr] show ?thesis
    by (auto simp: stdio_call_tool_def ensure_mcp_call_result_ok_def sum_bind_def
        simp del: json_like.simps split: sdk_outcome.split)
qed

section \<open>Credentials\<close>

text \<open>
  C31: The credentials the database holds are never read back: the answer to every reading request
  of an administrator is the same for any two databases that differ only in the keyed hashes of
  the agents' API keys and in the environments of the tool servers.
\<close>

theorem listings_hide_credentials:
  assumes "admin_reads req" and "without_credentials (w_committed w) = without_credentials (w_committed w')"
  shows "fst (serve h st client req w) = fst (serve h st client req w')"
  using handle_reads [OF assms(1), of "w\<lparr>w_db := w_committed w\<rparr>" "w'\<lparr>w_db := w_committed w'\<rparr>"] assms(2)
  by (simp add: serve_def with_session_def case_prod_beta)

lemma listings_hide_credentials_witness:
  "fst (serve sample_host sample_settings None (ListAgents root 100) (settled_world waiting_db))
    = fst (serve sample_host sample_settings None (ListAgents root 100)
        (settled_world (waiting_db\<lparr>db_agents := [bot_row\<lparr>ag_api_key_hash := ''other''\<rparr>]\<rparr>)))"
  by (rule listings_hide_credentials)
    (simp_all add: settled_world_def without_credentials_def waiting_db_def idle_db_def bot_row_def)

end
