(* ===== verification/Schema_Catalog.thy ===== *)
theory Schema_Catalog
  imports Gateway_Prelude
begin

text \<open>
  The schema of a PostgreSQL database as the migrations see it: columns with their types,
  constraints and indexes of the tables, and the data definition operations of Alembic
  (\<open>op.create_table\<close>, \<open>op.create_index\<close>, \<open>op.drop_index\<close>, \<open>op.drop_table\<close>, \<open>op.add_column\<close>,
  \<open>op.drop_column\<close>) with the errors the database answers. Tables, indexes and the indexes behind
  primary keys and unique constraints share one name space. What an operation does to its own
  tables it does beside any other tables of the database (\<open>run_ops_frame\<close>).
\<close>

section \<open>Tables\<close>

datatype column_type = SqlUuid | SqlString nat | SqlText | SqlInteger | SqlTimestamp | SqlJsonb

record column =
  co_name :: string
  co_type :: column_type
  co_nullable :: bool
  co_server_default :: "string option"

text \<open>\<open>ForeignKey columns table columns ondelete\<close>; primary and foreign keys are unnamed.\<close>

datatype table_constraint =
    PrimaryKey "string list"
  | Unique string "string list"
  | ForeignKey "string list" string "string list" "string option"

text \<open>The predicate of a partial index: \<open>column IS NOT NULL\<close>.\<close>

datatype index_predicate = IsNotNull string

record index_def =
  ix_name :: string
  ix_columns :: "string list"
  ix_unique :: bool
  ix_where :: "index_predicate option"

record table_def =
  tb_name :: string
  tb_columns :: "column list"
  tb_constraints :: "table_constraint list"
  tb_indexes :: "index_def list"

type_synonym catalog = "table_def list"

definition column :: "string \<Rightarrow> column_type \<Rightarrow> column" where
  "column n t = \<lparr>co_name = n, co_type = t, co_nullable = False, co_server_default = None\<rparr>"

definition nullable_column :: "string \<Rightarrow> column_type \<Rightarrow> column" where
  "nullable_column n t = (column n t)\<lparr>co_nullable := True\<rparr>"

definition index :: "string \<Rightarrow> string list \<Rightarrow> index_def" where
  "index n cs = \<lparr>ix_name = n, ix_columns = cs, ix_unique = False, ix_where = None\<rparr>"

fun constraint_columns :: "table_constraint \<Rightarrow> string list" where
  "constraint_columns (PrimaryKey cs) = cs"
| "constraint_columns (Unique n cs) = cs"
| "constraint_columns (ForeignKey cs t rs d) = cs"

fun foreign_target :: "table_constraint \<Rightarrow> string option" where
  "foreign_target (ForeignKey cs t rs d) = Some t"
| "foreign_target _ = None"

fun constraint_name :: "string \<Rightarrow> table_constraint \<Rightarrow> string option" where
  "constraint_name t (PrimaryKey cs) = Some (t @ ''_pkey'')"
| "constraint_name t (Unique n cs) = Some n"
| "constraint_name t (ForeignKey cs u rs d) = None"

definition table_relations :: "table_def \<Rightarrow> string list" where
  "table_relations t = tb_name t # List.map_filter (constraint_name (tb_name t)) (tb_constraints t)
     @ map ix_name (tb_indexes t)"

definition relation_names :: "catalog \<Rightarrow> string list" where
  "relation_names cat = concat (map table_relations cat)"

definition table_targets :: "table_def \<Rightarrow> string list" where
  "table_targets t = List.map_filter foreign_target (tb_constraints t)"

definition find_table :: "string \<Rightarrow> catalog \<Rightarrow> table_def option" where
  "find_table n cat = List.find (\<lambda>t. tb_name t = n) cat"

definition update_table :: "string \<Rightarrow> (table_def \<Rightarrow> table_def) \<Rightarrow> catalog \<Rightarrow> catalog" where
  "update_table n f cat = map (\<lambda>t. if tb_name t = n then f t else t) cat"

section \<open>Data definition\<close>

datatype ddl_error = DuplicateRelation | DuplicateColumn | UndefinedTable | UndefinedColumn
  | UndefinedObject | InvalidForeignKey | DependentObjects

datatype ddl_op =
    CreateTable string "column list" "table_constraint list"
  | CreateIndex string string "string list" bool "index_predicate option"
  | DropIndex string string
  | DropTable string
  | AddColumn string column
  | DropColumn string string

definition column_names :: "table_def \<Rightarrow> string list" where
  "column_names t = map co_name (tb_columns t)"

text \<open>A foreign key refers to the primary key or a unique constraint of its target.\<close>

fun is_key :: "string list \<Rightarrow> table_constraint \<Rightarrow> bool" where
  "is_key rs (PrimaryKey cs) = (cs = rs)"
| "is_key rs (Unique n cs) = (cs = rs)"
| "is_key rs (ForeignKey cs t us d) = False"

fun reference_ok :: "catalog \<Rightarrow> table_constraint \<Rightarrow> bool" where
  "reference_ok cat (ForeignKey cs t rs d) = (case find_table t cat of
     None \<Rightarrow> False
   | Some u \<Rightarrow> length cs = length rs \<and> list_ex (is_key rs) (tb_constraints u))"
| "reference_ok cat _ = True"

text \<open>\<open>DROP TABLE\<close> and \<open>DROP COLUMN\<close> fail while the foreign key of another table needs them.\<close>

definition refers_to_table :: "string \<Rightarrow> table_def \<Rightarrow> bool" where
  "refers_to_table n t \<longleftrightarrow> tb_name t \<noteq> n \<and> n \<in> set (table_targets t)"

fun refers_to_column :: "string \<Rightarrow> string \<Rightarrow> table_constraint \<Rightarrow> bool" where
  "refers_to_column n c (ForeignKey cs t rs d) = (t = n \<and> c \<in> set rs)"
| "refers_to_column n c _ = False"

definition column_referenced :: "string \<Rightarrow> string \<Rightarrow> table_def \<Rightarrow> bool" where
  "column_referenced n c t \<longleftrightarrow> tb_name t \<noteq> n \<and> list_ex (refers_to_column n c) (tb_constraints t)"

definition index_uses :: "string \<Rightarrow> index_def \<Rightarrow> bool" where
  "index_uses c i \<longleftrightarrow> c \<in> set (ix_columns i) \<or> ix_where i = Some (IsNotNull c)"

text \<open>A dropped column takes the constraints and indexes over it along.\<close>

definition without_column :: "string \<Rightarrow> table_def \<Rightarrow> table_def" where
  "without_column c t = t\<lparr>tb_columns := filter (\<lambda>x. co_name x \<noteq> c) (tb_columns t),
     tb_constraints := filter (\<lambda>x. c \<notin> set (constraint_columns x)) (tb_constraints t),
     tb_indexes := filter (\<lambda>i. \<not> index_uses c i) (tb_indexes t)\<rparr>"

definition without_index :: "string \<Rightarrow> table_def \<Rightarrow> table_def" where
  "without_index n t = t\<lparr>tb_indexes := filter (\<lambda>i. ix_name i \<noteq> n) (tb_indexes t)\<rparr>"

definition create_table :: "table_def \<Rightarrow> catalog \<Rightarrow> ddl_error + catalog" where
  "create_table t cat =
    (if \<not> distinct (table_relations t) \<or> list_ex (\<lambda>n. n \<in> set (relation_names cat)) (table_relations t)
     then Inl DuplicateRelation
     else if \<not> distinct (column_names t) then Inl DuplicateColumn
     else if list_ex (\<lambda>c. \<not> set (constraint_columns c) \<subseteq> set (column_names t)) (tb_constraints t)
     then Inl UndefinedColumn
     else if list_ex (\<lambda>c. \<not> reference_ok (cat @ [t]) c) (tb_constraints t) then Inl InvalidForeignKey
     else Inr (cat @ [t]))"

text \<open>The table given to \<open>op.drop_index\<close> has no part in PostgreSQL's \<open>DROP INDEX\<close>.\<close>

fun run_op :: "ddl_op \<Rightarrow> catalog \<Rightarrow> ddl_error + catalog" where
  "run_op (CreateTable n cols cons) cat = create_table
     \<lparr>tb_name = n, tb_columns = cols, tb_constraints = cons, tb_indexes = []\<rparr> cat"
| "run_op (CreateIndex n table cs unique pred) cat =
    (if n \<in> set (relation_names cat) then Inl DuplicateRelation
     else case find_table table cat of
       None \<Rightarrow> Inl UndefinedTable
     | Some t \<Rightarrow> if \<not> set cs \<subseteq> set (column_names t) then Inl UndefinedColumn
         else Inr (update_table table (\<lambda>t. t\<lparr>tb_indexes := tb_indexes t
           @ [\<lparr>ix_name = n, ix_columns = cs, ix_unique = unique, ix_where = pred\<rparr>]\<rparr>) cat))"
| "run_op (DropIndex n table) cat =
    (if list_ex (\<lambda>t. n \<in> set (map ix_name (tb_indexes t))) cat
     then Inr (map (without_index n) cat) else Inl UndefinedObject)"
| "run_op (DropTable n) cat =
    (case find_table n cat of
       None \<Rightarrow> Inl UndefinedTable
     | Some t \<Rightarrow> if list_ex (refers_to_table n) cat then Inl DependentObjects
         else Inr (filter (\<lambda>t. tb_name t \<noteq> n) cat))"
| "run_op (AddColumn table c) cat =
    (case find_table table cat of
       None \<Rightarrow> Inl UndefinedTable
     | Some t \<Rightarrow> if co_name c \<in> set (column_names t) then Inl DuplicateColumn
         else Inr (update_table table (\<lambda>t. t\<lparr>tb_columns := tb_columns t @ [c]\<rparr>) cat))"
| "run_op (DropColumn table c) cat =
    (case find_table table cat of
       None \<Rightarrow> Inl UndefinedTable
     | Some t \<Rightarrow> if c \<notin> set (column_names t) then Inl UndefinedColumn
         else if list_ex (column_referenced table c) cat then Inl DependentObjects
         else Inr (update_table table (without_column c) cat))"

fun run_ops :: "ddl_op list \<Rightarrow> catalog \<Rightarrow> ddl_error + catalog" where
  "run_ops [] cat = Inr cat"
| "run_ops (op # ops) cat = sum_bind (run_op op cat) (run_ops ops)"

lemma run_ops_append: "run_ops (xs @ ys) cat = sum_bind (run_ops xs cat) (run_ops ys)"
  by (induction xs arbitrary: cat) (auto simp: sum_bind_def split: sum.split)

section \<open>Operations act on their own tables\<close>

fun op_names :: "ddl_op \<Rightarrow> string list" where
  "op_names (CreateTable n cols cons) =
     n # List.map_filter (constraint_name n) cons @ List.map_filter foreign_target cons"
| "op_names (CreateIndex n table cs unique pred) = [n, table]"
| "op_names (DropIndex n table) = [n]"
| "op_names (DropTable n) = [n]"
| "op_names (AddColumn table c) = [table]"
| "op_names (DropColumn table c) = [table]"

definition apart :: "string list \<Rightarrow> catalog \<Rightarrow> bool" where
  "apart ns cat \<longleftrightarrow> list_all (\<lambda>n. n \<notin> set (relation_names cat)) ns"

text \<open>Its foreign keys refer to tables of the same catalog.\<close>

definition self_contained :: "catalog \<Rightarrow> bool" where
  "self_contained cat \<longleftrightarrow> list_all (\<lambda>t. set (table_targets t) \<subseteq> set (map tb_name cat)) cat"

lemma relation_names_simps [simp]:
  "relation_names [] = []" "relation_names (c @ d) = relation_names c @ relation_names d"
  "relation_names (t # c) = table_relations t @ relation_names c"
  by (simp_all add: relation_names_def)

lemma tb_name_relation: "t \<in> set cat \<Longrightarrow> tb_name t \<in> set (relation_names cat)"
  by (auto simp: relation_names_def table_relations_def)

lemma ix_name_relation: "t \<in> set cat \<Longrightarrow> i \<in> set (tb_indexes t) \<Longrightarrow> ix_name i \<in> set (relation_names cat)"
  by (force simp: relation_names_def table_relations_def)

lemma find_table_append: "n \<notin> set (relation_names cat) \<Longrightarrow> find_table n (cat @ c) = find_table n c"
  by (induction cat) (auto simp: find_table_def table_relations_def)

lemma update_table_apart: "n \<notin> set (relation_names cat) \<Longrightarrow> update_table n f (cat @ c) = cat @ update_table n f c"
  unfolding update_table_def map_append
  by (rule arg_cong [where f = "\<lambda>x. x @ _"], rule map_idI) (auto dest: tb_name_relation)

lemma without_index_apart: "n \<notin> set (relation_names cat) \<Longrightarrow> map (without_index n) cat = cat"
proof (rule map_idI)
  fix t assume n: "n \<notin> set (relation_names cat)" and t: "t \<in> set cat"
  have "filter (\<lambda>i. ix_name i \<noteq> n) (tb_indexes t) = tb_indexes t"
    unfolding filter_id_conv using n ix_name_relation [OF t] by blast
  then show "without_index n t = t" by (simp add: without_index_def)
qed

lemma drop_apart: "n \<notin> set (relation_names cat) \<Longrightarrow> filter (\<lambda>t. tb_name t \<noteq> n) cat = cat"
  by (auto simp: filter_id_conv dest: tb_name_relation)

lemma foreign_target_mem:
  "x \<in> set (tb_constraints t) \<Longrightarrow> foreign_target x = Some n \<Longrightarrow> n \<in> set (table_targets t)"
  by (force simp: table_targets_def List.map_filter_def)

lemma targets_apart:
  assumes "self_contained cat" "n \<notin> set (relation_names cat)"
  shows "\<not> list_ex (refers_to_table n) cat" "\<not> list_ex (column_referenced n c) cat"
proof -
  have "n \<notin> set (table_targets t)" if "t \<in> set cat" for t
    using assms that by (auto simp: self_contained_def list_all_iff dest: tb_name_relation)
  moreover have "foreign_target x = Some n" if "refers_to_column n c x" for x
    using that by (cases x) simp_all
  ultimately show "\<not> list_ex (refers_to_table n) cat" "\<not> list_ex (column_referenced n c) cat"
    by (auto simp: list_ex_iff refers_to_table_def column_referenced_def dest: foreign_target_mem)
qed

lemma reference_ok_apart:
  "list_all (\<lambda>n. n \<notin> set (relation_names cat)) (List.map_filter foreign_target [x]) \<Longrightarrow>
    reference_ok (cat @ c) x = reference_ok c x"
  by (cases x) (simp_all add: find_table_append List.map_filter_def)

lemma create_table_apart:
  assumes "create_table t c = Inr c'" "apart (table_relations t @ table_targets t) cat"
  shows "create_table t (cat @ c) = Inr (cat @ c')"
proof -
  have refs: "reference_ok (cat @ c @ [t]) x = reference_ok (c @ [t]) x" if "x \<in> set (tb_constraints t)" for x
    by (rule reference_ok_apart)
      (use assms(2) that in \<open>auto simp: apart_def list_all_iff List.map_filter_def
        dest: foreign_target_mem split: option.splits\<close>)
  from assms show ?thesis
    by (auto simp: create_table_def list_ex_iff apart_def list_all_iff refs split: if_splits)
qed

lemma run_op_apart:
  assumes "run_op op c = Inr c'" "self_contained cat" "apart (op_names op) cat"
  shows "run_op op (cat @ c) = Inr (cat @ c')"
proof (cases op)
  case (CreateTable n cols cons)
  then show ?thesis
    using assms by (auto intro!: create_table_apart simp: table_relations_def table_targets_def apart_def)
qed (use assms in \<open>auto simp: apart_def find_table_append update_table_apart without_index_apart
    drop_apart targets_apart split: option.splits if_splits\<close>)

lemma run_ops_frame:
  assumes "run_ops ops c = Inr c'" "self_contained cat" "apart (concat (map op_names ops)) cat"
  shows "run_ops ops (cat @ c) = Inr (cat @ c')"
  using assms(1,3)
proof (induction ops arbitrary: c)
  case (Cons op ops)
  then obtain d where d: "run_op op c = Inr d" "run_ops ops d = Inr c'"
    by (auto simp: sum_bind_Inr_iff)
  moreover have "apart (op_names op) cat" "apart (concat (map op_names ops)) cat"
    using Cons.prems(2) by (simp_all add: apart_def)
  ultimately show ?case
    using Cons.IH run_op_apart [OF d(1) assms(2)] by simp
qed simp

end
