(* ===== verification/Schema_Migrations.thy ===== *)
theory Schema_Migrations
  imports Schema_Catalog
begin

text \<open>
  The revisions of \<open>alembic/versions\<close>, the metadata declared by the mapped classes of
  \<open>infrastructure/db/models.py\<close>, and how the two agree: upgrading an empty database to the head
  builds the declared tables, and each downgrade undoes its upgrade, whatever other tables the
  database has.
\<close>

section \<open>Revision 202606260001\<close>

definition upgrade_tenants :: "ddl_op list" where
  "upgrade_tenants =
   [CreateTable ''tenants''
      [column ''id'' SqlUuid,
       column ''name'' (SqlString 255),
       column ''status'' (SqlString 32),
       column ''created_at'' SqlTimestamp,
       column ''updated_at'' SqlTimestamp]
      [PrimaryKey [''id''],
       Unique ''uq_tenants_name'' [''name'']],
    CreateIndex ''ix_tenants_status'' ''tenants'' [''status''] False None]"

definition upgrade_agents :: "ddl_op list" where
  "upgrade_agents =
   [CreateTable ''agents''
      [column ''id'' SqlUuid,
       column ''tenant_id'' SqlUuid,
       column ''name'' (SqlString 255),
       column ''role'' (SqlString 255),
       column ''status'' (SqlString 32),
       column ''api_key_hash'' (SqlString 255),
       column ''created_at'' SqlTimestamp,
       column ''updated_at'' SqlTimestamp]
      [ForeignKey [''tenant_id''] ''tenants'' [''id''] (Some ''CASCADE''),
       PrimaryKey [''id''],
       Unique ''uq_agents_api_key_hash'' [''api_key_hash''],
       Unique ''uq_agents_tenant_id_name'' [''tenant_id'', ''name'']],
    CreateIndex ''ix_agents_role'' ''agents'' [''role''] False None,
    CreateIndex ''ix_agents_status'' ''agents'' [''status''] False None,
    CreateIndex ''ix_agents_tenant_id'' ''agents'' [''tenant_id''] False None]"

definition upgrade_tool_servers :: "ddl_op list" where
  "upgrade_tool_servers =
   [CreateTable ''tool_servers''
      [column ''id'' SqlUuid,
       column ''tenant_id'' SqlUuid,
       column ''server_id'' (SqlString 255),
       column ''name'' (SqlString 255),
       column ''transport_type'' (SqlString 32),
       nullable_column ''endpoint_url'' SqlText,
       nullable_column ''command'' SqlText,
       nullable_column ''args'' SqlJsonb,
       nullable_column ''env'' SqlJsonb,
       column ''status'' (SqlString 32),
       column ''created_at'' SqlTimestamp,
       column ''updated_at'' SqlTimestamp]
      [ForeignKey [''tenant_id''] ''tenants'' [''id''] (Some ''CASCADE''),
       PrimaryKey [''id''],
       Unique ''uq_tool_servers_tenant_id_server_id'' [''tenant_id'', ''server_id'']],
    CreateIndex ''ix_tool_servers_status'' ''tool_servers'' [''status''] False None,
    CreateIndex ''ix_tool_servers_tenant_id'' ''tool_servers'' [''tenant_id''] False None,
    CreateIndex ''ix_tool_servers_transport_type'' ''tool_servers'' [''transport_type''] False None]"

definition upgrade_policies :: "ddl_op list" where
  "upgrade_policies =
   [CreateTable ''policies''
      [column ''id'' SqlUuid,
       column ''tenant_id'' SqlUuid,
       column ''name'' (SqlString 255),
       column ''priority'' SqlInteger,
       column ''effect'' (SqlString 32),
       column ''conditions'' SqlJsonb,
       column ''reason'' SqlText,
       column ''status'' (SqlString 32),
       column ''created_at'' SqlTimestamp,
       column ''updated_at'' SqlTimestamp]
      [ForeignKey [''tenant_id''] ''tenants'' [''id''] (Some ''CASCADE''),
       PrimaryKey [''id''],
       Unique ''uq_policies_tenant_id_name'' [''tenant_id'', ''name'']],
    CreateIndex ''ix_policies_effect'' ''policies'' [''effect''] False None,
    CreateIndex ''ix_policies_priority'' ''policies'' [''priority''] False None,
    CreateIndex ''ix_policies_status'' ''policies'' [''status''] False None,
    CreateIndex ''ix_policies_tenant_id'' ''policies'' [''tenant_id''] False None]"

definition upgrade_tool_definitions :: "ddl_op list" where
  "upgrade_tool_definitions =
   [CreateTable ''tool_definitions''
      [column ''id'' SqlUuid,
       column ''tenant_id'' SqlUuid,
       column ''server_id'' SqlUuid,
       column ''tool_name'' (SqlString 255),
       nullable_column ''description'' SqlText,
       column ''input_schema'' SqlJsonb,
       column ''risk_level'' (SqlString 32),
       column ''action_type'' (SqlString 32),
       nullable_column ''resource_patterns'' SqlJsonb,
       column ''status'' (SqlString 32),
       column ''schema_hash'' (SqlString 128),
       column ''created_at'' SqlTimestamp,
       column ''updated_at'' SqlTimestamp]
      [ForeignKey [''server_id''] ''tool_servers'' [''id''] (Some ''CASCADE''),
       ForeignKey [''tenant_id''] ''tenants'' [''id''] (Some ''CASCADE''),
       PrimaryKey [''id''],
       Unique ''uq_tool_definitions_tenant_server_tool'' [''tenant_id'', ''server_id'', ''tool_name'']],
    CreateIndex ''ix_tool_definitions_action_type'' ''tool_definitions'' [''action_type''] False None,
    CreateIndex ''ix_tool_definitions_risk_level'' ''tool_definitions'' [''risk_level''] False None,
    CreateIndex ''ix_tool_definitions_schema_hash'' ''tool_definitions'' [''schema_hash''] False None,
    CreateIndex ''ix_tool_definitions_server_id'' ''tool_definitions'' [''server_id''] False None,
    CreateIndex ''ix_tool_definitions_status'' ''tool_definitions'' [''status''] False None,
    CreateIndex ''ix_tool_definitions_tenant_id'' ''tool_definitions'' [''tenant_id''] False None]"

definition upgrade_tool_calls :: "ddl_op list" where
  "upgrade_tool_calls =
   [CreateTable ''tool_calls''
      [column ''id'' SqlUuid,
       nullable_column ''trace_id'' (SqlString 255),
       column ''tenant_id'' SqlUuid,
       column ''agent_id'' SqlUuid,
       column ''target_server'' (SqlString 255),
       column ''target_tool'' (SqlString 255),
       column ''arguments_redacted'' SqlJsonb,
       column ''arguments_hash'' (SqlString 128),
       nullable_column ''tool_schema_hash'' (SqlString 128),
       nullable_column ''policy_decision'' (SqlString 64),
       nullable_column ''decision_reason'' SqlText,
       nullable_column ''approval_id'' SqlUuid,
       column ''status'' (SqlString 32),
       nullable_column ''error_code'' (SqlString 128),
       nullable_column ''error_message'' SqlText,
       nullable_column ''idempotency_key'' (SqlString 255),
       column ''created_at'' SqlTimestamp,
       column ''updated_at'' SqlTimestamp]
      [ForeignKey [''agent_id''] ''agents'' [''id''] (Some ''CASCADE''),
       ForeignKey [''tenant_id''] ''tenants'' [''id''] (Some ''CASCADE''),
       PrimaryKey [''id'']],
    CreateIndex ''ix_tool_calls_agent_id'' ''tool_calls'' [''agent_id''] False None,
    CreateIndex ''ix_tool_calls_created_at'' ''tool_calls'' [''created_at''] False None,
    CreateIndex ''ix_tool_calls_status'' ''tool_calls'' [''status''] False None,
    CreateIndex ''ix_tool_calls_target_tool'' ''tool_calls'' [''target_tool''] False None,
    CreateIndex ''ix_tool_calls_tenant_id'' ''tool_calls'' [''tenant_id''] False None,
    CreateIndex ''ix_tool_calls_trace_id'' ''tool_calls'' [''trace_id''] False None,
    CreateIndex ''uq_tool_calls_tenant_agent_idempotency_key'' ''tool_calls''
      [''tenant_id'', ''agent_id'', ''idempotency_key''] True
      (Some (IsNotNull ''idempotency_key''))]"

definition upgrade_approval_requests :: "ddl_op list" where
  "upgrade_approval_requests =
   [CreateTable ''approval_requests''
      [column ''id'' SqlUuid,
       column ''tenant_id'' SqlUuid,
       column ''agent_id'' SqlUuid,
       column ''tool_call_id'' SqlUuid,
       column ''target_server'' (SqlString 255),
       column ''target_tool'' (SqlString 255),
       column ''arguments_redacted'' SqlJsonb,
       column ''arguments_hash'' (SqlString 128),
       column ''status'' (SqlString 32),
       nullable_column ''requested_reason'' SqlText,
       nullable_column ''reviewer_id'' (SqlString 255),
       nullable_column ''review_reason'' SqlText,
       column ''expires_at'' SqlTimestamp,
       nullable_column ''approved_at'' SqlTimestamp,
       nullable_column ''denied_at'' SqlTimestamp,
       nullable_column ''executed_at'' SqlTimestamp,
       column ''created_at'' SqlTimestamp,
       column ''updated_at'' SqlTimestamp,
       (column ''version'' SqlInteger)\<lparr>co_server_default := Some ''1''\<rparr>]
      [ForeignKey [''agent_id''] ''agents'' [''id''] (Some ''CASCADE''),
       ForeignKey [''tenant_id''] ''tenants'' [''id''] (Some ''CASCADE''),
       ForeignKey [''tool_call_id''] ''tool_calls'' [''id''] (Some ''CASCADE''),
       PrimaryKey [''id''],
       Unique ''uq_approval_requests_tool_call_id'' [''tool_call_id'']],
    CreateIndex ''ix_approval_requests_agent_id'' ''approval_requests'' [''agent_id''] False None,
    CreateIndex ''ix_approval_requests_expires_at'' ''approval_requests'' [''expires_at''] False None,
    CreateIndex ''ix_approval_requests_status'' ''approval_requests'' [''status''] False None,
    CreateIndex ''ix_approval_requests_tenant_id'' ''approval_requests'' [''tenant_id''] False None]"

definition upgrade_audit_events :: "ddl_op list" where
  "upgrade_audit_events =
   [CreateTable ''audit_events''
      [column ''event_id'' SqlUuid,
       nullable_column ''trace_id'' (SqlString 255),
       column ''tenant_id'' SqlUuid,
       nullable_column ''agent_id'' SqlUuid,
       column ''event_type'' (SqlString 255),
       nullable_column ''target_server'' (SqlString 255),
       nullable_column ''target_tool'' (SqlString 255),
       nullable_column ''arguments_redacted'' SqlJsonb,
       nullable_column ''arguments_hash'' (SqlString 128),
       nullable_column ''policy_decision'' (SqlString 64),
       nullable_column ''decision_reason'' SqlText,
       nullable_column ''approval_id'' SqlUuid,
       column ''status'' (SqlString 64),
       nullable_column ''error_code'' (SqlString 128),
       nullable_column ''error_message'' SqlText,
       nullable_column ''metadata'' SqlJsonb,
       column ''created_at'' SqlTimestamp]
      [PrimaryKey [''event_id'']],
    CreateIndex ''ix_audit_events_agent_id'' ''audit_events'' [''agent_id''] False None,
    CreateIndex ''ix_audit_events_created_at'' ''audit_events'' [''created_at''] False None,
    CreateIndex ''ix_audit_events_event_type'' ''audit_events'' [''event_type''] False None,
    CreateIndex ''ix_audit_events_status'' ''audit_events'' [''status''] False None,
    CreateIndex ''ix_audit_events_target_tool'' ''audit_events'' [''target_tool''] False None,
    CreateIndex ''ix_audit_events_tenant_id'' ''audit_events'' [''tenant_id''] False None,
    CreateIndex ''ix_audit_events_trace_id'' ''audit_events'' [''trace_id''] False None]"

definition initial_upgrade :: "ddl_op list" where
  "initial_upgrade = upgrade_tenants @ upgrade_agents @ upgrade_tool_servers @ upgrade_policies
    @ upgrade_tool_definitions
    @ upgrade_tool_calls @ upgrade_approval_requests @ upgrade_audit_events"

definition initial_downgrade :: "ddl_op list" where
  "initial_downgrade =
   [DropIndex ''ix_audit_events_trace_id'' ''audit_events'',
    DropIndex ''ix_audit_events_tenant_id'' ''audit_events'',
    DropIndex ''ix_audit_events_target_tool'' ''audit_events'',
    DropIndex ''ix_audit_events_status'' ''audit_events'',
    DropIndex ''ix_audit_events_event_type'' ''audit_events'',
    DropIndex ''ix_audit_events_created_at'' ''audit_events'',
    DropIndex ''ix_audit_events_agent_id'' ''audit_events'',
    DropTable ''audit_events'',
    DropIndex ''ix_approval_requests_tenant_id'' ''approval_requests'',
    DropIndex ''ix_approval_requests_status'' ''approval_requests'',
    DropIndex ''ix_approval_requests_expires_at'' ''approval_requests'',
    DropIndex ''ix_approval_requests_agent_id'' ''approval_requests'',
    DropTable ''approval_requests'',
    DropIndex ''uq_tool_calls_tenant_agent_idempotency_key'' ''tool_calls'',
    DropIndex ''ix_tool_calls_trace_id'' ''tool_calls'',
    DropIndex ''ix_tool_calls_tenant_id'' ''tool_calls'',
    DropIndex ''ix_tool_calls_target_tool'' ''tool_calls'',
    DropIndex ''ix_tool_calls_status'' ''tool_calls'',
    DropIndex ''ix_tool_calls_created_at'' ''tool_calls'',
    DropIndex ''ix_tool_calls_agent_id'' ''tool_calls'',
    DropTable ''tool_calls'',
    DropIndex ''ix_tool_definitions_tenant_id'' ''tool_definitions'',
    DropIndex ''ix_tool_definitions_status'' ''tool_definitions'',
    DropIndex ''ix_tool_definitions_server_id'' ''tool_definitions'',
    DropIndex ''ix_tool_definitions_schema_hash'' ''tool_definitions'',
    DropIndex ''ix_tool_definitions_risk_level'' ''tool_definitions'',
    DropIndex ''ix_tool_definitions_action_type'' ''tool_definitions'',
    DropTable ''tool_definitions'',
    DropIndex ''ix_policies_tenant_id'' ''policies'',
    DropIndex ''ix_policies_status'' ''policies'',
    DropIndex ''ix_policies_priority'' ''policies'',
    DropIndex ''ix_policies_effect'' ''policies'',
    DropTable ''policies'',
    DropIndex ''ix_tool_servers_transport_type'' ''tool_servers'',
    DropIndex ''ix_tool_servers_tenant_id'' ''tool_servers'',
    DropIndex ''ix_tool_servers_status'' ''tool_servers'',
    DropTable ''tool_servers'',
    DropIndex ''ix_agents_tenant_id'' ''agents'',
    DropIndex ''ix_agents_status'' ''agents'',
    DropIndex ''ix_agents_role'' ''agents'',
    DropTable ''agents'',
    DropIndex ''ix_tenants_status'' ''tenants'',
    DropTable ''tenants'']"

section \<open>Revision 202606280001\<close>

definition payload_upgrade :: "ddl_op list" where
  "payload_upgrade = [AddColumn ''tool_calls'' (nullable_column ''arguments_payload'' SqlJsonb)]"

definition payload_downgrade :: "ddl_op list" where
  "payload_downgrade = [DropColumn ''tool_calls'' ''arguments_payload'']"

section \<open>The chain of revisions\<close>

record revision =
  rv_revision :: string
  rv_down_revision :: "string option"
  rv_upgrade :: "ddl_op list"
  rv_downgrade :: "ddl_op list"

definition initial_domain_database :: revision where
  "initial_domain_database = \<lparr>rv_revision = ''202606260001'', rv_down_revision = None,
     rv_upgrade = initial_upgrade, rv_downgrade = initial_downgrade\<rparr>"

definition add_tool_call_arguments_payload :: revision where
  "add_tool_call_arguments_payload = \<lparr>rv_revision = ''202606280001'',
     rv_down_revision = Some ''202606260001'',
     rv_upgrade = payload_upgrade, rv_downgrade = payload_downgrade\<rparr>"

definition versions :: "revision list" where
  "versions = [initial_domain_database, add_tool_call_arguments_payload]"

text \<open>
  A database carries the revision it is at. One step up runs the script that names this
  revision as its predecessor, one step down the downgrade of the script of this revision.
\<close>

type_synonym schema_state = "string option \<times> catalog"

definition upgrade_step :: "schema_state \<Rightarrow> ddl_error + schema_state" where
  "upgrade_step s = (case s of (version, cat) \<Rightarrow>
     (case List.find (\<lambda>r. rv_down_revision r = version) versions of
        None \<Rightarrow> Inr (version, cat)
      | Some r \<Rightarrow> sum_bind (run_ops (rv_upgrade r) cat) (\<lambda>c. Inr (Some (rv_revision r), c))))"

definition downgrade_step :: "schema_state \<Rightarrow> ddl_error + schema_state" where
  "downgrade_step s = (case s of (version, cat) \<Rightarrow>
     (case List.find (\<lambda>r. Some (rv_revision r) = version) versions of
        None \<Rightarrow> Inr (version, cat)
      | Some r \<Rightarrow> sum_bind (run_ops (rv_downgrade r) cat) (\<lambda>c. Inr (rv_down_revision r, c))))"

text \<open>\<open>alembic upgrade head\<close>: as many steps up as there are scripts.\<close>

definition upgrade_head :: "catalog \<Rightarrow> ddl_error + schema_state" where
  "upgrade_head cat = foldl (\<lambda>r _. sum_bind r upgrade_step) (Inr (None, cat)) versions"

text \<open>\<open>get_database_url\<close> of \<open>alembic/env.py\<close>, for the environment of the process.\<close>

definition get_database_url :: "(string \<Rightarrow> string option) \<Rightarrow> string + string" where
  "get_database_url environ = (case environ ''DATABASE_URL'' of
     None \<Rightarrow> Inl ''DATABASE_URL must be set explicitly for Alembic migrations''
   | Some database_url \<Rightarrow> Inr database_url)"

section \<open>The declared metadata\<close>

definition tenants_table :: "table_def" where
  "tenants_table =
   \<lparr>tb_name = ''tenants'',
    tb_columns =
      [column ''id'' SqlUuid,
       column ''name'' (SqlString 255),
       column ''status'' (SqlString 32),
       column ''created_at'' SqlTimestamp,
       column ''updated_at'' SqlTimestamp],
    tb_constraints =
      [Unique ''uq_tenants_name'' [''name''],
       PrimaryKey [''id'']],
    tb_indexes =
      [index ''ix_tenants_status'' [''status'']]\<rparr>"

definition agents_table :: "table_def" where
  "agents_table =
   \<lparr>tb_name = ''agents'',
    tb_columns =
      [column ''id'' SqlUuid,
       column ''tenant_id'' SqlUuid,
       column ''name'' (SqlString 255),
       column ''role'' (SqlString 255),
       column ''status'' (SqlString 32),
       column ''api_key_hash'' (SqlString 255),
       column ''created_at'' SqlTimestamp,
       column ''updated_at'' SqlTimestamp],
    tb_constraints =
      [Unique ''uq_agents_tenant_id_name'' [''tenant_id'', ''name''],
       Unique ''uq_agents_api_key_hash'' [''api_key_hash''],
       PrimaryKey [''id''],
       ForeignKey [''tenant_id''] ''tenants'' [''id''] (Some ''CASCADE'')],
    tb_indexes =
      [index ''ix_agents_tenant_id'' [''tenant_id''],
       index ''ix_agents_status'' [''status''],
       index ''ix_agents_role'' [''role'']]\<rparr>"

definition tool_servers_table :: "table_def" where
  "tool_servers_table =
   \<lparr>tb_name = ''tool_servers'',
    tb_columns =
      [column ''id'' SqlUuid,
       column ''tenant_id'' SqlUuid,
       column ''server_id'' (SqlString 255),
       column ''name'' (SqlString 255),
       column ''transport_type'' (SqlString 32),
       nullable_column ''endpoint_url'' SqlText,
       nullable_column ''command'' SqlText,
       nullable_column ''args'' SqlJsonb,
       nullable_column ''env'' SqlJsonb,
       column ''status'' (SqlString 32),
       column ''created_at'' SqlTimestamp,
       column ''updated_at'' SqlTimestamp],
    tb_constraints =
      [Unique ''uq_tool_servers_tenant_id_server_id'' [''tenant_id'', ''server_id''],
       PrimaryKey [''id''],
       ForeignKey [''tenant_id''] ''tenants'' [''id''] (Some ''CASCADE'')],
    tb_indexes =
      [index ''ix_tool_servers_tenant_id'' [''tenant_id''],
       index ''ix_tool_servers_transport_type'' [''transport_type''],
       index ''ix_tool_servers_status'' [''status'']]\<rparr>"

definition tool_definitions_table :: "table_def" where
  "tool_definitions_table =
   \<lparr>tb_name = ''tool_definitions'',
    tb_columns =
      [column ''id'' SqlUuid,
       column ''tenant_id'' SqlUuid,
       column ''server_id'' SqlUuid,
       column ''tool_name'' (SqlString 255),
       nullable_column ''description'' SqlText,
       column ''input_schema'' SqlJsonb,
       column ''risk_level'' (SqlString 32),
       column ''action_type'' (SqlString 32),
       nullable_column ''resource_patterns'' SqlJsonb,
       column ''status'' (SqlString 32),
       column ''schema_hash'' (SqlString 128),
       column ''created_at'' SqlTimestamp,
       column ''updated_at'' SqlTimestamp],
    tb_constraints =
      [Unique ''uq_tool_definitions_tenant_server_tool'' [''tenant_id'', ''server_id'', ''tool_name''],
       PrimaryKey [''id''],
       ForeignKey [''tenant_id''] ''tenants'' [''id''] (Some ''CASCADE''),
       ForeignKey [''server_id''] ''tool_servers'' [''id''] (Some ''CASCADE'')],
    tb_indexes =
      [index ''ix_tool_definitions_tenant_id'' [''tenant_id''],
       index ''ix_tool_definitions_server_id'' [''server_id''],
       index ''ix_tool_definitions_risk_level'' [''risk_level''],
       index ''ix_tool_definitions_action_type'' [''action_type''],
       index ''ix_tool_definitions_status'' [''status''],
       index ''ix_tool_definitions_schema_hash'' [''schema_hash'']]\<rparr>"

definition policies_table :: "table_def" where
  "policies_table =
   \<lparr>tb_name = ''policies'',
    tb_columns =
      [column ''id'' SqlUuid,
       column ''tenant_id'' SqlUuid,
       column ''name'' (SqlString 255),
       column ''priority'' SqlInteger,
       column ''effect'' (SqlString 32),
       column ''conditions'' SqlJsonb,
       column ''reason'' SqlText,
       column ''status'' (SqlString 32),
       column ''created_at'' SqlTimestamp,
       column ''updated_at'' SqlTimestamp],
    tb_constraints =
      [Unique ''uq_policies_tenant_id_name'' [''tenant_id'', ''name''],
       PrimaryKey [''id''],
       ForeignKey [''tenant_id''] ''tenants'' [''id''] (Some ''CASCADE'')],
    tb_indexes =
      [index ''ix_policies_tenant_id'' [''tenant_id''],
       index ''ix_policies_priority'' [''priority''],
       index ''ix_policies_effect'' [''effect''],
       index ''ix_policies_status'' [''status'']]\<rparr>"

definition tool_calls_table :: "table_def" where
  "tool_calls_table =
   \<lparr>tb_name = ''tool_calls'',
    tb_columns =
      [column ''id'' SqlUuid,
       nullable_column ''trace_id'' (SqlString 255),
       column ''tenant_id'' SqlUuid,
       column ''agent_id'' SqlUuid,
       column ''target_server'' (SqlString 255),
       column ''target_tool'' (SqlString 255),
       column ''arguments_redacted'' SqlJsonb,
       column ''arguments_hash'' (SqlString 128),
       nullable_column ''arguments_payload'' SqlJsonb,
       nullable_column ''tool_schema_hash'' (SqlString 128),
       nullable_column ''policy_decision'' (SqlString 64),
       nullable_column ''decision_reason'' SqlText,
       nullable_column ''approval_id'' SqlUuid,
       column ''status'' (SqlString 32),
       nullable_column ''error_code'' (SqlString 128),
       nullable_column ''error_message'' SqlText,
       nullable_column ''idempotency_key'' (SqlString 255),
       column ''created_at'' SqlTimestamp,
       column ''updated_at'' SqlTimestamp],
    tb_constraints =
      [PrimaryKey [''id''],
       ForeignKey [''tenant_id''] ''tenants'' [''id''] (Some ''CASCADE''),
       ForeignKey [''agent_id''] ''agents'' [''id''] (Some ''CASCADE'')],
    tb_indexes =
      [index ''ix_tool_calls_trace_id'' [''trace_id''],
       index ''ix_tool_calls_tenant_id'' [''tenant_id''],
       index ''ix_tool_calls_agent_id'' [''agent_id''],
       index ''ix_tool_calls_target_tool'' [''target_tool''],
       index ''ix_tool_calls_status'' [''status''],
       index ''ix_tool_calls_created_at'' [''created_at''],
       \<lparr>ix_name = ''uq_tool_calls_tenant_agent_idempotency_key'',
        ix_columns = [''tenant_id'', ''agent_id'', ''idempotency_key''],
        ix_unique = True, ix_where = Some (IsNotNull ''idempotency_key'')\<rparr>]\<rparr>"

definition approval_requests_table :: "table_def" where
  "approval_requests_table =
   \<lparr>tb_name = ''approval_requests'',
    tb_columns =
      [column ''id'' SqlUuid,
       column ''tenant_id'' SqlUuid,
       column ''agent_id'' SqlUuid,
       column ''tool_call_id'' SqlUuid,
       column ''target_server'' (SqlString 255),
       column ''target_tool'' (SqlString 255),
       column ''arguments_redacted'' SqlJsonb,
       column ''arguments_hash'' (SqlString 128),
       column ''status'' (SqlString 32),
       nullable_column ''requested_reason'' SqlText,
       nullable_column ''reviewer_id'' (SqlString 255),
       nullable_column ''review_reason'' SqlText,
       column ''expires_at'' SqlTimestamp,
       nullable_column ''approved_at'' SqlTimestamp,
       nullable_column ''denied_at'' SqlTimestamp,
       nullable_column ''executed_at'' SqlTimestamp,
       column ''created_at'' SqlTimestamp,
       column ''updated_at'' SqlTimestamp,
       column ''version'' SqlInteger],
    tb_constraints =
      [Unique ''uq_approval_requests_tool_call_id'' [''tool_call_id''],
       PrimaryKey [''id''],
       ForeignKey [''tenant_id''] ''tenants'' [''id''] (Some ''CASCADE''),
       ForeignKey [''agent_id''] ''agents'' [''id''] (Some ''CASCADE''),
       ForeignKey [''tool_call_id''] ''tool_calls'' [''id''] (Some ''CASCADE'')],
    tb_indexes =
      [index ''ix_approval_requests_tenant_id'' [''tenant_id''],
       index ''ix_approval_requests_agent_id'' [''agent_id''],
       index ''ix_approval_requests_status'' [''status''],
       index ''ix_approval_requests_expires_at'' [''expires_at'']]\<rparr>"

definition audit_events_table :: "table_def" where
  "audit_events_table =
   \<lparr>tb_name = ''audit_events'',
    tb_columns =
      [column ''event_id'' SqlUuid,
       nullable_column ''trace_id'' (SqlString 255),
       column ''tenant_id'' SqlUuid,
       nullable_column ''agent_id'' SqlUuid,
       column ''event_type'' (SqlString 255),
       nullable_column ''target_server'' (SqlString 255),
       nullable_column ''target_tool'' (SqlString 255),
       nullable_column ''arguments_redacted'' SqlJsonb,
       nullable_column ''arguments_hash'' (SqlString 128),
       nullable_column ''policy_decision'' (SqlString 64),
       nullable_column ''decision_reason'' SqlText,
       nullable_column ''approval_id'' SqlUuid,
       column ''status'' (SqlString 64),
       nullable_column ''error_code'' (SqlString 128),
       nullable_column ''error_message'' SqlText,
       nullable_column ''metadata'' SqlJsonb,
       column ''created_at'' SqlTimestamp],
    tb_constraints =
      [PrimaryKey [''event_id'']],
    tb_indexes =
      [index ''ix_audit_events_tenant_id'' [''tenant_id''],
       index ''ix_audit_events_agent_id'' [''agent_id''],
       index ''ix_audit_events_trace_id'' [''trace_id''],
       index ''ix_audit_events_event_type'' [''event_type''],
       index ''ix_audit_events_target_tool'' [''target_tool''],
       index ''ix_audit_events_status'' [''status''],
       index ''ix_audit_events_created_at'' [''created_at'']]\<rparr>"

definition models_metadata :: catalog where
  "models_metadata = [tenants_table, agents_table, tool_servers_table, tool_definitions_table,
     policies_table, tool_calls_table, approval_requests_table, audit_events_table]"

text \<open>
  Agreement of two schemas: the same tables, each with the same columns, constraints and indexes
  in any order. Defaults of the server are compared apart: the models set their defaults in Python.
\<close>

definition column_shape :: "column \<Rightarrow> string \<times> column_type \<times> bool" where
  "column_shape c = (co_name c, co_type c, co_nullable c)"

definition same_elements :: "'a list \<Rightarrow> 'a list \<Rightarrow> bool" where
  "same_elements xs ys \<longleftrightarrow> length xs = length ys \<and> distinct xs
     \<and> list_all (\<lambda>x. x \<in> set ys) xs"

definition table_matches :: "table_def \<Rightarrow> table_def \<Rightarrow> bool" where
  "table_matches t u \<longleftrightarrow>
     same_elements (map column_shape (tb_columns t)) (map column_shape (tb_columns u))
   \<and> same_elements (tb_constraints t) (tb_constraints u) \<and> same_elements (tb_indexes t) (tb_indexes u)"

definition catalog_matches :: "catalog \<Rightarrow> catalog \<Rightarrow> bool" where
  "catalog_matches c d \<longleftrightarrow> same_elements (map tb_name c) (map tb_name d)
     \<and> list_all (\<lambda>t. case find_table (tb_name t) d of None \<Rightarrow> False | Some u \<Rightarrow> table_matches t u) c"

definition server_defaults :: "catalog \<Rightarrow> (string \<times> string \<times> string) list" where
  "server_defaults cat = concat (map (\<lambda>t. List.map_filter
     (\<lambda>c. map_option (\<lambda>v. (tb_name t, co_name c, v)) (co_server_default c)) (tb_columns t)) cat)"

section \<open>What the migrations build\<close>

text \<open>The four scripts run in turn on an empty database, evaluated once.\<close>

definition migrations_check :: "catalog \<Rightarrow> catalog \<Rightarrow> bool" where
  "migrations_check initial head \<longleftrightarrow>
     run_ops payload_downgrade head = Inr initial \<and> run_ops initial_downgrade initial = Inr []
   \<and> catalog_matches head models_metadata
   \<and> server_defaults head = [(''approval_requests'', ''version'', ''1'')]"

lemma migrations_run:
  "case run_ops initial_upgrade [] of Inl e \<Rightarrow> False | Inr initial \<Rightarrow>
    (case run_ops payload_upgrade initial of Inl e \<Rightarrow> False | Inr head \<Rightarrow> migrations_check initial head)"
  by code_simp

definition initial_catalog :: catalog where
  "initial_catalog = projr (run_ops initial_upgrade [])"

definition head_catalog :: catalog where
  "head_catalog = projr (run_ops payload_upgrade initial_catalog)"

lemma ups:
  "run_ops initial_upgrade [] = Inr initial_catalog"
  "run_ops payload_upgrade initial_catalog = Inr head_catalog"
  using migrations_run by (auto simp: initial_catalog_def head_catalog_def split: sum.splits)

lemma head_check: "migrations_check initial_catalog head_catalog"
  using migrations_run by (simp add: ups)

lemma head_matches: "catalog_matches head_catalog models_metadata"
  using head_check by (simp add: migrations_check_def)

lemma downs:
  "run_ops payload_downgrade head_catalog = Inr initial_catalog"
  "run_ops initial_downgrade initial_catalog = Inr []"
  using head_check by (simp_all add: migrations_check_def)

lemma version_steps:
  "upgrade_step (None, cat) = sum_bind (run_ops initial_upgrade cat) (\<lambda>c. Inr (Some ''202606260001'', c))"
  "upgrade_step (Some ''202606260001'', cat) =
    sum_bind (run_ops payload_upgrade cat) (\<lambda>c. Inr (Some ''202606280001'', c))"
  "upgrade_step (Some ''202606280001'', cat) = Inr (Some ''202606280001'', cat)"
  "downgrade_step (Some ''202606260001'', cat) =
    sum_bind (run_ops initial_downgrade cat) (\<lambda>c. Inr (None, c))"
  "downgrade_step (Some ''202606280001'', cat) =
    sum_bind (run_ops payload_downgrade cat) (\<lambda>c. Inr (Some ''202606260001'', c))"
  by (simp_all add: upgrade_step_def downgrade_step_def versions_def initial_domain_database_def
      add_tool_call_arguments_payload_def)

definition schema_names :: "string list" where
  "schema_names = concat (map op_names
     (initial_upgrade @ payload_upgrade @ payload_downgrade @ initial_downgrade))"

lemma scripts_framed:
  assumes "self_contained cat" "apart schema_names cat"
  shows "run_ops initial_upgrade cat = Inr (cat @ initial_catalog)"
    "run_ops payload_upgrade (cat @ initial_catalog) = Inr (cat @ head_catalog)"
    "run_ops payload_downgrade (cat @ head_catalog) = Inr (cat @ initial_catalog)"
    "run_ops initial_downgrade (cat @ initial_catalog) = Inr cat"
  using assms(2) run_ops_frame [OF ups(1) assms(1)] run_ops_frame [OF ups(2) assms(1)]
    run_ops_frame [OF downs(1) assms(1)] run_ops_frame [OF downs(2) assms(1)]
  by (simp_all add: schema_names_def apart_def)

text \<open>
  C23: The migrations build exactly the tables the mapped classes declare: from an empty database,
  upgrading to the head succeeds and gives the same tables, columns with types and
  nullability, primary, unique and foreign keys, and indexes as the models' metadata. Only the
  default \<open>1\<close> that the server gives to \<open>approval_requests.version\<close> is not declared by a model.
\<close>

theorem migrations_match_models:
  "\<exists>head. upgrade_head [] = Inr (Some ''202606280001'', head)
     \<and> catalog_matches head models_metadata
     \<and> server_defaults head = [(''approval_requests'', ''version'', ''1'')]
     \<and> server_defaults models_metadata = []"
proof -
  have "upgrade_head [] = Inr (Some ''202606280001'', head_catalog)"
    by (simp add: upgrade_head_def versions_def version_steps ups)
  moreover have "server_defaults models_metadata = []" by code_simp
  ultimately show ?thesis using head_check by (simp add: migrations_check_def)
qed

text \<open>
  C34: Each migration is undone by its downgrade, beside any other tables of the database: where
  no name of the scripts is taken and the other tables refer to each other only, both upgrades
  succeed and append the gateway's tables, and the two downgrades lead back, revision by
  revision, to the database as it was.
\<close>

theorem migrations_roundtrip:
  assumes "self_contained cat" and "apart schema_names cat"
  shows "\<exists>initial head.
      upgrade_step (None, cat) = Inr (Some ''202606260001'', cat @ initial)
    \<and> upgrade_step (Some ''202606260001'', cat @ initial) = Inr (Some ''202606280001'', cat @ head)
    \<and> downgrade_step (Some ''202606280001'', cat @ head) = Inr (Some ''202606260001'', cat @ initial)
    \<and> downgrade_step (Some ''202606260001'', cat @ initial) = Inr (None, cat)"
  by (intro exI [of _ initial_catalog] exI [of _ head_catalog])
    (simp add: version_steps scripts_framed [OF assms])

definition alembic_version_table :: table_def where
  "alembic_version_table = \<lparr>tb_name = ''alembic_version'',
     tb_columns = [column ''version_num'' (SqlString 32)],
     tb_constraints = [PrimaryKey [''version_num'']], tb_indexes = []\<rparr>"

theorem migrations_roundtrip_witness:
  "\<exists>initial head.
      upgrade_step (None, [alembic_version_table]) = Inr (Some ''202606260001'', alembic_version_table # initial)
    \<and> upgrade_step (Some ''202606260001'', alembic_version_table # initial)
        = Inr (Some ''202606280001'', alembic_version_table # head)
    \<and> downgrade_step (Some ''202606280001'', alembic_version_table # head)
        = Inr (Some ''202606260001'', alembic_version_table # initial)
    \<and> downgrade_step (Some ''202606260001'', alembic_version_table # initial)
        = Inr (None, [alembic_version_table])"
proof -
  have "self_contained [alembic_version_table]" "apart schema_names [alembic_version_table]"
    by code_simp+
  from migrations_roundtrip [OF this] show ?thesis by simp
qed

end
