(* ===== verification/Schema_Rows.thy ===== *)
theory Schema_Rows
  imports Db_Models Schema_Migrations
begin

text \<open>
  Rows against the migrated schema. A row of \<open>Db_Models\<close> is read as cells under the column names,
  and \<open>insert_row\<close> is an INSERT as PostgreSQL answers it from the schema alone: the types and widths
  of the columns (\<open>DataError\<close>), then nullability, primary and unique keys, partial unique
  indexes and foreign keys (\<open>IntegrityError\<close>). The inserts of \<open>Db_Models\<close> refine it.
\<close>

section \<open>Cells\<close>

datatype cell = CNull | CUuid uuid | CStr string | CInt int | CTime datetime | CJson pyval

type_synonym row = "(string \<times> cell) list"
type_synonym store = "string \<Rightarrow> row list"

definition or_null :: "('a \<Rightarrow> cell) \<Rightarrow> 'a option \<Rightarrow> cell" where
  "or_null f v = (case v of None \<Rightarrow> CNull | Some x \<Rightarrow> f x)"

text \<open>\<open>None\<close> in a JSONB column is written as the JSON null.\<close>

definition json_or_null :: "json_object option \<Rightarrow> cell" where
  "json_or_null v = CJson (case v of None \<Rightarrow> PNone | Some kvs \<Rightarrow> PDict kvs)"

definition tenant_cells :: "tenant_row \<Rightarrow> row" where
  "tenant_cells r =
   [(''id'', CUuid (tn_id r)), (''name'', CStr (tn_name r)), (''status'', CStr (tn_status r)),
    (''created_at'', CTime (tn_created_at r)), (''updated_at'', CTime (tn_updated_at r))]"

definition agent_cells :: "agent_row \<Rightarrow> row" where
  "agent_cells r =
   [(''id'', CUuid (ag_id r)), (''tenant_id'', CUuid (ag_tenant_id r)),
    (''name'', CStr (ag_name r)), (''role'', CStr (ag_role r)),
    (''status'', CStr (ag_status r)), (''api_key_hash'', CStr (ag_api_key_hash r)),
    (''created_at'', CTime (ag_created_at r)), (''updated_at'', CTime (ag_updated_at r))]"

definition tool_server_cells :: "tool_server_row \<Rightarrow> row" where
  "tool_server_cells r =
   [(''id'', CUuid (ts_id r)), (''tenant_id'', CUuid (ts_tenant_id r)),
    (''server_id'', CStr (ts_server_id r)), (''name'', CStr (ts_name r)),
    (''transport_type'', CStr (ts_transport_type r)),
    (''endpoint_url'', or_null CStr (ts_endpoint_url r)),
    (''command'', or_null CStr (ts_command r)), (''args'', CJson (ts_args r)),
    (''env'', CJson (ts_env r)), (''status'', CStr (ts_status r)),
    (''created_at'', CTime (ts_created_at r)), (''updated_at'', CTime (ts_updated_at r))]"

definition tool_definition_cells :: "tool_definition_row \<Rightarrow> row" where
  "tool_definition_cells r =
   [(''id'', CUuid (td_id r)), (''tenant_id'', CUuid (td_tenant_id r)),
    (''server_id'', CUuid (td_server_id r)), (''tool_name'', CStr (td_tool_name r)),
    (''description'', or_null CStr (td_description r)),
    (''input_schema'', CJson (PDict (td_input_schema r))),
    (''risk_level'', CStr (td_risk_level r)), (''action_type'', CStr (td_action_type r)),
    (''resource_patterns'', CJson (td_resource_patterns r)), (''status'', CStr (td_status r)),
    (''schema_hash'', CStr (td_schema_hash r)), (''created_at'', CTime (td_created_at r)),
    (''updated_at'', CTime (td_updated_at r))]"

definition policy_cells :: "policy_row \<Rightarrow> row" where
  "policy_cells r =
   [(''id'', CUuid (po_id r)), (''tenant_id'', CUuid (po_tenant_id r)),
    (''name'', CStr (po_name r)), (''priority'', CInt (po_priority r)),
    (''effect'', CStr (po_effect r)), (''conditions'', CJson (po_conditions r)),
    (''reason'', CStr (po_reason r)), (''status'', CStr (po_status r)),
    (''created_at'', CTime (po_created_at r)), (''updated_at'', CTime (po_updated_at r))]"

definition tool_call_cells :: "tool_call_row \<Rightarrow> row" where
  "tool_call_cells r =
   [(''id'', CUuid (tc_id r)), (''trace_id'', or_null CStr (tc_trace_id r)),
    (''tenant_id'', CUuid (tc_tenant_id r)), (''agent_id'', CUuid (tc_agent_id r)),
    (''target_server'', CStr (tc_target_server r)), (''target_tool'', CStr (tc_target_tool r)),
    (''arguments_redacted'', CJson (PDict (tc_arguments_redacted r))),
    (''arguments_hash'', CStr (tc_arguments_hash r)),
    (''arguments_payload'', json_or_null (tc_arguments_payload r)),
    (''tool_schema_hash'', or_null CStr (tc_tool_schema_hash r)),
    (''policy_decision'', or_null CStr (tc_policy_decision r)),
    (''decision_reason'', or_null CStr (tc_decision_reason r)),
    (''approval_id'', or_null CUuid (tc_approval_id r)), (''status'', CStr (tc_status r)),
    (''error_code'', or_null CStr (tc_error_code r)),
    (''error_message'', or_null CStr (tc_error_message r)),
    (''idempotency_key'', or_null CStr (tc_idempotency_key r)),
    (''created_at'', CTime (tc_created_at r)), (''updated_at'', CTime (tc_updated_at r))]"

definition approval_cells :: "approval_row \<Rightarrow> row" where
  "approval_cells r =
   [(''id'', CUuid (ap_id r)), (''tenant_id'', CUuid (ap_tenant_id r)),
    (''agent_id'', CUuid (ap_agent_id r)), (''tool_call_id'', CUuid (ap_tool_call_id r)),
    (''target_server'', CStr (ap_target_server r)), (''target_tool'', CStr (ap_target_tool r)),
    (''arguments_redacted'', CJson (PDict (ap_arguments_redacted r))),
    (''arguments_hash'', CStr (ap_arguments_hash r)), (''status'', CStr (ap_status r)),
    (''requested_reason'', or_null CStr (ap_requested_reason r)),
    (''reviewer_id'', or_null CStr (ap_reviewer_id r)),
    (''review_reason'', or_null CStr (ap_review_reason r)),
    (''expires_at'', CTime (ap_expires_at r)),
    (''approved_at'', or_null CTime (ap_approved_at r)),
    (''denied_at'', or_null CTime (ap_denied_at r)),
    (''executed_at'', or_null CTime (ap_executed_at r)),
    (''created_at'', CTime (ap_created_at r)), (''updated_at'', CTime (ap_updated_at r)),
    (''version'', CInt (ap_version r))]"

definition audit_cells :: "audit_row \<Rightarrow> row" where
  "audit_cells r =
   [(''event_id'', CUuid (ae_event_id r)), (''trace_id'', or_null CStr (ae_trace_id r)),
    (''tenant_id'', CUuid (ae_tenant_id r)), (''agent_id'', or_null CUuid (ae_agent_id r)),
    (''event_type'', CStr (ae_event_type r)),
    (''target_server'', or_null CStr (ae_target_server r)),
    (''target_tool'', or_null CStr (ae_target_tool r)),
    (''arguments_redacted'', json_or_null (ae_arguments_redacted r)),
    (''arguments_hash'', or_null CStr (ae_arguments_hash r)),
    (''policy_decision'', or_null CStr (ae_policy_decision r)),
    (''decision_reason'', or_null CStr (ae_decision_reason r)),
    (''approval_id'', or_null CUuid (ae_approval_id r)), (''status'', CStr (ae_status r)),
    (''error_code'', or_null CStr (ae_error_code r)),
    (''error_message'', or_null CStr (ae_error_message r)),
    (''metadata'', CJson (ae_metadata_json r)), (''created_at'', CTime (ae_created_at r))]"

definition store_of :: "db \<Rightarrow> store" where
  "store_of d n =
    (if n = ''tenants'' then map tenant_cells (db_tenants d)
     else if n = ''agents'' then map agent_cells (db_agents d)
     else if n = ''tool_servers'' then map tool_server_cells (db_tool_servers d)
     else if n = ''tool_definitions'' then map tool_definition_cells (db_tool_definitions d)
     else if n = ''policies'' then map policy_cells (db_policies d)
     else if n = ''tool_calls'' then map tool_call_cells (db_tool_calls d)
     else if n = ''approval_requests'' then map approval_cells (db_approvals d)
     else if n = ''audit_events'' then map audit_cells (db_audit_events d)
     else [])"

section \<open>Checking a row\<close>

definition cell_at :: "row \<Rightarrow> string \<Rightarrow> cell" where
  "cell_at row c = (case map_of row c of None \<Rightarrow> CNull | Some v \<Rightarrow> v)"

fun cell_fits :: "column_type \<Rightarrow> cell \<Rightarrow> bool" where
  "cell_fits ty CNull = True"
| "cell_fits SqlUuid (CUuid u) = True"
| "cell_fits (SqlString n) (CStr s) = fits n s"
| "cell_fits SqlText (CStr s) = True"
| "cell_fits SqlInteger (CInt i) = (- (2 ^ 31) \<le> i \<and> i < 2 ^ 31)"
| "cell_fits SqlTimestamp (CTime t) = True"
| "cell_fits SqlJsonb (CJson v) = True"
| "cell_fits ty v = False"

definition columns_fit :: "table_def \<Rightarrow> row \<Rightarrow> bool" where
  "columns_fit t row \<longleftrightarrow>
     list_all (\<lambda>(n, ty, nullable). cell_fits ty (cell_at row n)) (map column_shape (tb_columns t))"

definition not_null :: "table_def \<Rightarrow> row \<Rightarrow> bool" where
  "not_null t row \<longleftrightarrow>
     list_all (\<lambda>(n, ty, nullable). nullable \<or> cell_at row n \<noteq> CNull) (map column_shape (tb_columns t))"

definition key_of :: "string list \<Rightarrow> row \<Rightarrow> cell list" where
  "key_of cs row = map (cell_at row) cs"

text \<open>A key with a null equals no other key.\<close>

definition key_free :: "string list \<Rightarrow> row \<Rightarrow> row list \<Rightarrow> bool" where
  "key_free cs row rows \<longleftrightarrow> CNull \<in> set (key_of cs row)
     \<or> key_of cs row \<notin> set (map (key_of cs) rows)"

fun constraint_holds :: "store \<Rightarrow> row list \<Rightarrow> row \<Rightarrow> table_constraint \<Rightarrow> bool" where
  "constraint_holds st rows row (PrimaryKey cs) = key_free cs row rows"
| "constraint_holds st rows row (Unique n cs) = key_free cs row rows"
| "constraint_holds st rows row (ForeignKey cs t rs d) = (CNull \<in> set (key_of cs row)
     \<or> key_of cs row \<in> set (map (key_of rs) (st t)))"

definition indexed :: "index_def \<Rightarrow> row \<Rightarrow> bool" where
  "indexed i row = (case ix_where i of None \<Rightarrow> True | Some (IsNotNull c) \<Rightarrow> cell_at row c \<noteq> CNull)"

definition index_holds :: "row list \<Rightarrow> row \<Rightarrow> index_def \<Rightarrow> bool" where
  "index_holds rows row i \<longleftrightarrow> \<not> ix_unique i \<or> \<not> indexed i row
     \<or> key_free (ix_columns i) row (filter (indexed i) rows)"

definition integrity :: "store \<Rightarrow> row list \<Rightarrow> table_def \<Rightarrow> row \<Rightarrow> bool" where
  "integrity st rows t row \<longleftrightarrow> not_null t row
     \<and> list_all (constraint_holds st rows row) (tb_constraints t)
     \<and> list_all (index_holds rows row) (tb_indexes t)"

definition insert_row :: "catalog \<Rightarrow> string \<Rightarrow> row \<Rightarrow> store \<Rightarrow> exn + store" where
  "insert_row cat n row st = (case find_table n cat of
     None \<Rightarrow> Inl (UncaughtError ''ProgrammingError'')
   | Some t \<Rightarrow> if \<not> columns_fit t row then Inl DataError
       else if \<not> integrity st (st n) t row then Inl IntegrityError
       else Inr (st(n := st n @ [row])))"

section \<open>Schemas that agree accept the same rows\<close>

lemma same_elements_set: "same_elements xs ys \<Longrightarrow> set xs = set ys"
  unfolding same_elements_def list_all_iff
  by (metis card_subset_eq card_length distinct_card finite_set le_antisym subsetI card_mono)

lemma list_all_set_cong: "set xs = set ys \<Longrightarrow> list_all p xs = list_all p ys"
  by (simp add: list_all_iff)

lemma table_matches_checks:
  assumes "table_matches t u"
  shows "columns_fit t row = columns_fit u row" "integrity st rows t row = integrity st rows u row"
  using assms [unfolded table_matches_def]
  by (auto simp only: columns_fit_def integrity_def not_null_def
      dest!: same_elements_set list_all_set_cong)

lemma find_table_None_iff: "find_table n c = None \<longleftrightarrow> n \<notin> set (map tb_name c)"
  by (auto simp: find_table_def find_None_iff)

lemma find_table_SomeD: "find_table n c = Some t \<Longrightarrow> t \<in> set c \<and> tb_name t = n"
  by (auto simp: find_table_def find_Some_iff)

lemma insert_row_cong:
  assumes "catalog_matches c d"
  shows "insert_row c n row st = insert_row d n row st"
proof (cases "find_table n c")
  case None
  with assms have "find_table n d = None"
    by (auto simp: find_table_None_iff catalog_matches_def dest!: same_elements_set)
  with None show ?thesis by (simp add: insert_row_def)
next
  case (Some t)
  then have "t \<in> set c" "tb_name t = n" by (simp_all add: find_table_SomeD)
  with assms have "case find_table n d of None \<Rightarrow> False | Some u \<Rightarrow> table_matches t u"
    by (auto simp: catalog_matches_def list_all_iff)
  then obtain u where "find_table n d = Some u" "table_matches t u" by (auto split: option.splits)
  with Some show ?thesis by (simp add: insert_row_def table_matches_checks)
qed


text \<open>What the migrated database accepts is what the mapped classes declare.\<close>

lemmas insert_row_head = insert_row_cong [OF head_matches]

section \<open>The inserts of the mapped classes\<close>

lemmas table_defs = tenants_table_def agents_table_def tool_servers_table_def
  tool_definitions_table_def policies_table_def tool_calls_table_def approval_requests_table_def
  audit_events_table_def

lemmas cells_defs = tenant_cells_def agent_cells_def tool_server_cells_def tool_definition_cells_def
  policy_cells_def tool_call_cells_def approval_cells_def audit_cells_def

lemma find_declared:
  "find_table ''tenants'' models_metadata = Some tenants_table"
  "find_table ''agents'' models_metadata = Some agents_table"
  "find_table ''tool_servers'' models_metadata = Some tool_servers_table"
  "find_table ''tool_definitions'' models_metadata = Some tool_definitions_table"
  "find_table ''policies'' models_metadata = Some policies_table"
  "find_table ''tool_calls'' models_metadata = Some tool_calls_table"
  "find_table ''approval_requests'' models_metadata = Some approval_requests_table"
  "find_table ''audit_events'' models_metadata = Some audit_events_table"
  by (simp_all add: find_table_def models_metadata_def table_defs)

lemma or_null_fits [simp]: "cell_fits (SqlString n) (or_null CStr v) = fits_opt n v"
    "cell_fits SqlText (or_null CStr v)" "cell_fits SqlUuid (or_null CUuid u)"
    "cell_fits SqlTimestamp (or_null CTime t)" "cell_fits SqlJsonb (json_or_null j)"
  by (simp_all add: or_null_def json_or_null_def fits_opt_def split: option.split)

lemmas column_simps = column_shape_def column_def nullable_column_def cell_at_def
lemmas width_defs = tenant_widths_def agent_widths_def tool_server_widths_def
  tool_definition_widths_def policy_widths_def tool_call_widths_def approval_widths_def audit_widths_def

lemma declared_widths:
  "columns_fit tenants_table (tenant_cells a) = tenant_widths a"
  "columns_fit agents_table (agent_cells b) = agent_widths b"
  "columns_fit tool_servers_table (tool_server_cells c) = tool_server_widths c"
  "columns_fit tool_definitions_table (tool_definition_cells d) = tool_definition_widths d"
  "columns_fit policies_table (policy_cells e) = policy_widths e"
  "columns_fit tool_calls_table (tool_call_cells f) = tool_call_widths f"
  "columns_fit approval_requests_table (approval_cells g) = approval_widths g"
  "columns_fit audit_events_table (audit_cells i) = audit_widths i"
  by (simp_all add: columns_fit_def table_defs cells_defs width_defs column_simps conj_ac)

lemma declared_nulls:
  "not_null tenants_table (tenant_cells a)" "not_null agents_table (agent_cells b)"
  "not_null tool_servers_table (tool_server_cells c)"
  "not_null tool_definitions_table (tool_definition_cells d)"
  "not_null policies_table (policy_cells e)" "not_null tool_calls_table (tool_call_cells f)"
  "not_null approval_requests_table (approval_cells g)" "not_null audit_events_table (audit_cells i)"
  by (simp_all add: not_null_def table_defs cells_defs column_simps)

lemma store_of_tables [simp]:
  "store_of d ''tenants'' = map tenant_cells (db_tenants d)"
  "store_of d ''agents'' = map agent_cells (db_agents d)"
  "store_of d ''tool_servers'' = map tool_server_cells (db_tool_servers d)"
  "store_of d ''tool_definitions'' = map tool_definition_cells (db_tool_definitions d)"
  "store_of d ''policies'' = map policy_cells (db_policies d)"
  "store_of d ''tool_calls'' = map tool_call_cells (db_tool_calls d)"
  "store_of d ''approval_requests'' = map approval_cells (db_approvals d)"
  "store_of d ''audit_events'' = map audit_cells (db_audit_events d)"
  by (simp_all add: store_of_def)

lemma store_of_updates:
  "store_of (d\<lparr>db_tenants := t1\<rparr>) = (store_of d)(''tenants'' := map tenant_cells t1)"
  "store_of (d\<lparr>db_agents := t2\<rparr>) = (store_of d)(''agents'' := map agent_cells t2)"
  "store_of (d\<lparr>db_tool_servers := t3\<rparr>) = (store_of d)(''tool_servers'' := map tool_server_cells t3)"
  "store_of (d\<lparr>db_tool_definitions := t4\<rparr>) =
    (store_of d)(''tool_definitions'' := map tool_definition_cells t4)"
  "store_of (d\<lparr>db_policies := t5\<rparr>) = (store_of d)(''policies'' := map policy_cells t5)"
  "store_of (d\<lparr>db_tool_calls := t6\<rparr>) = (store_of d)(''tool_calls'' := map tool_call_cells t6)"
  "store_of (d\<lparr>db_approvals := t7\<rparr>) = (store_of d)(''approval_requests'' := map approval_cells t7)"
  "store_of (d\<lparr>db_audit_events := t8\<rparr>) = (store_of d)(''audit_events'' := map audit_cells t8)"
  by (auto simp: store_of_def fun_eq_iff)

lemma key_cells:
  "key_of [''id''] (tenant_cells a) = [CUuid (tn_id a)]" "key_of [''name''] (tenant_cells a) = [CStr (tn_name a)]"
  "key_of [''id''] (agent_cells b) = [CUuid (ag_id b)]"
  "key_of [''tenant_id''] (agent_cells b) = [CUuid (ag_tenant_id b)]"
  "key_of [''api_key_hash''] (agent_cells b) = [CStr (ag_api_key_hash b)]"
  "key_of [''tenant_id'', ''name''] (agent_cells b) = [CUuid (ag_tenant_id b), CStr (ag_name b)]"
  "key_of [''id''] (tool_server_cells c) = [CUuid (ts_id c)]"
  "key_of [''tenant_id''] (tool_server_cells c) = [CUuid (ts_tenant_id c)]"
  "key_of [''tenant_id'', ''server_id''] (tool_server_cells c) = [CUuid (ts_tenant_id c), CStr (ts_server_id c)]"
  "key_of [''id''] (tool_definition_cells d) = [CUuid (td_id d)]"
  "key_of [''tenant_id''] (tool_definition_cells d) = [CUuid (td_tenant_id d)]"
  "key_of [''server_id''] (tool_definition_cells d) = [CUuid (td_server_id d)]"
  "key_of [''tenant_id'', ''server_id'', ''tool_name''] (tool_definition_cells d) =
    [CUuid (td_tenant_id d), CUuid (td_server_id d), CStr (td_tool_name d)]"
  "key_of [''id''] (policy_cells e) = [CUuid (po_id e)]"
  "key_of [''tenant_id''] (policy_cells e) = [CUuid (po_tenant_id e)]"
  "key_of [''tenant_id'', ''name''] (policy_cells e) = [CUuid (po_tenant_id e), CStr (po_name e)]"
  "key_of [''id''] (tool_call_cells f) = [CUuid (tc_id f)]"
  "key_of [''tenant_id''] (tool_call_cells f) = [CUuid (tc_tenant_id f)]"
  "key_of [''agent_id''] (tool_call_cells f) = [CUuid (tc_agent_id f)]"
  "key_of [''tenant_id'', ''agent_id'', ''idempotency_key''] (tool_call_cells f) =
    [CUuid (tc_tenant_id f), CUuid (tc_agent_id f), or_null CStr (tc_idempotency_key f)]"
  "key_of [''id''] (approval_cells g) = [CUuid (ap_id g)]"
  "key_of [''tenant_id''] (approval_cells g) = [CUuid (ap_tenant_id g)]"
  "key_of [''agent_id''] (approval_cells g) = [CUuid (ap_agent_id g)]"
  "key_of [''tool_call_id''] (approval_cells g) = [CUuid (ap_tool_call_id g)]"
  "key_of [''event_id''] (audit_cells i) = [CUuid (ae_event_id i)]"
  "cell_at (tool_call_cells f) ''idempotency_key'' = or_null CStr (tc_idempotency_key f)"
  by (simp_all add: key_of_def cells_defs cell_at_def)

lemma or_null_inj: "or_null CStr v = CNull \<longleftrightarrow> v = None" "CNull = or_null CStr v \<longleftrightarrow> v = None"
   "or_null CStr v = or_null CStr w \<longleftrightarrow> v = w"
  by (simp_all add: or_null_def split: option.split)

lemmas integrity_simps = key_free_def key_cells index_holds_def
  index_def indexed_def image_iff or_null_inj


lemma declared_keys:
  "integrity (store_of x) (map tenant_cells (db_tenants x)) tenants_table (tenant_cells a) \<longleftrightarrow>
    tn_id a \<notin> tn_id ` set (db_tenants x) \<and> tn_name a \<notin> tn_name ` set (db_tenants x)"
  "integrity (store_of x) (map agent_cells (db_agents x)) agents_table (agent_cells b) \<longleftrightarrow>
    (ag_id b \<notin> ag_id ` set (db_agents x)
     \<and> (ag_tenant_id b, ag_name b) \<notin> (\<lambda>x. (ag_tenant_id x, ag_name x)) ` set (db_agents x)
     \<and> ag_api_key_hash b \<notin> ag_api_key_hash ` set (db_agents x)
     \<and> tenant_exists x (ag_tenant_id b))"
  "integrity (store_of x) (map tool_server_cells (db_tool_servers x)) tool_servers_table (tool_server_cells c) \<longleftrightarrow>
    (ts_id c \<notin> ts_id ` set (db_tool_servers x)
     \<and> (ts_tenant_id c, ts_server_id c)
         \<notin> (\<lambda>x. (ts_tenant_id x, ts_server_id x)) ` set (db_tool_servers x)
     \<and> tenant_exists x (ts_tenant_id c))"
  "integrity (store_of x) (map tool_definition_cells (db_tool_definitions x)) tool_definitions_table
      (tool_definition_cells d) \<longleftrightarrow>
    (td_id d \<notin> td_id ` set (db_tool_definitions x)
     \<and> (td_tenant_id d, td_server_id d, td_tool_name d)
         \<notin> (\<lambda>x. (td_tenant_id x, td_server_id x, td_tool_name x)) ` set (db_tool_definitions x)
     \<and> tenant_exists x (td_tenant_id d) \<and> td_server_id d \<in> ts_id ` set (db_tool_servers x))"
  "integrity (store_of x) (map policy_cells (db_policies x)) policies_table (policy_cells e) \<longleftrightarrow>
    (po_id e \<notin> po_id ` set (db_policies x)
     \<and> (po_tenant_id e, po_name e) \<notin> (\<lambda>x. (po_tenant_id x, po_name x)) ` set (db_policies x)
     \<and> tenant_exists x (po_tenant_id e))"
  "integrity (store_of x) (map approval_cells (db_approvals x)) approval_requests_table (approval_cells g) \<longleftrightarrow>
    (ap_id g \<notin> ap_id ` set (db_approvals x)
     \<and> ap_tool_call_id g \<notin> ap_tool_call_id ` set (db_approvals x)
     \<and> tenant_exists x (ap_tenant_id g) \<and> agent_exists x (ap_agent_id g)
     \<and> ap_tool_call_id g \<in> tc_id ` set (db_tool_calls x))"
  "integrity (store_of x) (map audit_cells (db_audit_events x)) audit_events_table (audit_cells i) \<longleftrightarrow>
    ae_event_id i \<notin> ae_event_id ` set (db_audit_events x)"
  unfolding integrity_def
  by (simp_all only: declared_nulls)
    (auto simp: integrity_simps tenant_exists_def agent_exists_def table_defs)

lemma declared_call_keys:
  "integrity (store_of x) (map tool_call_cells (db_tool_calls x)) tool_calls_table (tool_call_cells f) \<longleftrightarrow>
    (tc_id f \<notin> tc_id ` set (db_tool_calls x)
     \<and> (tc_idempotency_key f = None \<or>
        (tc_tenant_id f, tc_agent_id f, tc_idempotency_key f)
          \<notin> (\<lambda>x. (tc_tenant_id x, tc_agent_id x, tc_idempotency_key x)) ` set (db_tool_calls x))
     \<and> tenant_exists x (tc_tenant_id f) \<and> agent_exists x (tc_agent_id f))"
  unfolding integrity_def
  by (simp only: declared_nulls)
    (auto simp: integrity_simps tenant_exists_def agent_exists_def table_defs)

lemma inserts_row:
  assumes "find_table n models_metadata = Some t" "columns_fit t row = w" "integrity (store_of d) (store_of d n) t row = i"
    "store_of d' = (store_of d)(n := store_of d n @ [row])"
  shows "map_sum id store_of (checked w i d') = insert_row head_catalog n row (store_of d)"
  unfolding insert_row_head using assms by (auto simp: insert_row_def checked_def)

lemmas declared_simps = find_declared declared_widths declared_keys declared_call_keys store_of_updates

text \<open>
  C24: The inserts of the mapped classes are the INSERTs of the migrated database: checked against
  the schema that the migrations build, and nothing else, a row is refused for a column type or
  width, or for a null, key, index or foreign key, exactly when the class's insert refuses
  it, with the same error, and it is accepted with the same rows afterwards.
\<close>

theorem inserts_implement_schema:
  fixes d :: db
  shows
  "map_sum id store_of (insert_tenant a d) = insert_row head_catalog ''tenants'' (tenant_cells a) (store_of d)
 \<and> map_sum id store_of (insert_agent b d) = insert_row head_catalog ''agents'' (agent_cells b) (store_of d)
 \<and> map_sum id store_of (insert_tool_server s d)
     = insert_row head_catalog ''tool_servers'' (tool_server_cells s) (store_of d)
 \<and> map_sum id store_of (insert_tool_definition t d)
     = insert_row head_catalog ''tool_definitions'' (tool_definition_cells t) (store_of d)
 \<and> map_sum id store_of (insert_policy p d) = insert_row head_catalog ''policies'' (policy_cells p) (store_of d)
 \<and> map_sum id store_of (insert_tool_call c d)
     = insert_row head_catalog ''tool_calls'' (tool_call_cells c) (store_of d)
 \<and> map_sum id store_of (insert_approval r d)
     = insert_row head_catalog ''approval_requests'' (approval_cells r) (store_of d)
 \<and> map_sum id store_of (insert_audit_event e d)
     = insert_row head_catalog ''audit_events'' (audit_cells e) (store_of d)"
  unfolding insert_defs
  by (intro conjI; rule inserts_row, rule find_declared; (simp add: declared_simps; fail))

end
