(* ===== verification/Row_Invariant.thy ===== *)
theory Row_Invariant
  imports Gateway_System
begin

text \<open>
  An invariant of the rows that every statement keeps is an invariant of the gateway. The locale
  \<open>row_invariant\<close> asks for the statements one by one - the eight inserts, the three row writes, the
  status transitions and the clearing of a payload - and carries the invariant through the
  repositories, the services, the routes and the session of a request, to every reachable state.
\<close>

definition on_rows :: "(db \<Rightarrow> bool) \<Rightarrow> world \<Rightarrow> bool" where
  "on_rows I w \<longleftrightarrow> I (w_db w) \<and> I (w_committed w)"

locale row_invariant =
  fixes I :: "db \<Rightarrow> bool"
  assumes empty: "I empty_db"
    and tenant: "I d \<Longrightarrow> insert_tenant t d = Inr d' \<Longrightarrow> I d'"
    and agent: "I d \<Longrightarrow> insert_agent a d = Inr d' \<Longrightarrow> I d'"
    and server: "I d \<Longrightarrow> insert_tool_server s d = Inr d' \<Longrightarrow> I d'"
    and tool: "I d \<Longrightarrow> insert_tool_definition td d = Inr d' \<Longrightarrow> I d'"
    and policy: "I d \<Longrightarrow> insert_policy p d = Inr d' \<Longrightarrow> I d'"
    and call: "I d \<Longrightarrow> insert_tool_call c d = Inr d' \<Longrightarrow> I d'"
    and approval: "I d \<Longrightarrow> ap_version r = 1 \<Longrightarrow> insert_approval r d = Inr d' \<Longrightarrow> I d'"
    and event: "I d \<Longrightarrow> insert_audit_event e d = Inr d' \<Longrightarrow> I d'"
    and agent_write: "I d \<Longrightarrow> write_agent a d = Inr d' \<Longrightarrow> I d'"
    and tool_write: "I d \<Longrightarrow> write_tool_definition td d = Inr d' \<Longrightarrow> I d'"
    and call_write: "I d \<Longrightarrow> write_tool_call c d = Inr d' \<Longrightarrow> I d'"
    and call_transition: "I d \<Longrightarrow> I (put_tool_calls (update_rows q
      (\<lambda>x. x\<lparr>tc_status := tool_call_status_value s', tc_updated_at := now\<rparr>) (db_tool_calls d)) d)"
    and payload_cleared: "I d \<Longrightarrow> I (put_tool_calls (update_rows q
      (\<lambda>x. x\<lparr>tc_arguments_payload := None, tc_updated_at := now\<rparr>) (db_tool_calls d)) d)"
    and approval_transition: "I d \<Longrightarrow> approval_moves m n \<Longrightarrow> I (put_approvals (update_rows
      (\<lambda>x. ap_id x = i \<and> ap_status x = approval_status_value m) (transition_values now n reason)
      (db_approvals d)) d)"
begin

lemma keeps_outside:
  "keeps (on_rows I) (utc_now h) (\<lambda>_. True)" "keeps (on_rows I) (uuid4 h) (\<lambda>_. True)"
  "keeps (on_rows I) (token_urlsafe h) (\<lambda>_. True)" "keeps (on_rows I) commit (\<lambda>_. True)"
  "keeps (on_rows I) (upstream_call_tool mc sv tn args tm) (\<lambda>_. True)"
  "keeps (on_rows I) (upstream_list_tools mc sv tm) (\<lambda>_. True)"
  "keeps (on_rows I) (policy_repository h) (\<lambda>_. True)"
  "keeps (on_rows I) (gets_p f) (\<lambda>_. True)"
  by (auto simp: keeps_def wp_simps on_rows_def Let_def split: sum.split)

lemma keeps_statement:
  "(\<And>d d'. I d \<Longrightarrow> f d = Inr d' \<Longrightarrow> I d') \<Longrightarrow> keeps (on_rows I) (db_step f) (\<lambda>_. True)"
  by (auto simp: keeps_def wp_simps on_rows_def split: sum.split)

lemma keeps_update:
  "(\<And>now d. I d \<Longrightarrow> I (put (update_rows q (change now) (rows d)) d)) \<Longrightarrow>
    keeps (on_rows I) (update_where h q change rows put) (\<lambda>_. True)"
  by (auto simp: keeps_def wp_simps on_rows_def Let_def)

lemma keeps_repositories:
  "keeps (on_rows I) (agent_create h mka) (\<lambda>_. True)"
  "keeps (on_rows I) (tool_server_create h mks) (\<lambda>_. True)"
  "keeps (on_rows I) (tool_definition_create h mkt) (\<lambda>_. True)"
  "keeps (on_rows I) (tool_call_create h mkc) (\<lambda>_. True)"
  "keeps (on_rows I) (audit_append h mke) (\<lambda>_. True)"
  "keeps (on_rows I) (tool_definition_update h td0 td) (\<lambda>_. True)"
  "keeps (on_rows I) (tool_call_update h c0 c) (\<lambda>_. True)"
  "keeps (on_rows I) (agent_disable h i) (\<lambda>_. True)"
  unfolding agent_create_def tool_server_create_def tool_definition_create_def tool_call_create_def
    audit_append_def tool_definition_update_def tool_call_update_def agent_disable_def
    agent_get_by_id_def create_row_def flush_row_def Let_def
  by (rule TrueI keeps_outside keeps_intros keeps_statement
      | erule (1) agent server tool call event agent_write tool_write call_write)+

lemma keeps_approval_create:
  "(\<And>i c u. ap_version (mk i c u) = 1) \<Longrightarrow> keeps (on_rows I) (approval_create h mk) (\<lambda>_. True)"
  unfolding approval_create_def create_row_def
  by (rule TrueI keeps_outside keeps_intros keeps_statement | (erule (1) approval [rotated 2], simp))+

lemma keeps_status_changes:
  "keeps (on_rows I) (tool_call_transition_status h i s s') (\<lambda>_. True)"
  "keeps (on_rows I) (clear_arguments_payload h i) (\<lambda>_. True)"
  "approval_moves m n \<Longrightarrow> keeps (on_rows I) (approval_transition_status h i m n reason) (\<lambda>_. True)"
  unfolding tool_call_transition_status_def clear_arguments_payload_def approval_transition_status_def
  by (intro keeps_intros keeps_update TrueI call_transition payload_cleared approval_transition;
      assumption)+

lemma keeps_listing: "keeps (on_rows I) (approval_list_filtered st t n) (\<lambda>_. True)"
  by (simp add: keeps_def wp_def approval_list_filtered_def Let_def split: option.split)

lemmas keeps_rows = TrueI keeps_lift_any keeps_outside keeps_repositories keeps_status_changes
  keeps_listing

lemma keeps_approvals:
  "keeps (on_rows I) (append_tool_call_event h ev) (\<lambda>_. True)"
  "keeps (on_rows I) (create_pending_approval h ap pa) (\<lambda>_. True)"
  "keeps (on_rows I) (get_approval_or_raise i) (\<lambda>_. True)"
  unfolding append_tool_call_event_def create_pending_approval_def get_approval_or_raise_def query_defs
  by (rule keeps_rows keeps_approval_create keeps_intros | (simp; fail))+

lemma keeps_denials:
  "keeps (on_rows I) (mark_tool_call_denied h ap i code) (\<lambda>_. True)"
  "keeps (on_rows I) (append_approval_audit h ap r c st err) (\<lambda>_. True)"
  unfolding mark_tool_call_denied_def append_approval_audit_def query_defs
  by (rule keeps_rows keeps_approvals keeps_intros | (simp; fail))+

lemma keeps_expiry: "keeps (on_rows I) (expire_approval h ap i) (\<lambda>_. True)"
  unfolding expire_approval_def
  by (rule keeps_rows keeps_denials keeps_intros | (simp; fail))+

lemma keeps_deny: "keeps (on_rows I) (deny_approval h ap i reason) (\<lambda>_. True)"
  unfolding deny_approval_def
  by (rule keeps_rows keeps_denials keeps_approvals keeps_expiry keeps_intros | (simp; fail))+

lemma keeps_calls:
  "keeps (on_rows I) (policy_repository_evaluate h agent request risk action) (\<lambda>_. True)"
  "keeps (on_rows I) (create_tool_call h agent request t r p k) (\<lambda>_. True)"
  "keeps (on_rows I) (append_tool_call_audit h c st) (\<lambda>_. True)"
  "keeps (on_rows I) (append_failure_audit h agent request t red ah fs code fm) (\<lambda>_. True)"
  "keeps (on_rows I) (idempotent_result e request ah fm) (\<lambda>_. True)"
  unfolding policy_repository_evaluate_def create_tool_call_def append_tool_call_audit_def
    append_failure_audit_def idempotent_result_def query_defs
  by (rule keeps_rows keeps_approvals keeps_intros)+

lemma keeps_failed: "keeps (on_rows I) (mark_upstream_failed h c code m) (\<lambda>_. True)"
  unfolding mark_upstream_failed_def by (rule keeps_rows keeps_calls keeps_intros)+

lemma keeps_finish:
  "keeps (on_rows I) (finish_denied h c r) (\<lambda>_. True)"
  "keeps (on_rows I) (finish_pending h srv agent request c r) (\<lambda>_. True)"
  "keeps (on_rows I) (finish_allowed h srv server td request c) (\<lambda>_. True)"
  unfolding finish_denied_def finish_pending_def finish_allowed_def
  by (rule keeps_rows keeps_calls keeps_approvals keeps_failed keeps_intros)+

lemma keeps_dispatch: "keeps (on_rows I) (dispatch_call h srv agent request t server td) (\<lambda>_. True)"
  unfolding dispatch_call_def by (rule keeps_rows keeps_calls keeps_finish keeps_intros)+

lemma keeps_call: "keeps (on_rows I) (call_tool h srv agent request) (\<lambda>_. True)"
  unfolding call_tool_def query_defs by (rule keeps_rows keeps_calls keeps_dispatch keeps_intros)+

lemma keeps_execution:
  "keeps (on_rows I) (approval_execution_failed h a co code m) (\<lambda>_. True)"
  "keeps (on_rows I) (finish_executed h a c r) (\<lambda>_. True)"
  unfolding approval_execution_failed_def finish_executed_def
  by (rule keeps_rows keeps_approvals keeps_calls keeps_failed keeps_intros | (simp; fail))+

lemma keeps_execute: "keeps (on_rows I) (execute_approved_tool_call h srv a) (\<lambda>_. True)"
  unfolding execute_approved_tool_call_def query_defs
  by (rule keeps_rows keeps_execution keeps_intros | (simp; fail))+

lemma keeps_approve:
  "keeps (on_rows I) (approve_approval h ap (execute_approved_tool_call h srv) i reason) (\<lambda>_. True)"
  unfolding approve_approval_def
  by (rule keeps_rows keeps_denials keeps_approvals keeps_expiry keeps_execute keeps_intros
      | (simp; fail))+

lemma keeps_agents:
  "keeps (on_rows I) (create_agent h pepper t n role) (\<lambda>_. True)"
  "keeps (on_rows I) (disable_agent h i) (\<lambda>_. True)"
  "keeps (on_rows I) (list_agents t) (\<lambda>_. True)"
  "keeps (on_rows I) (get_agent i) (\<lambda>_. True)"
  "keeps (on_rows I) (require_agent h stt auth) (\<lambda>_. True)"
  unfolding create_agent_def generate_api_key_def disable_agent_def list_agents_def get_agent_def
    require_agent_def authenticate_agent_by_api_key_def query_defs
  by (rule keeps_rows keeps_intros)+

lemma keeps_tools:
  "keeps (on_rows I) (create_tool_server h sc) (\<lambda>_. True)"
  "keeps (on_rows I) (register_tool h t s dt) (\<lambda>_. True)"
  "keeps (on_rows I) (update_tool_definition h i du) (\<lambda>_. True)"
  "keeps (on_rows I) (list_tool_servers t) (\<lambda>_. True)"
  "keeps (on_rows I) (list_tool_definitions t sid) (\<lambda>_. True)"
  "keeps (on_rows I) (list_approvals sta ten n) (\<lambda>_. True)"
  unfolding create_tool_server_def register_tool_def update_tool_definition_def list_tool_servers_def
    list_tool_definitions_def list_approvals_def query_defs Let_def
  by (rule keeps_rows keeps_intros)+

lemma keeps_refresh: "keeps (on_rows I) (refresh_tools h srv t s) (\<lambda>_. True)"
  unfolding refresh_tools_def query_defs
  by (rule keeps_rows keeps_tools keeps_intros keeps_mono [OF keeps_map_prog [OF keeps_tools(2)]])+

lemma keeps_route:
  "keeps (on_rows I) m (\<lambda>_. True) \<Longrightarrow> keeps (on_rows I) (committing m) (\<lambda>_. True)"
  "keeps (on_rows I) m' (\<lambda>_. True) \<Longrightarrow> keeps (on_rows I) (admin h st auth m') (\<lambda>_. True)"
  unfolding committing_def admin_def by (rule keeps_rows keeps_intros | assumption)+

lemma keeps_handle: "keeps (on_rows I) (handle h st client req) (\<lambda>_. True)"
  by (cases req; simp add: route_defs build_approval_services_def Let_def;
      (rule keeps_rows keeps_route keeps_agents keeps_tools keeps_refresh keeps_call keeps_approve
        keeps_deny keeps_intros)+)

lemma serve_keeps:
  assumes "serve h st client req w = (r, w')" and "I (w_committed w)"
  shows "I (w_committed w')"
  using assms keepsD [OF keeps_handle, of "w\<lparr>w_db := w_committed w\<rparr>" h st client req]
  by (auto simp: serve_def with_session_def on_rows_def rollback_def split: prod.splits)

lemma reachable_keeps: "reachable h st client w \<Longrightarrow> I (w_committed w)"
proof (induction rule: reachable.induct)
  case (start w)
  then show ?case by (simp add: empty)
next
  case (step w w')
  from step(2) step.IH show ?case
    by (auto elim!: gateway_stepE dest: serve_keeps tenant policy)
qed

end

end
