(* ===== verification/Schema_Soundness.thy ===== *)
theory Schema_Soundness
  imports Schema_Rows Row_Invariant Gateway_Sample
begin

text \<open>
  The rows of every reachable state against the migrated schema: every cell has the type and
  width of its column, no column that is not nullable holds a null, keys, unique constraints and
  unique indexes have no duplicates, and every foreign key finds its row. The widths are an
  interpretation of \<open>row_invariant\<close>; keys and references come from the database invariant. The
  counter \<open>version\<close> of an approval request stays within its 32 bits because an approval takes
  at most two transitions.
\<close>

section \<open>A store that satisfies a schema\<close>

definition distinct_keys :: "string list \<Rightarrow> row list \<Rightarrow> bool" where
  "distinct_keys cs rows \<longleftrightarrow> distinct (filter (\<lambda>k. CNull \<notin> set k) (map (key_of cs) rows))"

fun constraint_sound :: "store \<Rightarrow> row list \<Rightarrow> table_constraint \<Rightarrow> bool" where
  "constraint_sound st rows (PrimaryKey cs) = distinct_keys cs rows"
| "constraint_sound st rows (Unique n cs) = distinct_keys cs rows"
| "constraint_sound st rows (ForeignKey cs t rs d) =
    list_all (\<lambda>k. CNull \<in> set k \<or> k \<in> set (map (key_of rs) (st t))) (map (key_of cs) rows)"

definition index_sound :: "row list \<Rightarrow> index_def \<Rightarrow> bool" where
  "index_sound rows i \<longleftrightarrow> \<not> ix_unique i \<or> distinct_keys (ix_columns i) (filter (indexed i) rows)"

definition table_sound :: "store \<Rightarrow> table_def \<Rightarrow> bool" where
  "table_sound st t \<longleftrightarrow> list_all (\<lambda>row. columns_fit t row \<and> not_null t row) (st (tb_name t))
     \<and> list_all (constraint_sound st (st (tb_name t))) (tb_constraints t)
     \<and> list_all (index_sound (st (tb_name t))) (tb_indexes t)"

definition store_sound :: "catalog \<Rightarrow> store \<Rightarrow> bool" where
  "store_sound cat st \<longleftrightarrow> list_all (table_sound st) cat"

lemma table_sound_cong:
  assumes "table_matches t u" "tb_name t = tb_name u"
  shows "table_sound st t = table_sound st u"
proof -
  have "set (map column_shape (tb_columns t)) = set (map column_shape (tb_columns u))"
    "set (tb_constraints t) = set (tb_constraints u)" "set (tb_indexes t) = set (tb_indexes u)"
    using assms(1) unfolding table_matches_def by (blast dest: same_elements_set)+
  then show ?thesis
    unfolding table_sound_def columns_fit_def not_null_def assms(2)
    by (simp only: list_all_set_cong [of "map column_shape (tb_columns t)" "map column_shape (tb_columns u)"]
        list_all_set_cong [of "tb_constraints t" "tb_constraints u"]
        list_all_set_cong [of "tb_indexes t" "tb_indexes u"])
qed

lemma store_sound_matching:
  assumes "catalog_matches c d" "store_sound d st"
  shows "store_sound c st"
  unfolding store_sound_def list_all_iff
proof
  fix t assume "t \<in> set c"
  with assms(1) obtain u where u: "find_table (tb_name t) d = Some u" "table_matches t u"
    by (auto simp: catalog_matches_def list_all_iff split: option.splits)
  then have "u \<in> set d" "tb_name u = tb_name t" by (simp_all add: find_table_SomeD)
  with assms(2) u(2) show "table_sound st t"
    by (simp add: store_sound_def list_all_iff table_sound_cong [of t u])
qed

section \<open>Typed rows\<close>

text \<open>How often an approval request in a status can have been changed.\<close>

definition version_bound :: "string \<Rightarrow> int" where
  "version_bound s = (if s = ''pending'' then 1 else if s = ''approved'' then 2 else 3)"

definition approval_typed :: "approval_row \<Rightarrow> bool" where
  "approval_typed r \<longleftrightarrow> approval_widths r \<and> ap_version r \<le> version_bound (ap_status r)"

definition rows_typed :: "db \<Rightarrow> bool" where
  "rows_typed d \<longleftrightarrow> list_all tenant_widths (db_tenants d) \<and> list_all agent_widths (db_agents d)
     \<and> list_all tool_server_widths (db_tool_servers d)
     \<and> list_all tool_definition_widths (db_tool_definitions d)
     \<and> list_all policy_widths (db_policies d) \<and> list_all tool_call_widths (db_tool_calls d)
     \<and> list_all approval_typed (db_approvals d) \<and> list_all audit_widths (db_audit_events d)"

lemma version_bounds: "1 \<le> version_bound s" "version_bound s \<le> 3"
  by (simp_all add: version_bound_def)

lemma status_fits [simp]: "fits 32 (tool_call_status_value s)" "fits 32 (approval_status_value p)"
  by (cases s; simp add: fits_def) (cases p; simp add: fits_def)

lemma transition_typed:
  assumes "approval_typed r" "approval_moves m n" "ap_status r = approval_status_value m"
  shows "approval_typed (transition_values now n reason r)"
  using assms
  by (auto simp: approval_typed_def approval_widths_def approval_moves_def version_bound_def)

lemma list_all_updated:
  "list_all ok t \<Longrightarrow> (\<And>r. ok r \<Longrightarrow> p r \<Longrightarrow> ok (f r)) \<Longrightarrow> list_all ok (update_rows p f t)"
  by (induction t) (simp_all add: update_rows_def)

interpretation typed_rows: row_invariant rows_typed
proof
  show "rows_typed empty_db" by (simp add: rows_typed_def empty_db_def)
next
  fix d d' r assume "rows_typed d" "ap_version r = 1" "insert_approval r d = Inr d'"
  then show "rows_typed d'"
    using version_bounds(1) by (simp add: rows_typed_def insert_approval_def checked_Inr_iff approval_typed_def)
next
  fix d m n now i reason
  assume "rows_typed d" "approval_moves m n"
  then show "rows_typed (put_approvals (update_rows
      (\<lambda>x. ap_id x = i \<and> ap_status x = approval_status_value m) (transition_values now n reason)
      (db_approvals d)) d)"
    by (auto simp: rows_typed_def put_defs intro!: list_all_updated transition_typed)
qed (auto simp: rows_typed_def insert_defs checked_Inr_iff if_fits_Inr_iff put_defs write_agent_def
    write_tool_definition_def write_tool_call_def agent_widths_def tool_definition_widths_def
    tool_call_widths_def intro!: list_all_updated)

section \<open>The rows of a sound database\<close>

lemma distinct_keysI:
  assumes "distinct (map g xs)" and "\<And>x y. key_of cs (f x) = key_of cs (f y) \<Longrightarrow> g x = g y"
  shows "distinct_keys cs (map f xs)"
proof -
  have "inj_on (\<lambda>x. key_of cs (f x)) (set xs)"
  proof (rule inj_onI)
    fix x y assume "x \<in> set xs" "y \<in> set xs" "key_of cs (f x) = key_of cs (f y)"
    moreover from this(3) have "g x = g y" by (rule assms(2))
    moreover from assms(1) have "inj_on g (set xs)" by (simp only: distinct_map)
    ultimately show "x = y" by (simp only: inj_onD)
  qed
  moreover have "distinct xs" using assms(1) by (simp only: distinct_map)
  ultimately have "distinct (map (\<lambda>x. key_of cs (f x)) xs)" by (simp only: distinct_map simp_thms)
  then show ?thesis by (simp add: distinct_keys_def comp_def)
qed

lemma keys_distinct:
  "distinct (map tn_id a) \<Longrightarrow> distinct_keys [''id''] (map tenant_cells a)"
  "distinct (map tn_name a) \<Longrightarrow> distinct_keys [''name''] (map tenant_cells a)"
  "distinct (map ag_id b) \<Longrightarrow> distinct_keys [''id''] (map agent_cells b)"
  "distinct (map (\<lambda>x. (ag_tenant_id x, ag_name x)) b) \<Longrightarrow>
    distinct_keys [''tenant_id'', ''name''] (map agent_cells b)"
  "distinct (map ag_api_key_hash b) \<Longrightarrow> distinct_keys [''api_key_hash''] (map agent_cells b)"
  "distinct (map ts_id c) \<Longrightarrow> distinct_keys [''id''] (map tool_server_cells c)"
  "distinct (map (\<lambda>x. (ts_tenant_id x, ts_server_id x)) c) \<Longrightarrow>
    distinct_keys [''tenant_id'', ''server_id''] (map tool_server_cells c)"
  "distinct (map td_id t) \<Longrightarrow> distinct_keys [''id''] (map tool_definition_cells t)"
  "distinct (map (\<lambda>x. (td_tenant_id x, td_server_id x, td_tool_name x)) t) \<Longrightarrow>
    distinct_keys [''tenant_id'', ''server_id'', ''tool_name''] (map tool_definition_cells t)"
  "distinct (map po_id p) \<Longrightarrow> distinct_keys [''id''] (map policy_cells p)"
  "distinct (map (\<lambda>x. (po_tenant_id x, po_name x)) p) \<Longrightarrow>
    distinct_keys [''tenant_id'', ''name''] (map policy_cells p)"
  "distinct (map tc_id f) \<Longrightarrow> distinct_keys [''id''] (map tool_call_cells f)"
  "distinct (map (\<lambda>x. (tc_tenant_id x, tc_agent_id x, tc_idempotency_key x)) f) \<Longrightarrow>
    distinct_keys [''tenant_id'', ''agent_id'', ''idempotency_key''] (map tool_call_cells f)"
  "distinct (map ap_id r) \<Longrightarrow> distinct_keys [''id''] (map approval_cells r)"
  "distinct (map ap_tool_call_id r) \<Longrightarrow> distinct_keys [''tool_call_id''] (map approval_cells r)"
  "distinct (map ae_event_id e) \<Longrightarrow> distinct_keys [''event_id''] (map audit_cells e)"
  by (erule distinct_keysI, simp add: key_cells or_null_inj)+

lemma filter_indexed: "filter (indexed i) (map f xs) = map f (filter (\<lambda>x. indexed i (f x)) xs)"
  by (simp add: filter_map comp_def)

lemma table_soundI:
  assumes "list_all ok rows" and "\<And>r. ok r \<Longrightarrow> columns_fit t (f r)" "\<And>r. not_null t (f r)"
    and "st (tb_name t) = map f rows"
    and "list_all (constraint_sound st (map f rows)) (tb_constraints t)"
      "list_all (index_sound (map f rows)) (tb_indexes t)"
  shows "table_sound st t"
  using assms by (auto simp: table_sound_def list_all_iff)

lemmas table_sound_simps = index_sound_def index_def filter_indexed indexed_def key_cells or_null_inj
  keys_distinct idempotency_keys_def


lemma foreign_key_sound:
  "constraint_sound st (map f xs) (ForeignKey cs t rs d) \<longleftrightarrow>
    (\<forall>x \<in> set xs. CNull \<in> set (key_of cs (f x)) \<or> key_of cs (f x) \<in> key_of rs ` set (st t))"
  by (simp add: list_all_iff)

lemma references_found:
  "(\<forall>x \<in> set xs. [CUuid (g x)] \<in> (\<lambda>y. [CUuid (g' y)]) ` S) \<longleftrightarrow> g ` set xs \<subseteq> g' ` S"
  by (auto simp: image_iff)

lemma declared_sound:
  assumes "db_inv d" "rows_typed d"
  shows "list_all (table_sound (store_of d)) models_metadata"
proof -
  have keys: "keys_ok d" and refs: "refs_ok d" using assms(1) by (simp_all add: db_inv_def)
  note tables = table_defs table_sound_simps foreign_key_sound references_found image_image
  note typed = assms(2) [unfolded rows_typed_def]
  note stored = keys [unfolded keys_ok_def] refs [unfolded refs_ok_def Let_def]
  have "table_sound (store_of d) tenants_table"
    by (rule table_soundI [where f = tenant_cells and ok = tenant_widths and rows = "db_tenants d", OF _ _ declared_nulls(1)])
      (use typed in simp, simp add: declared_widths,
        use stored in \<open>simp_all add: tables del: constraint_sound.simps(3)\<close>)
  moreover have "table_sound (store_of d) agents_table"
    by (rule table_soundI [where f = agent_cells and ok = agent_widths and rows = "db_agents d", OF _ _ declared_nulls(2)])
      (use typed in simp, simp add: declared_widths,
        use stored in \<open>simp_all add: tables del: constraint_sound.simps(3)\<close>)
  moreover have "table_sound (store_of d) tool_servers_table"
    by (rule table_soundI [where f = tool_server_cells and ok = tool_server_widths and rows = "db_tool_servers d", OF _ _ declared_nulls(3)])
      (use typed in simp, simp add: declared_widths,
        use stored in \<open>simp_all add: tables del: constraint_sound.simps(3)\<close>)
  moreover have "table_sound (store_of d) tool_definitions_table"
    by (rule table_soundI [where f = tool_definition_cells and ok = tool_definition_widths and rows = "db_tool_definitions d", OF _ _ declared_nulls(4)])
      (use typed in simp, simp add: declared_widths,
        use stored in \<open>simp_all add: tables del: constraint_sound.simps(3)\<close>)
  moreover have "table_sound (store_of d) policies_table"
    by (rule table_soundI [where f = policy_cells and ok = policy_widths and rows = "db_policies d", OF _ _ declared_nulls(5)])
      (use typed in simp, simp add: declared_widths,
        use stored in \<open>simp_all add: tables del: constraint_sound.simps(3)\<close>)
  moreover have "table_sound (store_of d) tool_calls_table"
    by (rule table_soundI [where f = tool_call_cells and ok = tool_call_widths and rows = "db_tool_calls d", OF _ _ declared_nulls(6)])
      (use typed in simp, simp add: declared_widths,
        use stored in \<open>simp_all add: tables del: constraint_sound.simps(3)\<close>)
  moreover have "table_sound (store_of d) approval_requests_table"
    by (rule table_soundI [where f = approval_cells and ok = approval_typed and rows = "db_approvals d", OF _ _ declared_nulls(7)])
      (use typed in simp, simp add: declared_widths approval_typed_def,
        use stored in \<open>simp_all add: tables del: constraint_sound.simps(3)\<close>)
  moreover have "table_sound (store_of d) audit_events_table"
    by (rule table_soundI [where f = audit_cells and ok = audit_widths and rows = "db_audit_events d", OF _ _ declared_nulls(8)])
      (use typed in simp, simp add: declared_widths,
        use stored in \<open>simp_all add: tables del: constraint_sound.simps(3)\<close>)
  ultimately show ?thesis by (simp add: models_metadata_def)
qed

text \<open>
  C21: In every reachable state the committed rows satisfy the schema that the migrations build: each
  cell has the type and width of its column, counters included, no column that is not nullable
  holds a null, primary keys, unique constraints and the partial unique index over idempotency
  keys have no duplicates, and every foreign key finds the row it refers to.
\<close>

theorem reachable_rows_fit_schema:
  assumes "reachable h st client w"
  shows "store_sound head_catalog (store_of (w_committed w))"
proof (rule store_sound_matching [OF head_matches])
  from reachable_sound [OF assms] typed_rows.reachable_keeps [OF assms]
  show "store_sound models_metadata (store_of (w_committed w))"
    unfolding store_sound_def by (blast intro: declared_sound)
qed

text \<open>A history that fills six of the tables, up to a call that waits for its approval.\<close>

definition busy_world :: world where
  "busy_world = run [SeedTenant sample_tenant, Request (PostAgent root 100 ''bot'' AGENT),
     Request (PostToolServer root calc_server), Request (RefreshTools root ''calc'' 100),
     Request (PatchToolDefinition root 4 (classify HIGH)), Request call_add] sample_start"

lemma reachable_rows_fit_schema_witness:
  "store_sound head_catalog (store_of (w_committed busy_world))"
  unfolding busy_world_def
  by (rule reachable_rows_fit_schema, rule run_reachable, rule reachable.start)
    (simp add: sample_start_def)

end
