(* ===== verification/Repository_Ports.thy ===== *)
theory Repository_Ports
  imports Tool_Call_Service
begin

text \<open>
  The repository protocols of \<open>application/ports/repositories.py\<close>: a protocol is a record of its
  methods over the type of the rows, and each class of \<open>infrastructure/db/repositories.py\<close> is a
  value of its record, built from the session's host. What the protocols stand for is stated as a
  contract (\<open>row_store\<close>, \<open>tenant_row_store\<close>, \<open>row_changes\<close>) and holds for the eight classes.

  The object given to \<open>create\<close> has no identifier and no times before the flush: \<open>'new\<close> is its type
  until then. \<open>update\<close> takes the object as it was loaded and as it is now.
\<close>

section \<open>The protocols\<close>

record ('new, 't) tenant_repository =
  tenants_create :: "'new \<Rightarrow> 't gw"
  tenants_get_by_id :: "uuid \<Rightarrow> 't option gw"
  tenants_list :: "'t list gw"

record ('new, 't) agent_repository =
  agents_create :: "'new \<Rightarrow> 't gw"
  agents_get_by_id :: "uuid \<Rightarrow> 't option gw"
  agents_list_by_tenant :: "uuid \<Rightarrow> 't list gw"
  agents_get_by_api_key_hash :: "string \<Rightarrow> 't option gw"
  agents_disable :: "uuid \<Rightarrow> 't option gw"

record ('new, 't) tool_server_repository =
  servers_create :: "'new \<Rightarrow> 't gw"
  servers_get_by_id :: "uuid \<Rightarrow> 't option gw"
  servers_list_by_tenant :: "uuid \<Rightarrow> 't list gw"
  servers_get_by_server_id :: "uuid \<Rightarrow> string \<Rightarrow> 't option gw"

record ('new, 't) tool_definition_repository =
  definitions_create :: "'new \<Rightarrow> 't gw"
  definitions_get_by_id :: "uuid \<Rightarrow> 't option gw"
  definitions_list_by_tenant :: "uuid \<Rightarrow> 't list gw"
  definitions_get_by_name :: "uuid \<Rightarrow> uuid \<Rightarrow> string \<Rightarrow> 't option gw"
  definitions_list_by_server :: "uuid \<Rightarrow> uuid \<Rightarrow> 't list gw"
  definitions_update :: "'t \<Rightarrow> 't \<Rightarrow> 't gw"

record ('new, 't) policy_repository_port =
  policies_create :: "'new \<Rightarrow> 't gw"
  policies_get_by_id :: "uuid \<Rightarrow> 't option gw"
  policies_list_by_tenant :: "uuid \<Rightarrow> 't list gw"
  policies_list_active_by_tenant_ordered :: "uuid \<Rightarrow> 't list gw"

record ('new, 't) tool_call_repository =
  calls_create :: "'new \<Rightarrow> 't gw"
  calls_get_by_id :: "uuid \<Rightarrow> 't option gw"
  calls_list_by_tenant :: "uuid \<Rightarrow> 't list gw"
  calls_get_by_idempotency_key :: "uuid \<Rightarrow> uuid \<Rightarrow> string \<Rightarrow> 't option gw"
  calls_update :: "'t \<Rightarrow> 't \<Rightarrow> 't gw"
  calls_transition_status :: "uuid \<Rightarrow> tool_call_status \<Rightarrow> tool_call_status \<Rightarrow> 't option gw"
  calls_clear_arguments_payload :: "uuid \<Rightarrow> 't option gw"

record ('new, 't) approval_request_repository =
  approvals_create :: "'new \<Rightarrow> 't gw"
  approvals_get_by_id :: "uuid \<Rightarrow> 't option gw"
  approvals_list_by_tenant :: "uuid \<Rightarrow> 't list gw"
  approvals_list_filtered :: "approval_status option \<Rightarrow> uuid option \<Rightarrow> int option \<Rightarrow> 't list gw"
  approvals_get_by_tool_call_id :: "uuid \<Rightarrow> 't option gw"
  approvals_transition_status ::
    "uuid \<Rightarrow> approval_status \<Rightarrow> approval_status \<Rightarrow> string option \<Rightarrow> 't option gw"

record ('new, 't) audit_event_repository =
  events_append :: "'new \<Rightarrow> 't gw"
  events_get_by_id :: "uuid \<Rightarrow> 't option gw"
  events_list_by_tenant :: "uuid \<Rightarrow> 't list gw"

section \<open>The classes of the SQLAlchemy adapter\<close>

type_synonym 't unflushed = "uuid \<Rightarrow> datetime \<Rightarrow> datetime \<Rightarrow> 't"
type_synonym unflushed_event = "uuid \<Rightarrow> datetime \<Rightarrow> audit_row"

definition policy_list_active_by_tenant_ordered :: "host \<Rightarrow> uuid \<Rightarrow> policy_row list gw" where
  "policy_list_active_by_tenant_ordered h t =
    seq (policy_repository h) (\<lambda>read. lift_p (read t))"

definition SQLAlchemyTenantRepository :: "host \<Rightarrow> (tenant_row unflushed, tenant_row) tenant_repository" where
  "SQLAlchemyTenantRepository h = \<lparr>tenants_create = tenant_create h,
     tenants_get_by_id = tenant_get_by_id, tenants_list = tenant_list\<rparr>"

definition SQLAlchemyAgentRepository :: "host \<Rightarrow> (agent_row unflushed, agent_row) agent_repository" where
  "SQLAlchemyAgentRepository h = \<lparr>agents_create = agent_create h,
     agents_get_by_id = agent_get_by_id, agents_list_by_tenant = agent_list_by_tenant,
     agents_get_by_api_key_hash = agent_get_by_api_key_hash, agents_disable = agent_disable h\<rparr>"

definition SQLAlchemyToolServerRepository ::
  "host \<Rightarrow> (tool_server_row unflushed, tool_server_row) tool_server_repository" where
  "SQLAlchemyToolServerRepository h = \<lparr>servers_create = tool_server_create h,
     servers_get_by_id = tool_server_get_by_id,
     servers_list_by_tenant = tool_server_list_by_tenant,
     servers_get_by_server_id = tool_server_get_by_server_id\<rparr>"

definition SQLAlchemyToolDefinitionRepository ::
  "host \<Rightarrow> (tool_definition_row unflushed, tool_definition_row) tool_definition_repository" where
  "SQLAlchemyToolDefinitionRepository h = \<lparr>definitions_create = tool_definition_create h,
     definitions_get_by_id = tool_definition_get_by_id,
     definitions_list_by_tenant = tool_definition_list_by_tenant,
     definitions_get_by_name = tool_definition_get_by_name,
     definitions_list_by_server = tool_definition_list_by_server,
     definitions_update = tool_definition_update h\<rparr>"

definition SQLAlchemyPolicyRepository ::
  "host \<Rightarrow> (policy_row unflushed, policy_row) policy_repository_port" where
  "SQLAlchemyPolicyRepository h = \<lparr>policies_create = policy_create h,
     policies_get_by_id = policy_get_by_id, policies_list_by_tenant = policy_list_by_tenant,
     policies_list_active_by_tenant_ordered = policy_list_active_by_tenant_ordered h\<rparr>"

definition SQLAlchemyToolCallRepository ::
  "host \<Rightarrow> (tool_call_row unflushed, tool_call_row) tool_call_repository" where
  "SQLAlchemyToolCallRepository h = \<lparr>calls_create = tool_call_create h,
     calls_get_by_id = tool_call_get_by_id, calls_list_by_tenant = tool_call_list_by_tenant,
     calls_get_by_idempotency_key = tool_call_get_by_idempotency_key,
     calls_update = tool_call_update h, calls_transition_status = tool_call_transition_status h,
     calls_clear_arguments_payload = clear_arguments_payload h\<rparr>"

definition SQLAlchemyApprovalRequestRepository ::
  "host \<Rightarrow> (approval_row unflushed, approval_row) approval_request_repository" where
  "SQLAlchemyApprovalRequestRepository h = \<lparr>approvals_create = approval_create h,
     approvals_get_by_id = approval_get_by_id,
     approvals_list_by_tenant = approval_list_by_tenant,
     approvals_list_filtered = approval_list_filtered,
     approvals_get_by_tool_call_id = approval_get_by_tool_call_id,
     approvals_transition_status = approval_transition_status h\<rparr>"

definition SQLAlchemyAuditEventRepository ::
  "host \<Rightarrow> (unflushed_event, audit_row) audit_event_repository" where
  "SQLAlchemyAuditEventRepository h = \<lparr>events_append = audit_append h,
     events_get_by_id = audit_get_by_id, events_list_by_tenant = audit_list_by_tenant\<rparr>"

lemmas port_defs = SQLAlchemyTenantRepository_def SQLAlchemyAgentRepository_def
  SQLAlchemyToolServerRepository_def SQLAlchemyToolDefinitionRepository_def
  SQLAlchemyPolicyRepository_def SQLAlchemyToolCallRepository_def
  SQLAlchemyApprovalRequestRepository_def SQLAlchemyAuditEventRepository_def

section \<open>The contract of storing and finding rows\<close>

text \<open>
  A table behind a protocol: \<open>create\<close> appends one row under an identifier that no row has, or raises
  and leaves the rows as they are; \<open>get_by_id\<close> reads the row of an identifier.
\<close>

locale row_store =
  fixes create :: "'new \<Rightarrow> 't gw"
    and get_by_id :: "uuid \<Rightarrow> 't option gw"
    and rows_of :: "db \<Rightarrow> 't list"
    and key :: "'t \<Rightarrow> uuid"
  assumes creates: "wp (create x) (\<lambda>r w'. rows_of (w_db w') = rows_of (w_db w) @ [r]
        \<and> key r \<notin> key ` set (rows_of (w_db w)) \<and> w_committed w' = w_committed w)
      (\<lambda>e w'. w_db w' = w_db w \<and> w_committed w' = w_committed w) w"
    and gets: "get_by_id i w = (Inr (find_row (\<lambda>r. key r = i) (rows_of (w_db w))), w)"
begin

lemma created:
  assumes "create x w = (Inr r, w')"
  shows "get_by_id (key r) w = (Inr None, w)" and "get_by_id (key r) w' = (Inr (Some r), w')"
    and "i \<noteq> key r \<Longrightarrow> fst (get_by_id i w') = fst (get_by_id i w)"
    and "rows_of (w_db w') = rows_of (w_db w) @ [r]"
proof -
  from creates [of x w] assms have rows: "rows_of (w_db w') = rows_of (w_db w) @ [r]"
    and fresh: "key r \<notin> key ` set (rows_of (w_db w))" by (simp_all add: wp_def)
  then have none: "find_row (\<lambda>x. key x = key r) (rows_of (w_db w)) = None"
    unfolding find_row_None_iff by (metis imageI)
  with rows show "rows_of (w_db w') = rows_of (w_db w) @ [r]" "get_by_id (key r) w = (Inr None, w)"
    "get_by_id (key r) w' = (Inr (Some r), w')" by (simp_all add: gets find_row_append find_row_Cons)
  show "i \<noteq> key r \<Longrightarrow> fst (get_by_id i w') = fst (get_by_id i w)"
    by (simp add: gets rows find_row_append find_row_Cons find_row_Nil split: option.split)
qed

lemma refused: "create x w = (Inl e, w') \<Longrightarrow> w_db w' = w_db w"
  using creates [of x w] by (simp add: wp_def)

end

locale tenant_row_store = row_store create get_by_id rows_of key
  for create :: "'new \<Rightarrow> 't gw" and get_by_id :: "uuid \<Rightarrow> 't option gw"
    and rows_of :: "db \<Rightarrow> 't list" and key :: "'t \<Rightarrow> uuid" +
  fixes list_by_tenant :: "uuid \<Rightarrow> 't list gw"
    and belongs :: "'t \<Rightarrow> uuid \<Rightarrow> bool"
  assumes lists: "list_by_tenant t w = (Inr (filter (\<lambda>r. belongs r t) (rows_of (w_db w))), w)"
begin

lemma created_listed:
  assumes "create x w = (Inr r, w')"
  shows "fst (list_by_tenant t w') = map_sum id (\<lambda>rs. rs @ (if belongs r t then [r] else []))
    (fst (list_by_tenant t w))"
  by (simp add: lists created(4) [OF assms])

end

text \<open>The rows that \<open>create\<close> and the lists of a tenant answer about, in one statement.\<close>

definition stores_rows :: "('new \<Rightarrow> 't gw) \<Rightarrow> (uuid \<Rightarrow> 't option gw) \<Rightarrow> (uuid \<Rightarrow> 't list gw)
    \<Rightarrow> ('t \<Rightarrow> uuid) \<Rightarrow> ('t \<Rightarrow> uuid \<Rightarrow> bool) \<Rightarrow> bool" where
  "stores_rows create get_by_id list_by_tenant key belongs \<longleftrightarrow> (\<forall>x w. case create x w of
     (Inl e, w') \<Rightarrow> w_db w' = w_db w
   | (Inr r, w') \<Rightarrow> get_by_id (key r) w = (Inr None, w) \<and> get_by_id (key r) w' = (Inr (Some r), w')
       \<and> (\<forall>i. i \<noteq> key r \<longrightarrow> fst (get_by_id i w') = fst (get_by_id i w))
       \<and> (\<forall>t. fst (list_by_tenant t w') =
            map_sum id (\<lambda>rs. rs @ (if belongs r t then [r] else [])) (fst (list_by_tenant t w))))"

context tenant_row_store
begin

lemma stores: "stores_rows create get_by_id list_by_tenant key belongs"
  unfolding stores_rows_def
  by (auto split: prod.split sum.split simp: refused created created_listed)

end

section \<open>The adapter honours the contract\<close>

lemma create_row_appends:
  assumes "\<And>r d d'. ins r d = Inr d' \<Longrightarrow> rows_of d' = rows_of d @ [r] \<and> key r \<notin> key ` set (rows_of d)"
  shows "wp (create_row h mk ins)
    (\<lambda>r w'. rows_of (w_db w') = rows_of (w_db w) @ [r] \<and> key r \<notin> key ` set (rows_of (w_db w))
      \<and> w_committed w' = w_committed w)
    (\<lambda>e w'. w_db w' = w_db w \<and> w_committed w' = w_committed w) w"
  using assms by (simp add: wp_create_row Let_def split: sum.split)

lemma audit_append_appends:
  "wp (audit_append h mk)
    (\<lambda>r w'. db_audit_events (w_db w') = db_audit_events (w_db w) @ [r]
      \<and> ae_event_id r \<notin> ae_event_id ` set (db_audit_events (w_db w)) \<and> w_committed w' = w_committed w)
    (\<lambda>e w'. w_db w' = w_db w \<and> w_committed w' = w_committed w) w"
  by (simp add: audit_append_def wp_simps insert_audit_event_def checked_def)

interpretation tenant_rows: tenant_row_store "tenant_create h" tenant_get_by_id db_tenants tn_id
    "\<lambda>_. tenant_list" "\<lambda>_ _. True" for h
  by unfold_locales (auto simp: tenant_create_def tenant_get_by_id_def tenant_list_def gets_p_def
      insert_tenant_def checked_Inr_iff intro!: create_row_appends)

interpretation agent_rows: tenant_row_store "agent_create h" agent_get_by_id db_agents ag_id
    agent_list_by_tenant "\<lambda>r t. ag_tenant_id r = t" for h
  by unfold_locales (auto simp: agent_create_def agent_get_by_id_def agent_list_by_tenant_def gets_p_def
      insert_agent_def checked_Inr_iff intro!: create_row_appends)

interpretation tool_server_rows: tenant_row_store "tool_server_create h" tool_server_get_by_id
    db_tool_servers ts_id tool_server_list_by_tenant "\<lambda>r t. ts_tenant_id r = t" for h
  by unfold_locales (auto simp: tool_server_create_def tool_server_get_by_id_def
      tool_server_list_by_tenant_def gets_p_def insert_tool_server_def checked_Inr_iff
      intro!: create_row_appends)

interpretation tool_definition_rows: tenant_row_store "tool_definition_create h"
    tool_definition_get_by_id db_tool_definitions td_id tool_definition_list_by_tenant
    "\<lambda>r t. td_tenant_id r = t" for h
  by unfold_locales (auto simp: tool_definition_create_def tool_definition_get_by_id_def
      tool_definition_list_by_tenant_def gets_p_def insert_tool_definition_def checked_Inr_iff
      intro!: create_row_appends)

interpretation policy_rows: tenant_row_store "policy_create h" policy_get_by_id db_policies po_id
    policy_list_by_tenant "\<lambda>r t. po_tenant_id r = t" for h
  by unfold_locales (auto simp: policy_create_def policy_get_by_id_def policy_list_by_tenant_def
      gets_p_def insert_policy_def checked_Inr_iff intro!: create_row_appends)

interpretation tool_call_rows: tenant_row_store "tool_call_create h" tool_call_get_by_id
    db_tool_calls tc_id tool_call_list_by_tenant "\<lambda>r t. tc_tenant_id r = t" for h
  by unfold_locales (auto simp: tool_call_create_def tool_call_get_by_id_def
      tool_call_list_by_tenant_def gets_p_def insert_tool_call_def checked_Inr_iff
      intro!: create_row_appends)

interpretation approval_rows: tenant_row_store "approval_create h" approval_get_by_id db_approvals
    ap_id approval_list_by_tenant "\<lambda>r t. ap_tenant_id r = t" for h
  by unfold_locales (auto simp: approval_create_def approval_get_by_id_def approval_list_by_tenant_def
      gets_p_def insert_approval_def checked_Inr_iff intro!: create_row_appends)

interpretation audit_rows: tenant_row_store "audit_append h" audit_get_by_id db_audit_events
    ae_event_id audit_list_by_tenant "\<lambda>r t. ae_tenant_id r = t" for h
  by unfold_locales (auto simp: audit_get_by_id_def audit_list_by_tenant_def gets_p_def
      intro!: audit_append_appends)

section \<open>The contract of changing one row\<close>

text \<open>
  An operation on the row of one identifier: it leaves the rows and returns nothing or raises, or
  it returns the changed row, which is then the one that is found. The rows of other identifiers
  stay as they are.
\<close>

definition changes_row :: "(uuid \<Rightarrow> 't option gw) \<Rightarrow> (uuid \<Rightarrow> 't option gw) \<Rightarrow> world \<Rightarrow> bool" where
  "changes_row change get_by_id w \<longleftrightarrow> (\<forall>i. case change i w of
     (Inl e, w') \<Rightarrow> w_db w' = w_db w
   | (Inr None, w') \<Rightarrow> w_db w' = w_db w
   | (Inr (Some r), w') \<Rightarrow> fst (get_by_id i w') = Inr (Some r)
       \<and> (\<forall>j. j \<noteq> i \<longrightarrow> fst (get_by_id j w') = fst (get_by_id j w)))"

locale row_table = row_store create get_by_id rows_of key
  for create :: "'new \<Rightarrow> 't gw" and get_by_id :: "uuid \<Rightarrow> 't option gw"
    and rows_of :: "db \<Rightarrow> 't list" and key :: "'t \<Rightarrow> uuid" +
  fixes put :: "'t list \<Rightarrow> db \<Rightarrow> db"
  assumes put_rows: "rows_of (put t d) = t" "put (rows_of d) d = d"
begin

lemma get_find: "get_by_id i w = (Inr (find_id key i (rows_of (w_db w))), w)"
  by (simp add: gets find_id_def)

lemma update_where_changes:
  assumes ids: "distinct (map key (rows_of (w_db w)))" and key: "\<And>n x. key (f n x) = key x"
  shows "changes_row (\<lambda>i. update_where h (\<lambda>x. key x = i \<and> q x) f rows_of put) get_by_id w"
  unfolding changes_row_def
proof
  fix i
  let ?f = "f (h_now h (w_clock w))" and ?rows = "rows_of (w_db w)"
  have run: "update_where h (\<lambda>x. key x = i \<and> q x) f rows_of put w =
      (Inr (map_option ?f (find_row (\<lambda>x. key x = i \<and> q x) ?rows)),
       w\<lparr>w_clock := Suc (w_clock w), w_db := put (update_rows (\<lambda>x. key x = i \<and> q x) ?f ?rows) (w_db w)\<rparr>)"
    by (simp add: update_where_def prog_defs utc_now_def)
  show "case update_where h (\<lambda>x. key x = i \<and> q x) f rows_of put w of
      (Inl e, w') \<Rightarrow> w_db w' = w_db w
    | (Inr None, w') \<Rightarrow> w_db w' = w_db w
    | (Inr (Some r), w') \<Rightarrow> fst (get_by_id i w') = Inr (Some r)
        \<and> (\<forall>j. j \<noteq> i \<longrightarrow> fst (get_by_id j w') = fst (get_by_id j w))"
  proof (cases "find_row (\<lambda>x. key x = i \<and> q x) ?rows")
    case None
    then have "update_rows (\<lambda>x. key x = i \<and> q x) ?f ?rows = ?rows"
      by (intro update_rows_Nil_iff) (simp add: find_row_None_iff)
    with None show ?thesis by (simp add: run put_rows)
  next
    case (Some r)
    moreover from this have "find_id key i ?rows = Some r" "q r"
      by (auto simp: find_id_cond [OF ids] split: option.splits if_splits)
    ultimately show ?thesis
      by (simp add: run get_find put_rows find_id_update_cond key option.map_ident)
  qed
qed

end

interpretation tool_call_table: row_table "tool_call_create h" tool_call_get_by_id db_tool_calls tc_id
    put_tool_calls for h
  by unfold_locales (simp_all add: put_tool_calls_def)

interpretation approval_table: row_table "approval_create h" approval_get_by_id db_approvals ap_id
    put_approvals for h
  by unfold_locales (simp_all add: put_approvals_def)

interpretation agent_table: row_table "agent_create h" agent_get_by_id db_agents ag_id put_agents for h
  by unfold_locales (simp_all add: put_agents_def)

lemma transitions_change_rows:
  assumes "keys_ok (w_db w)"
  shows "changes_row (\<lambda>i. tool_call_transition_status h i e n) tool_call_get_by_id w"
    and "changes_row (clear_arguments_payload h) tool_call_get_by_id w"
    and "changes_row (\<lambda>i. approval_transition_status h i m k reason) approval_get_by_id w"
proof -
  have ids: "distinct (map tc_id (db_tool_calls (w_db w)))" "distinct (map ap_id (db_approvals (w_db w)))"
    using assms by (simp_all add: keys_ok_def)
  show "changes_row (\<lambda>i. tool_call_transition_status h i e n) tool_call_get_by_id w"
    unfolding tool_call_transition_status_def
    by (rule tool_call_table.update_where_changes [OF ids(1)]) simp
  have "changes_row (\<lambda>i. update_where h (\<lambda>x. tc_id x = i \<and> True)
      (\<lambda>now x. x\<lparr>tc_arguments_payload := None, tc_updated_at := now\<rparr>) db_tool_calls put_tool_calls)
      tool_call_get_by_id w"
    by (rule tool_call_table.update_where_changes [OF ids(1)]) simp
  then show "changes_row (clear_arguments_payload h) tool_call_get_by_id w"
    unfolding changes_row_def clear_arguments_payload_def by simp
  show "changes_row (\<lambda>i. approval_transition_status h i m k reason) approval_get_by_id w"
  proof (cases "terminal_approval_status m")
    case True
    then show ?thesis by (simp add: changes_row_def approval_transition_status_def return_p_def)
  next
    case False
    have "changes_row (\<lambda>i. update_where h (\<lambda>x. ap_id x = i \<and> ap_status x = approval_status_value m)
        (\<lambda>now. transition_values now k reason) db_approvals put_approvals) approval_get_by_id w"
      by (rule approval_table.update_where_changes [OF ids(2)]) simp
    with False show ?thesis unfolding approval_transition_status_def by simp
  qed
qed

lemma disable_changes_row:
  assumes "keys_ok (w_db w)"
  shows "changes_row (agent_disable h) agent_get_by_id w"
  unfolding changes_row_def
proof
  fix i
  show "case agent_disable h i w of
      (Inl e, w') \<Rightarrow> w_db w' = w_db w
    | (Inr None, w') \<Rightarrow> w_db w' = w_db w
    | (Inr (Some r), w') \<Rightarrow> fst (agent_get_by_id i w') = Inr (Some r)
        \<and> (\<forall>j. j \<noteq> i \<longrightarrow> fst (agent_get_by_id j w') = fst (agent_get_by_id j w))"
  proof (cases "find_id ag_id i (db_agents (w_db w))")
    case None
    then show ?thesis by (simp add: agent_disable_def agent_table.get_find prog_defs)
  next
    case (Some a)
    then have "ag_id a = i" by (auto simp: find_id_def dest: find_row_SomeD)
    with Some show ?thesis
      by (auto simp: agent_disable_def agent_table.get_find prog_defs Let_def flush_row_def utc_now_def
          db_step_def write_agent_def if_fits_def put_agents_def find_id_update option.map_ident)
  qed
qed

end
