(* ===== verification/Domain_Models.thy ===== *)
theory Domain_Models
  imports Api_Schemas Schema_Rows
begin

text \<open>
  The dataclasses of \<open>domain/models.py\<close>: each is the list of its fields with their declared types,
  in the vocabulary of the response models (\<open>FObject\<close> stands for \<open>JsonObject\<close>). They are compared
  with the tables of the mapped classes (\<open>declares\<close>) and with the cells of stored rows
  (\<open>instance_of\<close>).
\<close>

section \<open>The dataclasses\<close>

type_synonym dataclass_fields = "(string \<times> field_type) list"

definition Tenant :: dataclass_fields where
  "Tenant = [(''id'', FUuid), (''name'', FStr), (''status'', EntityStatus),
     (''created_at'', FDatetime), (''updated_at'', FDatetime)]"

definition Agent :: dataclass_fields where
  "Agent = [(''id'', FUuid), (''tenant_id'', FUuid), (''name'', FStr), (''role'', AgentRole),
     (''status'', EntityStatus), (''api_key_hash'', FStr), (''created_at'', FDatetime),
     (''updated_at'', FDatetime)]"

definition ToolServer :: dataclass_fields where
  "ToolServer = [(''id'', FUuid), (''tenant_id'', FUuid), (''server_id'', FStr), (''name'', FStr),
     (''transport_type'', TransportType), (''endpoint_url'', FOptional FStr),
     (''command'', FOptional FStr), (''args'', FOptional FObject), (''env'', FOptional FObject),
     (''status'', EntityStatus), (''created_at'', FDatetime), (''updated_at'', FDatetime)]"

definition ToolDefinition :: dataclass_fields where
  "ToolDefinition = [(''id'', FUuid), (''tenant_id'', FUuid), (''server_id'', FUuid),
     (''tool_name'', FStr), (''description'', FOptional FStr), (''input_schema'', FObject),
     (''risk_level'', RiskLevel), (''action_type'', ActionType),
     (''resource_patterns'', FOptional FObject), (''status'', EntityStatus), (''schema_hash'', FStr),
     (''created_at'', FDatetime), (''updated_at'', FDatetime)]"

definition Policy :: dataclass_fields where
  "Policy = [(''id'', FUuid), (''tenant_id'', FUuid), (''name'', FStr), (''priority'', FInt),
     (''effect'', PolicyEffect), (''conditions'', FObject), (''reason'', FStr),
     (''status'', EntityStatus), (''created_at'', FDatetime), (''updated_at'', FDatetime)]"

definition ToolCall :: dataclass_fields where
  "ToolCall = [(''id'', FUuid), (''trace_id'', FOptional FStr), (''tenant_id'', FUuid),
     (''agent_id'', FUuid), (''target_server'', FStr), (''target_tool'', FStr),
     (''arguments_redacted'', FObject), (''arguments_hash'', FStr),
     (''tool_schema_hash'', FOptional FStr), (''policy_decision'', FOptional FStr),
     (''decision_reason'', FOptional FStr), (''approval_id'', FOptional FUuid),
     (''status'', ToolCallStatus), (''error_code'', FOptional FStr),
     (''error_message'', FOptional FStr), (''idempotency_key'', FOptional FStr),
     (''created_at'', FDatetime), (''updated_at'', FDatetime)]"

definition ApprovalRequest :: dataclass_fields where
  "ApprovalRequest = [(''id'', FUuid), (''tenant_id'', FUuid), (''agent_id'', FUuid),
     (''tool_call_id'', FUuid), (''target_server'', FStr), (''target_tool'', FStr),
     (''arguments_redacted'', FObject), (''arguments_hash'', FStr), (''status'', ApprovalStatus),
     (''requested_reason'', FOptional FStr), (''reviewer_id'', FOptional FStr),
     (''review_reason'', FOptional FStr), (''expires_at'', FDatetime),
     (''approved_at'', FOptional FDatetime), (''denied_at'', FOptional FDatetime),
     (''executed_at'', FOptional FDatetime), (''created_at'', FDatetime), (''updated_at'', FDatetime),
     (''version'', FInt)]"

definition AuditEvent :: dataclass_fields where
  "AuditEvent = [(''event_id'', FUuid), (''trace_id'', FOptional FStr), (''tenant_id'', FUuid),
     (''agent_id'', FOptional FUuid), (''event_type'', FStr), (''target_server'', FOptional FStr),
     (''target_tool'', FOptional FStr), (''arguments_redacted'', FOptional FObject),
     (''arguments_hash'', FOptional FStr), (''policy_decision'', FOptional FStr),
     (''decision_reason'', FOptional FStr), (''approval_id'', FOptional FUuid), (''status'', FStr),
     (''error_code'', FOptional FStr), (''error_message'', FOptional FStr),
     (''metadata_json'', FOptional FObject), (''created_at'', FDatetime)]"

lemmas dataclass_defs = Tenant_def Agent_def ToolServer_def ToolDefinition_def Policy_def ToolCall_def
  ApprovalRequest_def AuditEvent_def

lemmas enum_type_defs = EntityStatus_def AgentRole_def TransportType_def RiskLevel_def ActionType_def
  PolicyEffect_def ToolCallStatus_def ApprovalStatus_def

section \<open>Dataclasses and tables\<close>

text \<open>
  The attribute \<open>metadata_json\<close> is the column \<open>metadata\<close>, a name that SQLAlchemy keeps for itself. An
  enumeration is a string column that is wide enough for each member; a field is optional exactly
  when its column may be null.
\<close>

definition attribute_column :: "string \<Rightarrow> string" where
  "attribute_column n = (if n = ''metadata_json'' then ''metadata'' else n)"

fun column_matches :: "field_type \<Rightarrow> column_type \<Rightarrow> bool" where
  "column_matches FUuid c = (c = SqlUuid)"
| "column_matches FStr c = (case c of SqlString n \<Rightarrow> True | SqlText \<Rightarrow> True | _ \<Rightarrow> False)"
| "column_matches FInt c = (c = SqlInteger)"
| "column_matches FDatetime c = (c = SqlTimestamp)"
| "column_matches FObject c = (c = SqlJsonb)"
| "column_matches (FEnum members) c = (case c of SqlString n \<Rightarrow> list_all (fits n) members | _ \<Rightarrow> False)"
| "column_matches (FOptional t) c = column_matches t c"
| "column_matches (FList t) c = False"
| "column_matches (FModel fs) c = False"

fun is_optional :: "field_type \<Rightarrow> bool" where
  "is_optional (FOptional t) = True"
| "is_optional _ = False"

definition declares :: "dataclass_fields \<Rightarrow> table_def \<Rightarrow> bool" where
  "declares fs t \<longleftrightarrow> list_all2 (\<lambda>(n, ty) c. attribute_column n = co_name c
     \<and> column_matches ty (co_type c) \<and> is_optional ty = co_nullable c) fs (tb_columns t)"

section \<open>Dataclasses and rows\<close>

fun cell_is :: "field_type \<Rightarrow> cell \<Rightarrow> bool" where
  "cell_is FUuid c = (case c of CUuid u \<Rightarrow> True | _ \<Rightarrow> False)"
| "cell_is FStr c = (case c of CStr s \<Rightarrow> True | _ \<Rightarrow> False)"
| "cell_is FInt c = (case c of CInt i \<Rightarrow> True | _ \<Rightarrow> False)"
| "cell_is FDatetime c = (case c of CTime t \<Rightarrow> True | _ \<Rightarrow> False)"
| "cell_is FObject c = (case c of CJson (PDict kvs) \<Rightarrow> True | _ \<Rightarrow> False)"
| "cell_is (FEnum members) c = (case c of CStr s \<Rightarrow> s \<in> set members | _ \<Rightarrow> False)"
| "cell_is (FOptional t) c = (c = CNull \<or> c = CJson PNone \<or> cell_is t c)"
| "cell_is (FList t) c = False"
| "cell_is (FModel fs) c = False"

definition instance_of :: "dataclass_fields \<Rightarrow> row \<Rightarrow> bool" where
  "instance_of fs row \<longleftrightarrow> list_all (\<lambda>(n, ty). cell_is ty (cell_at row (attribute_column n))) fs"

definition without_field :: "string \<Rightarrow> dataclass_fields \<Rightarrow> dataclass_fields" where
  "without_field f = filter (\<lambda>(n, ty). n \<noteq> f)"

lemma optional_cells [simp]:
  "cell_is (FOptional FStr) (or_null CStr a)" "cell_is (FOptional FUuid) (or_null CUuid b)"
  "cell_is (FOptional FDatetime) (or_null CTime c)" "cell_is (FOptional FObject) (json_or_null d)"
  "cell_is (FOptional FObject) (CJson v) \<longleftrightarrow> object_ok v"
  by (auto simp: or_null_def json_or_null_def object_ok_def split: option.split pyval.split)

lemma enum_cells:
  "entity_status_of s \<noteq> None \<Longrightarrow> cell_is EntityStatus (CStr s)"
  "agent_role_of s \<noteq> None \<Longrightarrow> cell_is AgentRole (CStr s)"
  "transport_type_of s \<noteq> None \<Longrightarrow> cell_is TransportType (CStr s)"
  "risk_level_of s \<noteq> None \<Longrightarrow> cell_is RiskLevel (CStr s)"
  "action_type_of s \<noteq> None \<Longrightarrow> cell_is ActionType (CStr s)"
  "tool_call_status_of s \<noteq> None \<Longrightarrow> cell_is ToolCallStatus (CStr s)"
  "approval_status_of s \<noteq> None \<Longrightarrow> cell_is ApprovalStatus (CStr s)"
  by (auto simp: enum_type_defs enum_of_defs split: if_splits)

lemma sound_rows_are_instances:
  "agent_ok a \<Longrightarrow> instance_of Agent (agent_cells a)"
  "tool_server_ok s \<Longrightarrow> instance_of (without_field ''args'' ToolServer) (tool_server_cells s)"
  "tool_definition_ok t \<Longrightarrow> instance_of ToolDefinition (tool_definition_cells t)"
  "tool_call_ok c \<Longrightarrow> instance_of ToolCall (tool_call_cells c)"
  "approval_ok r \<Longrightarrow> instance_of ApprovalRequest (approval_cells r)"
  "audit_ok e \<Longrightarrow> instance_of AuditEvent (audit_cells e)"
  by (simp_all add: instance_of_def dataclass_defs cells_defs cell_at_def attribute_column_def
      without_field_def agent_ok_def tool_server_ok_def tool_definition_ok_def tool_call_ok_def
      approval_ok_def audit_ok_def enum_cells del: cell_is.simps(6,7))

text \<open>The arguments of a server are a list, which \<open>JsonObject\<close> does not admit.\<close>

lemma server_args_are_no_object:
  "tool_server_ok s \<Longrightarrow> ts_args s \<noteq> PNone \<Longrightarrow> \<not> instance_of ToolServer (tool_server_cells s)"
  by (auto simp: instance_of_def dataclass_defs cells_defs cell_at_def attribute_column_def
      tool_server_ok_def args_ok_def split: pyval.splits)

end
