(* ===== verification/Boundary_Properties.thy ===== *)
theory Boundary_Properties
  imports Service_Properties Repository_Ports Domain_Models
begin

text \<open>
  The properties of the program's boundaries: how HTTP requests find their handlers and what the
  handlers get, what the repository protocols stand for, and how the dataclasses of the domain
  relate to the database.
\<close>

section \<open>Routes\<close>

text \<open>What a route declares for the requests of its handler.\<close>

lemma route_declares:
  assumes "r \<in> set app_routes" and "rt_endpoint r = endpoint_of req"
  shows "rt_status r = success_status req"
    "rt_check r = (if for_agents req then RequireAgent else RequireAdmin)"
  using assms
  by (cases req; auto simp: app_routes_def health_router_def admin_agents_router_def
      admin_approvals_router_def admin_tools_router_def agent_self_router_def tool_calls_router_def
      router_def)+

text \<open>
  C17: A request sent to the address of its handler is served by that handler with the values that
  were sent: the first route that matches method and path is its own, with the path parameters of
  the request, the status code of its answers and the check of its caller; its inputs are valid for
  the declared models, and reading them gives back the request. The exception is the refresh of a
  tool server whose name, which the API accepts as any string, is empty or contains a slash: no
  route matches its address, and the client gets 404.
\<close>

theorem requests_find_their_handler:
  "if path_safe req
   then \<exists>r. resolve (method_of req) (path_of req) app_routes = Routed r (parameter_texts req)
    \<and> rt_endpoint r = endpoint_of req \<and> rt_status r = success_status req
    \<and> rt_check r = (if for_agents req then RequireAgent else RequireAdmin)
    \<and> valid_inputs (rt_endpoint r) (inputs_of req) \<and> request_of (rt_endpoint r) (inputs_of req) = Some req
   else resolve (method_of req) (path_of req) app_routes = NotFound"
proof (cases "path_safe req")
  case True
  from resolve_request [OF True] obtain r where
    r: "resolve (method_of req) (path_of req) app_routes = Routed r (parameter_texts req)"
    and e: "rt_endpoint r = endpoint_of req"
    by (auto simp: resolve_by_segments split: routing.splits)
  from resolve_in [OF r] have "r \<in> set app_routes" by simp
  from route_declares [OF this e] r e True show ?thesis
    by (simp add: inputs_of_valid request_of_inputs)
qed (simp add: unsafe_path_unrouted)

lemma requests_find_their_handler_witness:
  "(\<exists>r. resolve POST (path_of (RefreshTools root ''calc'' 100)) app_routes = Routed r [''calc'']
    \<and> rt_endpoint r = E_refresh_tools)
   \<and> resolve POST ''/v1/admin/tool-servers/a/b/refresh-tools'' app_routes = NotFound"
  using requests_find_their_handler [of "RefreshTools root ''calc'' 100"]
    requests_find_their_handler [of "RefreshTools root ''a/b'' 100"]
  by (auto simp: path_safe_def parameter_texts_def)

text \<open>
  C18: Whatever the declared models let through, the handlers can work with: valid inputs of any
  route but the two constant ones are read as a request of that route, which says exactly what the
  inputs say. So the typed requests of the model are the valid requests of the API.
\<close>

theorem valid_inputs_are_requests:
  assumes "e \<noteq> E_health" "e \<noteq> E_version"
  shows "valid_inputs e i = (\<exists>req. request_of e i = Some req \<and> endpoint_of req = e \<and> inputs_of req = i)"
proof
  assume "valid_inputs e i"
  then show "\<exists>req. request_of e i = Some req \<and> endpoint_of req = e \<and> inputs_of req = i"
    using assms by (rule valid_inputs_read)
qed (auto intro: inputs_of_valid)

lemma valid_inputs_are_requests_witness:
  "valid_inputs E_deny_approval (inputs_of (DenyApproval root 6 ''no''))"
  unfolding valid_inputs_are_requests [of E_deny_approval, simplified]
  by (rule exI [of _ "DenyApproval root 6 ''no''"]) (simp add: request_of_inputs [of "DenyApproval root 6 ''no''", simplified])

section \<open>Repositories\<close>

text \<open>
  C25: The repositories of the adapter do what their protocols stand for. A created row had an
  unused identifier, is found under it from then on and appended to the lists of its tenant, and no
  other row is affected; a refused one leaves no trace. A change of status, of a payload or of an
  agent affects the row of its identifier only, and returns the row that is then found.
\<close>

theorem repositories_honour_ports:
  assumes "keys_ok (w_db w)"
  shows "stores_rows (tenants_create (SQLAlchemyTenantRepository h))
      (tenants_get_by_id (SQLAlchemyTenantRepository h))
      (\<lambda>_. tenants_list (SQLAlchemyTenantRepository h)) tn_id (\<lambda>_ _. True)
    \<and> stores_rows (agents_create (SQLAlchemyAgentRepository h))
      (agents_get_by_id (SQLAlchemyAgentRepository h))
      (agents_list_by_tenant (SQLAlchemyAgentRepository h)) ag_id (\<lambda>r t. ag_tenant_id r = t)
    \<and> stores_rows (servers_create (SQLAlchemyToolServerRepository h))
      (servers_get_by_id (SQLAlchemyToolServerRepository h))
      (servers_list_by_tenant (SQLAlchemyToolServerRepository h)) ts_id (\<lambda>r t. ts_tenant_id r = t)
    \<and> stores_rows (definitions_create (SQLAlchemyToolDefinitionRepository h))
      (definitions_get_by_id (SQLAlchemyToolDefinitionRepository h))
      (definitions_list_by_tenant (SQLAlchemyToolDefinitionRepository h)) td_id (\<lambda>r t. td_tenant_id r = t)
    \<and> stores_rows (policies_create (SQLAlchemyPolicyRepository h))
      (policies_get_by_id (SQLAlchemyPolicyRepository h))
      (policies_list_by_tenant (SQLAlchemyPolicyRepository h)) po_id (\<lambda>r t. po_tenant_id r = t)
    \<and> stores_rows (calls_create (SQLAlchemyToolCallRepository h))
      (calls_get_by_id (SQLAlchemyToolCallRepository h))
      (calls_list_by_tenant (SQLAlchemyToolCallRepository h)) tc_id (\<lambda>r t. tc_tenant_id r = t)
    \<and> stores_rows (approvals_create (SQLAlchemyApprovalRequestRepository h))
      (approvals_get_by_id (SQLAlchemyApprovalRequestRepository h))
      (approvals_list_by_tenant (SQLAlchemyApprovalRequestRepository h)) ap_id (\<lambda>r t. ap_tenant_id r = t)
    \<and> stores_rows (events_append (SQLAlchemyAuditEventRepository h))
      (events_get_by_id (SQLAlchemyAuditEventRepository h))
      (events_list_by_tenant (SQLAlchemyAuditEventRepository h)) ae_event_id (\<lambda>r t. ae_tenant_id r = t)
    \<and> changes_row (agents_disable (SQLAlchemyAgentRepository h))
      (agents_get_by_id (SQLAlchemyAgentRepository h)) w
    \<and> changes_row (\<lambda>i. calls_transition_status (SQLAlchemyToolCallRepository h) i e n)
      (calls_get_by_id (SQLAlchemyToolCallRepository h)) w
    \<and> changes_row (calls_clear_arguments_payload (SQLAlchemyToolCallRepository h))
      (calls_get_by_id (SQLAlchemyToolCallRepository h)) w
    \<and> changes_row (\<lambda>i. approvals_transition_status (SQLAlchemyApprovalRequestRepository h) i m k reason)
      (approvals_get_by_id (SQLAlchemyApprovalRequestRepository h)) w"
  unfolding port_defs
  by (simp add: tenant_rows.stores agent_rows.stores tool_server_rows.stores tool_definition_rows.stores
      policy_rows.stores tool_call_rows.stores approval_rows.stores audit_rows.stores
      transitions_change_rows [OF assms] disable_changes_row [OF assms])

lemma repositories_honour_ports_witness:
  "changes_row (agents_disable (SQLAlchemyAgentRepository sample_host))
    (agents_get_by_id (SQLAlchemyAgentRepository sample_host)) (settled_world waiting_db)"
proof -
  have "keys_ok (w_db (settled_world waiting_db))"
    using sample_rows_ok by (simp add: settled_world_def db_inv_def)
  from repositories_honour_ports [OF this, of sample_host] show ?thesis by blast
qed

section \<open>Domain dataclasses\<close>

text \<open>
  The dataclasses of the domain agree with the mapped classes: the same fields in the same order,
  each optional exactly when its column may be null, of a type that fits the column's, and with
  enumerations whose members fit the column's width. One column has no field: the payload that the
  second migration added to the tool calls.
\<close>

theorem domain_models_match_tables:
  "declares Tenant tenants_table \<and> declares Agent agents_table \<and> declares ToolServer tool_servers_table
   \<and> declares ToolDefinition tool_definitions_table \<and> declares Policy policies_table
   \<and> declares ToolCall (without_column ''arguments_payload'' tool_calls_table)
   \<and> \<not> declares ToolCall tool_calls_table
   \<and> declares ApprovalRequest approval_requests_table \<and> declares AuditEvent audit_events_table"
  by code_simp

text \<open>
  C36: What the gateway stores can be read as the domain's dataclasses: in every reachable state the
  rows of agents, tools, tool calls, approvals and audit events have in each field a value of the
  declared type, enumerations included; so have the rows of tool servers, but for their arguments,
  which are no JSON object unless they are missing.
\<close>

theorem reachable_rows_are_domain_objects:
  assumes "reachable h st client w"
  shows "list_all (\<lambda>r. instance_of Agent (agent_cells r)) (db_agents (w_committed w))
    \<and> list_all (\<lambda>r. instance_of ToolDefinition (tool_definition_cells r)) (db_tool_definitions (w_committed w))
    \<and> list_all (\<lambda>r. instance_of ToolCall (tool_call_cells r)) (db_tool_calls (w_committed w))
    \<and> list_all (\<lambda>r. instance_of ApprovalRequest (approval_cells r)) (db_approvals (w_committed w))
    \<and> list_all (\<lambda>r. instance_of AuditEvent (audit_cells r)) (db_audit_events (w_committed w))
    \<and> list_all (\<lambda>r. instance_of (without_field ''args'' ToolServer) (tool_server_cells r)
        \<and> instance_of ToolServer (tool_server_cells r) = (ts_args r = PNone)) (db_tool_servers (w_committed w))"
proof -
  have server: "instance_of ToolServer (tool_server_cells s)" if "tool_server_ok s" "ts_args s = PNone" for s
    using sound_rows_are_instances(2) [OF that(1)] that(2)
    by (simp add: instance_of_def without_field_def dataclass_defs cell_at_def tool_server_cells_def
        attribute_column_def del: cell_is.simps(6))
  have "rows_ok (w_committed w)" using reachable_sound [OF assms] by (simp add: db_inv_def)
  then show ?thesis
    using sound_rows_are_instances server server_args_are_no_object
    unfolding rows_ok_def list_all_iff by blast
qed

lemma reachable_rows_are_domain_objects_witness:
  "list_all (\<lambda>r. instance_of ApprovalRequest (approval_cells r)) (db_approvals (w_committed
    (run [SeedTenant sample_tenant, Request (PostAgent root 100 ''bot'' AGENT),
      Request (PostToolServer root calc_server), Request (RefreshTools root ''calc'' 100),
      Request (PatchToolDefinition root 4 (classify HIGH)), Request call_add] sample_start)))"
  by (rule reachable_rows_are_domain_objects [THEN conjunct2, THEN conjunct2, THEN conjunct2, THEN conjunct1],
      rule run_reachable, rule reachable.start) (simp add: sample_start_def)

end
