(* ===== verification/Answer_Columns.thy ===== *)
theory Answer_Columns
  imports Schema_Rows Api_Routes Gateway_Sample
begin

text \<open>
  The answers against the table columns. The body of an answer is compared, field by field of the
  response model its route declares, with the columns of the same names of the stored rows
  (\<open>Schema_Rows\<close>): what a reading request answers is what the committed rows hold, and what a
  writing request answers is the row it has stored, which holds what was sent.
\<close>

section \<open>Rows as objects\<close>

fun cell_json :: "(datetime \<Rightarrow> string) \<Rightarrow> cell \<Rightarrow> pyval" where
  "cell_json isoformat CNull = PNone"
| "cell_json isoformat (CUuid u) = PStr (uuid_str u)"
| "cell_json isoformat (CStr s) = PStr s"
| "cell_json isoformat (CInt i) = PInt i"
| "cell_json isoformat (CTime t) = PStr (isoformat t)"
| "cell_json isoformat (CJson v) = v"

text \<open>The columns of a row that a model names, under the names of its fields.\<close>

definition column_values :: "(datetime \<Rightarrow> string) \<Rightarrow> (string \<times> field_type) list \<Rightarrow> row \<Rightarrow> json_object" where
  "column_values isoformat model row = map (\<lambda>(n, t). (n, cell_json isoformat (cell_at row n))) model"

definition row_objects ::
  "(datetime \<Rightarrow> string) \<Rightarrow> (string \<times> field_type) list \<Rightarrow> row list \<Rightarrow> pyval" where
  "row_objects isoformat model rows = PList (map (\<lambda>r. PDict (column_values isoformat model r)) rows)"

lemmas cells_defs = agent_cells_def tool_server_cells_def tool_definition_cells_def approval_cells_def

lemma cell_json_or_null [simp]:
  "cell_json isoformat (or_null CStr v) = json_opt PStr v"
  by (simp add: or_null_def json_opt_def split: option.split)

lemma column_values_Cons [simp]:
  "column_values isoformat [] row = []"
  "column_values isoformat ((n, t) # model) row = (n, cell_json isoformat (cell_at row n)) # column_values isoformat model row"
  by (simp_all add: column_values_def)

lemma agent_columns:
  "to_dto r = Inr a \<Longrightarrow> render_agent a = column_values isoformat AgentResponse (agent_cells r)"
  by (auto simp: to_dto_def render_agent_def AgentResponse_def agent_cells_def cell_at_def json_uuid_def
      enum_value_of split: option.splits)

lemma validated_Inr [simp]: "validated m = Inr x \<longleftrightarrow> m = Some x"
  by (simp add: validated_def split: option.split)

lemma str_items: "map_sum_list str_item xs = Inr ss \<Longrightarrow> map PStr ss = xs"
  unfolding map_sum_list_Inr_iff
  by (induction rule: list_all2_induct) (auto simp: str_item_def split: pyval.splits)

lemma args_columns: "args_field v = Some args \<Longrightarrow> json_opt (\<lambda>xs. PList (map PStr xs)) args = v"
  by (auto simp: args_field_def json_opt_def str_items split: pyval.splits sum.splits)

lemma server_columns:
  "tool_server_response_of r = Inr s \<Longrightarrow>
    render_tool_server s = PDict (column_values isoformat ToolServerResponse (tool_server_cells r))"
  by (auto simp: tool_server_response_of_def sum_bind_def render_tool_server_def ToolServerResponse_def
      tool_server_cells_def cell_at_def json_uuid_def enum_value_of args_columns split: sum.splits)

lemma definition_columns:
  "tool_definition_response_of r = Inr d \<Longrightarrow>
    render_tool_definition d = PDict (column_values isoformat ToolDefinitionResponse (tool_definition_cells r))"
  by (auto simp: tool_definition_response_of_def sum_bind_def render_tool_definition_def
      ToolDefinitionResponse_def tool_definition_cells_def cell_at_def json_uuid_def enum_value_of
      split: sum.splits)

lemma approval_columns:
  "approval_list_item_of r = Inr i \<Longrightarrow>
    render_approval isoformat i = PDict (column_values isoformat ApprovalListItem (approval_cells r))"
  by (auto simp: approval_list_item_of_def sum_bind_def render_approval_def ApprovalListItem_def
      approval_cells_def cell_at_def json_uuid_def enum_value_of split: sum.splits)

lemma rendered_rows:
  assumes "map_sum_list f rows = Inr xs"
    and "\<And>r x. f r = Inr x \<Longrightarrow> rendered x = PDict (column_values isoformat model (cells r))"
  shows "PList (map rendered xs) = row_objects isoformat model (map cells rows)"
proof -
  from assms(1) have "map rendered xs = map (\<lambda>r. PDict (column_values isoformat model (cells r))) rows"
    unfolding map_sum_list_Inr_iff by (induction rule: list_all2_induct) (simp_all add: assms(2))
  then show ?thesis by (simp add: row_objects_def)
qed

section \<open>Reading requests\<close>

text \<open>\<open>tells isoformat h st d req v\<close>: the body \<open>v\<close> is what the rows \<open>d\<close> hold for the reading request.\<close>

fun tells :: "(datetime \<Rightarrow> string) \<Rightarrow> host \<Rightarrow> settings \<Rightarrow> db \<Rightarrow> api_request \<Rightarrow> pyval \<Rightarrow> bool" where
  "tells isoformat h st d (ListAgents auth t) v \<longleftrightarrow>
    v = row_objects isoformat AgentResponse (map agent_cells (filter (\<lambda>r. ag_tenant_id r = t) (db_agents d)))"
| "tells isoformat h st d (GetAgent auth i) v \<longleftrightarrow> (\<exists>r \<in> set (db_agents d). ag_id r = i
    \<and> v = PDict (column_values isoformat AgentResponse (agent_cells r)))"
| "tells isoformat h st d (GetCurrentAgent auth) v \<longleftrightarrow> (\<exists>r \<in> set (db_agents d). \<exists>key.
    auth = Some (''Bearer '' @ key) \<and> ag_api_key_hash r = hash_api_key h key (api_key_pepper st)
    \<and> ag_status r = ''active'' \<and> v = PDict (column_values isoformat AgentResponse (agent_cells r)))"
| "tells isoformat h st d (ListToolServers auth t) v \<longleftrightarrow>
    v = PDict [(''items'', row_objects isoformat ToolServerResponse
      (map tool_server_cells (filter (\<lambda>r. ts_tenant_id r = t) (db_tool_servers d))))]"
| "tells isoformat h st d (ListToolDefinitions auth t s) v \<longleftrightarrow> (\<exists>server \<in> set (db_tool_servers d).
    ts_tenant_id server = t \<and> ts_server_id server = s
    \<and> v = PDict [(''items'', row_objects isoformat ToolDefinitionResponse (map tool_definition_cells
        (filter (\<lambda>r. td_tenant_id r = t \<and> td_server_id r = ts_id server) (db_tool_definitions d))))])"
| "tells isoformat h st d (ListApprovals auth s t n) v \<longleftrightarrow>
    v = PDict [(''items'', row_objects isoformat ApprovalListItem (map approval_cells
      ((case n of None \<Rightarrow> \<lambda>rows. rows | Some k \<Rightarrow> take (nat k)) (sort_key ap_created_at
        (filter (\<lambda>r. ap_status r = approval_status_value s \<and> (t = None \<or> t = Some (ap_tenant_id r)))
          (db_approvals d))))))]"
| "tells isoformat h st d _ v \<longleftrightarrow> True"

lemma filter_approvals:
  "filter (\<lambda>r. case t of None \<Rightarrow> True | Some x \<Rightarrow> ap_tenant_id r = x) (filter (\<lambda>r. ap_status r = s) rows)
    = filter (\<lambda>r. ap_status r = s \<and> (t = None \<or> t = Some (ap_tenant_id r))) rows"
  by (cases t) (auto simp: filter_filter intro!: filter_cong)

lemma tells_handle:
  assumes "handle h st client req w = (Inr x, w')"
  shows "tells isoformat h st (w_db w) req (render isoformat x)"
proof -
  have agents: "PList (map (\<lambda>a. PDict (render_agent a)) xs)
      = row_objects isoformat AgentResponse (map agent_cells rows)" if "map_sum_list to_dto rows = Inr xs" for rows xs
    by (rule rendered_rows [OF that]) (simp add: agent_columns)
  note items = rendered_rows [where f = tool_server_response_of, OF _ server_columns]
    rendered_rows [where f = tool_definition_response_of, OF _ definition_columns]
    rendered_rows [where f = approval_list_item_of, OF _ approval_columns]
  note reading = route_defs admin_def query_defs prog_defs
  have active: "ag_status r = ''active''" if "to_dto r = Inr a" "ag_status r \<noteq> ''disabled''" for r a
  proof -
    from that(1) obtain u where u: "entity_status_of (ag_status r) = Some u" by (auto simp: to_dto_def split: option.splits)
    show ?thesis using enum_value_of(1) [OF u] that(2) by (cases u) simp_all
  qed
  have approvals: "list_approvals (Some s) t n w = (let rows = sort_key ap_created_at
      (filter (\<lambda>r. ap_status r = approval_status_value s \<and> (t = None \<or> t = Some (ap_tenant_id r))) (db_approvals (w_db w)))
    in case n of None \<Rightarrow> Inr rows | Some n \<Rightarrow> if n < 0 then Inl DataError else Inr (take (nat n) rows), w)" for s t n w
    by (simp only: list_approvals_def approval_list_filtered_def Let_def option.case filter_approvals)
  show ?thesis
  proof (cases req)
    case (ListAgents auth t)
    with assms show ?thesis
      by (auto simp: reading list_agents_def agents split: sum.splits option.splits)
  next
    case (GetAgent auth i)
    with assms show ?thesis
      by (auto simp: reading get_agent_def agent_columns dest!: find_row_SomeD split: sum.splits option.splits)
  next
    case (GetCurrentAgent auth)
    with assms show ?thesis
      by (auto simp: reading require_agent_def authenticate_agent_by_api_key_def bearer_token agent_columns
          dest!: find_row_SomeD dest: active split: sum.splits option.splits if_splits)
  next
    case (ListToolServers auth t)
    with assms show ?thesis
      by (auto simp: reading list_tool_servers_def items split: sum.splits option.splits)
  next
    case (ListToolDefinitions auth t s)
    with assms show ?thesis
      by (auto simp: reading list_tool_definitions_def items dest!: find_row_SomeD split: sum.splits option.splits)
  next
    case (ListApprovals auth s t n)
    with assms show ?thesis
      by (cases n) (auto simp: reading approvals Let_def items split: sum.splits if_splits)
  qed simp_all
qed


lemma serve_handled:
  assumes "serve h st client req w = (Inr x, w')"
  obtains w1 where "handle h st client req (w\<lparr>w_db := w_committed w\<rparr>) = (Inr x, w1)" "w' = rollback w1"
  using assms by (auto simp: serve_def with_session_def split: prod.splits)

lemma answer_conforms:
  assumes "handle h st client req w = (Inr x, w')"
  shows "conforms (response_model req) (render isoformat x)"
proof (rule answers_conforming)
  have "wp (handle h st client req) (\<lambda>x s. True \<and> answers req x) (\<lambda>_ _. True) w"
    using handle_answers [of h st client req] by (simp add: keeps_def)
  with assms show "answers req x" by (simp add: wp_def)
qed

text \<open>C19: What a reading request answers is what the committed rows hold: the body has, under the
  fields of the route's response model, the columns of the same names of the selected rows and no
  other value: the agents or servers of the tenant in table order, the agent of the identifier, the
  agent whose key the caller presented, the tools of the server of that name, and the approvals of
  the requested status and tenant, oldest first and cut at the limit. The body of every answer is
  an instance of the model its route declares.\<close>

theorem reads_answer_stored_columns:
  assumes "serve h st client req w = (Inr x, w')"
  shows "tells isoformat h st (w_committed w) req (render isoformat x)
    \<and> conforms (response_model req) (render isoformat x)"
  using assms
proof (rule serve_handled)
  fix w1 assume run: "handle h st client req (w\<lparr>w_db := w_committed w\<rparr>) = (Inr x, w1)"
  from tells_handle [OF run] answer_conforms [OF run] show ?thesis by simp
qed

lemma listed_agents: "fst (serve sample_host sample_settings None (ListAgents root 100) (settled_world waiting_db))
    = Inr (AgentsAre [bot_dto])"
  by code_simp

lemma reads_answer_stored_columns_witness:
  "render (\<lambda>t. ''2026-07-01'') (AgentsAre [bot_dto])
    = row_objects (\<lambda>t. ''2026-07-01'') AgentResponse [agent_cells bot_row]"
proof -
  obtain w' where "serve sample_host sample_settings None (ListAgents root 100) (settled_world waiting_db)
      = (Inr (AgentsAre [bot_dto]), w')" using listed_agents by (metis prod.collapse)
  from reads_answer_stored_columns [OF this, of "\<lambda>t. ''2026-07-01''"] show ?thesis
    by (simp add: waiting_db_def idle_db_def bot_row_def)
qed

section \<open>Writing requests\<close>

text \<open>
  \<open>stored_as isoformat h st d d' req v\<close>: the writing request has turned the rows \<open>d\<close> into \<open>d'\<close> as
  it says, and the body \<open>v\<close> shows the row as it is stored. A new row has the values that were
  sent under the fields of the request model; a changed tool has those that were sent and are not
  null, and else its old ones.
\<close>

definition patched ::
  "(datetime \<Rightarrow> string) \<Rightarrow> json_object \<Rightarrow> tool_definition_row \<Rightarrow> tool_definition_row \<Rightarrow> bool" where
  "patched isoformat sent_fields row row' \<longleftrightarrow>
     column_values isoformat ToolDefinitionUpdateRequest (tool_definition_cells row')
      = map (\<lambda>((n, old), (k, sent)). (n, if sent = PNone then old else sent))
          (zip (column_values isoformat ToolDefinitionUpdateRequest (tool_definition_cells row)) sent_fields)
   \<and> row' = row\<lparr>td_risk_level := td_risk_level row', td_action_type := td_action_type row',
        td_status := td_status row', td_description := td_description row', td_updated_at := td_updated_at row'\<rparr>"

fun stored_as :: "(datetime \<Rightarrow> string) \<Rightarrow> host \<Rightarrow> settings \<Rightarrow> db \<Rightarrow> db \<Rightarrow> api_request \<Rightarrow> pyval \<Rightarrow> bool" where
  "stored_as isoformat h st d d' (PostAgent auth t n r) v \<longleftrightarrow> (\<exists>row key. db_agents d' = db_agents d @ [row]
    \<and> column_values isoformat AgentCreateRequest (agent_cells row) = body_inputs (PostAgent auth t n r)
    \<and> ag_status row = ''active'' \<and> ag_api_key_hash row = hash_api_key h key (api_key_pepper st)
    \<and> v = PDict (column_values isoformat AgentResponse (agent_cells row) @ [(''api_key'', PStr key)]))"
| "stored_as isoformat h st d d' (DisableAgent auth i) v \<longleftrightarrow> (\<exists>row \<in> set (db_agents d). \<exists>row' \<in> set (db_agents d').
    ag_id row = i \<and> ag_status row' = ''disabled''
    \<and> row' = row\<lparr>ag_status := ag_status row', ag_updated_at := ag_updated_at row'\<rparr>
    \<and> v = PDict (column_values isoformat AgentResponse (agent_cells row')))"
| "stored_as isoformat h st d d' (PostToolServer auth body) v \<longleftrightarrow> (\<exists>row. db_tool_servers d' = db_tool_servers d @ [row]
    \<and> column_values isoformat ToolServerCreateRequest (tool_server_cells row) = body_inputs (PostToolServer auth body)
    \<and> ts_status row = ''active''
    \<and> v = PDict (column_values isoformat ToolServerResponse (tool_server_cells row)))"
| "stored_as isoformat h st d d' (PatchToolDefinition auth i body) v \<longleftrightarrow>
    (\<exists>row \<in> set (db_tool_definitions d). \<exists>row' \<in> set (db_tool_definitions d'). td_id row = i
    \<and> patched isoformat (body_inputs (PatchToolDefinition auth i body)) row row'
    \<and> v = PDict (column_values isoformat ToolDefinitionResponse (tool_definition_cells row')))"
| "stored_as isoformat h st d d' _ v \<longleftrightarrow> True"

lemma wp_created_server:
  "wp (create_tool_server h body) (\<lambda>row w'. db_tool_servers (w_db w') = db_tool_servers (w_db w) @ [row]
    \<and> column_values isoformat ToolServerCreateRequest (tool_server_cells row) = body_inputs (PostToolServer auth body)
    \<and> ts_status row = ''active'') anyhow w"
  by (auto simp: create_tool_server_def tenant_get_by_id_def tool_server_create_def wp_simps Let_def
      insert_tool_server_def checked_def ToolServerCreateRequest_def tool_server_cells_def cell_at_def
      json_uuid_def or_null_def json_opt_def split: option.splits)

lemma wp_disabled_agent:
  "wp (disable_agent h i) (\<lambda>a w'. \<exists>row \<in> set (db_agents (w_db w)). \<exists>row' \<in> set (db_agents (w_db w')).
    ag_id row = i \<and> ag_status row' = ''disabled''
    \<and> row' = row\<lparr>ag_status := ag_status row', ag_updated_at := ag_updated_at row'\<rparr> \<and> to_dto row' = Inr a) anyhow w"
proof (cases "find_row (\<lambda>r. ag_id r = i) (db_agents (w_db w))")
  case None
  then show ?thesis by (simp add: disable_agent_def agent_disable_def agent_get_by_id_def wp_simps)
next
  case (Some r)
  let ?change = "\<lambda>t x. x\<lparr>ag_status := ''disabled'', ag_updated_at := t\<rparr>"
  have r: "r \<in> set (db_agents (w_db w))" "ag_id r = i" using Some by (auto dest: find_row_SomeD)
  then have mem: "?change t r \<in> set (update_rows (\<lambda>x. ag_id x = i) (?change t) (db_agents (w_db w)))" for t
    by (force simp: update_rows_def)
  have changed: "\<exists>row \<in> set (db_agents (w_db w)). \<exists>row' \<in> set (update_rows (\<lambda>x. ag_id x = i) (?change t) (db_agents (w_db w))).
      ag_id row = i \<and> ag_status row' = ''disabled''
    \<and> row' = row\<lparr>ag_status := ag_status row', ag_updated_at := ag_updated_at row'\<rparr> \<and> to_dto row' = Inr a"
    if "to_dto (?change t r) = Inr a" for t a
    using r mem that by (intro bexI [of _ r] bexI [of _ "?change t r"]) simp_all
  have same: "\<exists>row \<in> set (db_agents (w_db w)). \<exists>row' \<in> set (db_agents (w_db w)). ag_id row = i \<and> ag_status row' = ''disabled''
    \<and> row' = row\<lparr>ag_status := ag_status row', ag_updated_at := ag_updated_at row'\<rparr> \<and> to_dto row' = Inr a"
    if "r\<lparr>ag_status := ''disabled''\<rparr> = r" "to_dto r = Inr a" for a
    using r that arg_cong [OF that(1), of ag_status] by (intro bexI [of _ r]) simp_all
  show ?thesis
    unfolding disable_agent_def agent_disable_def agent_get_by_id_def
    using r(2) changed same
    by (simp add: wp_simps Let_def Some write_agent_def if_fits_def put_defs split: sum.split)
qed


lemma wp_updated_tool:
  "wp (update_tool_definition h i body) (\<lambda>row' w'. \<exists>row \<in> set (db_tool_definitions (w_db w)).
    row' \<in> set (db_tool_definitions (w_db w')) \<and> td_id row = i
    \<and> patched isoformat (body_inputs (PatchToolDefinition auth i body)) row row') anyhow w"
proof (cases "find_row (\<lambda>r. td_id r = i) (db_tool_definitions (w_db w))")
  case None
  then show ?thesis by (simp add: update_tool_definition_def tool_definition_get_by_id_def wp_simps)
next
  case (Some row)
  let ?fields = "body_inputs (PatchToolDefinition auth i body)" and ?new = "apply_tool_update body row"
  have row: "row \<in> set (db_tool_definitions (w_db w))" "td_id row = i" using Some by (auto dest: find_row_SomeD)
  have new: "patched isoformat ?fields row ?new" "patched isoformat ?fields row (?new\<lparr>td_updated_at := t\<rparr>)" for t
    by (auto simp: patched_def apply_tool_update_def Let_def ToolDefinitionUpdateRequest_def
        tool_definition_cells_def cell_at_def json_opt_def split: option.split)
  have fixed: "td_id ?new = i" "td_input_schema ?new = td_input_schema row" "td_schema_hash ?new = td_schema_hash row"
    using row(2) by (simp_all add: apply_tool_update_def Let_def split: option.split)
  have mem: "?new\<lparr>td_updated_at := t\<rparr> \<in> set (update_rows (\<lambda>x. td_id x = i)
       (\<lambda>x. x\<lparr>td_description := td_description ?new, td_input_schema := td_input_schema ?new,
              td_risk_level := td_risk_level ?new, td_action_type := td_action_type ?new,
              td_status := td_status ?new, td_schema_hash := td_schema_hash ?new,
              td_updated_at := t\<rparr>) (db_tool_definitions (w_db w)))" for t
    unfolding set_update_rows using row new(2) [of t] fixed
    by (intro image_eqI [of _ _ row]) (auto simp: patched_def)
  show ?thesis
    unfolding update_tool_definition_def tool_definition_get_by_id_def tool_definition_update_def
    using row new fixed(1) mem
    by (auto simp: wp_simps Let_def Some write_tool_definition_def if_fits_def put_defs
        simp del: body_inputs.simps intro!: bexI [of _ row])
qed

lemma agent_added_columns:
  assumes "agent_added h pepper t n r w created w' row"
  shows "column_values isoformat AgentCreateRequest (agent_cells row) = body_inputs (PostAgent auth t n r)
    \<and> render_agent (ca_agent created) = column_values isoformat AgentResponse (agent_cells row)"
proof -
  have dto: "to_dto row = Inr (ca_agent created)" using assms by (simp add: agent_added_def)
  then have "ag_role row = agent_role_value r" "ag_tenant_id row = t" "ag_name row = n"
    using assms by (auto simp: agent_added_def to_dto_def enum_value_of split: option.splits)
  with agent_columns [OF dto] show ?thesis
    by (simp add: AgentCreateRequest_def agent_cells_def cell_at_def json_uuid_def)
qed


lemma wp_committed:
  "wp (committing m) Q anyhow w = wp m (\<lambda>x w'. Q x (w'\<lparr>w_committed := w_db w'\<rparr>)) anyhow w"
proof -
  have "wp commit Q E = (\<lambda>w. Q () (w\<lparr>w_committed := w_db w\<rparr>))" for Q E by (rule ext) (rule wp_commit)
  then show ?thesis by (simp add: committing_def wp_simps)
qed

lemma stored_handle:
  assumes d: "w_db w = d"
  shows "wp (handle h st client req) (\<lambda>x w'. stored_as isoformat h st d (w_committed w') req (render isoformat x))
    anyhow w"
proof (cases req)
  case (PostAgent auth t n r)
  have "wp (create_agent h (api_key_pepper st) t n r)
      (\<lambda>created w'. \<exists>row. agent_added h (api_key_pepper st) t n r w created w' row) anyhow w"
    using wp_created_agent by (rule wp_mono) simp_all
  then have "wp (create_agent h (api_key_pepper st) t n r) (\<lambda>created w'. stored_as isoformat h st d (w_db w')
      (PostAgent auth t n r) (PDict (render_agent (ca_agent created) @ [(''api_key'', PStr (ca_api_key created))]))) anyhow w"
  proof (rule wp_mono)
    fix created w' assume "\<exists>row. agent_added h (api_key_pepper st) t n r w created w' row"
    then obtain row where row: "agent_added h (api_key_pepper st) t n r w created w' row" ..
    from agent_added_columns [OF row, of isoformat auth] row d
    show "stored_as isoformat h st d (w_db w') (PostAgent auth t n r)
        (PDict (render_agent (ca_agent created) @ [(''api_key'', PStr (ca_api_key created))]))"
      by (auto simp: agent_added_def simp del: body_inputs.simps intro!: exI [of _ row] exI [of _ "ca_api_key created"])
  qed simp
  then show ?thesis
    unfolding PostAgent by (simp add: create_agent_route_def admin_def wp_seq wp_lift wp_committed wp_return
        del: stored_as.simps split: sum.split)
next
  case (DisableAgent auth i)
  have "wp (disable_agent h i) (\<lambda>a w'. stored_as isoformat h st d (w_db w') (DisableAgent auth i)
      (PDict (render_agent a))) anyhow w"
    using wp_disabled_agent by (rule wp_mono) (use d agent_columns in fastforce)+
  then show ?thesis
    unfolding DisableAgent by (simp add: disable_agent_route_def admin_def wp_seq wp_lift wp_committed wp_return
        del: stored_as.simps split: sum.split)
next
  case (PostToolServer auth body)
  have "wp (create_tool_server h body) (\<lambda>row w'. \<forall>r. tool_server_response_of row = Inr r \<longrightarrow>
      stored_as isoformat h st d (w_db w') (PostToolServer auth body) (render_tool_server r)) anyhow w"
    using wp_created_server [where h = h and body = body and isoformat = isoformat and auth = auth and w = w]
    by (rule wp_mono) (use d server_columns in \<open>auto simp del: body_inputs.simps\<close>)
  then show ?thesis
    unfolding PostToolServer by (simp add: create_tool_server_route_def admin_def wp_seq wp_lift wp_committed wp_return
        wp_anyhow_lift del: stored_as.simps split: sum.split)
next
  case (PatchToolDefinition auth i body)
  have "wp (update_tool_definition h i body) (\<lambda>row w'. \<forall>r. tool_definition_response_of row = Inr r \<longrightarrow>
      stored_as isoformat h st d (w_db w') (PatchToolDefinition auth i body) (render_tool_definition r)) anyhow w"
    using wp_updated_tool [where h = h and i = i and body = body and isoformat = isoformat and auth = auth and w = w]
    by (rule wp_mono) (use d definition_columns in \<open>fastforce simp del: body_inputs.simps\<close>)+
  then show ?thesis
    unfolding PatchToolDefinition by (simp add: update_tool_definition_route_def admin_def wp_seq wp_lift wp_committed
        wp_return wp_anyhow_lift del: stored_as.simps split: sum.split)
qed (simp_all add: wp_whatever)

text \<open>C20: What a writing request of an administrator stores is what was sent, and what it answers is
  what it stored: a new agent or tool server is one new active row whose columns are the fields of
  the request's body, a disabled agent is the same row disabled, a reclassified tool has the fields
  that were sent and keeps the others; the answer has the columns of that row, as they are
  committed, under the fields of the route's response model, and for a new agent a key of which the
  row holds the keyed hash.\<close>

theorem writes_store_and_answer_columns:
  assumes "serve h st client req w = (Inr x, w')"
  shows "stored_as isoformat h st (w_committed w) (w_committed w') req (render isoformat x)"
  using assms
proof (rule serve_handled)
  fix w1 assume run: "handle h st client req (w\<lparr>w_db := w_committed w\<rparr>) = (Inr x, w1)" and w': "w' = rollback w1"
  have "wp (handle h st client req) (\<lambda>x w'. stored_as isoformat h st (w_committed w) (w_committed w') req
      (render isoformat x)) anyhow (w\<lparr>w_db := w_committed w\<rparr>)"
    by (rule stored_handle) simp
  with run w' show ?thesis by (simp add: wp_def rollback_def del: handle.simps)
qed


lemma writes_store_and_answer_columns_witness:
  "\<exists>row :: agent_row. ag_status row = ''disabled'' \<and> render (\<lambda>t. ''2026-07-01'') (AgentIs (bot_dto\<lparr>dto_status := DISABLED\<rparr>))
    = PDict (column_values (\<lambda>t. ''2026-07-01'') AgentResponse (agent_cells row))"
proof -
  have "fst (serve sample_host sample_settings None (DisableAgent root 2) (settled_world waiting_db))
      = Inr (AgentIs (bot_dto\<lparr>dto_status := DISABLED\<rparr>))" by code_simp
  then obtain w' where "serve sample_host sample_settings None (DisableAgent root 2) (settled_world waiting_db)
      = (Inr (AgentIs (bot_dto\<lparr>dto_status := DISABLED\<rparr>)), w')" by (metis prod.collapse)
  from writes_store_and_answer_columns [OF this, of "\<lambda>t. ''2026-07-01''"] show ?thesis by fastforce
qed

end
