(* ===== verification/Atomicity_Limits.thy ===== *)
theory Atomicity_Limits
  imports Review_Liveness
begin

text \<open>
  Where the atomicity of a request ends. The session covers the rows and nothing else: a call
  sent to an MCP server is not taken back when the request fails, so that an approval may be
  executed again; and the rolled back rows include the audit event of a failed lookup.
  Arguments whose canonical text has no UTF-8 encoding end a request before either.
\<close>

section \<open>An approved call that is sent again\<close>

lemma find_by_keys:
  assumes "distinct (map key t)" and "r \<in> set t" and "\<And>x. p x \<longleftrightarrow> key x = key r"
  shows "find_row p t = Some r"
proof -
  have "p = (\<lambda>x. key x = key r)" using assms(3) by blast
  with distinct_map_find_row [OF assms(1,2)] show ?thesis by simp
qed

text \<open>The unique keys by which the servers and tools are looked up.\<close>

definition tool_keys_ok :: "db \<Rightarrow> bool" where
  "tool_keys_ok d \<longleftrightarrow> distinct (map (\<lambda>x. (ts_tenant_id x, ts_server_id x)) (db_tool_servers d))
     \<and> distinct (map (\<lambda>x. (td_tenant_id x, td_server_id x, td_tool_name x)) (db_tool_definitions d))"

lemma tool_keys: "db_inv d \<Longrightarrow> tool_keys_ok d"
  by (simp add: inv_defs tool_keys_ok_def)

lemma tool_keys_effects [simp]:
  "tool_keys_ok (add_audits evs d) = tool_keys_ok d" "tool_keys_ok (set_approval a d) = tool_keys_ok d"
  by (simp_all add: tool_keys_ok_def row_effect_defs)

lemma approved_lookups:
  assumes "tool_keys_ok d" and "approved_event d a c (ToolCalled server tool arguments)"
  shows "find_row (\<lambda>r. ts_tenant_id r = ap_tenant_id a \<and> ts_server_id r = ap_target_server a)
      (db_tool_servers d) = Some server"
    "find_row (\<lambda>r. td_tenant_id r = ap_tenant_id a \<and> td_server_id r = ts_id server
      \<and> td_tool_name r = ap_target_tool a) (db_tool_definitions d) = Some tool"
proof -
  show "find_row (\<lambda>r. ts_tenant_id r = ap_tenant_id a \<and> ts_server_id r = ap_target_server a)
      (db_tool_servers d) = Some server"
    by (rule find_by_keys [where key = "\<lambda>x. (ts_tenant_id x, ts_server_id x)"])
      (use assms in \<open>auto simp: tool_keys_ok_def approved_event_def\<close>)
  show "find_row (\<lambda>r. td_tenant_id r = ap_tenant_id a \<and> td_server_id r = ts_id server
      \<and> td_tool_name r = ap_target_tool a) (db_tool_definitions d) = Some tool"
    by (rule find_by_keys [where key = "\<lambda>x. (td_tenant_id x, td_server_id x, td_tool_name x)"])
      (use assms in \<open>auto simp: tool_keys_ok_def approved_event_def\<close>)
qed

text \<open>\<open>surely_sends ev m w\<close>: the program sends the event \<open>ev\<close> and no other, however it ends.\<close>

abbreviation surely_sends :: "upstream_event \<Rightarrow> 'a gw \<Rightarrow> world \<Rightarrow> bool" where
  "surely_sends ev m w \<equiv> wp m (\<lambda>_ w'. w_upstream w' = w_upstream w @ [ev])
     (\<lambda>_ w'. w_upstream w' = w_upstream w @ [ev]) w"

lemma wp_quiet_log:
  assumes "\<And>u. keeps (quiet u) m (\<lambda>_. True)" and "w_upstream w = u"
  shows "wp m (\<lambda>_ w'. w_upstream w' = u) (\<lambda>_ w'. w_upstream w' = u) w"
  using wp_quiet [OF assms(1), of w] assms(2) by simp

lemma surely_sends_execute:
  assumes "tool_keys_ok (w_db w)" and c: "look_tool_call (ap_tool_call_id a) (w_db w) = Some c"
    and ev: "approved_event (w_db w) a c ev" and client: "sv_mcp_client srv = Some client"
  shows "surely_sends ev (execute_approved_tool_call h srv a) w"
proof (cases ev)
  case (ToolsListed server)
  with ev show ?thesis by (simp add: approved_event_def)
next
  case (ToolCalled server tool arguments)
  note ev' = ev [unfolded ToolCalled]
  from ev' have parts: "tc_arguments_payload c = Some arguments" "ts_status server = ''active''"
    "td_status tool = ''active''" by (simp_all add: approved_event_def)
  have quiet: "wp (approval_execution_failed h a (Some c) code m) (\<lambda>_ w'. w_upstream w' = u)
      (\<lambda>_ w'. w_upstream w' = u) w1"
    "wp (finish_executed h a c res) (\<lambda>_ w'. w_upstream w' = u) (\<lambda>_ w'. w_upstream w' = u) w1"
    if "w_upstream w1 = u" for code m res u w1
    by (rule wp_quiet_log [OF _ that], rule keeps_intros)+
  show ?thesis
    unfolding execute_approved_tool_call_def tool_server_get_by_server_id_def
      tool_definition_get_by_name_def
    by (auto simp: wp_simps c parts client ToolCalled approved_lookups [OF assms(1) ev']
        active_or_none_def wp_try_upstream_call Let_def intro!: quiet split: sum.split option.split)
qed

lemma wp_approved_audit_total:
  assumes "as_audit_service srv" and "approval_texts_fit a"
    and "h_uuid4 h (w_uuids w) \<notin> ae_event_id ` set (db_audit_events (w_db w))"
    and Q: "\<And>e n k. Q () (w\<lparr>w_uuids := n, w_clock := k, w_db := add_audits [e] (w_db w)\<rparr>)"
  shows "wp (append_approval_audit h srv a None ''approved'' None) Q E w"
proof (rule wp_no_raise)
  show "wp (append_approval_audit h srv a None ''approved'' None) Q anyhow w"
    by (rule wp_append_approval_audit [OF assms(1)]) (rule Q)
  show "\<exists>x w'. append_approval_audit h srv a None ''approved'' None w = (Inr x, w')"
    using assms(1-3)
    by (simp add: append_approval_audit_def append_tool_call_event_def audit_append_def prog_defs
        uuid4_def utc_now_def db_step_def insert_audit_event_def checked_def audit_widths_def
        fits_opt_def fits_def approval_texts_fit_def)
qed

lemma approved_event_transition:
  "approved_event (add_audits [e] (set_approval b d)) (transition_values t n rr a) c ev
    = approved_event d a c ev"
  by (simp add: approved_event_def row_effect_defs split: upstream_event.split)


lemma surely_sends_approve:
  assumes srv: "as_audit_service srv" and client: "sv_mcp_client calls = Some client"
    and await: "awaiting i a c (w_db w)" and keys: "tool_keys_ok (w_db w)"
    and ev: "approved_event (w_db w) a c ev" and time: "h_now h (w_clock w) \<le> ap_expires_at a"
    and fits: "approval_texts_fit a"
    and fresh: "h_uuid4 h (w_uuids w) \<notin> ae_event_id ` set (db_audit_events (w_db w))"
  shows "surely_sends ev (approve_approval h srv (execute_approved_tool_call h calls) i reason) w"
proof -
  let ?a = "\<lambda>t. transition_values t AP_APPROVED (Some reason) a"
  let ?Q = "\<lambda>_ w'. w_upstream w' = w_upstream w @ [ev]"
  let ?w = "w\<lparr>w_clock := Suc (w_clock w)\<rparr>"
  have run: "wp (execute_approved_tool_call h calls (?a t)) ?Q ?Q
      (w\<lparr>w_uuids := k, w_clock := n, w_db := add_audits [e] (set_approval (?a t) (w_db w))\<rparr>)" for t k n e
    using surely_sends_execute [where w = "w\<lparr>w_uuids := k, w_clock := n,
        w_db := add_audits [e] (set_approval (?a t) (w_db w))\<rparr>" and a = "?a t" and c = c and ev = ev
        and srv = calls and client = client and h = h] await keys ev client
    by (simp add: awaiting_def approved_event_transition)
  have audit: "wp (append_approval_audit h srv (?a t) None ''approved'' None)
      (\<lambda>_. wp (execute_approved_tool_call h calls (?a t)) ?Q ?Q) ?Q
      (w\<lparr>w_clock := k, w_db := set_approval (?a t) (w_db w)\<rparr>)" for t k
    by (rule wp_approved_audit_total [OF srv]) (use fits fresh run in \<open>simp_all add: row_effect_defs\<close>)
  have "wp (seq (approval_transition_status h i AP_PENDING AP_APPROVED (Some reason))
        (\<lambda>approved. case approved of
          None \<Rightarrow> raise_p (AppError ApprovalNotPendingError)
        | Some approval' \<Rightarrow>
            seq (append_approval_audit h srv approval' None ''approved'' None) (\<lambda>_.
            execute_approved_tool_call h calls approval'))) ?Q ?Q ?w"
    unfolding wp_seq
    by (rule wp_transition [where a = a]) (use await audit in \<open>simp_all add: awaiting_def wp_seq\<close>)
  with await time show ?thesis
    unfolding approve_approval_def by (simp add: wp_simps(1-6,8-) wp_seq awaiting_def not_less)
qed

text \<open>The approval a failed execution leaves behind is executed again by the next attempt.\<close>

lemma surely_sends_approval:
  assumes inv: "db_inv (w_committed w)" "flows_ok (w_committed w)"
    and admin: "require_admin h st auth = Inr ()"
    and a: "look_approval i (w_committed w) = Some a" "ap_status a = ''pending''"
    and ev: "approved_call (w_committed w) a ev" and time: "h_now h (w_clock w) \<le> ap_expires_at a"
    and fits: "approval_texts_fit a"
    and fresh: "h_uuid4 h (w_uuids w) \<notin> ae_event_id ` set (db_audit_events (w_committed w))"
  shows "w_upstream (snd (serve h st (Some client) (ApproveApproval auth i reason) w)) = w_upstream w @ [ev]"
proof -
  let ?w = "w\<lparr>w_db := w_committed w\<rparr>" and ?Q = "\<lambda>_ w'. w_upstream w' = w_upstream w @ [ev]"
  let ?srv = "fst (build_approval_services st (Some client))"
  let ?calls = "snd (build_approval_services st (Some client))"
  from ev obtain c where "look_tool_call (ap_tool_call_id a) (w_committed w) = Some c"
    "approved_event (w_committed w) a c ev" by (auto simp: approved_call_def)
  then have "wp (approve_approval h ?srv (execute_approved_tool_call h ?calls) i reason) ?Q ?Q ?w"
    using surely_sends_approve [where w = ?w and i = i and a = a and c = c and srv = ?srv
        and calls = ?calls and client = client and ev = ev and h = h and reason = reason]
      inv a time fits fresh db_inv_ids [OF inv(1)] tool_keys [OF inv(1)]
    by (simp add: awaiting_def build_approval_services_def build_tool_call_service_def Let_def)
  then have "wp (handle h st (Some client) (ApproveApproval auth i reason)) ?Q ?Q ?w"
    using admin
    by (simp add: route_defs admin_def committing_def wp_simps wp_commit_fun case_prod_beta)
  then show ?thesis
    by (auto simp: wp_def serve_def with_session_def rollback_def split: prod.splits sum.splits)
qed

text \<open>C38: Atomicity ends at the MCP server. When an approval request fails after its call was
  sent (the client broke with an exception that is not an error of the port, or a statement
  after the call failed), the rows are rolled back and the approval is still pending; the next
  attempt of an administrator within the deadline sends the same call again, to the same tool
  with the same arguments, whatever it answers itself. The hypotheses on the attempt are that
  the texts of the approval fit the audit table and that the audit identifier drawn is new.\<close>

theorem approved_call_may_repeat:
  assumes "db_inv (w_committed w)" and "flows_ok (w_committed w)"
    and "serve h st client (ApproveApproval auth i reason) w = (Inl e, w1)"
    and "w_upstream w1 \<noteq> w_upstream w"
    and "look_approval i (w_committed w) = Some a" and "approval_texts_fit a"
    and "require_admin h st auth' = Inr ()" and "h_now h (w_clock w1) \<le> ap_expires_at a"
    and "h_uuid4 h (w_uuids w1) \<notin> ae_event_id ` set (db_audit_events (w_committed w))"
  shows "\<exists>ev. w_upstream w1 = w_upstream w @ [ev] \<and> approved_call (w_committed w) a ev
    \<and> w_upstream (snd (serve h st (Some client') (ApproveApproval auth' i reason') w1))
      = w_upstream w @ [ev, ev]"
proof -
  have kept: "w_committed w1 = w_committed w"
    by (cases rule: serve_atomic [OF assms(1), of h st client "ApproveApproval auth i reason"])
      (use assms(3) in simp_all)
  have "sent (entitled h st (w_committed w) (ApproveApproval auth i reason)) (w_upstream w) w1"
    using serve_sends [OF assms(1), of h st "ApproveApproval auth i reason" client] assms(3) by simp
  with assms(4,5) obtain ev where ev: "w_upstream w1 = w_upstream w @ [ev]"
    "ap_status a = ''pending''" "approved_call (w_committed w) a ev"
    by (auto simp: sent_def released_call_def)
  have "w_upstream (snd (serve h st (Some client') (ApproveApproval auth' i reason') w1)) = w_upstream w1 @ [ev]"
    by (rule surely_sends_approval) (use assms ev kept in simp_all)
  with ev show ?thesis by simp
qed

lemma serve_raising:
  assumes "wp (handle h st client req) (\<lambda>_ _. False) E (w\<lparr>w_db := w_committed w\<rparr>)"
  shows "\<exists>e w1. serve h st client req w = (Inl e, rollback w1) \<and> E e w1"
  using assms by (auto simp: wp_def serve_def with_session_def split: prod.splits sum.splits)

lemma settled_session: "settled_world d\<lparr>w_db := w_committed (settled_world d)\<rparr> = settled_world d"
  by (simp add: settled_world_def sample_start_def)

text \<open>A client whose first call breaks with an exception that is not an error of the port.\<close>

definition breaking_client :: mcp_client where
  "breaking_client = sample_client\<lparr>mc_call_tool := (\<lambda>n server tool arguments tm.
     if n = 0 then Inl (UncaughtError ''BrokenResourceError'') else Inr [(''echo'', PDict arguments)])\<rparr>"

lemma breaking_review:
  "wp (handle sample_host sample_settings (Some breaking_client) (ApproveApproval root 6 ''fine''))
    (\<lambda>x w'. False) (\<lambda>e w'. w_clock w' = 23 \<and> w_uuids w' = 21
      \<and> w_upstream w' = [ToolCalled calc_row (add_row HIGH) add_arguments]) (settled_world waiting_db)"
  by (simp add: review_route_defs Let_def wp_seq wp_lift wp_commit wp_return)
    (simp add: review_defs wp_simps sample_looks settled_world_def sample_start_def host_simps
      statement_defs waiting_rows wp_try_upstream_call sample_client_def breaking_client_def Let_def)

lemma approved_call_may_repeat_witness:
  "\<exists>ev w1. w_upstream (snd (serve sample_host sample_settings (Some sample_client)
    (ApproveApproval root 6 ''again'') w1)) = [ev, ev]"
proof -
  let ?serve = "serve sample_host sample_settings (Some breaking_client) (ApproveApproval root 6 ''fine'')
    (settled_world waiting_db)"
  obtain e w0 where "?serve = (Inl e, rollback w0)" "w_clock w0 = 23" "w_uuids w0 = 21"
    "w_upstream w0 = [ToolCalled calc_row (add_row HIGH) add_arguments]"
    using serve_raising [of sample_host sample_settings "Some breaking_client" "ApproveApproval root 6 ''fine''" _
        "settled_world waiting_db", unfolded settled_session, OF breaking_review] by blast
  then obtain e w1 where run: "?serve = (Inl e, w1)" "w_clock w1 = 23" "w_uuids w1 = 21"
    "w_upstream w1 = [ToolCalled calc_row (add_row HIGH) add_arguments]"
    by (simp add: rollback_def)
  have "approval_texts_fit waiting_approval" "db_audit_events waiting_db = []"
    "h_now sample_host 23 \<le> ap_expires_at waiting_approval"
    by (simp_all add: approval_texts_fit_def fits_def waiting_rows host_simps)
  from approved_call_may_repeat [OF _ _ run(1), of waiting_approval root sample_client "''again''"] this run
  show ?thesis
    by (auto simp: sample_rows_ok sample_looks root_admin settled_world_def sample_start_def)
qed

section \<open>Failed lookups\<close>

text \<open>The errors with which \<open>call_tool\<close> refuses a call before the policy is asked.\<close>

fun lookup_error :: "app_error \<Rightarrow> bool" where
  "lookup_error (ToolServerNotFoundError t) = True"
| "lookup_error (ToolNotFoundError t) = True"
| "lookup_error (ToolDisabledError t) = True"
| "lookup_error (ArgumentSchemaInvalidError t) = True"
| "lookup_error _ = False"

text \<open>The state of the registry that each of them reports.\<close>

definition server_named :: "db \<Rightarrow> agent_dto \<Rightarrow> tool_call_request \<Rightarrow> tool_server_row \<Rightarrow> bool" where
  "server_named d agent request server \<longleftrightarrow> server \<in> set (db_tool_servers d)
     \<and> ts_tenant_id server = dto_tenant_id agent \<and> ts_server_id server = rq_target_server request"

definition tool_named ::
  "db \<Rightarrow> agent_dto \<Rightarrow> tool_call_request \<Rightarrow> tool_server_row \<Rightarrow> tool_definition_row \<Rightarrow> bool" where
  "tool_named d agent request server tool \<longleftrightarrow> server_named d agent request server
     \<and> tool \<in> set (db_tool_definitions d) \<and> td_tenant_id tool = dto_tenant_id agent
     \<and> td_server_id tool = ts_id server \<and> td_tool_name tool = rq_target_tool request"

fun lookup_failed :: "host \<Rightarrow> db \<Rightarrow> agent_dto \<Rightarrow> tool_call_request \<Rightarrow> app_error \<Rightarrow> bool" where
  "lookup_failed h d agent request (ToolServerNotFoundError t) \<longleftrightarrow>
    (\<nexists>server. server_named d agent request server)"
| "lookup_failed h d agent request (ToolNotFoundError t) \<longleftrightarrow>
    (\<exists>server. server_named d agent request server \<and> ts_status server = ''active''
      \<and> (\<nexists>tool. tool_named d agent request server tool))"
| "lookup_failed h d agent request (ToolDisabledError t) \<longleftrightarrow>
    (\<exists>server. server_named d agent request server \<and> (ts_status server \<noteq> ''active''
      \<or> (\<exists>tool. tool_named d agent request server tool \<and> td_status tool \<noteq> ''active'')))"
| "lookup_failed h d agent request (ArgumentSchemaInvalidError t) \<longleftrightarrow>
    (\<exists>server tool. tool_named d agent request server tool
      \<and> ts_status server = ''active'' \<and> td_status tool = ''active''
      \<and> h_validate h (td_input_schema tool) (rq_arguments request) \<in> {ValidationFails, SchemaFails})"
| "lookup_failed h d agent request _ \<longleftrightarrow> False"


text \<open>
  Programs that raise none of these errors: the statements fail with errors of the database,
  and the services with errors of their own.
\<close>

definition technical :: "exn \<Rightarrow> bool" where
  "technical e \<longleftrightarrow> (\<forall>err. e = AppError err \<longrightarrow> \<not> lookup_error err)"

definition unrefusing :: "'a gw \<Rightarrow> bool" where
  "unrefusing m \<longleftrightarrow> (\<forall>w. wp m (\<lambda>_ _. True) (\<lambda>e _. technical e) w)"

lemma technical_simps [simp]:
  "technical IntegrityError" "technical DataError" "technical ValueError" "technical OverflowError"
  "technical UnicodeEncodeError" "technical ArgumentHashError" "technical (UncaughtError m)"
  "technical (ApiError c m' n)" "technical (AppError err) \<longleftrightarrow> \<not> lookup_error err"
  by (simp_all add: technical_def)

lemma unrefusing_basic:
  "unrefusing (return_p x)" "unrefusing (gets_p f)" "unrefusing (utc_now h)" "unrefusing (uuid4 h)"
  "unrefusing (policy_repository h)" "unrefusing (member_or_raise v)"
  "technical e \<Longrightarrow> unrefusing (raise_p e)"
  by (simp_all add: unrefusing_def wp_simps split: option.split)

lemma unrefusing_lift: "(\<And>e. r = Inl e \<Longrightarrow> technical e) \<Longrightarrow> unrefusing (lift_p r)"
  by (simp add: unrefusing_def wp_simps split: sum.split)

lemma unrefusing_step: "(\<And>d e. f d = Inl e \<Longrightarrow> technical e) \<Longrightarrow> unrefusing (db_step f)"
  by (simp add: unrefusing_def wp_simps split: sum.split)

lemma unrefusing_seq: "unrefusing m \<Longrightarrow> (\<And>x. unrefusing (f x)) \<Longrightarrow> unrefusing (seq m f)"
  unfolding unrefusing_def wp_seq by (blast intro: wp_mono)

lemma unrefusing_cases:
  "unrefusing m \<Longrightarrow> unrefusing m' \<Longrightarrow> unrefusing (if b then m else m')"
  "unrefusing m \<Longrightarrow> (\<And>x. unrefusing (f x)) \<Longrightarrow> unrefusing (case v of None \<Rightarrow> m | Some x \<Rightarrow> f x)"
  by (simp_all split: option.split)

lemmas unrefusing_intros = unrefusing_basic unrefusing_seq unrefusing_cases

lemma unrefusing_writes:
  "unrefusing (db_step (insert_tool_call c))" "unrefusing (db_step (insert_approval a))"
  "unrefusing (db_step (insert_audit_event e))" "unrefusing (db_step (write_tool_call c))"
  by (rule unrefusing_step; auto simp: insert_defs write_tool_call_def if_fits_def checked_def split: if_splits)+

lemma unrefusing_statements:
  "unrefusing (tool_call_create h mk)" "unrefusing (approval_create h mk')"
  "unrefusing (tool_call_update h c r)" "unrefusing (append_tool_call_event h ev)"
  unfolding tool_call_create_def approval_create_def tool_call_update_def append_tool_call_event_def
    audit_append_def create_row_def flush_row_def
  by (rule unrefusing_writes unrefusing_intros)+

lemma unrefusing_audits:
  "unrefusing (append_tool_call_audit h c st)"
  "unrefusing (append_failure_audit h agent request t r k st' code m)"
  unfolding append_tool_call_audit_def append_failure_audit_def
  by (rule unrefusing_statements unrefusing_intros)+

lemma unrefusing_outcomes:
  "unrefusing (idempotent_result c request k t)" "unrefusing (mark_upstream_failed h c code m)"
  "unrefusing (finish_denied h c ev)" "unrefusing (finish_pending h srv agent request c ev)"
  "unrefusing (create_tool_call h agent request t ev payload k')"
  unfolding idempotent_result_def mark_upstream_failed_def finish_denied_def finish_pending_def
    create_pending_approval_def create_tool_call_def approval_get_by_tool_call_id_def
  by (rule unrefusing_statements unrefusing_audits unrefusing_intros unrefusing_lift
      | (simp add: add_seconds_def split: if_splits; fail) | simp)+


text \<open>
  \<open>audited u d agent request\<close>: an error for a call that sent nothing is technical, or it is
  a lookup error that the rows account for, and the session has its audit event.
\<close>

definition audited ::
  "host \<Rightarrow> upstream_event list \<Rightarrow> db \<Rightarrow> agent_dto \<Rightarrow> tool_call_request \<Rightarrow> exn \<Rightarrow> world \<Rightarrow> bool" where
  "audited h u d agent request e w \<longleftrightarrow> w_upstream w \<noteq> u \<or> technical e
     \<or> (\<exists>err ev. e = AppError err \<and> lookup_failed h d agent request err \<and> w_db w = add_audits [ev] d
         \<and> ae_status ev = ''failed'' \<and> ae_error_code ev = Some (app_error_code err))"

lemma audited_technical: "unrefusing m \<Longrightarrow> wp m (\<lambda>_ _. True) (audited h u d agent request) w"
  unfolding unrefusing_def by (erule allE, erule wp_mono) (simp_all add: audited_def)

lemma audited_failure:
  assumes "w_db w = d" and "lookup_failed h d agent request err" and "app_error_code err = code"
  shows "wp (append_failure_audit h agent request t r k ''failed'' code m)
    (\<lambda>_. audited h u d agent request (AppError err)) (audited h u d agent request) w"
proof -
  have "wp (append_failure_audit h agent request t r k ''failed'' code m)
      (\<lambda>_. audited h u d agent request (AppError err)) anyhow w"
    unfolding append_failure_audit_def wp_seq wp_return
    by (rule wp_append_event) (use assms in \<open>auto simp: audited_def\<close>)
  with audited_technical [OF unrefusing_audits(2), of h agent request t r k "''failed''" code m h u d agent request w]
  show ?thesis by (simp add: wp_def split: prod.splits sum.splits)
qed

lemma audited_finish_allowed:
  assumes "w_upstream w = u"
  shows "wp (finish_allowed h srv server tool request c) (\<lambda>_ _. True) (audited h u d agent request) w"
proof (cases "sv_mcp_client srv")
  case None
  then show ?thesis
    unfolding finish_allowed_def by (simp add: audited_technical unrefusing_outcomes)
next
  case (Some client)
  have sent: "wp m (\<lambda>_ _. True) (audited h u d agent request) w'"
    if "\<And>v. keeps (quiet v) m (\<lambda>_. True)" "w_upstream w' \<noteq> u" for m :: "tool_call_result gw" and w'
    using wp_quiet [OF that(1), of w'] by (rule wp_mono) (use that(2) in \<open>simp_all add: audited_def\<close>)
  have quiet: "keeps (quiet v) (case outcome of
      Inl cm \<Rightarrow> mark_upstream_failed h c (fst cm) (snd cm)
    | Inr upstream_result \<Rightarrow> seq (tool_call_update h c
        (c\<lparr>tc_status := tool_call_status_value TC_SUCCEEDED\<rparr>)) (\<lambda>done_call.
      seq (append_tool_call_audit h done_call None) (\<lambda>_.
      return_p \<lparr>tr_tool_call_id = tc_id done_call, tr_status = TC_SUCCEEDED,
        tr_policy_decision = Some ALLOW, tr_reason = None, tr_approval_id = None,
        tr_result = Some upstream_result, tr_error = None\<rparr>))) (\<lambda>_. True)" for outcome v
    by (rule TrueI keeps_quiet_statements keeps_quiet_calls keeps_intros)+
  have "wp (seq (try_upstream (upstream_call_tool client server tool arguments tm)) f) (\<lambda>_ _. True)
      (audited h u d agent request) w"
    if "\<And>outcome v. keeps (quiet v) (f outcome) (\<lambda>_. True)"
    for arguments tm and f :: "_ \<Rightarrow> tool_call_result gw"
    unfolding wp_seq
    by (auto simp: wp_try_upstream_call Let_def assms audited_def [of h u d agent request e for e]
        intro!: sent that split: sum.split option.split)
  then show ?thesis
    unfolding finish_allowed_def Some option.case using quiet .
qed

lemma audited_dispatch_call:
  assumes "w_upstream w = u"
  shows "wp (dispatch_call h srv agent request t server tool) (\<lambda>_ _. True) (audited h u d agent request) w"
proof -
  have stored: "wp (create_tool_call h agent request t ev payload k)
      (\<lambda>c. wp (if pr_decision ev = DENY then finish_denied h c ev
        else if pr_decision ev = REQUIRE_APPROVAL then finish_pending h srv agent request c ev
        else finish_allowed h srv server tool request c) (\<lambda>_ _. True) (audited h u d agent request))
      (audited h u d agent request) w'" if "w_upstream w' = u" for ev payload k w'
  proof -
    have "wp (create_tool_call h agent request t ev payload k) (\<lambda>_ w'. w_upstream w' = u) anyhow w'"
      by (rule wp_with_quiet [OF wp_whatever keeps_quiet_calls(4)]) (use that in simp_all)
    with audited_technical [OF unrefusing_outcomes(5), of h agent request t ev payload k h u d agent request w']
    show ?thesis
      by (auto simp: wp_def [of "create_tool_call h agent request t ev payload k"] audited_finish_allowed
          audited_technical unrefusing_outcomes split: prod.splits sum.splits)
  qed
  have technical: "audited h u d agent request e w" if "technical e" for e w
    using that by (simp add: audited_def)
  show ?thesis
    unfolding dispatch_call_def wp_seq wp_member_or_raise
    by (auto intro!: wp_policy_repository_evaluate stored technical simp: assms split: option.split)
qed

lemma audited_call_tool:
  assumes "w_upstream w = u" and d: "w_db w = d"
  shows "wp (call_tool h srv agent request) (\<lambda>_ _. True) (audited h u d agent request) w"
proof -
  have technical: "audited h u d agent request e w" if "technical e" for e w
    using that by (simp add: audited_def)
  have hash: "technical e" if "canonical_arguments_hash enc sha fr a = Inl e" for e enc sha fr a
    using that by (cases rule: canonical_arguments_hash_cases [of enc sha fr a]) simp_all
  have replay: "wp (idempotent_result c request k t) (\<lambda>_ _. True) (audited h u d agent request) w'" for c k t w'
    by (rule audited_technical [OF unrefusing_outcomes(1)])
  let ?server = "find_row (\<lambda>r. ts_tenant_id r = dto_tenant_id agent \<and> ts_server_id r = rq_target_server request)
    (db_tool_servers d)"
  let ?tool = "\<lambda>s. find_row (\<lambda>r. td_tenant_id r = dto_tenant_id agent \<and> td_server_id r = ts_id s
    \<and> td_tool_name r = rq_target_tool request) (db_tool_definitions d)"
  have lost: "lookup_failed h d agent request (ToolServerNotFoundError t)" if "?server = None" for t
    using that by (auto simp: find_row_None_iff server_named_def)
  have named: "server_named d agent request s" if "?server = Some s" for s
    using that by (auto simp: server_named_def dest: find_row_SomeD)
  have tool: "tool_named d agent request s x" if "?server = Some s" "?tool s = Some x" for s x
    using that named by (auto simp: tool_named_def dest: find_row_SomeD)
  have none: "\<not> tool_named d agent request s x" if "?tool s = None" for s x
    using that by (auto simp: find_row_None_iff tool_named_def)
  have failed: "?server = Some s \<Longrightarrow> ts_status s \<noteq> ''active'' \<Longrightarrow> lookup_failed h d agent request (ToolDisabledError t)"
    "?server = Some s \<Longrightarrow> ts_status s = ''active'' \<Longrightarrow> ?tool s = None \<Longrightarrow>
      lookup_failed h d agent request (ToolNotFoundError t)"
    "?server = Some s \<Longrightarrow> ?tool s = Some x \<Longrightarrow> td_status x \<noteq> ''active'' \<Longrightarrow>
      lookup_failed h d agent request (ToolDisabledError t)"
    "?server = Some s \<Longrightarrow> ?tool s = Some x \<Longrightarrow> ts_status s = ''active'' \<Longrightarrow> td_status x = ''active'' \<Longrightarrow>
      h_validate h (td_input_schema x) (rq_arguments request) \<in> {ValidationFails, SchemaFails} \<Longrightarrow>
      lookup_failed h d agent request (ArgumentSchemaInvalidError t)" for s x t
    using named tool none by (simp_all only: lookup_failed.simps) blast+
  show ?thesis
    unfolding call_tool_def tool_server_get_by_server_id_def tool_definition_get_by_name_def
      tool_call_get_by_idempotency_key_def arguments_match_schema_def Let_def
    by (auto simp: wp_simps assms simp del: lookup_failed.simps dest: hash
        intro!: technical replay audited_dispatch_call audited_failure lost intro: failed
        split: option.split sum.split validation.split)
qed


lemma unrefusing_require_agent: "unrefusing (require_agent h st auth)"
  unfolding require_agent_def authenticate_agent_by_api_key_def agent_get_by_api_key_hash_def
  by (rule unrefusing_intros unrefusing_lift
      | (auto simp: extract_bearer_token_def unauthenticated_def Let_def to_dto_def
          split: option.splits if_splits list.splits; fail) | simp)+

lemma audited_handle:
  assumes d: "w_db w = d" and u: "w_upstream w = u"
  shows "wp (handle h st client (PostToolCall auth body)) (\<lambda>_ _. True)
    (\<lambda>e w'. technical e \<or> (\<exists>agent. caller h st d auth agent \<and> audited h u d agent body e w')) w"
proof -
  let ?E = "\<lambda>e w'. technical e \<or> (\<exists>agent. caller h st d auth agent \<and> audited h u d agent body e w')"
  let ?call = "\<lambda>agent. call_tool h (build_tool_call_service st client) agent body"
  have call: "wp (seq (committing (?call agent)) (\<lambda>r. return_p (ToolCallAnswer r))) (\<lambda>_ _. True) ?E w"
    if "caller h st d auth agent" for agent
  proof -
    have "wp (?call agent) (\<lambda>_ _. True) ?E w"
      by (rule wp_mono [OF audited_call_tool [OF u d, of h _ agent body]]) (use that in blast)+
    then show ?thesis
      by (simp add: committing_def wp_simps wp_commit_fun)
  qed
  have "wp (require_agent h st auth) (\<lambda>agent w'. caller h st d auth agent \<and> w' = w) anyhow w"
    by (rule wp_require_agent) (simp_all add: d)
  moreover have "wp (require_agent h st auth) (\<lambda>_ _. True) (\<lambda>e _. technical e) w"
    using unrefusing_require_agent by (simp add: unrefusing_def)
  ultimately have "wp (require_agent h st auth) (\<lambda>agent w'. caller h st d auth agent \<and> w' = w) ?E w"
    by (simp add: wp_def split: prod.splits sum.splits)
  then show ?thesis
    unfolding handle.simps call_tool_route_def wp_seq [of "require_agent h st auth"]
    by (rule wp_mono) (auto intro: call)
qed

text \<open>C39: The audit event of a failed lookup does not survive the request. When a tool call ends
  with an error of its lookup (server or tool missing or disabled, arguments not of the schema)
  before anything was sent, the committed registry is in the state that the error reports, and
  the request's session held, at its end, the committed rows and one audit event of status
  failed with the code of that error; but the route commits only when the service returns, so
  that the event is rolled back and no committed row tells of the attempt.\<close>

theorem failed_lookup_is_not_audited:
  assumes "db_inv (w_committed w)"
    and "serve h st client (PostToolCall auth body) w = (Inl (AppError err), w')"
    and "lookup_error err" and "w_upstream w' = w_upstream w"
  shows "\<exists>agent ev w1. caller h st (w_committed w) auth agent
    \<and> lookup_failed h (w_committed w) agent body err
    \<and> handle h st client (PostToolCall auth body) (w\<lparr>w_db := w_committed w\<rparr>) = (Inl (AppError err), w1)
    \<and> w_db w1 = add_audits [ev] (w_committed w) \<and> ae_status ev = ''failed''
    \<and> ae_error_code ev = Some (app_error_code err)
    \<and> w' = rollback w1 \<and> w_committed w' = w_committed w"
proof -
  let ?w = "w\<lparr>w_db := w_committed w\<rparr>"
  from assms(2) obtain w1 where run: "handle h st client (PostToolCall auth body) ?w = (Inl (AppError err), w1)"
    and w': "w' = rollback w1"
    by (auto simp: serve_def with_session_def split: prod.splits)
  have kept: "w_committed w' = w_committed w"
    by (cases rule: serve_atomic [OF assms(1), of h st client "PostToolCall auth body"])
      (use assms(2) in simp_all)
  have "wp (handle h st client (PostToolCall auth body)) (\<lambda>_ _. True)
    (\<lambda>e w'. technical e \<or> (\<exists>agent. caller h st (w_committed w) auth agent
      \<and> audited h (w_upstream w) (w_committed w) agent body e w')) ?w"
    by (rule audited_handle) simp_all
  with run assms(3,4) obtain agent where "caller h st (w_committed w) auth agent"
    "audited h (w_upstream w) (w_committed w) agent body (AppError err) w1"
    by (auto simp: wp_def)
  with assms(3,4) w' run kept show ?thesis
    by (auto simp: audited_def rollback_def)
qed

text \<open>A call to a server that is not registered.\<close>

definition lost_request :: tool_call_request where
  "lost_request = add_request\<lparr>rq_target_server := ''nowhere'', rq_idempotency_key := None\<rparr>"

lemma lost_run:
  "wp (handle sample_host sample_settings None (PostToolCall agent_key lost_request)) (\<lambda>_ _. False)
    (\<lambda>e w'. e = AppError (ToolServerNotFoundError (Some ''t1'')) \<and> w_upstream w' = [])
    (settled_world waiting_db)"
proof -
  have auth: "require_agent sample_host sample_settings agent_key (settled_world waiting_db)
      = (Inr bot_dto, settled_world waiting_db)" by code_simp
  have request: "rq_arguments lost_request = add_arguments" "rq_target_server lost_request = ''nowhere''"
    "rq_target_tool lost_request = ''add''" "rq_trace_id lost_request = Some ''t1''"
    "rq_idempotency_key lost_request = None"
    by (simp_all add: lost_request_def)
  have "wp (require_agent sample_host sample_settings agent_key) Q E (settled_world waiting_db)
      = Q bot_dto (settled_world waiting_db)" for Q E
    by (simp add: wp_def auth)
  moreover have "wp (call_tool sample_host (build_tool_call_service sample_settings None) bot_dto lost_request)
      Q (\<lambda>e w'. e = AppError (ToolServerNotFoundError (Some ''t1'')) \<and> w_upstream w' = [])
      (settled_world waiting_db)" for Q
    using hash_add
    by (simp add: call_tool_def wp_simps Let_def request redacted_add tool_server_get_by_server_id_def
        find_row_def append_failure_audit_def statement_defs settled_world_def sample_start_def
        waiting_db_def idle_db_def calc_row_def add_hash_def)
  ultimately show ?thesis
    by (simp add: call_tool_route_def committing_def wp_simps)
qed

lemma failed_lookup_is_not_audited_witness:
  "\<exists>ev. w_db (snd (handle sample_host sample_settings None (PostToolCall agent_key lost_request)
    (settled_world waiting_db))) = add_audits [ev] waiting_db \<and> ae_error_code ev = Some ''tool_server_not_found''"
proof -
  obtain w0 where "serve sample_host sample_settings None (PostToolCall agent_key lost_request)
      (settled_world waiting_db) = (Inl (AppError (ToolServerNotFoundError (Some ''t1''))), rollback w0)"
    "w_upstream w0 = []"
    using serve_raising [of sample_host sample_settings None "PostToolCall agent_key lost_request" _
        "settled_world waiting_db", unfolded settled_session, OF lost_run] by blast
  from failed_lookup_is_not_audited [OF _ this(1)] this(2) obtain ev w1
    where "handle sample_host sample_settings None (PostToolCall agent_key lost_request)
      (settled_world waiting_db) = (Inl (AppError (ToolServerNotFoundError (Some ''t1''))), w1)"
      "w_db w1 = add_audits [ev] waiting_db" "ae_error_code ev = Some ''tool_server_not_found''"
    by (auto simp: sample_rows_ok rollback_def simp del: handle.simps)
  then show ?thesis by (intro exI [of _ ev]) (simp del: handle.simps)
qed

section \<open>Arguments without a UTF-8 encoding\<close>

lemma require_agent_caller:
  assumes "db_inv (w_db w)" and "caller h st (w_db w) auth agent"
  shows "require_agent h st auth w = (Inr agent, w)"
proof -
  from assms(2) obtain token row where row: "extract_bearer_token auth = Inr token"
    "row \<in> set (db_agents (w_db w))" "ag_api_key_hash row = hash_api_key h token (api_key_pepper st)"
    "ag_status row \<noteq> ''disabled''" "to_dto row = Inr agent" by (auto simp: caller_def)
  moreover have "find_row (\<lambda>r. ag_api_key_hash r = ag_api_key_hash row) (db_agents (w_db w)) = Some row"
    using assms(1) row(2) distinct_map_find_row [of ag_api_key_hash "db_agents (w_db w)" row]
    by (simp add: inv_defs)
  ultimately show ?thesis
    by (simp add: require_agent_def authenticate_agent_by_api_key_def agent_get_by_api_key_hash_def prog_defs)
qed

text \<open>C40: A tool call whose arguments are JSON, but whose canonical text has no UTF-8 encoding
  (it contains a lone surrogate), is neither audited nor denied: the hash computed at
  the start of \<open>call_tool\<close> raises, no handler names the exception, and the authenticated agent
  gets an answer 500. Nothing is stored or sent, whatever the tool, the policies and the key of
  the request.\<close>

theorem unencodable_arguments_raise:
  assumes "db_inv (w_committed w)" and "caller h st (w_committed w) auth agent"
    and "json_dumps (h_float_repr h) (PDict (rq_arguments body)) = Some s"
    and "\<not> h_encodable h s"
  shows "\<exists>n. serve h st client (PostToolCall auth body) w
      = (Inl UnicodeEncodeError, w\<lparr>w_uuids := n, w_db := w_committed w\<rparr>)
    \<and> answer_status (PostToolCall auth body) (Inl UnicodeEncodeError) = 500"
proof -
  let ?w = "w\<lparr>w_db := w_committed w\<rparr>"
  have hash: "canonical_arguments_hash (h_encodable h) (h_sha256 h) (h_float_repr h) (rq_arguments body)
      = Inl UnicodeEncodeError"
    using assms(3,4) by (simp add: canonical_arguments_hash_def encode_utf8_def del: json_dumps.simps)
  have "require_agent h st auth ?w = (Inr agent, ?w)"
    by (rule require_agent_caller) (use assms(1,2) in simp_all)
  then show ?thesis
    by (auto simp: serve_def with_session_def call_tool_route_def committing_def call_tool_def seq_def
        return_p_def lift_p_def uuid4_def hash Let_def rollback_def answer_status_def error_handler_def
        intro: exI [of _ "w_uuids w"] split: option.split)
qed


text \<open>On the sample host the byte 255 stands for a character without an encoding.\<close>

definition unencodable_request :: tool_call_request where
  "unencodable_request = add_request\<lparr>rq_arguments := [(''a'', PStr [CHR 0xFF])]\<rparr>"

lemma unencodable_arguments_raise_witness:
  "fst (serve sample_host sample_settings (Some sample_client) (PostToolCall agent_key unencodable_request)
    (settled_world waiting_db)) = Inl UnicodeEncodeError"
proof -
  have "extract_bearer_token agent_key = Inr ''msgw_key0000''"
    "hash_api_key sample_host ''msgw_key0000'' (api_key_pepper sample_settings) = ''pepper/msgw_key0000''"
    "to_dto bot_row = Inr bot_dto" by code_simp+
  then have "caller sample_host sample_settings waiting_db agent_key bot_dto"
    by (auto simp: caller_def waiting_db_def idle_db_def bot_row_def)
  moreover have "case json_dumps (h_float_repr sample_host) (PDict (rq_arguments unencodable_request)) of
      None \<Rightarrow> False | Some s \<Rightarrow> \<not> h_encodable sample_host s" by code_simp
  then obtain s where "json_dumps (h_float_repr sample_host) (PDict (rq_arguments unencodable_request)) = Some s"
    "\<not> h_encodable sample_host s" by (auto split: option.splits simp del: json_dumps.simps)
  ultimately show ?thesis
    using unencodable_arguments_raise [of "settled_world waiting_db" sample_host sample_settings agent_key
        bot_dto unencodable_request s "Some sample_client"]
    by (auto simp: sample_rows_ok simp del: json_dumps.simps)
qed

end
