(* ===== verification/Demo_Seed.thy ===== *)
theory Demo_Seed
  imports Gateway_Sample
begin

text \<open>
  The bootstrap script \<open>examples/demo_seed.py\<close>: there is no API that creates a tenant, so it stores a
  tenant and its first agent in one transaction of its own and prints the agent's API key. Its rows
  are those the gateway starts from: it keeps the invariants of the database, leaves tool calls and
  approvals alone, and the printed key is accepted by the gateway.
\<close>

section \<open>The script\<close>

text \<open>
  The two arguments are the options as \<open>argparse\<close> reads them. The default of the tenant's name is
  computed in any case.
\<close>

definition default_tenant_name :: "uuid \<Rightarrow> string" where
  "default_tenant_name u = ''demo-tenant-'' @ take 8 (hex_str 32 (unat u))"

definition seed_rows ::
  "host \<Rightarrow> settings \<Rightarrow> string \<Rightarrow> string \<Rightarrow> (tenant_row \<times> created_agent_dto) gw" where
  "seed_rows h st tenant_name agent_name =
     seq (tenant_create h (\<lambda>i created updated. \<lparr>tn_id = i, tn_name = tenant_name,
        tn_status = entity_status_value ACTIVE, tn_created_at = created, tn_updated_at = updated\<rparr>))
     (\<lambda>tenant. seq (create_agent h (api_key_pepper st) (tn_id tenant) agent_name AGENT)
     (\<lambda>created. return_p (tenant, created)))"

definition seed_report :: "tenant_row \<Rightarrow> created_agent_dto \<Rightarrow> string list" where
  "seed_report tenant created =
    [''Demo seed created:'', ''TENANT_ID='' @ uuid_str (tn_id tenant),
     ''AGENT_ID='' @ uuid_str (dto_id (ca_agent created)), ''AGENT_API_KEY='' @ ca_api_key created,
     ''Store the agent API key securely; it is shown only by this demo helper.'']"

definition demo_seed :: "host \<Rightarrow> settings \<Rightarrow> string option \<Rightarrow> string option \<Rightarrow> string list gw" where
  "demo_seed h st tenant_arg agent_arg =
    seq (uuid4 h) (\<lambda>u.
    let tenant_name = (case tenant_arg of None \<Rightarrow> default_tenant_name u | Some n \<Rightarrow> n);
        agent_name = (case agent_arg of None \<Rightarrow> ''demo-agent'' | Some n \<Rightarrow> n)
    in seq (with_session (committing (seed_rows h st tenant_name agent_name)))
      (\<lambda>(tenant, created). return_p (seed_report tenant created)))"

section \<open>Its rows\<close>

lemma wp_seed_rows:
  "wp (seed_rows h st tenant_name agent_name) (\<lambda>(tenant, created) w'. tn_name tenant = tenant_name
     \<and> db_tenants (w_db w') = db_tenants (w_db w) @ [tenant]
     \<and> (\<exists>row w1. db_agents (w_db w1) = db_agents (w_db w)
         \<and> agent_added h (api_key_pepper st) (tn_id tenant) agent_name AGENT w1 created w' row)) anyhow w"
proof -
  have create: "wp (create_agent h p t n r) (\<lambda>created. Q created) anyhow w1"
    if "\<And>created w' row. agent_added h p t n r w1 created w' row \<Longrightarrow> Q created w'" for p t n r Q w1
    by (rule wp_mono [OF wp_created_agent]) (use that in auto)
  show ?thesis
    unfolding seed_rows_def tenant_create_def
    by (auto simp: wp_simps Let_def insert_tenant_def checked_def intro!: create)
      (auto simp: agent_added_def)
qed

lemma wp_with_session: "wp (with_session m) Q E w =
    wp m (\<lambda>x w'. Q x (rollback w')) (\<lambda>e w'. E e (rollback w')) (w\<lparr>w_db := w_committed w\<rparr>)"
  by (auto simp: wp_def with_session_def split: prod.split sum.split)

lemma seed_rows_atomic:
  assumes "db_inv c"
  shows "atomic_on c u (committing (seed_rows h st tenant_name agent_name))"
proof -
  have tenant: "keeps (request_inv c u c) (tenant_create h mk) (\<lambda>_. True)" for mk
    unfolding tenant_create_def by (rule keeps_create_row) (auto dest: insert_tenant_sound)
  have "keeps (request_inv c u c) (seed_rows h st tenant_name agent_name) (\<lambda>_. True)"
    unfolding seed_rows_def by (rule TrueI tenant keeps_intros)+
  then have "atomic_on c u (seq (committing (seed_rows h st tenant_name agent_name)) return_p)"
    by (rule atomic_committing) (simp add: return_p_def)
  then show ?thesis by (simp add: committing_def seq_assoc seq_return)
qed

lemma seed_rows_flows: "keeps (same_flows d) (seed_rows h st tenant_name agent_name) (\<lambda>_. True)"
proof -
  have tenant: "keeps (same_flows d) (tenant_create h mk) (\<lambda>_. True)" for mk
    by (simp add: keeps_def tenant_create_def wp_simps same_flows_def Let_def insert_tenant_def checked_def)
  show ?thesis unfolding seed_rows_def by (rule TrueI tenant keeps_intros)+
qed

text \<open>What a run leaves that stored its rows: \<open>c\<close> the rows before, \<open>w'\<close> the state after.\<close>

definition seeded :: "host \<Rightarrow> settings \<Rightarrow> string \<Rightarrow> db \<Rightarrow> string list \<Rightarrow> world \<Rightarrow> bool" where
  "seeded h st agent_name c lines w' \<longleftrightarrow> (\<exists>tenant row created w1 w2.
     lines = seed_report tenant created \<and> w_db w' = w_committed w'
   \<and> db_tenants (w_committed w') = db_tenants c @ [tenant] \<and> db_agents (w_db w1) = db_agents c
   \<and> agent_added h (api_key_pepper st) (tn_id tenant) agent_name AGENT w1 created w2 row
   \<and> db_agents (w_committed w') = db_agents (w_db w2))"

lemma wp_demo_seed:
  assumes "db_inv c" "flows_ok c" and c: "w_committed w = c"
  shows "wp (demo_seed h st tenant_arg agent_arg)
    (\<lambda>lines w'. db_inv (w_committed w') \<and> flows_ok (w_committed w') \<and> grown c (w_committed w')
       \<and> seeded h st (case agent_arg of None \<Rightarrow> ''demo-agent'' | Some n \<Rightarrow> n) c lines w')
    (\<lambda>e w'. w_committed w' = c) w"
proof -
  let ?w = "\<lambda>k. w\<lparr>w_uuids := k, w_db := c\<rparr>"
  have session: "wp (committing (seed_rows h st t n)) (\<lambda>(tenant, created) w'.
        db_inv (w_committed w') \<and> flows_ok (w_committed w') \<and> grown c (w_committed w')
        \<and> seeded h st n c (seed_report tenant created) (rollback w'))
      (\<lambda>e w'. w_committed w' = c) (?w k)" for t n k
  proof -
    have "request_inv c (w_upstream w) c (?w k)" using assms by (simp add: request_inv_def grown_refl)
    with seed_rows_atomic [OF assms(1), of "w_upstream w" h st t n]
    have atomic: "wp (committing (seed_rows h st t n)) (\<lambda>x w'. db_inv (w_committed w') \<and> grown c (w_committed w'))
        (\<lambda>e w'. w_committed w' = c) (?w k)"
      unfolding atomic_on_def by (blast intro: wp_mono)
    have "keeps (same_flows c) (committing (seed_rows h st t n)) (\<lambda>_. True)"
      unfolding committing_def by (rule TrueI seed_rows_flows keeps_intros)+
    moreover have "same_flows c (?w k)" using c by (simp add: same_flows_def)
    ultimately have flows: "wp (committing (seed_rows h st t n)) (\<lambda>x w'. flows_ok (w_committed w')) anyhow (?w k)"
      unfolding keeps_def by (auto intro: flows_same [OF assms(2)] elim!: wp_mono)
    have rows: "wp (committing (seed_rows h st t n)) (\<lambda>(tenant, created) w'.
        seeded h st n c (seed_report tenant created) (rollback w')) anyhow (?w k)"
      unfolding committing_def wp_seq
      by (rule wp_mono [OF wp_seed_rows]) (auto simp: wp_simps seeded_def rollback_def, blast)
    show ?thesis
      using atomic flows rows by (auto simp: wp_def split: prod.splits sum.splits)
  qed
  show ?thesis
    unfolding demo_seed_def
    by (auto simp: wp_simps wp_with_session Let_def c case_prod_beta intro!: wp_mono [OF session])
      (auto simp: rollback_def)
qed

text \<open>
  C30: The bootstrap script keeps the database sound: it stores exactly one tenant and one agent of
  it, or raises and stores nothing. The lines it prints name the two, and the API key among them is
  accepted by the gateway as that agent from then on (the tokens of the random source have no
  space, being URL-safe).
\<close>

theorem demo_seed_bootstraps:
  assumes "db_inv (w_committed w)" "flows_ok (w_committed w)"
    and "\<And>n. CHR '' '' \<notin> set (h_token_urlsafe h n)"
  shows "case demo_seed h st tenant_arg agent_arg w of
      (Inl e, w') \<Rightarrow> w_committed w' = w_committed w
    | (Inr lines, w') \<Rightarrow> db_inv (w_committed w') \<and> flows_ok (w_committed w')
        \<and> grown (w_committed w) (w_committed w')
        \<and> (\<exists>tenant row key dto. db_tenants (w_committed w') = db_tenants (w_committed w) @ [tenant]
            \<and> db_agents (w_committed w') = db_agents (w_committed w) @ [row]
            \<and> lines ! 1 = ''TENANT_ID='' @ uuid_str (tn_id tenant)
            \<and> lines ! 2 = ''AGENT_ID='' @ uuid_str (ag_id row)
            \<and> lines ! 3 = ''AGENT_API_KEY='' @ key
            \<and> to_dto row = Inr dto \<and> dto_tenant_id dto = tn_id tenant \<and> dto_role dto = AGENT
            \<and> fst (serve h st client (GetCurrentAgent (Some (''Bearer '' @ key))) w') = Inr (AgentIs dto))"
proof -
  have accepted: "fst (serve h st client (GetCurrentAgent (Some (''Bearer '' @ ca_api_key created))) w')
      = Inr (AgentIs (ca_agent created))"
    if "agent_added h (api_key_pepper st) t n r w1 created w2 row"
      and "db_agents (w_committed w') = db_agents (w_db w2)" for created w' t n r w1 w2 row
  proof -
    let ?w = "w'\<lparr>w_db := w_committed w'\<rparr>" and ?key = "ca_api_key created"
    have "?key \<noteq> []" "CHR '' '' \<notin> set ?key" using that(1) assms(3) by (simp_all add: agent_added_def)
    then have "extract_bearer_token (Some (''Bearer '' @ ?key)) = Inr ?key" by (simp add: bearer_token)
    with added_agent_authenticates [OF that(1), of ?w] that(2) show ?thesis
      by (simp add: serve_def with_session_def get_current_agent_route_def require_agent_def prog_defs)
  qed
  have printed: "\<exists>tenant row key dto. db_tenants (w_committed w') = db_tenants (w_committed w) @ [tenant]
      \<and> db_agents (w_committed w') = db_agents (w_committed w) @ [row]
      \<and> lines ! 1 = ''TENANT_ID='' @ uuid_str (tn_id tenant)
      \<and> lines ! 2 = ''AGENT_ID='' @ uuid_str (ag_id row) \<and> lines ! 3 = ''AGENT_API_KEY='' @ key
      \<and> to_dto row = Inr dto \<and> dto_tenant_id dto = tn_id tenant \<and> dto_role dto = AGENT
      \<and> fst (serve h st client (GetCurrentAgent (Some (''Bearer '' @ key))) w') = Inr (AgentIs dto)"
    if seed: "seeded h st n (w_committed w) lines w'" for n lines w'
  proof -
    from seed obtain tenant row created w1 w2 where lines: "lines = seed_report tenant created"
      and tenant: "db_tenants (w_committed w') = db_tenants (w_committed w) @ [tenant]"
      and added: "agent_added h (api_key_pepper st) (tn_id tenant) n AGENT w1 created w2 row"
      and rows: "db_agents (w_db w1) = db_agents (w_committed w)" "db_agents (w_committed w') = db_agents (w_db w2)"
      unfolding seeded_def by blast
    show ?thesis
      by (intro exI [of _ tenant] exI [of _ row] exI [of _ "ca_api_key created"] exI [of _ "ca_agent created"]
          conjI accepted [OF added rows(2)])
        (use added rows in \<open>simp_all add: lines tenant seed_report_def agent_added_def\<close>)
  qed
  obtain res w' where run: "demo_seed h st tenant_arg agent_arg w = (res, w')"
    by (cases "demo_seed h st tenant_arg agent_arg w")
  note wp = wp_demo_seed [OF assms(1,2) refl, of h st tenant_arg agent_arg, unfolded wp_def run prod.case]
  show ?thesis
  proof (cases res)
    case (Inl e)
    with wp run show ?thesis by simp
  next
    case (Inr lines)
    show ?thesis
      unfolding run Inr prod.case sum.case
      by (intro conjI printed) (use wp [unfolded Inr sum.case] in blast)+
  qed
qed

lemma demo_seed_bootstraps_witness:
  "case demo_seed sample_host sample_settings (Some ''globex'') None (settled_world waiting_db) of
      (Inl e, w') \<Rightarrow> w_committed w' = waiting_db
    | (Inr lines, w') \<Rightarrow> db_inv (w_committed w')"
proof -
  have "\<And>n. CHR '' '' \<notin> set (h_token_urlsafe sample_host n)"
    using set_hex_str by (force simp: sample_host_def is_hex_lower_def)
  from demo_seed_bootstraps [OF _ _ this, of "settled_world waiting_db" sample_settings None "Some ''globex''" None]
  show ?thesis by (auto simp: sample_rows_ok settled_world_def split: prod.splits sum.splits)
qed

end
