(* ===== verification/Spec2Isabelle.thy ===== *)
theory Spec2Isabelle
  imports Policy_Properties Gateway_Properties Loop_Properties Service_Properties Schema_Soundness
    Boundary_Properties Answer_Columns Atomicity_Limits Demo_Seed
begin

text \<open>
  A model of the MCP security gateway (\<open>src/src/mcp_security_gateway\<close>), a service between agents
  and the tools of MCP servers: an agent asks for a tool call, the gateway looks the tool up,
  validates the arguments, lets its policy engine decide, and then denies the call, runs it
  upstream, or stores it until a human approves it; every outcome is audited. The database it
  runs on is built by the migrations of \<open>src/alembic\<close>.

  The parts, from the leaves up, and the theories that model them:

  \<^item> \<open>Gateway_Prelude\<close>: programs with state and exceptions, their weakest preconditions
    (\<open>wp\<close>) and invariants (\<open>keeps\<close>), tables of rows. \<open>Py_Value\<close>, \<open>Py_Uuid\<close>, \<open>Py_Regex\<close>,
    \<open>Py_Fnmatch\<close>: the values and the standard library functions the source uses.
  \<^item> \<open>Domain_Enums\<close> (\<open>domain/enums.py\<close>), \<open>Errors\<close> (\<open>application/services/errors.py\<close>,
    \<open>application/ports/mcp_client.py\<close>), \<open>Db_Models\<close> (\<open>infrastructure/db/models.py\<close>: a record
    per mapped class and its insert).
  \<^item> \<open>Secret_Scanner\<close>, \<open>Canonical_Json\<close>, \<open>Policy_Engine\<close>
    (\<open>application/services/policy_engine.py\<close>, \<open>domain/policy.py\<close>): detection and redaction of
    secrets, the arguments hash, the parsing and matching of conditions, the evaluation.
    \<open>Policy_Properties\<close> states what they promise.
  \<^item> \<open>Gateway_World\<close>: the state of a request (the rows its session sees, the committed rows,
    the calls sent upstream) and what comes from outside (clock, random source, which texts have a
    UTF-8 encoding, hash functions, schema validator, MCP client). \<open>Repositories\<close>
    (\<open>infrastructure/db/repositories.py\<close>), \<open>Db_Invariant\<close> (what every committed state
    satisfies and how states grow), \<open>Status_Cas\<close> (compare-and-swap of a status column).
  \<^item> \<open>Approval_Service\<close> (with \<open>audit_service.py\<close>), \<open>Tool_Call_Service\<close>, \<open>Agent_Service\<close>
    (with \<open>infrastructure/auth/api_keys.py\<close>), \<open>Tool_Registry\<close>: the services of
    \<open>application/services\<close>; \<open>Mcp_Stdio_Client\<close> (\<open>infrastructure/mcp/stdio_client.py\<close>).
  \<^item> \<open>Api_Layer\<close> (\<open>api\<close>): authentication, error answers, route handlers, and a request as one
    session with its commit. \<open>Api_Schemas\<close> (\<open>api/schemas.py\<close>, \<open>api/routes/health.py\<close>): the
    response models, the JSON body of every answer, and which columns an answer can depend on.
    \<open>Answer_Columns\<close>: the bodies set against the columns of the stored rows.
    \<open>Api_Routes\<close> (\<open>main.py\<close>, the decorators of \<open>api/routes\<close>, the request models): the routes, the
    choice of one for a method and a path, and what the handlers read from validated inputs.
  \<^item> \<open>Repository_Ports\<close> (\<open>application/ports/repositories.py\<close>): a record of operations per protocol,
    a value of it per class of the adapter, and the contract they share as locales.
    \<open>Domain_Models\<close> (\<open>domain/models.py\<close>): the fields of the dataclasses, set against the tables and
    the stored rows. \<open>Boundary_Properties\<close> states what holds at these boundaries.
  \<^item> \<open>Row_Effects\<close>, \<open>Approval_Flow\<close>, \<open>Call_Flow\<close>: the rows an approval action and a tool call
    leave behind, in closed form. \<open>Gateway_System\<close>: requests served one after the other, the
    step relation \<open>gateway_step\<close> and the states it reaches. \<open>Row_Invariant\<close>: the locale that
    carries an invariant of the statements to every reachable state. \<open>Upstream_Safety\<close>: what a
    request may send to an upstream server. \<open>Review_Liveness\<close>: a denial that must return.
    \<open>Atomicity_Limits\<close>: what a failed request leaves behind after all, and what it takes along.
  \<^item> \<open>Row_Merge\<close>, \<open>Event_Loop\<close>: requests that overlap. A tool call or a review runs until it awaits
    its upstream call (\<open>arrive\<close>), others run meanwhile, and it goes on when the call has come back
    (\<open>resume\<close>); \<open>loop_step\<close> is the step relation over a process with its open requests. An open
    transaction is the rows it began with, the rows it has written, and the locks that keep others
    from those; its commit puts the written rows over what is committed by then (\<open>merge\<close>).
    \<open>Loop_Properties\<close> states what holds under overlap.
  \<^item> \<open>Schema_Catalog\<close>, \<open>Schema_Migrations\<close> (\<open>alembic/versions\<close>, \<open>get_database_url\<close> of
    \<open>alembic/env.py\<close>, and the tables that \<open>infrastructure/db/models.py\<close> declares): the DDL
    operations on a catalog of tables, both scripts in both directions. \<open>Schema_Rows\<close>: an
    INSERT as the migrated schema answers it. \<open>Schema_Soundness\<close>: the committed rows against
    that schema.
  \<^item> \<open>Gateway_Sample\<close>: a small deployment on which hypotheses are instantiated. \<open>Demo_Seed\<close>
    (\<open>examples/demo_seed.py\<close>): the script that stores the first tenant and agent.

  What the groups of properties show. \<open>Policy_Properties\<close>: when the policy service allows, that
  no configuration lifts the built-in rules, that failures and broken policies deny, that
  detection, redaction, hash and condition parser do what they promise; the one exception an
  evaluation lets through is that of a text without a UTF-8 encoding. \<open>Gateway_Properties\<close>:
  requests are atomic, reachable states are sound, the audit trail only grows, the outcomes of
  tool calls and reviews are those of their contracts, a review returns once, and nothing
  unentitled is sent. \<open>Atomicity_Limits\<close>: an approval request that fails after its call was sent
  leaves an approval that sends it again, the audit event of a failed lookup is rolled back, and
  arguments without an encoding end in a bare 500. \<open>Loop_Properties\<close>: the committed rows stay sound when requests overlap, at most
  one of them executes an approval, and a second review of it, or a retry of an open call that gets
  as far as storing its call, stops the process; a lemma says that a request that no other overlaps
  is served as without the event loop.
  \<open>Service_Properties\<close>: compare-and-swap, API keys, authentication and error
  answers, discovery, replay, the stdio client and the credentials that stay inside.
  \<open>Answer_Columns\<close>: reading requests answer the columns of the committed rows they select, and
  writing requests store what was sent and answer what they stored. \<open>Boundary_Properties\<close>:
  requests find their handlers, but for the refresh of a server whose name is no path segment, valid inputs are the requests of the
  model, the repositories keep their contract, stored rows are objects of the domain. \<open>Demo_Seed\<close>:
  the script keeps the database sound and its key is accepted. \<open>Schema_Migrations\<close>,
  \<open>Schema_Rows\<close>, \<open>Schema_Soundness\<close>: migrations and mapped classes agree, downgrades undo upgrades,
  the inserts of the model are those of the schema, and all reachable rows satisfy it.

  Bounds. All definitions terminate by structural recursion or a measure; \<open>upgrade_head\<close> takes as
  many steps as there are scripts, which reaches the head because each script is the successor of
  the one before it.

  Not modelled. \<open>gateway_step\<close> runs a request from start to end before the next one;
  \<open>loop_step\<close> adds the overlap of tool calls and reviews within one process, where a discovery of
  tools takes place when its upstream call has come back, and the authentication of a caller, which
  runs in a worker thread, when the handler starts. After its await a handler reads only rows of
  its own call and approval, which its locks keep from others, so a resumed run reads the rows it
  began with. Left out are several processes on one database, the limit of the connection pool,
  timeouts of the database and the cancellation of a request. Strings are lists of the
  code points below 256; which of them stand for a text without a UTF-8 encoding (one with a lone
  surrogate) is the parameter \<open>h_encodable\<close>, used where the program encodes the arguments and the
  schema of a tool; the pepper and API keys, which come from the settings and from ASCII headers,
  are always encodable. A JSONB column gives back the value stored; the values PostgreSQL refuses
  in a text or a JSONB column although the declared type fits (the character 0, NaN) are accepted
  here, so that the \<open>DataError\<close> they cause is missing. Queries without an order answer in table order. A flush writes the
  assigned columns also when they are unchanged. The jsonschema validator, the MCP SDK, SHA-256,
  HMAC, the random source and the texts of floats and times are parameters. Library code without a
  counterpart here: the decoding and coercion of inputs by FastAPI and pydantic (an input is modelled
  from its validated form on), the redirect between paths with and without a slash at their end, the
  documentation routes of FastAPI, the HTTP transport, the loading of settings from the environment,
  the engine and the context of Alembic, and the parsing of the script's options. The demonstration
  MCP server \<open>examples/mcp_servers/calculator_server.py\<close> is on the other side of the MCP client.
\<close>

end
